(* ===== verification/Prelude.thy ===== *)
theory Prelude
  imports Main
begin

section \<open>Prelude: errors as values and state-passing computations\<close>

text \<open>
  What every component shares: the proof collections of the development, and the reading of a
  Go function that may fail and may change state.  A Go function \<open>func f(..) (T, error)\<close> with
  effects on a state of type \<open>'s\<close> is a function \<open>'s \<Rightarrow> ('e + 'a) \<times> 's\<close>: \<open>Inl\<close> carries the error
  of the early return, \<open>Inr\<close> the value, and the state is returned in both cases, because a Go
  function keeps the effects it had before it failed.  \<open>bindE\<close> is the sequencing of two such
  calls with the \<open>if err != nil { return err }\<close> between them, \<open>tryE\<close> is a call whose error is
  looked at by the caller, and \<open>mapE\<close> is the loop that calls once per element and stops at the
  first error.
\<close>

named_theorems go_eval \<open>equations that evaluate the Go runtime functions on literals\<close>
named_theorems keeps_rules \<open>a computation keeps an invariant of its state\<close>
named_theorems decode_rules \<open>decoding undoes encoding\<close>

type_synonym ('s, 'e, 'a) comp = "'s \<Rightarrow> ('e + 'a) \<times> 's"

definition returnE :: "'a \<Rightarrow> ('s, 'e, 'a) comp" where
  "returnE a = (\<lambda>s. (Inr a, s))"

definition throwE :: "'e \<Rightarrow> ('s, 'e, 'a) comp" where
  "throwE e = (\<lambda>s. (Inl e, s))"

definition bindE :: "('s, 'e, 'a) comp \<Rightarrow> ('a \<Rightarrow> ('s, 'e, 'b) comp) \<Rightarrow> ('s, 'e, 'b) comp" where
  "bindE m f = (\<lambda>s. case m s of (Inl e, s') \<Rightarrow> (Inl e, s') | (Inr a, s') \<Rightarrow> f a s')"

definition tryE :: "('s, 'e, 'a) comp \<Rightarrow> ('s, 'e, 'e + 'a) comp" where
  "tryE m = (\<lambda>s. case m s of (r, s') \<Rightarrow> (Inr r, s'))"

definition liftE :: "'e + 'a \<Rightarrow> ('s, 'e, 'a) comp" where
  "liftE r = (\<lambda>s. (r, s))"

definition mapErr :: "('e \<Rightarrow> 'e) \<Rightarrow> ('s, 'e, 'a) comp \<Rightarrow> ('s, 'e, 'a) comp" where
  "mapErr g m = (\<lambda>s. case m s of (Inl e, s') \<Rightarrow> (Inl (g e), s') | (Inr a, s') \<Rightarrow> (Inr a, s'))"

definition getE :: "('s, 'e, 's) comp" where
  "getE = (\<lambda>s. (Inr s, s))"

definition updateE :: "('s \<Rightarrow> 's) \<Rightarrow> ('s, 'e, unit) comp" where
  "updateE g = (\<lambda>s. (Inr (), g s))"

primrec mapE :: "('a \<Rightarrow> ('s, 'e, 'b) comp) \<Rightarrow> 'a list \<Rightarrow> ('s, 'e, 'b list) comp" where
  "mapE f [] = returnE []"
| "mapE f (x # xs) = bindE (f x) (\<lambda>y. bindE (mapE f xs) (\<lambda>ys. returnE (y # ys)))"

text \<open>The same loop over a pure fallible body, and a fold that stops at the first error.\<close>

primrec map_err :: "('a \<Rightarrow> 'e + 'b) \<Rightarrow> 'a list \<Rightarrow> 'e + 'b list" where
  "map_err f [] = Inr []"
| "map_err f (x # xs) =
     (case f x of Inl e \<Rightarrow> Inl e
      | Inr y \<Rightarrow> (case map_err f xs of Inl e \<Rightarrow> Inl e | Inr ys \<Rightarrow> Inr (y # ys)))"

primrec fold_err :: "('a \<Rightarrow> 'b \<Rightarrow> 'e + 'b) \<Rightarrow> 'a list \<Rightarrow> 'b \<Rightarrow> 'e + 'b" where
  "fold_err f [] b = Inr b"
| "fold_err f (x # xs) b = (case f x b of Inl e \<Rightarrow> Inl e | Inr b' \<Rightarrow> fold_err f xs b')"

definition bind_err :: "'e + 'a \<Rightarrow> ('a \<Rightarrow> 'e + 'b) \<Rightarrow> 'e + 'b" where
  "bind_err r f = (case r of Inl e \<Rightarrow> Inl e | Inr a \<Rightarrow> f a)"

lemmas comp_defs = returnE_def throwE_def bindE_def tryE_def liftE_def mapErr_def getE_def updateE_def

subsection \<open>Running a computation\<close>

lemma returnE_run [simp]: "returnE a s = (Inr a, s)" by (simp add: returnE_def)
lemma throwE_run [simp]: "throwE e s = (Inl e, s)" by (simp add: throwE_def)
lemma liftE_run [simp]: "liftE r s = (r, s)" by (simp add: liftE_def)
lemma getE_run [simp]: "getE s = (Inr s, s)" by (simp add: getE_def)
lemma updateE_run [simp]: "updateE g s = (Inr (), g s)" by (simp add: updateE_def)

lemma bindE_Inl [simp]: "m s = (Inl e, s') \<Longrightarrow> bindE m f s = (Inl e, s')"
  by (simp add: bindE_def)

lemma bindE_Inr [simp]: "m s = (Inr a, s') \<Longrightarrow> bindE m f s = f a s'"
  by (simp add: bindE_def)

lemma bindE_returnE [simp]: "bindE (returnE a) f = f a"
  by (simp add: comp_defs)

lemma bindE_liftE_Inr [simp]: "bindE (liftE (Inr a)) f = f a"
  by (simp add: comp_defs)

lemma bindE_liftE_Inl [simp]: "bindE (liftE (Inl e)) f = throwE e"
  by (simp add: comp_defs)

lemma bindE_throwE [simp]: "bindE (throwE e) f = throwE e"
  by (simp add: comp_defs)

lemma bindE_updateE [simp]: "bindE (updateE g) f s = f () (g s)"
  by (simp add: comp_defs)

lemma bindE_getE [simp]: "bindE getE f s = f s s"
  by (simp add: comp_defs)

lemma bindE_assoc: "bindE (bindE m f) g = bindE m (\<lambda>a. bindE (f a) g)"
  by (rule ext) (auto simp: bindE_def split: prod.splits sum.splits)

lemma tryE_run: "m s = (r, s') \<Longrightarrow> tryE m s = (Inr r, s')"
  by (simp add: tryE_def)

lemma bindE_tryE [simp]: "m s = (r, s') \<Longrightarrow> bindE (tryE m) f s = f r s'"
  by (simp add: tryE_def bindE_def)

lemma mapErr_Inl [simp]: "m s = (Inl e, s') \<Longrightarrow> mapErr g m s = (Inl (g e), s')"
  by (simp add: mapErr_def)

lemma mapErr_Inr [simp]: "m s = (Inr a, s') \<Longrightarrow> mapErr g m s = (Inr a, s')"
  by (simp add: mapErr_def)

lemma bindE_InrD: "bindE m f s = (Inr b, s') \<Longrightarrow> \<exists>a t. m s = (Inr a, t) \<and> f a t = (Inr b, s')"
  by (auto simp: bindE_def split: prod.splits sum.splits)

lemma mapErr_InrD: "mapErr g m s = (Inr a, s') \<Longrightarrow> m s = (Inr a, s')"
  by (auto simp: mapErr_def split: prod.splits sum.splits)

lemma bindE_cong_run: "m s = m' s \<Longrightarrow> (\<And>a t. m s = (Inr a, t) \<Longrightarrow> f a t = f' a t) \<Longrightarrow> bindE m f s = bindE m' f' s"
  by (auto simp: bindE_def split: prod.splits sum.splits)

subsection \<open>Loops that collect\<close>

lemma mapE_length: "mapE f xs s = (Inr ys, s') \<Longrightarrow> length ys = length xs"
  by (induction xs arbitrary: ys s) (auto dest!: bindE_InrD)

text \<open>A loop whose body reads the state and never changes it is the loop over the pure body.\<close>

lemma mapE_pure:
  assumes "\<And>x. x \<in> set xs \<Longrightarrow> f x s = (g x, s)"
  shows "mapE f xs s = (map_err g xs, s)"
  using assms by (induction xs) (auto simp: bindE_def split: sum.splits)

text \<open>A loop whose body never fails.\<close>

lemma mapE_run:
  "(\<And>x s. f x s = (Inr (g x), h x s)) \<Longrightarrow> mapE f xs s = (Inr (map g xs), fold h xs s)"
  by (induction xs arbitrary: s) (auto simp: bindE_def)

lemma map_err_cong [fundef_cong]:
  "xs = ys \<Longrightarrow> (\<And>x. x \<in> set ys \<Longrightarrow> f x = g x) \<Longrightarrow> map_err f xs = map_err g ys"
  by (induction xs arbitrary: ys) (auto split: sum.splits)

lemma map_err_Inr_iff: "map_err f xs = Inr ys \<longleftrightarrow> list_all2 (\<lambda>x y. f x = Inr y) xs ys"
proof (induction xs arbitrary: ys)
  case (Cons x xs)
  show ?case
    by (cases ys) (auto simp: Cons.IH[symmetric] split: sum.splits)
qed auto

lemma map_err_total: "(\<And>x. x \<in> set xs \<Longrightarrow> f x = Inr (g x)) \<Longrightarrow> map_err f xs = Inr (map g xs)"
  by (induction xs) auto

lemma concat_if: "concat (map (\<lambda>x. if P x then [f x] else []) xs) = map f (filter P xs)"
  by (induction xs) auto

lemma map_err_length: "map_err f xs = Inr ys \<Longrightarrow> length ys = length xs"
  by (auto simp: map_err_Inr_iff dest: list_all2_lengthD)

text \<open>The error of a failing loop is the body's error at the first element where it fails.\<close>

lemma map_err_Inl:
  "map_err f xs = Inl e \<Longrightarrow>
   \<exists>ys x zs. xs = ys @ x # zs \<and> f x = Inl e \<and> (\<forall>y\<in>set ys. \<exists>b. f y = Inr b)"
proof (induction xs)
  case (Cons x xs)
  show ?case
  proof (cases "f x")
    case (Inl e')
    with Cons.prems have "f x = Inl e" by simp
    then show ?thesis by (intro exI[of _ "[]"] exI[of _ x] exI[of _ xs]) simp
  next
    case (Inr b)
    with Cons.prems have "map_err f xs = Inl e" by (simp split: sum.splits)
    from Cons.IH[OF this] obtain ys y zs where
      "xs = ys @ y # zs" "f y = Inl e" "\<forall>w\<in>set ys. \<exists>b. f w = Inr b" by blast
    with Inr show ?thesis
      by (intro exI[of _ "x # ys"] exI[of _ y] exI[of _ zs]) auto
  qed
qed simp

subsection \<open>Invariants of computations\<close>

text \<open>\<open>keeps P m\<close>: whatever \<open>m\<close> returns, value or error, it leaves \<open>P\<close> true of the state.\<close>

definition keeps :: "('s \<Rightarrow> bool) \<Rightarrow> ('s, 'e, 'a) comp \<Rightarrow> bool" where
  "keeps P m \<longleftrightarrow> (\<forall>s. P s \<longrightarrow> P (snd (m s)))"

lemma keepsI: "(\<And>s r s'. P s \<Longrightarrow> m s = (r, s') \<Longrightarrow> P s') \<Longrightarrow> keeps P m"
  unfolding keeps_def by (metis prod.collapse)

lemma keepsD: "keeps P m \<Longrightarrow> P s \<Longrightarrow> m s = (r, s') \<Longrightarrow> P s'"
  unfolding keeps_def by (metis snd_conv)

lemma keeps_returnE [keeps_rules]: "keeps P (returnE a)" by (simp add: keeps_def)
lemma keeps_throwE [keeps_rules]: "keeps P (throwE e)" by (simp add: keeps_def)
lemma keeps_liftE [keeps_rules]: "keeps P (liftE r)" by (simp add: keeps_def)
lemma keeps_getE [keeps_rules]: "keeps P getE" by (simp add: keeps_def)
lemma keeps_updateE: "(\<And>s. P s \<Longrightarrow> P (g s)) \<Longrightarrow> keeps P (updateE g)" by (simp add: keeps_def)

lemma keeps_bindE [keeps_rules]:
  "keeps P m \<Longrightarrow> (\<And>a. keeps P (f a)) \<Longrightarrow> keeps P (bindE m f)"
  by (rule keepsI) (auto simp: bindE_def split: prod.splits sum.splits dest: keepsD)

lemma keeps_tryE [keeps_rules]: "keeps P m \<Longrightarrow> keeps P (tryE m)"
  by (rule keepsI) (auto simp: tryE_def split: prod.splits dest: keepsD)

lemma keeps_mapErr [keeps_rules]: "keeps P m \<Longrightarrow> keeps P (mapErr g m)"
  by (rule keepsI) (auto simp: mapErr_def split: prod.splits sum.splits dest: keepsD)

lemma keeps_mapE [keeps_rules]: "(\<And>x. keeps P (f x)) \<Longrightarrow> keeps P (mapE f xs)"
  by (induction xs) (auto intro!: keeps_rules)

lemma keeps_if [keeps_rules]:
  "(b \<Longrightarrow> keeps P m) \<Longrightarrow> (\<not> b \<Longrightarrow> keeps P n) \<Longrightarrow> keeps P (if b then m else n)"
  by simp

lemma keeps_case_sum [keeps_rules]:
  "(\<And>e. keeps P (f e)) \<Longrightarrow> (\<And>a. keeps P (g a)) \<Longrightarrow> keeps P (case r of Inl e \<Rightarrow> f e | Inr a \<Rightarrow> g a)"
  by (cases r) auto

lemma keeps_case_option [keeps_rules]:
  "keeps P n \<Longrightarrow> (\<And>a. keeps P (f a)) \<Longrightarrow> keeps P (case r of None \<Rightarrow> n | Some a \<Rightarrow> f a)"
  by (cases r) auto

lemma keeps_case_prod [keeps_rules]:
  "(\<And>a b. keeps P (f a b)) \<Longrightarrow> keeps P (case r of (a, b) \<Rightarrow> f a b)"
  by (cases r) auto

text \<open>A state component the computation never writes.\<close>

definition frames :: "('s \<Rightarrow> 'c) \<Rightarrow> ('s, 'e, 'a) comp \<Rightarrow> bool" where
  "frames g m \<longleftrightarrow> (\<forall>s. g (snd (m s)) = g s)"

lemma frames_keeps: "frames g m \<longleftrightarrow> (\<forall>v. keeps (\<lambda>s. g s = v) m)"
  by (auto simp: frames_def keeps_def)

subsection \<open>Lists and options\<close>

lemma the_default_map_of:
  "distinct (map fst kvs) \<Longrightarrow> (k, v) \<in> set kvs \<Longrightarrow> map_of kvs k = Some v"
  by simp

lemma find_Some_iff_mem: "(\<exists>x. List.find P xs = Some x) \<longleftrightarrow> (\<exists>x\<in>set xs. P x)"
  by (induction xs) auto

lemma find_None_iff_all: "List.find P xs = None \<longleftrightarrow> (\<forall>x\<in>set xs. \<not> P x)"
  by (induction xs) auto

lemma find_SomeD: "List.find P xs = Some x \<Longrightarrow> x \<in> set xs \<and> P x"
  by (induction xs) (auto split: if_splits)

lemma find_append:
  "List.find P (xs @ ys) = (case List.find P xs of Some x \<Rightarrow> Some x | None \<Rightarrow> List.find P ys)"
  by (induction xs) auto

lemma find_filter_same:
  "(\<And>x. P x \<Longrightarrow> Q x) \<Longrightarrow> List.find P (filter Q xs) = List.find P xs"
  by (induction xs) auto

end
