(* ===== verification/GoBase.thy ===== *)
theory GoBase
  imports Prelude "HOL-Library.Word" "HOL-Library.Sublist"
begin

section \<open>The Go runtime functions the program uses\<close>

text \<open>
  Go's \<open>int\<close> (64 bits, two's complement) is an \<open>int\<close> kept in range by \<open>wrap64\<close>; \<open>strconv.Itoa\<close>
  and \<open>strconv.Atoi\<close> with the sign, the empty input and the 64-bit range check; and the functions
  of package \<open>strings\<close>.  A string is its list of bytes.  \<open>strings.ToLower\<close>, \<open>ToUpper\<close> and
  \<open>TrimSpace\<close> are modelled on ASCII: letters and white space outside ASCII are left as they are.
\<close>

subsection \<open>64-bit integers\<close>

definition wrap64 :: "int \<Rightarrow> int" where
  "wrap64 i = sint (word_of_int i :: 64 word)"

definition int64 :: "int \<Rightarrow> bool" where
  "int64 i \<longleftrightarrow> - (2 ^ 63) \<le> i \<and> i < 2 ^ 63"

lemma wrap64_alt: "wrap64 i = signed_take_bit 63 i"
  by (simp add: wrap64_def sint_sbintrunc')

lemma wrap64_id [simp]: "int64 i \<Longrightarrow> wrap64 i = i"
  by (simp add: wrap64_alt int64_def signed_take_bit_int_eq_self)

lemma int64_wrap64 [simp]: "int64 (wrap64 i)"
  using signed_take_bit_int_greater_eq_minus_exp[of 63 i] signed_take_bit_int_less_exp[of 63 i]
  by (simp add: wrap64_alt int64_def)

lemma int64_0 [simp]: "int64 0" by (simp add: int64_def)

lemma int64_of_nat: "n < 2 ^ 63 \<Longrightarrow> int64 (int n)"
  by (simp add: int64_def)

lemma wrap64_nat: "k < 2 ^ 63 \<Longrightarrow> wrap64 (int k) = int k"
  by (rule wrap64_id) (rule int64_of_nat)

lemma wrap64_overflow: "wrap64 (2 ^ 63) = - (2 ^ 63)"
  by (simp add: wrap64_def)

subsection \<open>Decimal digits: strconv.Itoa and strconv.Atoi\<close>

definition digit_char :: "nat \<Rightarrow> char" where
  "digit_char d = char_of (48 + d)"

definition digit_val :: "char \<Rightarrow> nat" where
  "digit_val c = of_char c - 48"

definition is_digit :: "char \<Rightarrow> bool" where
  "is_digit c \<longleftrightarrow> 48 \<le> (of_char c :: nat) \<and> (of_char c :: nat) \<le> 57"

fun nat_digits :: "nat \<Rightarrow> string" where
  "nat_digits n = (if n < 10 then [digit_char n] else nat_digits (n div 10) @ [digit_char (n mod 10)])"

declare nat_digits.simps [simp del]

definition digits_val :: "string \<Rightarrow> nat" where
  "digits_val = foldl (\<lambda>v c. 10 * v + digit_val c) 0"

definition itoa :: "int \<Rightarrow> string" where
  "itoa i = (if i < 0 then CHR ''-'' # nat_digits (nat (- i)) else nat_digits (nat i))"

text \<open>\<open>None\<close> is the error of \<open>strconv.Atoi\<close>: no digits, a stray character, or out of range.\<close>

definition atoi :: "string \<Rightarrow> int option" where
  "atoi s =
     (let neg = (case s of [] \<Rightarrow> False | c # _ \<Rightarrow> c = CHR ''-'');
          ds = (case s of [] \<Rightarrow> [] | c # r \<Rightarrow> if c = CHR ''-'' \<or> c = CHR ''+'' then r else s);
          v = (if neg then - int (digits_val ds) else int (digits_val ds))
      in if ds = [] \<or> \<not> list_all is_digit ds then None
         else if int64 v then Some v else None)"

lemma of_char_digit [simp]: "d < 10 \<Longrightarrow> of_char (digit_char d) = (48 + d :: nat)"
  by (simp add: digit_char_def)

lemma is_digit_char [simp]: "d < 10 \<Longrightarrow> is_digit (digit_char d)"
  by (simp add: is_digit_def)

lemma digit_val_char [simp]: "d < 10 \<Longrightarrow> digit_val (digit_char d) = d"
  by (simp add: digit_val_def)

lemma nat_digits_small [go_eval]: "n < 10 \<Longrightarrow> nat_digits n = [digit_char n]"
  by (subst nat_digits.simps) simp

lemma nat_digits_large [go_eval]:
  "10 \<le> n \<Longrightarrow> nat_digits n = nat_digits (n div 10) @ [digit_char (n mod 10)]"
  by (subst nat_digits.simps) simp

lemma digit_chars [go_eval]:
  "digit_char 0 = CHR ''0''" "digit_char (Suc 0) = CHR ''1''" "digit_char 1 = CHR ''1''"
  "digit_char 2 = CHR ''2''"
  "digit_char 3 = CHR ''3''" "digit_char 4 = CHR ''4''" "digit_char 5 = CHR ''5''"
  "digit_char 6 = CHR ''6''" "digit_char 7 = CHR ''7''" "digit_char 8 = CHR ''8''"
  "digit_char 9 = CHR ''9''"
  by (code_simp)+

lemma nat_digits_nonempty [simp]: "nat_digits n \<noteq> []"
  by (subst nat_digits.simps) simp

lemma nat_digits_all: "list_all is_digit (nat_digits n)"
proof (induction n rule: nat_digits.induct)
  case (1 n)
  then show ?case
    by (cases "n < 10") (auto simp: nat_digits_small nat_digits_large)
qed

lemma digits_val_snoc: "digits_val (ds @ [c]) = 10 * digits_val ds + digit_val c"
  by (simp add: digits_val_def)

lemma digits_val_nat_digits [simp]: "digits_val (nat_digits n) = n"
proof (induction n rule: nat_digits.induct)
  case (1 n)
  show ?case
  proof (cases "n < 10")
    case True
    then show ?thesis by (simp add: nat_digits_small digits_val_def)
  next
    case False
    with 1 have "digits_val (nat_digits (n div 10)) = n div 10" by simp
    with False show ?thesis by (simp add: nat_digits_large digits_val_snoc)
  qed
qed

lemma digit_not_sign: "is_digit c \<Longrightarrow> c \<noteq> CHR ''-'' \<and> c \<noteq> CHR ''+'' \<and> c \<noteq> CHR '':'' \<and> c \<noteq> CHR ''/'' \<and> c \<noteq> CHR ''.''"
  by (auto simp: is_digit_def)

lemma nat_digits_cons: "\<exists>c r. nat_digits n = c # r \<and> is_digit c \<and> list_all is_digit r"
  using nat_digits_all[of n] by (cases "nat_digits n") auto

text \<open>Printing an \<open>int\<close> and reading it back gives the same \<open>int\<close>.\<close>

lemma atoi_itoa [simp]: "int64 i \<Longrightarrow> atoi (itoa i) = Some i"
proof -
  assume r: "int64 i"
  obtain c t where ds: "nat_digits (nat i) = c # t" "is_digit c" "list_all is_digit t"
    using nat_digits_cons by blast
  show ?thesis
  proof (cases "i < 0")
    case True
    then show ?thesis using r by (simp add: atoi_def itoa_def Let_def nat_digits_all)
  next
    case False
    have "digits_val (c # t) = nat i" using ds digits_val_nat_digits[of "nat i"] by simp
    with False ds show ?thesis using r digit_not_sign[OF ds(2)]
      by (simp add: atoi_def itoa_def Let_def)
  qed
qed

lemma atoi_int64: "atoi s = Some i \<Longrightarrow> int64 i"
  by (auto simp: atoi_def Let_def split: if_splits)

lemma itoa_inj: "int64 i \<Longrightarrow> int64 j \<Longrightarrow> itoa i = itoa j \<Longrightarrow> i = j"
  by (metis atoi_itoa option.inject)

lemma itoa_chars: "c \<in> set (itoa i) \<Longrightarrow> is_digit c \<or> c = CHR ''-''"
  using nat_digits_all[of "nat i"] nat_digits_all[of "nat (- i)"]
  by (auto simp: itoa_def list_all_iff split: if_splits)

lemma itoa_no_sep: "CHR '':'' \<notin> set (itoa i) \<and> CHR ''/'' \<notin> set (itoa i) \<and> CHR ''.'' \<notin> set (itoa i)"
  by (auto dest!: itoa_chars dest: digit_not_sign)

lemma itoa_nonempty [simp]: "itoa i \<noteq> []"
  by (simp add: itoa_def)

subsection \<open>Package strings\<close>

definition is_upper :: "char \<Rightarrow> bool" where
  "is_upper c \<longleftrightarrow> 65 \<le> (of_char c :: nat) \<and> (of_char c :: nat) \<le> 90"

definition is_lower :: "char \<Rightarrow> bool" where
  "is_lower c \<longleftrightarrow> 97 \<le> (of_char c :: nat) \<and> (of_char c :: nat) \<le> 122"

definition to_lower :: "string \<Rightarrow> string" where
  "to_lower = map (\<lambda>c. if is_upper c then char_of (of_char c + (32 :: nat)) else c)"

definition to_upper :: "string \<Rightarrow> string" where
  "to_upper = map (\<lambda>c. if is_lower c then char_of (of_char c - (32 :: nat)) else c)"

definition is_space :: "char \<Rightarrow> bool" where
  "is_space c \<longleftrightarrow> (9 \<le> (of_char c :: nat) \<and> (of_char c :: nat) \<le> 13) \<or> (of_char c :: nat) = 32"

definition trim_space :: "string \<Rightarrow> string" where
  "trim_space s = rev (dropWhile is_space (rev (dropWhile is_space s)))"

fun contains :: "string \<Rightarrow> string \<Rightarrow> bool" where
  "contains s [] \<longleftrightarrow> s = []"
| "contains s (c # cs) \<longleftrightarrow> prefix s (c # cs) \<or> contains s cs"

text \<open>\<open>strings.SplitN(s, sep, 2)\<close> for a one-byte separator: what is before it, and what follows it
  when it occurs.\<close>

definition split_first :: "char \<Rightarrow> string \<Rightarrow> string \<times> string option" where
  "split_first sep s =
     (takeWhile (\<lambda>c. c \<noteq> sep) s,
      case dropWhile (\<lambda>c. c \<noteq> sep) s of [] \<Rightarrow> None | _ # r \<Rightarrow> Some r)"

fun join :: "string \<Rightarrow> string list \<Rightarrow> string" where
  "join sep [] = []"
| "join sep [x] = x"
| "join sep (x # y # xs) = x @ sep @ join sep (y # xs)"

text \<open>
  The verb \<open>%q\<close> (\<open>strconv.Quote\<close>): the ASCII escapes.  Bytes from 0x80 on are kept, as Quote keeps the
  printable code points; its escapes for unprintable ones are left out.
\<close>

definition hex_digit :: "nat \<Rightarrow> char" where
  "hex_digit d = (if d < 10 then char_of (48 + d) else char_of (87 + d))"

definition quote_char :: "char \<Rightarrow> string" where
  "quote_char c =
     (let n = of_char c :: nat in
      if n = 34 \<or> n = 92 then [CHR 0x5c, c]
      else if n \<ge> 32 \<and> n \<noteq> 127 then [c]
      else if n = 7 then [CHR 0x5c, CHR ''a''] else if n = 8 then [CHR 0x5c, CHR ''b'']
      else if n = 12 then [CHR 0x5c, CHR ''f''] else if n = 10 then [CHR 0x5c, CHR ''n'']
      else if n = 13 then [CHR 0x5c, CHR ''r''] else if n = 9 then [CHR 0x5c, CHR ''t'']
      else if n = 11 then [CHR 0x5c, CHR ''v'']
      else [CHR 0x5c, CHR ''x'', hex_digit (n div 16), hex_digit (n mod 16)])"

definition quoted :: "string \<Rightarrow> string" where
  "quoted s = [CHR 0x22] @ concat (map quote_char s) @ [CHR 0x22]"

definition trim_prefix :: "string \<Rightarrow> string \<Rightarrow> string" where
  "trim_prefix s p = (if prefix p s then drop (length p) s else s)"

lemma contains_sublist: "contains s t \<longleftrightarrow> sublist s t"
proof (induction t)
  case (Cons c t)
  then show ?case by (auto simp: sublist_Cons_right)
qed simp

lemma to_lower_length [simp]: "length (to_lower s) = length s"
  by (simp add: to_lower_def)

lemma to_lower_Nil [simp]: "to_lower s = [] \<longleftrightarrow> s = []"
  by (simp add: to_lower_def)

lemma to_lower_idem [simp]: "to_lower (to_lower s) = to_lower s"
proof -
  have "is_upper c \<Longrightarrow> \<not> is_upper (char_of (of_char c + (32 :: nat)))" for c :: char
    by (simp add: is_upper_def)
  then show ?thesis by (simp add: to_lower_def)
qed

lemma trim_space_idem [simp]: "trim_space (trim_space s) = trim_space s"
proof -
  define a where "a = dropWhile is_space s"
  have hd_a: "a = [] \<or> \<not> is_space (hd a)"
    by (metis a_def hd_dropWhile)
  define b where "b = dropWhile is_space (rev a)"
  have t: "trim_space s = rev b" by (simp add: trim_space_def a_def b_def)
  have hd_b: "b = [] \<or> \<not> is_space (hd b)"
    by (metis b_def hd_dropWhile)
  have "b \<noteq> [] \<Longrightarrow> last b = hd a"
    by (metis b_def dropWhile_eq_Nil_conv hd_rev last_appendR rev_rev_ident takeWhile_dropWhile_id rev_is_Nil_conv)
  then have "dropWhile is_space (rev b) = rev b"
    using hd_a by (cases "b = []") (auto simp: dropWhile_eq_self_iff hd_rev b_def)
  moreover have "dropWhile is_space b = b"
    using hd_b by (simp add: dropWhile_eq_self_iff)
  ultimately have "trim_space (rev b) = rev b"
    by (simp add: trim_space_def)
  with t show ?thesis by simp
qed

lemma split_first_sep: "sep \<notin> set a \<Longrightarrow> split_first sep (a @ sep # b) = (a, Some b)"
proof -
  assume "sep \<notin> set a"
  then have "takeWhile (\<lambda>c. c \<noteq> sep) (a @ sep # b) = a" "dropWhile (\<lambda>c. c \<noteq> sep) (a @ sep # b) = sep # b"
    by (induction a) auto
  then show ?thesis by (simp add: split_first_def)
qed

lemma split_first_no_sep: "sep \<notin> set a \<Longrightarrow> split_first sep a = (a, None)"
proof -
  assume "sep \<notin> set a"
  then have "takeWhile (\<lambda>c. c \<noteq> sep) a = a" "dropWhile (\<lambda>c. c \<noteq> sep) a = []"
    by (induction a) auto
  then show ?thesis unfolding split_first_def by (simp only: list.case)
qed

lemma split_first_join:
  "split_first sep s = (a, r) \<Longrightarrow> s = a @ (case r of None \<Rightarrow> [] | Some b \<Rightarrow> sep # b) \<and> sep \<notin> set a"
proof (induction s arbitrary: a r)
  case Nil
  then show ?case by (auto simp: split_first_def)
next
  case (Cons c s)
  show ?case
  proof (cases "c = sep")
    case True
    with Cons.prems show ?thesis by (auto simp: split_first_def)
  next
    case False
    with Cons.prems obtain a' where "a = c # a'" "split_first sep s = (a', r)"
      by (auto simp: split_first_def)
    with Cons.IH[of a' r] False show ?thesis by auto
  qed
qed

lemma trim_prefix_append [simp]: "trim_prefix (p @ s) p = s"
  by (simp add: trim_prefix_def)

subsection \<open>utf8.ValidString\<close>

definition cont_byte :: "char \<Rightarrow> bool" where
  "cont_byte c \<longleftrightarrow> 128 \<le> (of_char c :: nat) \<and> (of_char c :: nat) \<le> 191"

definition byte_in :: "nat \<Rightarrow> nat \<Rightarrow> char \<Rightarrow> bool" where
  "byte_in lo hi c \<longleftrightarrow> lo \<le> of_char c \<and> of_char c \<le> hi"

fun utf8_valid :: "string \<Rightarrow> bool" where
  "utf8_valid [] \<longleftrightarrow> True"
| "utf8_valid (a # r) \<longleftrightarrow>
     (if byte_in 0 127 a then utf8_valid r
      else case r of
        [] \<Rightarrow> False
      | b # r2 \<Rightarrow>
          if byte_in 194 223 a then cont_byte b \<and> utf8_valid r2
          else case r2 of
            [] \<Rightarrow> False
          | c # r3 \<Rightarrow>
              if byte_in 224 239 a then
                (if byte_in 224 224 a then byte_in 160 191 b
                 else if byte_in 237 237 a then byte_in 128 159 b else cont_byte b)
                \<and> cont_byte c \<and> utf8_valid r3
              else case r3 of
                [] \<Rightarrow> False
              | d # r4 \<Rightarrow>
                  byte_in 240 244 a \<and>
                  (if byte_in 240 240 a then byte_in 144 191 b
                   else if byte_in 244 244 a then byte_in 128 143 b else cont_byte b)
                  \<and> cont_byte c \<and> cont_byte d \<and> utf8_valid r4)"

declare utf8_valid.simps(2) [simp del]

lemma utf8_valid_ascii_Cons [simp]: "byte_in 0 127 a \<Longrightarrow> utf8_valid (a # r) = utf8_valid r"
  by (simp add: utf8_valid.simps(2))

lemma utf8_valid_ascii: "list_all (byte_in 0 127) s \<Longrightarrow> utf8_valid s"
  by (induction s) auto

lemma utf8_valid_itoa [simp]: "utf8_valid (itoa i)"
proof (rule utf8_valid_ascii)
  show "list_all (byte_in 0 127) (itoa i)"
    using itoa_chars[of _ i] by (force simp: list_all_iff byte_in_def is_digit_def)
qed

text \<open>An ASCII byte is never part of a longer character, so text may be cut at it.\<close>

lemma utf8_valid_append_sep:
  "byte_in 0 127 sep \<Longrightarrow> utf8_valid (a @ sep # b) \<longleftrightarrow> utf8_valid a \<and> utf8_valid b"
proof (induction a rule: length_induct)
  case (1 a)
  have sep: "\<not> cont_byte sep" "\<not> byte_in 160 191 sep" "\<not> byte_in 128 159 sep" "\<not> byte_in 144 191 sep"
    "\<not> byte_in 128 143 sep"
    using 1(2) by (auto simp: byte_in_def cont_byte_def)
  show ?case
  proof (cases a)
    case Nil
    with 1(2) show ?thesis by simp
  next
    case (Cons a1 r)
    show ?thesis
    proof (cases "byte_in 0 127 a1")
      case True
      with 1 Cons show ?thesis by simp
    next
      case F: False
      show ?thesis
      proof (cases r)
        case Nil
        with Cons F sep show ?thesis by (auto simp: utf8_valid.simps(2)[of a1] split: list.splits)
      next
        case r: (Cons b1 r2)
        show ?thesis
        proof (cases r2)
          case Nil
          with Cons r F sep 1 1(1)[rule_format, of "[]"] show ?thesis by (auto simp: utf8_valid.simps(2)[of a1] split: list.splits)
        next
          case r2: (Cons c1 r3)
          show ?thesis
          proof (cases r3)
            case Nil
            with Cons r r2 F sep 1 1(1)[rule_format, of "[c1]"] 1(1)[rule_format, of "[]"] show ?thesis by (auto simp: utf8_valid.simps(2)[of a1] split: list.splits)
          next
            case r3: (Cons d1 r4)
            with Cons r r2 F sep 1(2) 1(1)[rule_format, of "c1 # d1 # r4"] 1(1)[rule_format, of "d1 # r4"] 1(1)[rule_format, of r4] show ?thesis by (auto simp: utf8_valid.simps(2)[of a1] split: list.splits)
          qed
        qed
      qed
    qed
  qed
qed

lemma utf8_valid_append_ascii: "list_all (byte_in 0 127) a \<Longrightarrow> utf8_valid (a @ b) \<longleftrightarrow> utf8_valid b"
  by (induction a) auto

subsection \<open>Conversion to runes\<close>

text \<open>
  \<open>utf8.DecodeRuneInString\<close>: the encoding of the first character and what follows it, where a byte that
  starts no valid encoding is read as U+FFFD.  The ranges of the second byte are those of \<open>utf8_valid\<close>.
\<close>

definition replacement_rune :: string where
  "replacement_rune = [CHR 0xEF, CHR 0xBF, CHR 0xBD]"

definition rune_size :: "string \<Rightarrow> nat" where
  "rune_size s =
     (if s \<noteq> [] \<and> utf8_valid (take 1 s) then 1
      else if length s \<ge> 2 \<and> utf8_valid (take 2 s) then 2
      else if length s \<ge> 3 \<and> utf8_valid (take 3 s) then 3
      else if length s \<ge> 4 \<and> utf8_valid (take 4 s) then 4
      else 0)"

definition decode_rune :: "string \<Rightarrow> string \<times> string" where
  "decode_rune s =
     (if rune_size s = 0 then (replacement_rune, drop 1 s) else (take (rune_size s) s, drop (rune_size s) s))"

function runes :: "string \<Rightarrow> string list" where
  "runes [] = []"
| "runes (c # s) = (case decode_rune (c # s) of (r, rest) \<Rightarrow> r # runes rest)"
  by pat_completeness auto

lemma decode_rune_shorter: "length (snd (decode_rune (c # s))) < Suc (length s)"
  by (auto simp: decode_rune_def)

termination runes
  by (relation "measure length") (use decode_rune_shorter in \<open>auto, metis snd_conv\<close>)

lemma decode_rune_ascii: "byte_in 0 127 c \<Longrightarrow> decode_rune (c # s) = ([c], s)"
  by (simp add: decode_rune_def rune_size_def)

lemma runes_ascii: "list_all (byte_in 0 127) s \<Longrightarrow> runes s = map (\<lambda>c. [c]) s"
  by (induction s) (simp_all add: decode_rune_ascii)

text \<open>Converted to runes and back, valid UTF-8 is what it was.\<close>

lemma rune_size_valid:
  assumes "utf8_valid (c # s)"
  shows "rune_size (c # s) \<noteq> 0 \<and> utf8_valid (drop (rune_size (c # s)) (c # s))"
proof (cases "byte_in 0 127 c")
  case True
  with assms show ?thesis by (simp add: rune_size_def)
next
  case c: False
  note V = utf8_valid.simps(2)[of c]
  have c1: "\<not> utf8_valid [c]" by (simp add: V c)
  from assms c obtain b r where s: "s = b # r" by (cases s) (simp_all add: V)
  show ?thesis
  proof (cases "byte_in 194 223 c")
    case True
    with assms c s have "cont_byte b" "utf8_valid r" by (simp_all add: V)
    moreover from this True have "utf8_valid [c, b]" by (simp add: V c)
    ultimately show ?thesis using c1 by (simp add: rune_size_def s)
  next
    case c2: False
    have n2: "\<not> utf8_valid [c, b]" by (simp add: V c c2)
    from assms c c2 s obtain d r3 where r: "r = d # r3" by (cases r) (simp_all add: V)
    show ?thesis
    proof (cases "byte_in 224 239 c")
      case True
      with assms c c2 s r have "utf8_valid [c, b, d]" "utf8_valid r3" by (simp_all add: V)
      with c1 n2 show ?thesis by (simp add: rune_size_def s r)
    next
      case c3: False
      have n3: "\<not> utf8_valid [c, b, d]" by (simp add: V c c2 c3)
      from assms c c2 c3 s r obtain e r4 where r3: "r3 = e # r4" by (cases r3) (simp_all add: V)
      have "utf8_valid [c, b, d, e]" "utf8_valid r4" using assms c c2 c3 s r r3 by (simp_all add: V)
      with c1 n2 n3 show ?thesis by (simp add: rune_size_def s r r3)
    qed
  qed
qed

lemma runes_valid: "utf8_valid s \<Longrightarrow> concat (runes s) = s"
proof (induction s rule: runes.induct)
  case (2 c s)
  then show ?case
    using rune_size_valid[OF 2(2)] by (auto simp: decode_rune_def split: prod.splits)
qed simp

end
