(* ===== verification/Wire.thy ===== *)
theory Wire
  imports GoBase
begin

section \<open>JSON and XML documents, and Go's decoding of them into structs\<close>

text \<open>
  Bodies on the wire are documents, not bytes: a JSON or XML text is identified with the tree it
  denotes.  A decoder for a Go type updates a value already there, as \<open>json.Unmarshal\<close> does: keys
  are matched exactly first and then ignoring case, unknown keys are skipped, \<open>null\<close> leaves a
  string, number or struct as it is and sets a slice or pointer to nil, and a value of the wrong
  kind is an error of the whole call.  Documents are built with the texts
  they are given; \<open>json_wire\<close> and \<open>xml_wire\<close> are what the encoders then write, which is the same document when its
  texts are \<open>utf8_valid\<close>, or \<open>xml_text\<close> in XML, and has U+FFFD for whatever else is in them.
\<close>

subsection \<open>JSON\<close>

datatype json =
    JNull
  | JBool bool
  | JNum int
  | JFrac string
  | JStr string
  | JArr "json list"
  | JObj "(string \<times> json) list"

datatype json_error = UnmarshalType | JsonSyntax

type_synonym 'a decoder = "json \<Rightarrow> 'a \<Rightarrow> json_error + 'a"

definition dec_string :: "string decoder" where
  "dec_string j x = (case j of JStr s \<Rightarrow> Inr s | JNull \<Rightarrow> Inr x | _ \<Rightarrow> Inl UnmarshalType)"

definition dec_int :: "int decoder" where
  "dec_int j x = (case j of JNum n \<Rightarrow> if int64 n then Inr n else Inl UnmarshalType
                  | JNull \<Rightarrow> Inr x | _ \<Rightarrow> Inl UnmarshalType)"

definition dec_bool :: "bool decoder" where
  "dec_bool j x = (case j of JBool b \<Rightarrow> Inr b | JNull \<Rightarrow> Inr x | _ \<Rightarrow> Inl UnmarshalType)"

definition dec_slice :: "'a \<Rightarrow> 'a decoder \<Rightarrow> 'a list decoder" where
  "dec_slice zero d j x = (case j of JArr js \<Rightarrow> map_err (\<lambda>j. d j zero) js
                           | JNull \<Rightarrow> Inr [] | _ \<Rightarrow> Inl UnmarshalType)"

definition dec_ptr :: "'a \<Rightarrow> 'a decoder \<Rightarrow> 'a option decoder" where
  "dec_ptr zero d j x =
     (if j = JNull then Inr None
      else case d j (case x of None \<Rightarrow> zero | Some v \<Rightarrow> v) of Inl e \<Rightarrow> Inl e | Inr v \<Rightarrow> Inr (Some v))"

definition find_field :: "(string \<times> 'a decoder) list \<Rightarrow> string \<Rightarrow> 'a decoder option" where
  "find_field fs k =
     (case map_of fs k of
        Some d \<Rightarrow> Some d
      | None \<Rightarrow> map_option snd (List.find (\<lambda>f. to_lower (fst f) = to_lower k) fs))"

definition dec_struct :: "(string \<times> 'a decoder) list \<Rightarrow> 'a decoder" where
  "dec_struct fs j x =
     (case j of
        JObj kvs \<Rightarrow> fold_err (\<lambda>kv acc. case find_field fs (fst kv) of
                                  None \<Rightarrow> Inr acc | Some d \<Rightarrow> d (snd kv) acc) kvs x
      | JNull \<Rightarrow> Inr x
      | _ \<Rightarrow> Inl UnmarshalType)"

text \<open>A struct field: its JSON name, the decoder of its type, and how the field is read and set.\<close>

definition fld :: "string \<Rightarrow> 'v decoder \<Rightarrow> ('a \<Rightarrow> 'v) \<Rightarrow> (('v \<Rightarrow> 'v) \<Rightarrow> 'a \<Rightarrow> 'a) \<Rightarrow> string \<times> 'a decoder" where
  "fld n d get upd = (n, \<lambda>j x. case d j (get x) of Inl e \<Rightarrow> Inl e | Inr v \<Rightarrow> Inr (upd (\<lambda>_. v) x))"

text \<open>Encoding a slice: a nil slice is \<open>null\<close>, one made with \<open>make\<close> or a literal is an array.\<close>

definition enc_slice :: "('a \<Rightarrow> json) \<Rightarrow> 'a list \<Rightarrow> json" where
  "enc_slice e xs = (if xs = [] then JNull else JArr (map e xs))"

definition enc_array :: "('a \<Rightarrow> json) \<Rightarrow> 'a list \<Rightarrow> json" where
  "enc_array e xs = JArr (map e xs)"

lemma dec_string_JStr [decode_rules]: "dec_string (JStr s) x = Inr s" by (simp add: dec_string_def)
lemma dec_int_JNum [decode_rules]: "int64 n \<Longrightarrow> dec_int (JNum n) x = Inr n" by (simp add: dec_int_def)
lemma dec_bool_JBool [decode_rules]: "dec_bool (JBool b) x = Inr b" by (simp add: dec_bool_def)

lemma dec_slice_array [decode_rules]:
  "(\<And>v. v \<in> set xs \<Longrightarrow> d (e v) zero = Inr v) \<Longrightarrow> dec_slice zero d (enc_array e xs) x = Inr xs"
proof -
  assume a: "\<And>v. v \<in> set xs \<Longrightarrow> d (e v) zero = Inr v"
  have "map_err (\<lambda>j. d j zero) (map e xs) = Inr xs"
    using a by (induction xs) auto
  then show ?thesis by (simp add: dec_slice_def enc_array_def)
qed

lemma dec_slice_slice [decode_rules]:
  "(\<And>v. v \<in> set xs \<Longrightarrow> d (e v) zero = Inr v) \<Longrightarrow> dec_slice zero d (enc_slice e xs) x = Inr xs"
  using dec_slice_array[of xs d e zero x]
  by (auto simp: enc_slice_def dec_slice_def enc_array_def)

lemma dec_struct_null [decode_rules]: "dec_struct fs JNull x = Inr x"
  by (simp add: dec_struct_def)

lemma dec_struct_obj [decode_rules]:
  "dec_struct fs (JObj kvs) x = fold_err (\<lambda>kv acc. case find_field fs (fst kv) of
                                  None \<Rightarrow> Inr acc | Some d \<Rightarrow> d (snd kv) acc) kvs x"
  by (simp add: dec_struct_def)

text \<open>Keys no field of the struct answers to are skipped.\<close>

lemma fold_err_skip:
  "(\<And>kv. kv \<in> set kvs \<Longrightarrow> find_field fs (fst kv) = None) \<Longrightarrow>
   fold_err (\<lambda>kv acc. case find_field fs (fst kv) of None \<Rightarrow> Inr acc | Some d \<Rightarrow> d (snd kv) acc) kvs x = Inr x"
  by (induction kvs) auto

lemma dec_struct_unknown:
  "(\<And>kv. kv \<in> set kvs \<Longrightarrow> find_field fs (fst kv) = None) \<Longrightarrow> dec_struct fs (JObj kvs) x = Inr x"
  by (simp add: dec_struct_obj fold_err_skip)

lemma dec_struct_kind_error:
  "(case j of JObj _ \<Rightarrow> False | JNull \<Rightarrow> False | _ \<Rightarrow> True) \<Longrightarrow> dec_struct fs j x = Inl UnmarshalType"
  by (cases j) (auto simp: dec_struct_def)

lemmas dec_prims = dec_string_def dec_int_def dec_bool_def dec_slice_def dec_ptr_def

subsection \<open>XML\<close>

text \<open>
  The texts \<open>encoding/xml\<close> writes as they are: UTF-8 without control characters other than tab, line feed
  and carriage return, and without U+FFFE and U+FFFF.
\<close>

definition xml_byte :: "char \<Rightarrow> bool" where
  "xml_byte c \<longleftrightarrow> 32 \<le> (of_char c :: nat) \<or> (of_char c :: nat) \<in> {9, 10, 13}"

definition xml_text :: "string \<Rightarrow> bool" where
  "xml_text s \<longleftrightarrow> utf8_valid s \<and> list_all xml_byte s
     \<and> \<not> contains [CHR 0xEF, CHR 0xBF, CHR 0xBE] s \<and> \<not> contains [CHR 0xEF, CHR 0xBF, CHR 0xBF] s"

lemma xml_text_utf8: "xml_text s \<Longrightarrow> utf8_valid s"
  by (simp add: xml_text_def)

lemma xml_text_Nil [simp]: "xml_text []"
  by (simp add: xml_text_def)

text \<open>What the encoders write for a text: of other texts a rune XML has no character for, or a byte that is no
  UTF-8, becomes U+FFFD.\<close>

definition xml_rune :: "string \<Rightarrow> string" where
  "xml_rune r =
     (if list_all xml_byte r \<and> r \<notin> {[CHR 0xEF, CHR 0xBF, CHR 0xBE], [CHR 0xEF, CHR 0xBF, CHR 0xBF]} then r else replacement_rune)"

definition json_written :: "string \<Rightarrow> string" where
  "json_written s = concat (runes s)"

definition xml_written :: "string \<Rightarrow> string" where
  "xml_written s = concat (map xml_rune (runes s))"

lemma json_written_id: "utf8_valid s \<Longrightarrow> json_written s = s"
  by (simp add: json_written_def runes_valid)

lemma xml_written_id:
  assumes "xml_text s"
  shows "xml_written s = s"
proof -
  have s: "concat (runes s) = s" using assms by (simp add: xml_text_def runes_valid)
  have "xml_rune r = r" if r: "r \<in> set (runes s)" for r
  proof -
    have "sublist r s" using r s by (metis concat.simps(2) concat_append in_set_conv_decomp sublist_append_leftI sublist_append_rightI sublist_order.order_trans)
    moreover from this have "set r \<subseteq> set s" by (auto simp: sublist_def)
    ultimately show ?thesis using assms by (auto simp: xml_rune_def xml_text_def contains_sublist list_all_iff)
  qed
  then show ?thesis using s by (simp add: xml_written_def map_idI)
qed

datatype xml = XElem string "xml list" | XText string

fun xml_name :: "xml \<Rightarrow> string" where
  "xml_name (XElem n _) = n"
| "xml_name (XText _) = []"

fun xml_kids :: "xml \<Rightarrow> xml list" where
  "xml_kids (XElem _ ks) = ks"
| "xml_kids (XText _) = []"

text \<open>The character data of an element, what a string field is decoded from.\<close>

fun chardata :: "xml list \<Rightarrow> string" where
  "chardata [] = []"
| "chardata (XText s # ks) = s @ chardata ks"
| "chardata (XElem _ _ # ks) = chardata ks"

definition text_elem :: "string \<Rightarrow> string \<Rightarrow> xml" where
  "text_elem n s = XElem n (if s = [] then [] else [XText s])"

text \<open>\<open>xml:"name,omitempty"\<close> on a string.\<close>

definition opt_elem :: "string \<Rightarrow> string \<Rightarrow> xml list" where
  "opt_elem n s = (if s = [] then [] else [text_elem n s])"

text \<open>Decoding: a string field takes the last child of its name, a \<open>path>item\<close> slice collects the
  items of every child of that path.\<close>

definition kids_named :: "string \<Rightarrow> xml list \<Rightarrow> xml list" where
  "kids_named n ks = filter (\<lambda>k. xml_name k = n) ks"

definition xml_string :: "string \<Rightarrow> xml list \<Rightarrow> string" where
  "xml_string n ks = (case rev (kids_named n ks) of [] \<Rightarrow> [] | k # _ \<Rightarrow> chardata (xml_kids k))"

definition xml_strings :: "string \<Rightarrow> string \<Rightarrow> xml list \<Rightarrow> string list" where
  "xml_strings path item ks =
     concat (map (\<lambda>k. map (\<lambda>i. chardata (xml_kids i)) (kids_named item (xml_kids k))) (kids_named path ks))"

lemma xml_name_text_elem [simp]: "xml_name (text_elem n s) = n" by (simp add: text_elem_def)

lemma chardata_text_elem [simp]: "chardata (xml_kids (text_elem n s)) = s" by (simp add: text_elem_def)

lemma kids_named_Nil [simp]: "kids_named n [] = []" by (simp add: kids_named_def)

lemma kids_named_append [simp]: "kids_named n (a @ b) = kids_named n a @ kids_named n b"
  by (simp add: kids_named_def)

lemma kids_named_Cons [simp]:
  "kids_named n (k # ks) = (if xml_name k = n then k # kids_named n ks else kids_named n ks)"
  by (simp add: kids_named_def)

lemma kids_named_opt_elem [simp]: "kids_named n (opt_elem m s) = (if m = n then opt_elem m s else [])"
  by (simp add: opt_elem_def)

subsection \<open>Documents with the texts that are written\<close>

fun json_wire :: "json \<Rightarrow> json" where
  "json_wire (JStr s) = JStr (json_written s)"
| "json_wire (JArr js) = JArr (map json_wire js)"
| "json_wire (JObj kvs) = JObj (map (\<lambda>kv. (json_written (fst kv), json_wire (snd kv))) kvs)"
| "json_wire j = j"

fun json_texts :: "json \<Rightarrow> bool" where
  "json_texts (JStr s) = utf8_valid s"
| "json_texts (JArr js) = list_all json_texts js"
| "json_texts (JObj kvs) = list_all (\<lambda>kv. utf8_valid (fst kv) \<and> json_texts (snd kv)) kvs"
| "json_texts j = True"

fun xml_wire :: "xml \<Rightarrow> xml" where
  "xml_wire (XElem n ks) = XElem n (map xml_wire ks)"
| "xml_wire (XText s) = XText (xml_written s)"

fun xml_texts :: "xml \<Rightarrow> bool" where
  "xml_texts (XElem n ks) = list_all xml_texts ks"
| "xml_texts (XText s) = xml_text s"

lemma json_wire_id: "json_texts j \<Longrightarrow> json_wire j = j"
  by (induction j rule: json_wire.induct) (auto simp: json_written_id list_all_iff prod_eq_iff intro!: map_idI)

lemma xml_wire_id: "xml_texts x \<Longrightarrow> xml_wire x = x"
  by (induction x rule: xml_wire.induct) (auto simp: xml_written_id list_all_iff intro!: map_idI)

end
