(* ===== verification/Models.thy ===== *)
theory Models
  imports Wire
begin

section \<open>The Jamf payloads (pkg/jamf/models.go)\<close>

text \<open>
  One record per struct; a struct that embeds \<open>BaseType\<close> extends its record, so \<open>ID\<close> and \<open>Name\<close>
  are promoted as in Go.  \<open>fields_*\<close> is the list of a struct's JSON tags, \<open>dec_*\<close> the decoder
  \<open>json.Unmarshal\<close> derives from it, \<open>enc_*\<close> the document \<open>json.Marshal\<close> writes.  The two create
  bodies and \<open>Privileges\<close> also have their XML form, with the hand-written \<open>MarshalXML\<close>.
\<close>

record BaseType =
  ID :: int
  Name :: string

record User = BaseType +
  userFullName :: string
  userEmail :: string
  userEmailAddress :: string
  userUsername :: string
  userSites :: "BaseType list"

record Privileges =
  JSSObjects :: "string list"
  JSSSettings :: "string list"
  JSSActions :: "string list"
  Recon :: "string list"
  CasperAdmin :: "string list"
  CasperRemote :: "string list"
  CasperImaging :: "string list"

record UserAccount = BaseType +
  accFullName :: string
  accEmail :: string
  accEmailAddress :: string
  accEnabled :: string
  accAccessLevel :: string
  accPrivilegeSet :: string
  accPrivileges :: Privileges
  accSite :: BaseType

record Group = BaseType +
  grpAccessLevel :: string
  grpPrivilegeSet :: string
  grpPrivileges :: Privileges
  grpSite :: BaseType
  grpMembers :: "BaseType list"

type_synonym Site = BaseType

record UserGroup = BaseType +
  ugIsSmart :: bool
  ugSite :: Site
  ugUsers :: "User list"

record BaseAccount =
  baUsers :: "User list"
  baGroups :: "Group list"

record Account =
  atID :: string
  atUsername :: string
  atRealName :: string
  atEmail :: string
  atMultiSiteAdmin :: bool
  atAccessLevel :: string
  atPrivilegeSet :: string
  atCurrentSiteID :: string

record TokenDetails =
  tdAccount :: Account
  tdSites :: "(string \<times> string) list"
  tdAuthenticationType :: string

record TokenResponse =
  trToken :: string
  trExpires :: string

record UserCreateBody =
  ucName :: string
  ucFullName :: string
  ucEmail :: string

record UserAccountCreateBody =
  acName :: string
  acPassword :: string
  acFullName :: string
  acEmail :: string
  acEnabled :: string
  acAccessLevel :: string
  acPrivilegeSet :: string
  acPrivileges :: "Privileges option"

subsection \<open>Zero values\<close>

definition zero_BaseType :: BaseType where
  "zero_BaseType = \<lparr>ID = 0, Name = []\<rparr>"

definition zero_Privileges :: Privileges where
  "zero_Privileges = \<lparr>JSSObjects = [], JSSSettings = [], JSSActions = [], Recon = [],
     CasperAdmin = [], CasperRemote = [], CasperImaging = []\<rparr>"

definition zero_User :: User where
  "zero_User = \<lparr>ID = 0, Name = [], userFullName = [], userEmail = [], userEmailAddress = [],
     userUsername = [], userSites = []\<rparr>"

definition zero_UserAccount :: UserAccount where
  "zero_UserAccount = \<lparr>ID = 0, Name = [], accFullName = [], accEmail = [], accEmailAddress = [],
     accEnabled = [], accAccessLevel = [], accPrivilegeSet = [], accPrivileges = zero_Privileges,
     accSite = zero_BaseType\<rparr>"

definition zero_Group :: Group where
  "zero_Group = \<lparr>ID = 0, Name = [], grpAccessLevel = [], grpPrivilegeSet = [],
     grpPrivileges = zero_Privileges, grpSite = zero_BaseType, grpMembers = []\<rparr>"

definition zero_UserGroup :: UserGroup where
  "zero_UserGroup = \<lparr>ID = 0, Name = [], ugIsSmart = False, ugSite = zero_BaseType, ugUsers = []\<rparr>"

definition zero_Account :: Account where
  "zero_Account = \<lparr>atID = [], atUsername = [], atRealName = [], atEmail = [], atMultiSiteAdmin = False,
     atAccessLevel = [], atPrivilegeSet = [], atCurrentSiteID = []\<rparr>"

definition zero_TokenDetails :: TokenDetails where
  "zero_TokenDetails = \<lparr>tdAccount = zero_Account, tdSites = [], tdAuthenticationType = []\<rparr>"

definition zero_TokenResponse :: TokenResponse where
  "zero_TokenResponse = \<lparr>trToken = [], trExpires = []\<rparr>"

definition zero_BaseAccount :: BaseAccount where
  "zero_BaseAccount = \<lparr>baUsers = [], baGroups = []\<rparr>"

lemmas zero_defs = zero_BaseType_def zero_Privileges_def zero_User_def zero_UserAccount_def
  zero_Group_def zero_UserGroup_def zero_Account_def zero_TokenDetails_def zero_TokenResponse_def
  zero_BaseAccount_def

subsection \<open>Privileges: IsEmpty and Contains\<close>

text \<open>The receiver is a pointer; \<open>None\<close> is the nil receiver.\<close>

definition IsEmpty :: "Privileges option \<Rightarrow> bool" where
  "IsEmpty p = (case p of None \<Rightarrow> True
     | Some p \<Rightarrow> JSSObjects p = [] \<and> JSSSettings p = [] \<and> JSSActions p = [] \<and> Recon p = [] \<and>
                 CasperAdmin p = [] \<and> CasperRemote p = [] \<and> CasperImaging p = [])"

definition Contains :: "Privileges option \<Rightarrow> string \<Rightarrow> bool" where
  "Contains p privilege = (case p of None \<Rightarrow> False
     | Some p \<Rightarrow> privilege \<in> set (JSSObjects p) \<or> privilege \<in> set (JSSSettings p) \<or>
                 privilege \<in> set (JSSActions p) \<or> privilege \<in> set (Recon p) \<or>
                 privilege \<in> set (CasperAdmin p) \<or> privilege \<in> set (CasperRemote p) \<or>
                 privilege \<in> set (CasperImaging p))"

lemma Nil_iff_no_mem: "xs = [] \<longleftrightarrow> (\<forall>x. x \<notin> set xs)"
  by (cases xs) auto

lemma IsEmpty_iff_no_Contains: "IsEmpty p \<longleftrightarrow> (\<forall>x. \<not> Contains p x)"
proof (cases p)
  case (Some q)
  show ?thesis unfolding Some IsEmpty_def Contains_def option.case Nil_iff_no_mem by blast
qed (simp add: IsEmpty_def Contains_def)

lemma IsEmpty_zero [simp]: "IsEmpty (Some zero_Privileges)" "IsEmpty None"
  by (simp_all add: IsEmpty_def zero_Privileges_def)

subsection \<open>XML: the create bodies\<close>

text \<open>\<open>Privileges.MarshalXML\<close>: only the populated categories are written.\<close>

definition privilege_categories :: "Privileges \<Rightarrow> (string \<times> string list) list" where
  "privilege_categories p =
     [(''jss_objects'', JSSObjects p), (''jss_settings'', JSSSettings p), (''jss_actions'', JSSActions p),
      (''recon'', Recon p), (''casper_admin'', CasperAdmin p), (''casper_remote'', CasperRemote p),
      (''casper_imaging'', CasperImaging p)]"

definition MarshalXML :: "Privileges \<Rightarrow> string \<Rightarrow> xml" where
  "MarshalXML p start =
     XElem start
       (concat (map (\<lambda>(name, items). if items = [] then []
                                     else [XElem name (map (text_elem ''privilege'') items)])
                    (privilege_categories p)))"

definition xml_UserCreateBody :: "UserCreateBody \<Rightarrow> xml" where
  "xml_UserCreateBody b =
     XElem ''user'' ([text_elem ''name'' (ucName b)] @ opt_elem ''full_name'' (ucFullName b)
                     @ opt_elem ''email'' (ucEmail b))"

definition xml_UserAccountCreateBody :: "UserAccountCreateBody \<Rightarrow> xml" where
  "xml_UserAccountCreateBody b =
     XElem ''account''
       ([text_elem ''name'' (acName b), text_elem ''password'' (acPassword b)]
        @ opt_elem ''full_name'' (acFullName b) @ opt_elem ''email'' (acEmail b)
        @ opt_elem ''enabled'' (acEnabled b) @ opt_elem ''access_level'' (acAccessLevel b)
        @ opt_elem ''privilege_set'' (acPrivilegeSet b)
        @ (case acPrivileges b of None \<Rightarrow> [] | Some p \<Rightarrow> [MarshalXML p ''privileges'']))"

text \<open>Decoding, by the same struct tags; \<open>None\<close> is the error of a root element of another name.\<close>

definition unxml_Privileges :: "xml list \<Rightarrow> Privileges" where
  "unxml_Privileges ks =
     \<lparr>JSSObjects = xml_strings ''jss_objects'' ''privilege'' ks,
      JSSSettings = xml_strings ''jss_settings'' ''privilege'' ks,
      JSSActions = xml_strings ''jss_actions'' ''privilege'' ks,
      Recon = xml_strings ''recon'' ''privilege'' ks,
      CasperAdmin = xml_strings ''casper_admin'' ''privilege'' ks,
      CasperRemote = xml_strings ''casper_remote'' ''privilege'' ks,
      CasperImaging = xml_strings ''casper_imaging'' ''privilege'' ks\<rparr>"

definition unxml_UserCreateBody :: "xml \<Rightarrow> UserCreateBody option" where
  "unxml_UserCreateBody x =
     (if xml_name x \<noteq> ''user'' then None
      else Some \<lparr>ucName = xml_string ''name'' (xml_kids x), ucFullName = xml_string ''full_name'' (xml_kids x),
                 ucEmail = xml_string ''email'' (xml_kids x)\<rparr>)"

definition unxml_UserAccountCreateBody :: "xml \<Rightarrow> UserAccountCreateBody option" where
  "unxml_UserAccountCreateBody x =
     (let ks = xml_kids x in
      if xml_name x \<noteq> ''account'' then None
      else Some \<lparr>acName = xml_string ''name'' ks, acPassword = xml_string ''password'' ks,
                 acFullName = xml_string ''full_name'' ks, acEmail = xml_string ''email'' ks,
                 acEnabled = xml_string ''enabled'' ks, acAccessLevel = xml_string ''access_level'' ks,
                 acPrivilegeSet = xml_string ''privilege_set'' ks,
                 acPrivileges = (case kids_named ''privileges'' ks of [] \<Rightarrow> None
                   | ps \<Rightarrow> Some (unxml_Privileges (concat (map xml_kids ps))))\<rparr>)"

lemma xml_string_opt_elem [simp]: "xml_string n (opt_elem n s) = s"
  by (simp add: xml_string_def opt_elem_def)

lemma xml_string_one: "kids_named n ks = [text_elem n s] \<Longrightarrow> xml_string n ks = s"
  by (simp add: xml_string_def)

lemma xml_string_opt: "kids_named n ks = opt_elem n s \<Longrightarrow> xml_string n ks = s"
  by (simp add: xml_string_def opt_elem_def)

lemma MarshalXML_name [simp]: "xml_name (MarshalXML p n) = n"
  by (simp add: MarshalXML_def)

lemma kids_privilege_items [simp]:
  "kids_named ''privilege'' (map (text_elem ''privilege'') xs) = map (text_elem ''privilege'') xs"
  by (induction xs) auto

lemma items_chardata [simp]:
  "map (\<lambda>i. chardata (xml_kids i)) (map (text_elem ''privilege'') xs) = xs"
  by (induction xs) auto

text \<open>What decoding reads back for one category: the items of the element that carries it.\<close>

lemma xml_strings_append: "xml_strings p i (a @ b) = xml_strings p i a @ xml_strings p i b"
  by (simp add: xml_strings_def)

lemma xml_strings_category:
  "xml_strings n ''privilege'' (if items = [] then [] else [XElem m (map (text_elem ''privilege'') items)])
     = (if m = n then items else [])"
  by (auto simp: xml_strings_def comp_def simp del: map_map)

lemma unxml_MarshalXML [simp]: "unxml_Privileges (xml_kids (MarshalXML p n)) = p"
  by (cases p)
     (simp add: MarshalXML_def privilege_categories_def unxml_Privileges_def xml_strings_append
        xml_strings_category del: append.simps)

lemma unxml_xml_UserCreateBody [simp]: "unxml_UserCreateBody (xml_UserCreateBody b) = Some b"
  by (cases b) (auto simp: unxml_UserCreateBody_def xml_UserCreateBody_def intro: xml_string_one xml_string_opt)

lemma unxml_xml_UserAccountCreateBody [simp]:
  "unxml_UserAccountCreateBody (xml_UserAccountCreateBody b) = Some b"
proof (cases b)
  case (fields name password full_name email enabled access_level privilege_set privileges)
  then show ?thesis
    by (cases privileges)
       (auto simp: unxml_UserAccountCreateBody_def xml_UserAccountCreateBody_def Let_def
          intro: xml_string_one xml_string_opt)
qed

end
