(* ===== verification/ModelsJson.thy ===== *)
theory ModelsJson
  imports Models
begin

section \<open>The JSON form of the Jamf payloads\<close>

text \<open>
  The struct tags of pkg/jamf/models.go as field lists, the decoders they give, and the documents
  \<open>json.Marshal\<close> writes for the structs the mock server sends.  Decoding what was encoded gives the
  value back (the integers must be 64-bit, as every Go \<open>int\<close> is).
\<close>

definition fields_BaseType :: "(string \<times> BaseType decoder) list" where
  "fields_BaseType = [fld ''id'' dec_int ID ID_update, fld ''name'' dec_string Name Name_update]"

definition dec_BaseType :: "BaseType decoder" where
  "dec_BaseType = dec_struct fields_BaseType"

definition dec_site_entry :: "BaseType decoder" where
  "dec_site_entry = dec_struct [fld ''site'' dec_BaseType id id]"

definition fields_User :: "(string \<times> User decoder) list" where
  "fields_User =
     [fld ''id'' dec_int ID ID_update, fld ''name'' dec_string Name Name_update,
      fld ''full_name'' dec_string userFullName userFullName_update,
      fld ''email'' dec_string userEmail userEmail_update,
      fld ''email_address'' dec_string userEmailAddress userEmailAddress_update,
      fld ''username'' dec_string userUsername userUsername_update,
      fld ''sites'' (dec_slice zero_BaseType dec_site_entry) userSites userSites_update]"

definition dec_User :: "User decoder" where
  "dec_User = dec_struct fields_User"

definition dec_strings :: "string list decoder" where
  "dec_strings = dec_slice [] dec_string"

definition fields_Privileges :: "(string \<times> Privileges decoder) list" where
  "fields_Privileges =
     [fld ''jss_objects'' dec_strings JSSObjects JSSObjects_update,
      fld ''jss_settings'' dec_strings JSSSettings JSSSettings_update,
      fld ''jss_actions'' dec_strings JSSActions JSSActions_update,
      fld ''recon'' dec_strings Recon Recon_update,
      fld ''casper_admin'' dec_strings CasperAdmin CasperAdmin_update,
      fld ''casper_remote'' dec_strings CasperRemote CasperRemote_update,
      fld ''casper_imaging'' dec_strings CasperImaging CasperImaging_update]"

definition dec_Privileges :: "Privileges decoder" where
  "dec_Privileges = dec_struct fields_Privileges"

definition fields_UserAccount :: "(string \<times> UserAccount decoder) list" where
  "fields_UserAccount =
     [fld ''id'' dec_int ID ID_update, fld ''name'' dec_string Name Name_update,
      fld ''full_name'' dec_string accFullName accFullName_update,
      fld ''email'' dec_string accEmail accEmail_update,
      fld ''email_address'' dec_string accEmailAddress accEmailAddress_update,
      fld ''enabled'' dec_string accEnabled accEnabled_update,
      fld ''access_level'' dec_string accAccessLevel accAccessLevel_update,
      fld ''privilege_set'' dec_string accPrivilegeSet accPrivilegeSet_update,
      fld ''privileges'' dec_Privileges accPrivileges accPrivileges_update,
      fld ''site'' dec_BaseType accSite accSite_update]"

definition dec_UserAccount :: "UserAccount decoder" where
  "dec_UserAccount = dec_struct fields_UserAccount"

definition fields_Group :: "(string \<times> Group decoder) list" where
  "fields_Group =
     [fld ''id'' dec_int ID ID_update, fld ''name'' dec_string Name Name_update,
      fld ''access_level'' dec_string grpAccessLevel grpAccessLevel_update,
      fld ''privilege_set'' dec_string grpPrivilegeSet grpPrivilegeSet_update,
      fld ''privileges'' dec_Privileges grpPrivileges grpPrivileges_update,
      fld ''site'' dec_BaseType grpSite grpSite_update,
      fld ''members'' (dec_slice zero_BaseType dec_BaseType) grpMembers grpMembers_update]"

definition dec_Group :: "Group decoder" where
  "dec_Group = dec_struct fields_Group"

definition fields_UserGroup :: "(string \<times> UserGroup decoder) list" where
  "fields_UserGroup =
     [fld ''id'' dec_int ID ID_update, fld ''name'' dec_string Name Name_update,
      fld ''is_smart'' dec_bool ugIsSmart ugIsSmart_update,
      fld ''site'' dec_BaseType ugSite ugSite_update,
      fld ''users'' (dec_slice zero_User dec_User) ugUsers ugUsers_update]"

definition dec_UserGroup :: "UserGroup decoder" where
  "dec_UserGroup = dec_struct fields_UserGroup"

definition fields_BaseAccount :: "(string \<times> BaseAccount decoder) list" where
  "fields_BaseAccount =
     [fld ''users'' (dec_slice zero_User dec_User) baUsers baUsers_update,
      fld ''groups'' (dec_slice zero_Group dec_Group) baGroups baGroups_update]"

definition dec_BaseAccount :: "BaseAccount decoder" where
  "dec_BaseAccount = dec_struct fields_BaseAccount"

definition fields_Account :: "(string \<times> Account decoder) list" where
  "fields_Account =
     [fld ''id'' dec_string atID atID_update, fld ''username'' dec_string atUsername atUsername_update,
      fld ''realName'' dec_string atRealName atRealName_update, fld ''email'' dec_string atEmail atEmail_update,
      fld ''multiSiteAdmin'' dec_bool atMultiSiteAdmin atMultiSiteAdmin_update,
      fld ''accessLevel'' dec_string atAccessLevel atAccessLevel_update,
      fld ''privilegeSet'' dec_string atPrivilegeSet atPrivilegeSet_update,
      fld ''currentSiteId'' dec_string atCurrentSiteID atCurrentSiteID_update]"

definition dec_token_site :: "(string \<times> string) decoder" where
  "dec_token_site = dec_struct [fld ''id'' dec_string fst apfst, fld ''name'' dec_string snd apsnd]"

definition fields_TokenDetails :: "(string \<times> TokenDetails decoder) list" where
  "fields_TokenDetails =
     [fld ''account'' (dec_struct fields_Account) tdAccount tdAccount_update,
      fld ''sites'' (dec_slice ([], []) dec_token_site) tdSites tdSites_update,
      fld ''authenticationType'' dec_string tdAuthenticationType tdAuthenticationType_update]"

definition dec_TokenDetails :: "TokenDetails decoder" where
  "dec_TokenDetails = dec_struct fields_TokenDetails"

definition dec_TokenResponse :: "TokenResponse decoder" where
  "dec_TokenResponse =
     dec_struct [fld ''token'' dec_string trToken trToken_update,
                 fld ''expires'' dec_string trExpires trExpires_update]"

text \<open>The response envelopes: one key holding the payload.\<close>

definition dec_envelope :: "string \<Rightarrow> 'a decoder \<Rightarrow> 'a decoder" where
  "dec_envelope key d = dec_struct [fld key d id id]"

definition dec_UsersResponse :: "BaseType list decoder" where
  "dec_UsersResponse = dec_envelope ''users'' (dec_slice zero_BaseType dec_BaseType)"

definition dec_UserResponse :: "User decoder" where
  "dec_UserResponse = dec_envelope ''user'' dec_User"

definition dec_UserAccountResponse :: "UserAccount decoder" where
  "dec_UserAccountResponse = dec_envelope ''account'' dec_UserAccount"

definition dec_UserGroupsResponse :: "UserGroup list decoder" where
  "dec_UserGroupsResponse = dec_envelope ''user_groups'' (dec_slice zero_UserGroup dec_UserGroup)"

definition dec_UserGroupResponse :: "UserGroup decoder" where
  "dec_UserGroupResponse = dec_envelope ''user_group'' dec_UserGroup"

definition dec_GroupResponse :: "Group decoder" where
  "dec_GroupResponse = dec_envelope ''group'' dec_Group"

definition dec_AccountsResponse :: "BaseAccount decoder" where
  "dec_AccountsResponse = dec_envelope ''accounts'' dec_BaseAccount"

definition dec_SitesResponse :: "Site list decoder" where
  "dec_SitesResponse = dec_envelope ''sites'' (dec_slice zero_BaseType dec_BaseType)"

definition dec_PrivilegesResponse :: "string list decoder" where
  "dec_PrivilegesResponse = dec_envelope ''privileges'' dec_strings"

subsection \<open>Encoding\<close>

definition enc_BaseType :: "BaseType \<Rightarrow> json" where
  "enc_BaseType b = JObj [(''id'', JNum (ID b)), (''name'', JStr (Name b))]"

definition enc_User :: "User \<Rightarrow> json" where
  "enc_User u =
     JObj [(''id'', JNum (ID u)), (''name'', JStr (Name u)), (''full_name'', JStr (userFullName u)),
           (''email'', JStr (userEmail u)), (''email_address'', JStr (userEmailAddress u)),
           (''username'', JStr (userUsername u)),
           (''sites'', enc_slice (\<lambda>s. JObj [(''site'', enc_BaseType s)]) (userSites u))]"

definition enc_Privileges :: "Privileges \<Rightarrow> json" where
  "enc_Privileges p =
     JObj [(''jss_objects'', enc_slice JStr (JSSObjects p)), (''jss_settings'', enc_slice JStr (JSSSettings p)),
           (''jss_actions'', enc_slice JStr (JSSActions p)), (''recon'', enc_slice JStr (Recon p)),
           (''casper_admin'', enc_slice JStr (CasperAdmin p)), (''casper_remote'', enc_slice JStr (CasperRemote p)),
           (''casper_imaging'', enc_slice JStr (CasperImaging p))]"

definition enc_UserAccount :: "UserAccount \<Rightarrow> json" where
  "enc_UserAccount a =
     JObj [(''id'', JNum (ID a)), (''name'', JStr (Name a)), (''full_name'', JStr (accFullName a)),
           (''email'', JStr (accEmail a)), (''email_address'', JStr (accEmailAddress a)),
           (''enabled'', JStr (accEnabled a)), (''access_level'', JStr (accAccessLevel a)),
           (''privilege_set'', JStr (accPrivilegeSet a)), (''privileges'', enc_Privileges (accPrivileges a)),
           (''site'', enc_BaseType (accSite a))]"

definition enc_Group :: "Group \<Rightarrow> json" where
  "enc_Group g =
     JObj [(''id'', JNum (ID g)), (''name'', JStr (Name g)), (''access_level'', JStr (grpAccessLevel g)),
           (''privilege_set'', JStr (grpPrivilegeSet g)), (''privileges'', enc_Privileges (grpPrivileges g)),
           (''site'', enc_BaseType (grpSite g)), (''members'', enc_slice enc_BaseType (grpMembers g))]"

definition enc_UserGroup :: "UserGroup \<Rightarrow> json" where
  "enc_UserGroup g =
     JObj [(''id'', JNum (ID g)), (''name'', JStr (Name g)), (''is_smart'', JBool (ugIsSmart g)),
           (''site'', enc_BaseType (ugSite g)), (''users'', enc_slice enc_User (ugUsers g))]"

definition enc_Account :: "Account \<Rightarrow> json" where
  "enc_Account a =
     JObj [(''id'', JStr (atID a)), (''username'', JStr (atUsername a)), (''realName'', JStr (atRealName a)),
           (''email'', JStr (atEmail a)), (''multiSiteAdmin'', JBool (atMultiSiteAdmin a)),
           (''accessLevel'', JStr (atAccessLevel a)), (''privilegeSet'', JStr (atPrivilegeSet a)),
           (''currentSiteId'', JStr (atCurrentSiteID a))]"

definition enc_TokenDetails :: "TokenDetails \<Rightarrow> json" where
  "enc_TokenDetails t =
     JObj [(''account'', enc_Account (tdAccount t)),
           (''sites'', enc_slice (\<lambda>(i, n). JObj [(''id'', JStr i), (''name'', JStr n)]) (tdSites t)),
           (''authenticationType'', JStr (tdAuthenticationType t))]"

definition enc_TokenResponse :: "TokenResponse \<Rightarrow> json" where
  "enc_TokenResponse t = JObj [(''token'', JStr (trToken t)), (''expires'', JStr (trExpires t))]"

subsection \<open>Well-formed values: every integer fits Go's int\<close>

definition ok_BaseType :: "'a BaseType_scheme \<Rightarrow> bool" where
  "ok_BaseType b \<longleftrightarrow> int64 (ID b)"

definition ok_User :: "User \<Rightarrow> bool" where
  "ok_User u \<longleftrightarrow> ok_BaseType u \<and> list_all ok_BaseType (userSites u)"

definition ok_UserAccount :: "UserAccount \<Rightarrow> bool" where
  "ok_UserAccount a \<longleftrightarrow> ok_BaseType a \<and> ok_BaseType (accSite a)"

definition ok_Group :: "Group \<Rightarrow> bool" where
  "ok_Group g \<longleftrightarrow> ok_BaseType g \<and> ok_BaseType (grpSite g) \<and> list_all ok_BaseType (grpMembers g)"

definition ok_UserGroup :: "UserGroup \<Rightarrow> bool" where
  "ok_UserGroup g \<longleftrightarrow> ok_BaseType g \<and> ok_BaseType (ugSite g) \<and> list_all ok_User (ugUsers g)"

lemmas ok_defs = ok_BaseType_def ok_User_def ok_UserAccount_def ok_Group_def ok_UserGroup_def

subsection \<open>Decoding undoes encoding\<close>

lemma fld_simps [simp]:
  "fst (fld n d get upd) = n"
  "snd (fld n d get upd) j x = (case d j (get x) of Inl e \<Rightarrow> Inl e | Inr v \<Rightarrow> Inr (upd (\<lambda>_. v) x))"
  by (simp_all add: fld_def)

lemma find_field_Cons [simp]: "find_field (fld k d get upd # fs) k = Some (snd (fld k d get upd))"
  by (simp add: find_field_def fld_def)

lemma dec_envelope_one [decode_rules]:
  "d j x = Inr v \<Longrightarrow> dec_envelope k d (JObj [(k, j)]) x = Inr v"
  by (simp add: dec_envelope_def dec_struct_obj)

lemma dec_enc_BaseType [decode_rules]: "ok_BaseType b \<Longrightarrow> dec_BaseType (enc_BaseType b) x = Inr b"
  by (cases b, cases x)
     (simp add: dec_BaseType_def enc_BaseType_def fields_BaseType_def dec_struct_obj find_field_def fld_def
        decode_rules ok_defs)

lemma dec_enc_site_entry [decode_rules]:
  "ok_BaseType b \<Longrightarrow> dec_site_entry (JObj [(''site'', enc_BaseType b)]) x = Inr b"
  by (simp add: dec_site_entry_def dec_struct_obj decode_rules)

lemma dec_enc_strings [decode_rules]: "dec_strings (enc_slice JStr xs) x = Inr xs"
  by (simp add: dec_strings_def decode_rules)

lemma dec_enc_strings_array [decode_rules]: "dec_strings (enc_array JStr xs) x = Inr xs"
  by (simp add: dec_strings_def decode_rules)

lemma dec_enc_User [decode_rules]: "ok_User u \<Longrightarrow> dec_User (enc_User u) x = Inr u"
  by (cases u, cases x)
     (simp add: dec_User_def enc_User_def fields_User_def dec_struct_obj find_field_def fld_def
        decode_rules ok_defs list_all_iff)

lemma dec_enc_Privileges [decode_rules]: "dec_Privileges (enc_Privileges p) x = Inr p"
  by (cases p, cases x)
     (simp add: dec_Privileges_def enc_Privileges_def fields_Privileges_def dec_struct_obj find_field_def
        fld_def decode_rules)

lemma dec_enc_UserAccount [decode_rules]: "ok_UserAccount a \<Longrightarrow> dec_UserAccount (enc_UserAccount a) x = Inr a"
  by (cases a, cases x)
     (simp add: dec_UserAccount_def enc_UserAccount_def fields_UserAccount_def dec_struct_obj find_field_def
        fld_def decode_rules ok_UserAccount_def, simp add: ok_BaseType_def decode_rules)

lemma dec_enc_Group [decode_rules]: "ok_Group g \<Longrightarrow> dec_Group (enc_Group g) x = Inr g"
  by (cases g, cases x)
     (simp add: dec_Group_def enc_Group_def fields_Group_def dec_struct_obj find_field_def
        fld_def decode_rules ok_Group_def list_all_iff, simp add: ok_BaseType_def decode_rules)

lemma dec_enc_UserGroup [decode_rules]: "ok_UserGroup g \<Longrightarrow> dec_UserGroup (enc_UserGroup g) x = Inr g"
  by (cases g, cases x)
     (simp add: dec_UserGroup_def enc_UserGroup_def fields_UserGroup_def dec_struct_obj find_field_def
        fld_def decode_rules ok_UserGroup_def list_all_iff, simp add: ok_BaseType_def decode_rules)

lemma dec_enc_Account [decode_rules]: "dec_struct fields_Account (enc_Account a) x = Inr a"
  by (cases a, cases x)
     (simp add: enc_Account_def fields_Account_def dec_struct_obj find_field_def fld_def decode_rules)

lemma dec_enc_TokenResponse [decode_rules]: "dec_TokenResponse (enc_TokenResponse t) x = Inr t"
  by (cases t, cases x)
     (simp add: dec_TokenResponse_def enc_TokenResponse_def dec_struct_obj find_field_def fld_def decode_rules)

lemma dec_enc_token_site:
  "dec_token_site ((\<lambda>(i, n). JObj [(''id'', JStr i), (''name'', JStr n)]) p) x = Inr p"
  by (cases p, cases x)
     (simp add: dec_token_site_def dec_struct_obj find_field_def fld_def decode_rules apfst_def apsnd_def)

lemma dec_enc_TokenDetails [decode_rules]: "dec_TokenDetails (enc_TokenDetails t) x = Inr t"
  by (cases t, cases x)
     (simp add: dec_TokenDetails_def enc_TokenDetails_def fields_TokenDetails_def dec_struct_obj find_field_def
        fld_def dec_enc_Account dec_slice_slice dec_enc_token_site dec_string_JStr)

end
