(* ===== verification/Http.thy ===== *)
theory Http
  imports Wire "HOL-Library.List_Lexorder" "HOL-Library.Char_ord"
begin

section \<open>Errors, HTTP exchanges and the response cache (baton-sdk pkg/uhttp, pkg/jamf/errors.go)\<close>

text \<open>
  The wrapper \<open>uhttp.BaseHttpClient\<close> between the Jamf client and the network: it answers a GET from
  its response cache when it can, maps every response outside 200..299 to a gRPC status error, and
  stores a GET answered with 200.  The network, the clock and the URL parser are the parameters of
  \<open>env\<close>; everything else is written out.
\<close>

subsection \<open>gRPC status codes and error values\<close>

datatype grpc_code =
    OK | Canceled | Unknown | InvalidArgument | DeadlineExceeded | NotFound | AlreadyExists
  | PermissionDenied | ResourceExhausted | FailedPrecondition | Aborted | OutOfRange
  | Unimplemented | Internal | Unavailable | DataLoss | Unauthenticated

text \<open>\<open>codes.Code\<close> is an unsigned number, and codes compare as numbers.\<close>

fun code_number :: "grpc_code \<Rightarrow> nat" where
  "code_number OK = 0"
| "code_number Canceled = 1"
| "code_number Unknown = 2"
| "code_number InvalidArgument = 3"
| "code_number DeadlineExceeded = 4"
| "code_number NotFound = 5"
| "code_number AlreadyExists = 6"
| "code_number PermissionDenied = 7"
| "code_number ResourceExhausted = 8"
| "code_number FailedPrecondition = 9"
| "code_number Aborted = 10"
| "code_number OutOfRange = 11"
| "code_number Unimplemented = 12"
| "code_number Internal = 13"
| "code_number Unavailable = 14"
| "code_number DataLoss = 15"
| "code_number Unauthenticated = 16"

lemma code_number_inj: "code_number a = code_number b \<longleftrightarrow> a = b"
  by (cases a; cases b) simp_all

instantiation grpc_code :: linorder
begin

definition less_eq_grpc_code :: "grpc_code \<Rightarrow> grpc_code \<Rightarrow> bool" where
  "less_eq_grpc_code a b \<longleftrightarrow> code_number a \<le> code_number b"

definition less_grpc_code :: "grpc_code \<Rightarrow> grpc_code \<Rightarrow> bool" where
  "less_grpc_code a b \<longleftrightarrow> code_number a < code_number b"

instance
  by standard (auto simp: less_eq_grpc_code_def less_grpc_code_def code_number_inj[symmetric])

end

text \<open>What can go wrong below HTTP, as \<open>wrapTransientNetworkError\<close> tells the cases apart.\<close>

datatype net_fault =
    UnexpectedEOF | BareEOF | ConnectionReset | ConnectionRefused | BrokenPipe | NetworkUnreachable
  | DnsTimeout | DnsTemporary | DnsNotFound | DnsOther | Http2Lost | UrlTimeout | UrlTemporary
  | NetTimeout | SocketTimeout | ContextDeadline | OtherFault string

text \<open>
  \<open>StatusError c es\<close> is a status error joined with further errors, \<open>WrapError m e\<close> is
  \<open>fmt.Errorf("m: %w", e)\<close>, the rest are errors without a status.
\<close>

datatype go_error =
    StatusError grpc_code "go_error list"
  | WrapError string go_error
  | PlainError string
  | FaultError net_fault
  | JsonError json_error int
  | ContentTypeError string int
  | BadURL string
  | AtoiError string
  | InvalidUTF8
  | UnknownPrivilegeSet string
  | PrivilegesWithoutCustom string
  | UnknownDevicePhase string
  | PanicError string

text \<open>\<open>status.Code\<close>: the code of the first status error found through the wrapping.\<close>

fun status_code :: "go_error \<Rightarrow> grpc_code" where
  "status_code (StatusError c _) = c"
| "status_code (WrapError _ e) = status_code e"
| "status_code _ = Unknown"

definition IsNotFoundError :: "go_error \<Rightarrow> bool" where
  "IsNotFoundError e \<longleftrightarrow> status_code e = NotFound"

definition IsAlreadyExistsError :: "go_error \<Rightarrow> bool" where
  "IsAlreadyExistsError e \<longleftrightarrow> status_code e = AlreadyExists"

fun wrapTransientNetworkError :: "net_fault \<Rightarrow> go_error" where
  "wrapTransientNetworkError UnexpectedEOF = StatusError Unavailable [FaultError UnexpectedEOF]"
| "wrapTransientNetworkError BareEOF = StatusError Unavailable [FaultError BareEOF]"
| "wrapTransientNetworkError ConnectionReset = StatusError Unavailable [FaultError ConnectionReset]"
| "wrapTransientNetworkError ConnectionRefused = StatusError Unavailable [FaultError ConnectionRefused]"
| "wrapTransientNetworkError BrokenPipe = StatusError Unavailable [FaultError BrokenPipe]"
| "wrapTransientNetworkError NetworkUnreachable = StatusError Unavailable [FaultError NetworkUnreachable]"
| "wrapTransientNetworkError DnsTimeout = StatusError DeadlineExceeded [FaultError DnsTimeout]"
| "wrapTransientNetworkError DnsTemporary = StatusError Unavailable [FaultError DnsTemporary]"
| "wrapTransientNetworkError DnsNotFound = StatusError InvalidArgument [FaultError DnsNotFound]"
| "wrapTransientNetworkError DnsOther = StatusError Unavailable [FaultError DnsOther]"
| "wrapTransientNetworkError Http2Lost = StatusError Unavailable [FaultError Http2Lost]"
| "wrapTransientNetworkError UrlTimeout = StatusError DeadlineExceeded [FaultError UrlTimeout]"
| "wrapTransientNetworkError UrlTemporary = StatusError Unavailable [FaultError UrlTemporary]"
| "wrapTransientNetworkError NetTimeout = StatusError DeadlineExceeded [FaultError NetTimeout]"
| "wrapTransientNetworkError SocketTimeout = StatusError DeadlineExceeded [FaultError SocketTimeout]"
| "wrapTransientNetworkError ContextDeadline = StatusError DeadlineExceeded []"
| "wrapTransientNetworkError (OtherFault m) = FaultError (OtherFault m)"

definition GrpcCodeFromHTTPStatus :: "int \<Rightarrow> grpc_code" where
  "GrpcCodeFromHTTPStatus st =
     (if st = 400 then InvalidArgument
      else if st = 408 then DeadlineExceeded
      else if st = 429 \<or> st = 502 \<or> st = 503 \<or> st = 504 then Unavailable
      else if st = 404 then NotFound
      else if st = 401 then Unauthenticated
      else if st = 403 then PermissionDenied
      else if st = 409 then AlreadyExists
      else if st = 501 then Unimplemented
      else if st \<ge> 500 \<and> st \<le> 599 then Unavailable
      else if st \<ge> 400 \<and> st \<le> 499 then InvalidArgument
      else Unknown)"

lemma Grpc_NotFound_iff: "GrpcCodeFromHTTPStatus st = NotFound \<longleftrightarrow> st = 404"
  by (simp add: GrpcCodeFromHTTPStatus_def)

lemma Grpc_AlreadyExists_iff: "GrpcCodeFromHTTPStatus st = AlreadyExists \<longleftrightarrow> st = 409"
  by (simp add: GrpcCodeFromHTTPStatus_def)

lemma Grpc_Unauthenticated_iff: "GrpcCodeFromHTTPStatus st = Unauthenticated \<longleftrightarrow> st = 401"
  by (simp add: GrpcCodeFromHTTPStatus_def)

lemma Grpc_not_OK: "GrpcCodeFromHTTPStatus st \<noteq> OK"
  by (simp add: GrpcCodeFromHTTPStatus_def)

lemma fault_codes:
  "status_code (wrapTransientNetworkError f) \<in> {Unavailable, DeadlineExceeded, InvalidArgument, Unknown}"
  by (cases f) auto

subsection \<open>Requests and responses\<close>

datatype http_method = GET | POST | DELETE | OtherMethod string

text \<open>
  A URL is its scheme and host, its decoded path and its query parameters.  The value of an
  \<open>Authorization\<close> header is either literal text or Basic credentials, held as the decoded
  \<open>user:password\<close> text.
\<close>

record url =
  uHost :: string
  uPath :: string
  uQuery :: "(string \<times> string) list"

datatype auth = NoAuth | AuthText string | AuthBasic string

datatype body = EmptyBody | JsonBody json | XmlBody xml | TextBody string

record http_request =
  rqMethod :: http_method
  rqURL :: url
  rqHeaders :: "(string \<times> string) list"
  rqAuth :: auth
  rqBody :: body

record http_response =
  rsStatus :: int
  rsContentType :: string
  rsBody :: body

definition header :: "http_request \<Rightarrow> string \<Rightarrow> string" where
  "header rq k = (case map_of (rqHeaders rq) k of None \<Rightarrow> [] | Some v \<Rightarrow> v)"

text \<open>\<open>CreateCacheKey\<close>, before it is hashed (the SHA-256 digest is identified with its input): the
  lower-cased path, the sorted parameters and the headers Accept, Content-Type, Cookie and Range.
  Neither the host nor the Authorization header is part of it.\<close>

definition CreateCacheKey :: "http_request \<Rightarrow> string" where
  "CreateCacheKey rq =
     to_lower (uPath (rqURL rq)) @ ''?''
     @ join ''&'' (sort (map (\<lambda>(k, v). k @ ''='' @ v) (uQuery (rqURL rq))))
     @ ''&headers=''
     @ join ''&'' (sort (map (\<lambda>(k, v). k @ ''='' @ v)
         (filter (\<lambda>(k, v). k \<in> set [''Accept'', ''Content-Type'', ''Cookie'', ''Range'']) (rqHeaders rq))))"

definition IsJSONContentType :: "string \<Rightarrow> bool" where
  "IsJSONContentType ct =
     (let c = trim_space (to_lower ct) in prefix ''application'' c \<and> contains ''json'' c)"

definition unmarshal :: "'a decoder \<Rightarrow> 'a \<Rightarrow> body \<Rightarrow> json_error + 'a" where
  "unmarshal d zero b = (case b of JsonBody j \<Rightarrow> d j zero | _ \<Rightarrow> Inl JsonSyntax)"

definition WithJSONResponse :: "'a decoder \<Rightarrow> 'a \<Rightarrow> http_response \<Rightarrow> go_error + 'a" where
  "WithJSONResponse d zero rs =
     (if \<not> IsJSONContentType (rsContentType rs) then Inl (ContentTypeError (rsContentType rs) (rsStatus rs))
      else case unmarshal d zero (rsBody rs) of
             Inl e \<Rightarrow> Inl (JsonError e (rsStatus rs)) | Inr a \<Rightarrow> Inr a)"

subsection \<open>The environment and the network state\<close>

text \<open>
  \<open>exchange\<close> is one HTTP exchange with the server, \<open>now\<close> reads the clock (nanoseconds), \<open>pause\<close> is
  \<open>time.Sleep\<close>, \<open>parseBase\<close> is \<open>url.Parse\<close> of the instance URL (host part and path segments),
  \<open>randInt\<close> is \<open>crypto/rand.Int\<close> for a positive bound (an error when the source fails), \<open>cacheTTL\<close> is the
  time-to-live of the in-memory cache, \<open>None\<close> for the no-op cache.  The default of the SDK is one
  hour.  The cache is not bounded in size here.
\<close>

record 'w env =
  exchange :: "http_request \<Rightarrow> 'w \<Rightarrow> (net_fault + http_response) \<times> 'w"
  now :: "'w \<Rightarrow> int"
  pause :: "int \<Rightarrow> 'w \<Rightarrow> 'w"
  parseBase :: "string \<Rightarrow> (string \<times> string list) option"
  randInt :: "int \<Rightarrow> 'w \<Rightarrow> (string + int) \<times> 'w"
  cacheTTL :: "int option"

record 'w net =
  netCache :: "string \<rightharpoonup> http_response \<times> int"
  netWorld :: 'w

definition clockNow :: "'w env \<Rightarrow> (('w, 'x) net_scheme, go_error, int) comp" where
  "clockNow E = bindE getE (\<lambda>s. returnE (now E (netWorld s)))"

definition sleep :: "'w env \<Rightarrow> int \<Rightarrow> (('w, 'x) net_scheme, go_error, unit) comp" where
  "sleep E d = updateE (\<lambda>s. s\<lparr>netWorld := pause E d (netWorld s)\<rparr>)"

definition send :: "'w env \<Rightarrow> http_request \<Rightarrow> (('w, 'x) net_scheme, go_error, http_response) comp" where
  "send E rq = (\<lambda>s. case exchange E rq (netWorld s) of
      (Inl f, w) \<Rightarrow> (Inl (wrapTransientNetworkError f), s\<lparr>netWorld := w\<rparr>)
    | (Inr rs, w) \<Rightarrow> (Inr rs, s\<lparr>netWorld := w\<rparr>))"

text \<open>\<open>GoCache.Get\<close> and \<open>GoCache.Set\<close>: an entry answers until its time-to-live has passed since it
  was written.\<close>

definition cacheGet :: "'w env \<Rightarrow> http_request \<Rightarrow> ('w, 'x) net_scheme \<Rightarrow> http_response option" where
  "cacheGet E rq s =
     (case cacheTTL E of None \<Rightarrow> None
      | Some ttl \<Rightarrow>
          (case netCache s (CreateCacheKey rq) of None \<Rightarrow> None
           | Some (rs, written) \<Rightarrow> if now E (netWorld s) < written + ttl then Some rs else None))"

definition cacheSet :: "'w env \<Rightarrow> http_request \<Rightarrow> http_response \<Rightarrow> ('w, 'x) net_scheme \<Rightarrow> ('w, 'x) net_scheme" where
  "cacheSet E rq rs s =
     (case cacheTTL E of None \<Rightarrow> s
      | Some _ \<Rightarrow> s\<lparr>netCache := (netCache s)(CreateCacheKey rq \<mapsto> (rs, now E (netWorld s)))\<rparr>)"

definition lookupE :: "'w env \<Rightarrow> http_request \<Rightarrow> (('w, 'x) net_scheme, go_error, http_response option) comp" where
  "lookupE E rq = bindE getE (\<lambda>s. returnE
     (if rqMethod rq = GET \<and> header rq ''Cache-Control'' \<noteq> ''no-cache'' then cacheGet E rq s else None))"

text \<open>\<open>BaseHttpClient.Do\<close> with one response option.\<close>

definition Do :: "'w env \<Rightarrow> http_request \<Rightarrow> (http_response \<Rightarrow> go_error + 'a) \<Rightarrow>
    (('w, 'x) net_scheme, go_error, http_response \<times> 'a) comp" where
  "Do E rq opt =
     bindE (lookupE E rq) (\<lambda>hit.
     bindE (case hit of Some rs \<Rightarrow> returnE rs | None \<Rightarrow> send E rq) (\<lambda>rs.
     if rsStatus rs < 200 \<or> rsStatus rs \<ge> 300
     then throwE (StatusError (GrpcCodeFromHTTPStatus (rsStatus rs))
                   (case opt rs of Inl e \<Rightarrow> [e] | Inr _ \<Rightarrow> []))
     else bindE (if rqMethod rq = GET \<and> rsStatus rs = 200 then updateE (cacheSet E rq rs) else returnE ()) (\<lambda>_.
          case opt rs of Inl e \<Rightarrow> throwE e | Inr a \<Rightarrow> returnE (rs, a))))"

text \<open>\<open>ClearCaches\<close> empties every cache of the process; the connector has one.\<close>

definition ClearCaches :: "(('w, 'x) net_scheme, go_error, unit) comp" where
  "ClearCaches = updateE (\<lambda>s. s\<lparr>netCache := Map.empty\<rparr>)"

definition no_option :: "http_response \<Rightarrow> go_error + unit" where
  "no_option rs = Inr ()"

lemma clockNow_run [simp]: "clockNow E s = (Inr (now E (netWorld s)), s)"
  by (simp add: clockNow_def)

lemma lookupE_run [simp]:
  "lookupE E rq s = (Inr (if rqMethod rq = GET \<and> header rq ''Cache-Control'' \<noteq> ''no-cache''
     then cacheGet E rq s else None), s)"
  by (simp add: lookupE_def)

lemma sleep_run [simp]: "sleep E d s = (Inr (), s\<lparr>netWorld := pause E d (netWorld s)\<rparr>)"
  by (simp add: sleep_def)

subsection \<open>What Do keeps\<close>

text \<open>A predicate on the network state that one exchange and one write of the cache keep is kept by
  \<open>Do\<close>: the rule every client operation inherits.\<close>

lemma keeps_send:
  "(\<And>s r w. P s \<Longrightarrow> exchange E rq (netWorld s) = (r, w) \<Longrightarrow> P (s\<lparr>netWorld := w\<rparr>)) \<Longrightarrow> keeps P (send E rq)"
  by (rule keepsI) (auto simp: send_def split: prod.splits sum.splits)

lemma keeps_Do:
  assumes "\<And>s r w. P s \<Longrightarrow> exchange E rq (netWorld s) = (r, w) \<Longrightarrow> P (s\<lparr>netWorld := w\<rparr>)"
    and "\<And>s rs. P s \<Longrightarrow> P (cacheSet E rq rs s)"
  shows "keeps P (Do E rq opt)"
  unfolding Do_def lookupE_def
  by (intro keeps_rules keeps_send keeps_updateE assms) auto

lemma cacheSet_more [simp]:
  "net.more (cacheSet E rq rs s) = net.more s" "netWorld (cacheSet E rq rs s) = netWorld s"
  by (auto simp: cacheSet_def split: option.splits)

lemma frames_Do_more: "frames net.more (Do E rq opt)"
  unfolding frames_keeps by (intro allI keeps_Do) auto

text \<open>A GET answered in the range 200..299, from the cache or from the network.\<close>

definition fetched :: "'w env \<Rightarrow> http_request \<Rightarrow> (('w, 'x) net_scheme, go_error, http_response) comp" where
  "fetched E rq = (\<lambda>s. (case cacheGet E rq s of Some rs \<Rightarrow> returnE rs | None \<Rightarrow> send E rq) s)"

lemma Do_get_run:
  assumes "rqMethod rq = GET" "header rq ''Cache-Control'' = []" "fetched E rq s = (Inr rs, t)"
    "200 \<le> rsStatus rs" "rsStatus rs < 300" "opt rs = Inr a"
  shows "Do E rq opt s = (Inr (rs, a), if rsStatus rs = 200 then cacheSet E rq rs t else t)"
proof -
  have "Do E rq opt s = bindE (fetched E rq) (\<lambda>rs.
     bindE (if rsStatus rs = 200 then updateE (cacheSet E rq rs) else returnE ()) (\<lambda>_.
          case opt rs of Inl e \<Rightarrow> throwE e | Inr a \<Rightarrow> returnE (rs, a))) s"
    using assms by (auto simp: Do_def bindE_def fetched_def)
  with assms show ?thesis by (simp add: bindE_def)
qed

text \<open>A cached GET is answered without the network.\<close>

lemma Do_cached:
  assumes "rqMethod rq = GET" "header rq ''Cache-Control'' \<noteq> ''no-cache''" "cacheGet E rq s = Some rs"
  shows "netWorld (snd (Do E rq opt s)) = netWorld s"
  using assms by (simp add: Do_def bindE_def split: sum.splits)

text \<open>What a 200 GET stores is what the next GET with the same key is answered with.\<close>

lemma cacheGet_cacheSet:
  "cacheTTL E = Some ttl \<Longrightarrow> 0 < ttl \<Longrightarrow> CreateCacheKey rq' = CreateCacheKey rq \<Longrightarrow>
   cacheGet E rq' (cacheSet E rq rs s) = Some rs"
  by (simp add: cacheGet_def cacheSet_def)

end
