(* ===== verification/Client.thy ===== *)
theory Client
  imports ModelsJson Http
begin

section \<open>The Jamf API client (pkg/jamf/client.go)\<close>

text \<open>
  The state \<open>conn\<close> extends the network state by the fields of \<open>Client\<close>.  A path template such as
  \<open>/JSSResource/users/id/%d\<close> is the list of its segments; \<open>url.PathEscape\<close> followed by
  \<open>url.Parse\<close> gives a segment back, so segments are kept in decoded form.
\<close>

record 'w conn = "'w net" +
  clToken :: string
  clInstanceURL :: string
  clLastKeepAlive :: int
  clUserName :: string
  clPassword :: string

subsection \<open>URLs\<close>

definition accountUrlPath :: "int \<Rightarrow> string list" where
  "accountUrlPath i = [''JSSResource'', ''accounts'', ''userid'', itoa i]"

definition accountUsernameUrlPath :: "string \<Rightarrow> string list" where
  "accountUsernameUrlPath n = [''JSSResource'', ''accounts'', ''username'', n]"

definition accountsUrlPath :: "string list" where
  "accountsUrlPath = [''JSSResource'', ''accounts'']"

definition authUrlPath :: "string list" where
  "authUrlPath = [''api'', ''v1'', ''auth'']"

definition groupUrlPath :: "int \<Rightarrow> string list" where
  "groupUrlPath i = [''JSSResource'', ''accounts'', ''groupid'', itoa i]"

definition sitesUrlPath :: "string list" where
  "sitesUrlPath = [''JSSResource'', ''sites'']"

definition tokenUrlPath :: "string list" where
  "tokenUrlPath = [''api'', ''v1'', ''auth'', ''token'']"

definition userGroupUrlPath :: "int \<Rightarrow> string list" where
  "userGroupUrlPath i = [''JSSResource'', ''usergroups'', ''id'', itoa i]"

definition userGroupsUrlPath :: "string list" where
  "userGroupsUrlPath = [''JSSResource'', ''usergroups'']"

definition userUrlPath :: "int \<Rightarrow> string list" where
  "userUrlPath i = [''JSSResource'', ''users'', ''id'', itoa i]"

definition userNameUrlPath :: "string \<Rightarrow> string list" where
  "userNameUrlPath n = [''JSSResource'', ''users'', ''name'', n]"

definition usersUrlPath :: "string list" where
  "usersUrlPath = [''JSSResource'', ''users'']"

definition keepAliveUrlPath :: "string list" where
  "keepAliveUrlPath = [''api'', ''v1'', ''auth'', ''keep-alive'']"

definition privilegesUrlPath :: "string list" where
  "privilegesUrlPath = [''api'', ''v1'', ''api-role-privileges'']"

definition newResourceID :: int where
  "newResourceID = 0"

text \<open>\<open>url.JoinPath\<close>: the segments of both parts, cleaned of empty, \<open>.\<close> and \<open>..\<close> elements; a final
  empty segment keeps the trailing slash.\<close>

fun clean_path :: "string list \<Rightarrow> string list \<Rightarrow> string list" where
  "clean_path acc [] = rev acc"
| "clean_path acc (s # ss) =
     (if s = [] \<or> s = ''.'' then clean_path acc ss
      else if s = ''..'' then clean_path (case acc of [] \<Rightarrow> [] | _ # a \<Rightarrow> a) ss
      else clean_path (s # acc) ss)"

definition render_path :: "string list \<Rightarrow> string" where
  "render_path ss = concat (map (\<lambda>s. CHR ''/'' # s) ss)"

definition join_path :: "string list \<Rightarrow> string list \<Rightarrow> string" where
  "join_path base segs =
     render_path (clean_path [] (base @ segs) @ (if segs \<noteq> [] \<and> last segs = [] then [[]] else []))"

text \<open>Segments that cleaning leaves alone.\<close>

lemma clean_path_plain:
  "list_all (\<lambda>s. s \<noteq> [] \<and> s \<noteq> ''.'' \<and> s \<noteq> ''..'') segs \<Longrightarrow> clean_path acc segs = rev acc @ segs"
  by (induction segs arbitrary: acc) auto

lemma clean_path_append:
  "list_all (\<lambda>s. s \<noteq> [] \<and> s \<noteq> ''.'' \<and> s \<noteq> ''..'') segs \<Longrightarrow> clean_path acc (base @ segs) = clean_path acc base @ segs"
  by (induction base arbitrary: acc) (auto simp: clean_path_plain)

lemma join_path_plain:
  "list_all (\<lambda>s. s \<noteq> [] \<and> s \<noteq> ''.'' \<and> s \<noteq> ''..'') segs \<Longrightarrow>
   join_path base segs = render_path (clean_path [] base) @ render_path segs"
proof -
  assume a: "list_all (\<lambda>s. s \<noteq> [] \<and> s \<noteq> ''.'' \<and> s \<noteq> ''..'') segs"
  then have "\<not> (segs \<noteq> [] \<and> last segs = [])"
    unfolding list_all_iff using last_in_set by blast
  then show ?thesis
    unfolding join_path_def clean_path_append[OF a] by (simp add: render_path_def)
qed

definition getUrl :: "'w env \<Rightarrow> string list \<Rightarrow> (('w, 'x) conn_scheme, go_error, url) comp" where
  "getUrl E path =
     bindE getE (\<lambda>s. case parseBase E (clInstanceURL s) of
        None \<Rightarrow> throwE (BadURL (clInstanceURL s))
      | Some (host, base) \<Rightarrow> returnE \<lparr>uHost = host, uPath = join_path base path, uQuery = []\<rparr>)"

subsection \<open>NewClient, tokens and the keep-alive\<close>

definition NewClient :: "'w env \<Rightarrow> (string \<rightharpoonup> http_response \<times> int) \<Rightarrow> 'w \<Rightarrow> string \<Rightarrow> string \<Rightarrow> string \<Rightarrow> string \<Rightarrow> 'w conn" where
  "NewClient E cache w user pass tok instance_url =
     \<lparr>netCache = cache, netWorld = w, clToken = tok, clInstanceURL = instance_url,
      clLastKeepAlive = now E w, clUserName = user, clPassword = pass\<rparr>"

definition SetBearerToken :: "'w env \<Rightarrow> string \<Rightarrow> (('w, 'x) conn_scheme, go_error, unit) comp" where
  "SetBearerToken E tok = updateE (\<lambda>s. s\<lparr>clLastKeepAlive := now E (netWorld s), clToken := tok\<rparr>)"

definition bearer :: "string \<Rightarrow> auth" where
  "bearer tok = AuthText (''Bearer '' @ tok)"

definition acceptJSON :: "string \<times> string" where
  "acceptJSON = (''Accept'', ''application/json'')"

definition keepAliveRequest :: "url \<Rightarrow> string \<Rightarrow> http_request" where
  "keepAliveRequest u tok =
     \<lparr>rqMethod = POST, rqURL = u, rqHeaders = [acceptJSON, (''Content-Type'', ''application/json'')],
      rqAuth = bearer tok, rqBody = EmptyBody\<rparr>"

definition five_minutes :: int where
  "five_minutes = 5 * 60 * 10 ^ 9"

definition keepAliveToken :: "'w env \<Rightarrow> (('w, 'x) conn_scheme, go_error, unit) comp" where
  "keepAliveToken E =
     bindE getE (\<lambda>s.
     if clToken s = [] then throwE (PlainError ''token is empty'')
     else if now E (netWorld s) - clLastKeepAlive s < five_minutes then returnE ()
     else
       bindE (getUrl E keepAliveUrlPath) (\<lambda>u.
       bindE (Do E (keepAliveRequest u (clToken s)) (WithJSONResponse dec_TokenResponse zero_TokenResponse)) (\<lambda>(rs, t).
       updateE (\<lambda>s. s\<lparr>clToken := trToken t, clLastKeepAlive := now E (netWorld s)\<rparr>))))"

definition tokenRequest :: "url \<Rightarrow> string \<Rightarrow> string \<Rightarrow> http_request" where
  "tokenRequest u user pass =
     \<lparr>rqMethod = POST, rqURL = u, rqHeaders = [acceptJSON, (''Content-Type'', ''application/json'')],
      rqAuth = AuthBasic (user @ '':'' @ pass), rqBody = EmptyBody\<rparr>"

definition CreateBearerToken :: "'w env \<Rightarrow> string \<Rightarrow> string \<Rightarrow> (('w, 'x) conn_scheme, go_error, string) comp" where
  "CreateBearerToken E user pass =
     bindE (getUrl E tokenUrlPath) (\<lambda>u.
     bindE (Do E (tokenRequest u user pass) (WithJSONResponse dec_TokenResponse zero_TokenResponse)) (\<lambda>(rs, t).
     returnE (trToken t)))"

subsection \<open>doRequestWithMethod\<close>

text \<open>A request carries the token of the moment; a body is sent as XML.  The \<open>target\<close> is what reads
  the response body, \<open>nil_target\<close> when the caller passed nil.\<close>

definition apiRequest :: "http_method \<Rightarrow> url \<Rightarrow> xml option \<Rightarrow> string \<Rightarrow> http_request" where
  "apiRequest meth u reqBody tok =
     \<lparr>rqMethod = meth, rqURL = u,
      rqHeaders = acceptJSON # (case reqBody of None \<Rightarrow> [] | Some _ \<Rightarrow> [(''Content-Type'', ''application/xml'')]),
      rqAuth = bearer tok,
      rqBody = (case reqBody of None \<Rightarrow> EmptyBody | Some x \<Rightarrow> XmlBody x)\<rparr>"

definition nil_target :: "body \<Rightarrow> json_error + unit" where
  "nil_target b = Inr ()"

definition read_target :: "(body \<Rightarrow> json_error + 'a) \<Rightarrow> http_response \<Rightarrow> go_error + 'a" where
  "read_target target rs =
     (case target (rsBody rs) of
        Inl e \<Rightarrow> Inl (WrapError ''failed to unmarshal json response'' (JsonError e (rsStatus rs)))
      | Inr a \<Rightarrow> Inr a)"

definition attempt :: "'w env \<Rightarrow> http_method \<Rightarrow> url \<Rightarrow> xml option \<Rightarrow> (('w, 'x) conn_scheme, go_error, http_response) comp" where
  "attempt E meth u reqBody =
     bindE getE (\<lambda>s. bindE (Do E (apiRequest meth u reqBody (clToken s)) no_option) (\<lambda>(rs, _). returnE rs))"

text \<open>The \<open>goto GotoRetry\<close>: after the first 401 a new token is made and the request is sent once
  more; \<open>firstTry\<close> is what makes the loop end.\<close>

function gotoRetry :: "'w env \<Rightarrow> http_method \<Rightarrow> url \<Rightarrow> xml option \<Rightarrow> (body \<Rightarrow> json_error + 'a) \<Rightarrow> bool \<Rightarrow>
    (('w, 'x) conn_scheme, go_error, 'a) comp" where
  "gotoRetry E meth u reqBody target firstTry =
     bindE (tryE (attempt E meth u reqBody)) (\<lambda>r.
     case r of
       Inl e \<Rightarrow>
         if status_code e = Unauthenticated \<and> firstTry then
           bindE getE (\<lambda>s.
           bindE (CreateBearerToken E (clUserName s) (clPassword s)) (\<lambda>tok.
           bindE (SetBearerToken E tok) (\<lambda>_.
           gotoRetry E meth u reqBody target False)))
         else throwE e
     | Inr rs \<Rightarrow> liftE (read_target target rs))"
  by pat_completeness auto
termination
  by (relation "measure (\<lambda>(E, meth, u, reqBody, target, firstTry). if firstTry then 1 else 0)") auto

declare gotoRetry.simps [simp del]

lemma gotoRetry_False:
  "gotoRetry E meth u reqBody target False =
     bindE (attempt E meth u reqBody) (\<lambda>rs. liftE (read_target target rs))"
  by (subst gotoRetry.simps) (auto simp: comp_defs fun_eq_iff split: prod.splits sum.splits)

text \<open>Only an Unauthenticated answer to the first attempt is retried.\<close>

lemma gotoRetry_first:
  assumes "attempt E meth u reqBody s = (r, s')"
    and "\<And>e. r = Inl e \<Longrightarrow> status_code e \<noteq> Unauthenticated"
  shows "gotoRetry E meth u reqBody target True s =
     (case r of Inl e \<Rightarrow> Inl e | Inr rs \<Rightarrow> read_target target rs, s')"
  using assms by (subst gotoRetry.simps) (auto split: sum.splits)

lemma gotoRetry_again:
  assumes "attempt E meth u reqBody s = (Inl e, s')" "status_code e = Unauthenticated"
  shows "gotoRetry E meth u reqBody target True s =
     bindE (CreateBearerToken E (clUserName s') (clPassword s')) (\<lambda>tok.
     bindE (SetBearerToken E tok) (\<lambda>_. gotoRetry E meth u reqBody target False)) s'"
  using assms by (subst gotoRetry.simps) simp

definition doRequestWithMethod :: "'w env \<Rightarrow> http_method \<Rightarrow> url \<Rightarrow> xml option \<Rightarrow> (body \<Rightarrow> json_error + 'a) \<Rightarrow>
    (('w, 'x) conn_scheme, go_error, 'a) comp" where
  "doRequestWithMethod E meth u reqBody target =
     bindE (keepAliveToken E) (\<lambda>_. gotoRetry E meth u reqBody target True)"

definition doRequest :: "'w env \<Rightarrow> url \<Rightarrow> (body \<Rightarrow> json_error + 'a) \<Rightarrow> (('w, 'x) conn_scheme, go_error, 'a) comp" where
  "doRequest E u target = doRequestWithMethod E GET u None target"

definition logBody :: "string \<Rightarrow> nat \<Rightarrow> string" where
  "logBody txt lim = (if lim < length txt then take lim txt @ '' ...'' else txt)"

subsection \<open>The operations\<close>

text \<open>Every GET operation has the same shape: the URL, the request, the decoded envelope.\<close>

definition fetch :: "'w env \<Rightarrow> string list \<Rightarrow> 'a decoder \<Rightarrow> 'a \<Rightarrow> (('w, 'x) conn_scheme, go_error, 'a) comp" where
  "fetch E path d zero = bindE (getUrl E path) (\<lambda>u. doRequest E u (unmarshal d zero))"

definition GetTokenDetails :: "'w env \<Rightarrow> (('w, 'x) conn_scheme, go_error, TokenDetails) comp" where
  "GetTokenDetails E = fetch E authUrlPath dec_TokenDetails zero_TokenDetails"

definition getBaseUsers :: "'w env \<Rightarrow> (('w, 'x) conn_scheme, go_error, BaseType list) comp" where
  "getBaseUsers E = fetch E usersUrlPath dec_UsersResponse []"

definition getUserDetails :: "'w env \<Rightarrow> int \<Rightarrow> (('w, 'x) conn_scheme, go_error, User) comp" where
  "getUserDetails E userId = fetch E (userUrlPath userId) dec_UserResponse zero_User"

definition getBaseAccounts :: "'w env \<Rightarrow> (('w, 'x) conn_scheme, go_error, BaseAccount) comp" where
  "getBaseAccounts E = fetch E accountsUrlPath dec_AccountsResponse zero_BaseAccount"

definition GetGroupDetails :: "'w env \<Rightarrow> int \<Rightarrow> (('w, 'x) conn_scheme, go_error, Group) comp" where
  "GetGroupDetails E groupId = fetch E (groupUrlPath groupId) dec_GroupResponse zero_Group"

definition GetUserAccountDetails :: "'w env \<Rightarrow> int \<Rightarrow> (('w, 'x) conn_scheme, go_error, UserAccount) comp" where
  "GetUserAccountDetails E userId = fetch E (accountUrlPath userId) dec_UserAccountResponse zero_UserAccount"

definition GetSites :: "'w env \<Rightarrow> (('w, 'x) conn_scheme, go_error, Site list) comp" where
  "GetSites E = fetch E sitesUrlPath dec_SitesResponse []"

definition getBaseUserGroups :: "'w env \<Rightarrow> (('w, 'x) conn_scheme, go_error, UserGroup list) comp" where
  "getBaseUserGroups E = fetch E userGroupsUrlPath dec_UserGroupsResponse []"

definition GetUserGroupDetails :: "'w env \<Rightarrow> int \<Rightarrow> (('w, 'x) conn_scheme, go_error, UserGroup) comp" where
  "GetUserGroupDetails E userGroupId = fetch E (userGroupUrlPath userGroupId) dec_UserGroupResponse zero_UserGroup"

definition GetUsers :: "'w env \<Rightarrow> (('w, 'x) conn_scheme, go_error, User list) comp" where
  "GetUsers E = bindE (getBaseUsers E) (\<lambda>baseUsers. mapE (\<lambda>baseUser. getUserDetails E (ID baseUser)) baseUsers)"

definition GetUserGroups :: "'w env \<Rightarrow> (('w, 'x) conn_scheme, go_error, UserGroup list) comp" where
  "GetUserGroups E = bindE (getBaseUserGroups E) (\<lambda>base. mapE (\<lambda>g. GetUserGroupDetails E (ID g)) base)"

definition GetAccounts :: "'w env \<Rightarrow> (('w, 'x) conn_scheme, go_error, UserAccount list \<times> Group list) comp" where
  "GetAccounts E =
     bindE (getBaseAccounts E) (\<lambda>base.
     bindE (mapE (\<lambda>user. GetUserAccountDetails E (ID user)) (baUsers base)) (\<lambda>userAccounts.
     bindE (mapE (\<lambda>group. GetGroupDetails E (ID group)) (baGroups base)) (\<lambda>groups.
     returnE (userAccounts, groups))))"

definition GetUserByName :: "'w env \<Rightarrow> string \<Rightarrow> (('w, 'x) conn_scheme, go_error, User) comp" where
  "GetUserByName E name = fetch E (userNameUrlPath name) dec_UserResponse zero_User"

definition CreateUser :: "'w env \<Rightarrow> string \<Rightarrow> string \<Rightarrow> string \<Rightarrow> (('w, 'x) conn_scheme, go_error, unit) comp" where
  "CreateUser E name fullName email =
     bindE (getUrl E (userUrlPath newResourceID)) (\<lambda>u.
     doRequestWithMethod E POST u
       (Some (xml_UserCreateBody \<lparr>ucName = name, ucFullName = fullName, ucEmail = email\<rparr>)) nil_target)"

definition DeleteUser :: "'w env \<Rightarrow> int \<Rightarrow> (('w, 'x) conn_scheme, go_error, unit) comp" where
  "DeleteUser E userID =
     bindE (getUrl E (userUrlPath userID)) (\<lambda>u. doRequestWithMethod E DELETE u None nil_target)"

definition GetUserAccountByName :: "'w env \<Rightarrow> string \<Rightarrow> (('w, 'x) conn_scheme, go_error, UserAccount) comp" where
  "GetUserAccountByName E name = fetch E (accountUsernameUrlPath name) dec_UserAccountResponse zero_UserAccount"

definition CreateUserAccount :: "'w env \<Rightarrow> UserAccountCreateBody \<Rightarrow> (('w, 'x) conn_scheme, go_error, unit) comp" where
  "CreateUserAccount E account =
     bindE (getUrl E (accountUrlPath newResourceID)) (\<lambda>u.
     doRequestWithMethod E POST u (Some (xml_UserAccountCreateBody account)) nil_target)"

definition DeleteUserAccount :: "'w env \<Rightarrow> int \<Rightarrow> (('w, 'x) conn_scheme, go_error, unit) comp" where
  "DeleteUserAccount E accountID =
     bindE (getUrl E (accountUrlPath accountID)) (\<lambda>u. doRequestWithMethod E DELETE u None nil_target)"

definition GetPrivileges :: "'w env \<Rightarrow> (('w, 'x) conn_scheme, go_error, string list) comp" where
  "GetPrivileges E = fetch E privilegesUrlPath dec_PrivilegesResponse []"

subsection \<open>What every operation keeps\<close>

lemma token_fields_commute:
  "s\<lparr>clLastKeepAlive := k, clToken := t\<rparr> = s\<lparr>clToken := t, clLastKeepAlive := k\<rparr>"
  by (cases s) simp

text \<open>
  The contract of a property of the connection: one exchange, one write of the response cache and
  one change of the token keep it.  Under it every client operation keeps it; the proofs are the
  same for all of them and are done once here.
\<close>

locale conn_inv =
  fixes E :: "'w env"
    and P :: "('w, 'x) conn_scheme \<Rightarrow> bool"
  assumes exchange_keeps: "P s \<Longrightarrow> exchange E rq (netWorld s) = (r, w) \<Longrightarrow> P (s\<lparr>netWorld := w\<rparr>)"
    and cache_keeps: "P s \<Longrightarrow> P (cacheSet E rq rs s)"
    and token_keeps: "P s \<Longrightarrow> P (s\<lparr>clToken := t, clLastKeepAlive := k\<rparr>)"
begin

lemma keeps_Do_conn: "keeps P (Do E rq opt)"
  by (rule keeps_Do) (auto intro: exchange_keeps cache_keeps)

lemma keeps_getUrl: "keeps P (getUrl E path)"
  unfolding getUrl_def by (intro keeps_rules)

lemma keeps_keepAliveToken: "keeps P (keepAliveToken E)"
  unfolding keepAliveToken_def
  by (intro keeps_rules keeps_Do_conn keeps_getUrl keeps_updateE token_keeps)

lemma keeps_CreateBearerToken: "keeps P (CreateBearerToken E u p)"
  unfolding CreateBearerToken_def by (intro keeps_rules keeps_Do_conn keeps_getUrl)

lemma keeps_SetBearerToken: "keeps P (SetBearerToken E t)"
  unfolding SetBearerToken_def
  by (rule keeps_updateE) (simp add: token_fields_commute token_keeps)

lemma keeps_attempt: "keeps P (attempt E meth u b)"
  unfolding attempt_def by (intro keeps_rules keeps_Do_conn)

lemma keeps_gotoRetry_last: "keeps P (gotoRetry E meth u b tg False)"
  unfolding gotoRetry_False by (intro keeps_rules keeps_attempt)

lemma keeps_gotoRetry: "keeps P (gotoRetry E meth u b tg True)"
  by (subst gotoRetry.simps)
     (intro keeps_rules keeps_attempt keeps_CreateBearerToken keeps_SetBearerToken keeps_gotoRetry_last)

lemma keeps_doRequestWithMethod: "keeps P (doRequestWithMethod E meth u b tg)"
  unfolding doRequestWithMethod_def by (intro keeps_rules keeps_keepAliveToken keeps_gotoRetry)

lemma keeps_fetch: "keeps P (fetch E path d z)"
  unfolding fetch_def doRequest_def by (intro keeps_rules keeps_getUrl keeps_doRequestWithMethod)

lemma keeps_gets:
  "keeps P (GetTokenDetails E)" "keeps P (getBaseUsers E)" "keeps P (getUserDetails E i)"
  "keeps P (getBaseAccounts E)" "keeps P (GetGroupDetails E i)" "keeps P (GetUserAccountDetails E i)"
  "keeps P (GetSites E)" "keeps P (getBaseUserGroups E)" "keeps P (GetUserGroupDetails E i)"
  "keeps P (GetUserByName E n)" "keeps P (GetUserAccountByName E n)" "keeps P (GetPrivileges E)"
  unfolding GetTokenDetails_def getBaseUsers_def getUserDetails_def getBaseAccounts_def
    GetGroupDetails_def GetUserAccountDetails_def GetSites_def getBaseUserGroups_def
    GetUserGroupDetails_def GetUserByName_def GetUserAccountByName_def GetPrivileges_def
  by (rule keeps_fetch)+

lemma keeps_lists: "keeps P (GetUsers E)" "keeps P (GetUserGroups E)" "keeps P (GetAccounts E)"
  unfolding GetUsers_def GetUserGroups_def GetAccounts_def
  by (intro keeps_rules keeps_gets)+

lemma keeps_writes:
  "keeps P (CreateUser E n f e)" "keeps P (DeleteUser E i)"
  "keeps P (CreateUserAccount E a)" "keeps P (DeleteUserAccount E i)"
  unfolding CreateUser_def DeleteUser_def CreateUserAccount_def DeleteUserAccount_def
  by (intro keeps_rules keeps_getUrl keeps_doRequestWithMethod)+

lemmas keeps_ops = keeps_gets keeps_lists keeps_writes keeps_doRequestWithMethod keeps_fetch

end

text \<open>The credentials and the instance URL are such a property: no operation changes them.\<close>

definition credentials :: "('w, 'x) conn_scheme \<Rightarrow> string \<times> string \<times> string" where
  "credentials s = (clUserName s, clPassword s, clInstanceURL s)"

lemma credentials_net [simp]:
  "credentials (s\<lparr>netWorld := w\<rparr>) = credentials s"
  "credentials (s\<lparr>netCache := c\<rparr>) = credentials s"
  "credentials (s\<lparr>clToken := t, clLastKeepAlive := k\<rparr>) = credentials s"
  "credentials (cacheSet E rq rs s) = credentials s"
  by (simp_all add: credentials_def cacheSet_def split: option.splits)

interpretation creds: conn_inv E "\<lambda>s. credentials s = c" for E c
  by unfold_locales auto

subsection \<open>What a request sends\<close>

text \<open>The same environment, with every request that reaches the server written to a log.\<close>

definition logged :: "'w env \<Rightarrow> ('w \<times> http_request list) env" where
  "logged E =
     \<lparr>exchange = (\<lambda>rq (w, l). case exchange E rq w of (r, w') \<Rightarrow> (r, (w', l @ [rq]))),
      now = (\<lambda>(w, l). now E w),
      pause = (\<lambda>d (w, l). (pause E d w, l)),
      parseBase = parseBase E,
      randInt = (\<lambda>n (w, l). case randInt E n w of (r, w') \<Rightarrow> (r, (w', l))),
      cacheTTL = cacheTTL E\<rparr>"

definition wlog :: "('w \<times> http_request list, 'x) net_scheme \<Rightarrow> http_request list" where
  "wlog s = snd (netWorld s)"

lemma send_logged: "wlog (snd (send (logged E) rq s)) = wlog s @ [rq]"
  by (auto simp: send_def logged_def wlog_def split: prod.splits sum.splits)

lemma wlog_cacheSet [simp]: "wlog (cacheSet E rq rs s) = wlog s"
  by (simp add: wlog_def)

lemma Do_logged:
  "Do (logged E) rq opt s = (r, s') \<Longrightarrow> wlog s' = wlog s \<or> wlog s' = wlog s @ [rq]"
  using send_logged[of E rq s]
  by (auto simp: Do_def bindE_def split: prod.splits sum.splits if_splits option.splits)

lemma Do_logged_write:
  "rqMethod rq \<noteq> GET \<Longrightarrow> Do (logged E) rq opt s = (r, s') \<Longrightarrow> wlog s' = wlog s @ [rq]"
  using send_logged[of E rq s]
  by (auto simp: Do_def bindE_def split: prod.splits sum.splits if_splits option.splits)

lemma cacheSet_conn [simp]:
  "clToken (cacheSet E rq rs s) = clToken s" "clLastKeepAlive (cacheSet E rq rs s) = clLastKeepAlive s"
  by (auto simp: cacheSet_def split: option.splits)

lemma Do_token: "Do E rq opt s = (r, s') \<Longrightarrow> clToken s' = clToken s"
proof (rule keepsD[of "\<lambda>x. clToken x = clToken s"])
  show "keeps (\<lambda>x. clToken x = clToken s) (Do E rq opt)"
    by (rule keeps_Do) auto
qed auto

lemma getUrl_state [simp]: "getUrl E path s = (r, s') \<Longrightarrow> s' = s"
  by (auto simp: getUrl_def split: option.splits prod.splits)

lemma attempt_logged:
  assumes "attempt (logged E) meth u b s = (r, s')"
  shows "wlog s' = wlog s \<or> wlog s' = wlog s @ [apiRequest meth u b (clToken s)]"
    and "meth \<noteq> GET \<Longrightarrow> wlog s' = wlog s @ [apiRequest meth u b (clToken s)]"
    and "clToken s' = clToken s"
  using assms Do_logged[of E "apiRequest meth u b (clToken s)" no_option s]
    Do_logged_write[of "apiRequest meth u b (clToken s)" E no_option s]
    Do_token[of "logged E" "apiRequest meth u b (clToken s)" no_option s]
  by (auto simp: attempt_def bindE_def apiRequest_def split: prod.splits sum.splits)

lemma CreateBearerToken_logged:
  assumes "CreateBearerToken (logged E) us pw s = (r, s')"
  shows "(wlog s' = wlog s \<or> (\<exists>v. wlog s' = wlog s @ [tokenRequest v us pw])) \<and> clToken s' = clToken s"
proof (cases "getUrl (logged E) tokenUrlPath s")
  case (Pair v t)
  then have [simp]: "t = s" by simp
  show ?thesis
  proof (cases v)
    case (Inr w)
    obtain q t2 where d: "Do (logged E) (tokenRequest w us pw) (WithJSONResponse dec_TokenResponse zero_TokenResponse) s = (q, t2)"
      by fastforce
    with assms Pair Inr have "s' = t2"
      by (auto simp: CreateBearerToken_def bindE_def split: sum.splits prod.splits)
    with Do_logged[OF d] Do_token[OF d] show ?thesis by auto
  qed (use assms Pair in \<open>auto simp: CreateBearerToken_def\<close>)
qed

lemma keepAliveToken_logged:
  assumes "keepAliveToken (logged E) s = (r, s')"
  shows "(wlog s' = wlog s \<and> clToken s' = clToken s) \<or> (\<exists>v. wlog s' = wlog s @ [keepAliveRequest v (clToken s)])"
proof (cases "clToken s = [] \<or> now (logged E) (netWorld s) - clLastKeepAlive s < five_minutes")
  case True
  with assms show ?thesis by (auto simp: keepAliveToken_def split: if_splits)
next
  case False
  show ?thesis
  proof (cases "getUrl (logged E) keepAliveUrlPath s")
    case (Pair v t)
    then have [simp]: "t = s" by simp
    show ?thesis
    proof (cases v)
      case (Inr w)
      obtain q t2 where d: "Do (logged E) (keepAliveRequest w (clToken s)) (WithJSONResponse dec_TokenResponse zero_TokenResponse) s = (q, t2)"
        by fastforce
      with assms Pair Inr False have "wlog s' = wlog t2"
        by (auto simp: keepAliveToken_def bindE_def wlog_def split: sum.splits prod.splits)
      with Do_logged_write[OF _ d] show ?thesis by (auto simp: keepAliveRequest_def)
    qed (use assms Pair False in \<open>auto simp: keepAliveToken_def\<close>)
  qed
qed

text \<open>The requests one attempt-and-retry may send, in their order.\<close>

definition retry_script :: "http_method \<Rightarrow> url \<Rightarrow> xml option \<Rightarrow> string \<Rightarrow> url \<Rightarrow> string \<Rightarrow> string \<Rightarrow> string \<Rightarrow> http_request list" where
  "retry_script meth u b t1 v us pw t2 =
     [apiRequest meth u b t1, tokenRequest v us pw, apiRequest meth u b t2]"

lemma SetBearerToken_run:
  "SetBearerToken E t s = (Inr (), s\<lparr>clLastKeepAlive := now E (netWorld s), clToken := t\<rparr>)"
  by (simp add: SetBearerToken_def)

lemma gotoRetry_last_logged:
  assumes "gotoRetry (logged E) meth u b tg False s = (r, s')"
  shows "\<exists>xs. wlog s' = wlog s @ xs \<and> subseq xs [apiRequest meth u b (clToken s)]"
proof -
  obtain q t where a: "attempt (logged E) meth u b s = (q, t)" by fastforce
  with assms have "s' = t" by (auto simp: gotoRetry_False bindE_def split: sum.splits)
  with attempt_logged(1)[OF a] show ?thesis by auto
qed

lemma subseq_take_1: "xs = [] \<or> xs = [a] \<Longrightarrow> subseq xs (a # ys)"
  by auto

lemma gotoRetry_logged:
  assumes "gotoRetry (logged E) meth u b tg True s = (r, s')"
  shows "\<exists>xs v t2. wlog s' = wlog s @ xs
    \<and> subseq xs (retry_script meth u b (clToken s) v (clUserName s) (clPassword s) t2)"
proof -
  obtain q s1 where a: "attempt (logged E) meth u b s = (q, s1)" by fastforce
  from attempt_logged(1)[OF a] obtain x1 where
    l1: "wlog s1 = wlog s @ x1" "x1 = [] \<or> x1 = [apiRequest meth u b (clToken s)]" by auto
  show ?thesis
  proof (cases "\<exists>e. q = Inl e \<and> status_code e = Unauthenticated")
    case False
    then have "s' = s1" using assms gotoRetry_first[OF a, of tg] by auto
    with l1 show ?thesis unfolding retry_script_def by (metis subseq_take_1)
  next
    case True
    then obtain e where e: "q = Inl e" "status_code e = Unauthenticated" by blast
    let ?us = "clUserName s" and ?pw = "clPassword s"
    have "credentials s1 = credentials s"
      by (rule keepsD[OF creds.keeps_attempt refl a])
    then have [simp]: "clUserName s1 = ?us" "clPassword s1 = ?pw" by (simp_all add: credentials_def)
    obtain q2 s2 where c: "CreateBearerToken (logged E) ?us ?pw s1 = (q2, s2)" by fastforce
    from CreateBearerToken_logged[OF c] obtain x2 v where
      l2: "wlog s2 = wlog s1 @ x2" "x2 = [] \<or> x2 = [tokenRequest v ?us ?pw]" by auto
    note again = gotoRetry_again[OF a[unfolded e(1)] e(2), of tg]
    show ?thesis
    proof (cases q2)
      case (Inl e2)
      with c assms again have "s' = s2" by simp
      with l1 l2 have "wlog s' = wlog s @ (x1 @ x2)
          \<and> subseq (x1 @ x2) (retry_script meth u b (clToken s) v ?us ?pw [])"
        by (auto simp: retry_script_def)
      then show ?thesis by blast
    next
      case (Inr tok)
      let ?s3 = "s2\<lparr>clLastKeepAlive := now (logged E) (netWorld s2), clToken := tok\<rparr>"
      from Inr c assms again have "gotoRetry (logged E) meth u b tg False ?s3 = (r, s')"
        by (simp add: SetBearerToken_run bindE_def)
      from gotoRetry_last_logged[OF this] obtain x3 where
        l3: "wlog s' = wlog s2 @ x3" "subseq x3 [apiRequest meth u b tok]"
        by (auto simp: wlog_def)
      have "subseq x1 [apiRequest meth u b (clToken s)]" "subseq x2 [tokenRequest v ?us ?pw]"
        using l1(2) l2(2) by auto
      with l3(2) have "subseq (x1 @ x2 @ x3) ([apiRequest meth u b (clToken s)]
          @ [tokenRequest v ?us ?pw] @ [apiRequest meth u b tok])"
        by (intro list_emb_append_mono)
      with l1(1) l2(1) l3(1) have "wlog s' = wlog s @ (x1 @ x2 @ x3)
          \<and> subseq (x1 @ x2 @ x3) (retry_script meth u b (clToken s) v ?us ?pw tok)"
        by (simp add: retry_script_def)
      then show ?thesis by blast
    qed
  qed
qed

text \<open>
  C10.  One API request sends at most four HTTP requests, in this order: at most one keep-alive with
  the token at hand; the request (with that token, when there was no keep-alive); one request for a
  new token with the client's own credentials; the request once more.
\<close>

theorem request_trace:
  "\<exists>ka xs w t1 v t2.
     wlog (snd (doRequestWithMethod (logged E) meth u b tg s)) = wlog s @ ka @ xs
     \<and> (ka = [] \<and> t1 = clToken s \<or> ka = [keepAliveRequest w (clToken s)])
     \<and> subseq xs (retry_script meth u b t1 v (clUserName s) (clPassword s) t2)"
proof -
  obtain q s1 where k: "keepAliveToken (logged E) s = (q, s1)" by fastforce
  have "credentials s1 = credentials s"
    by (rule keepsD[OF creds.keeps_keepAliveToken refl k])
  then have [simp]: "clUserName s1 = clUserName s" "clPassword s1 = clPassword s"
    by (simp_all add: credentials_def)
  from keepAliveToken_logged[OF k] obtain ka w where
    l1: "wlog s1 = wlog s @ ka"
      "ka = [] \<and> clToken s1 = clToken s \<or> ka = [keepAliveRequest w (clToken s)]" by auto
  show ?thesis
  proof (cases q)
    case (Inl e)
    with k l1 have "wlog (snd (doRequestWithMethod (logged E) meth u b tg s)) = wlog s @ ka @ []"
      by (simp add: doRequestWithMethod_def)
    then show ?thesis using l1(2) list_emb_Nil by blast
  next
    case (Inr x)
    obtain r s' where g: "gotoRetry (logged E) meth u b tg True s1 = (r, s')" by fastforce
    with k Inr have run: "doRequestWithMethod (logged E) meth u b tg s = (r, s')"
      by (simp add: doRequestWithMethod_def)
    from gotoRetry_logged[OF g] obtain xs v t2 where
      l2: "wlog s' = wlog s1 @ xs"
        "subseq xs (retry_script meth u b (clToken s1) v (clUserName s) (clPassword s) t2)" by auto
    have "wlog s' = wlog s @ ka @ xs" using l1(1) l2(1) by simp
    with l1(2) l2(2) show ?thesis unfolding run snd_conv by blast
  qed
qed

end
