(* ===== verification/Sdk.thy ===== *)
theory Sdk
  imports Http "HOL-Library.Log_Nat"
begin

section \<open>Resources, entitlements and grants (baton-sdk pkg/types)\<close>

text \<open>
  The SDK's constructors the resource types are written with: a resource is built from its id by
  the options in their order, each of which may fail; the profile goes through
  \<open>structpb.NewStruct\<close>, which refuses text that is not UTF-8 and turns integers into 64-bit floats.
  Only the fields the connector sets are kept.  The strings of a trait come out of
  \<open>encoding/json\<close>, so they are UTF-8 and packing the trait into an annotation does not panic.
\<close>

record ResourceId =
  ridType :: string
  ridResource :: string

datatype trait_kind = TRAIT_USER | TRAIT_GROUP | TRAIT_ROLE | TRAIT_MANAGED_DEVICE

datatype type_annotation = SkipEntitlementsAndGrants | OptInRequired

record ResourceType =
  rtId :: string
  rtDisplayName :: string
  rtTraits :: "trait_kind list"
  rtAnnotations :: "type_annotation list"

subsection \<open>Profiles\<close>

datatype profile_value =
    PNull
  | PBool bool
  | PNumber int
  | PFraction string
  | PString string
  | PList "profile_value list"
  | PStruct "(string \<times> profile_value) list"

type_synonym profile = "(string \<times> profile_value) list"

text \<open>\<open>float64(n)\<close> for an integer: 53 significant bits, ties to even.\<close>

definition float64 :: "int \<Rightarrow> int" where
  "float64 n =
     (let a = \<bar>n\<bar>; k = nat (bitlen a - 53) in
      if a < 2 ^ 53 then n
      else let q = a div 2 ^ k; r = a mod 2 ^ k; half = 2 ^ (k - 1);
               q' = (if half < r \<or> (half = r \<and> odd q) then q + 1 else q)
           in sgn n * (q' * 2 ^ k))"

lemma float64_small: "\<bar>n\<bar> < 2 ^ 53 \<Longrightarrow> float64 n = n"
  by (simp add: float64_def Let_def)

fun NewValue :: "profile_value \<Rightarrow> go_error + profile_value" where
  "NewValue (PString s) = (if utf8_valid s then Inr (PString s) else Inl InvalidUTF8)"
| "NewValue (PNumber n) = Inr (PNumber (float64 n))"
| "NewValue (PList vs) =
     (case map_err NewValue vs of Inl e \<Rightarrow> Inl e | Inr ws \<Rightarrow> Inr (PList ws))"
| "NewValue (PStruct kvs) =
     (case map_err (\<lambda>kv. if utf8_valid (fst kv) then
          (case NewValue (snd kv) of Inl e \<Rightarrow> Inl e | Inr w \<Rightarrow> Inr (fst kv, w)) else Inl InvalidUTF8) kvs of
        Inl e \<Rightarrow> Inl e | Inr ws \<Rightarrow> Inr (PStruct ws))"
| "NewValue v = Inr v"

definition NewStruct :: "profile \<Rightarrow> go_error + profile" where
  "NewStruct kvs =
     map_err (\<lambda>(k, v). if utf8_valid k then
        (case NewValue v of Inl e \<Rightarrow> Inl e | Inr w \<Rightarrow> Inr (k, w)) else Inl InvalidUTF8) kvs"

text \<open>A profile of valid strings and small integers goes through as it is.\<close>

definition plain_value :: "profile_value \<Rightarrow> bool" where
  "plain_value v = (case v of PString s \<Rightarrow> utf8_valid s | PNumber n \<Rightarrow> \<bar>n\<bar> < 2 ^ 53 | _ \<Rightarrow> False)"

lemma NewValue_plain: "plain_value v \<Longrightarrow> NewValue v = Inr v"
  by (cases v) (auto simp: plain_value_def float64_small)

lemma NewStruct_plain:
  "list_all (\<lambda>(k, v). utf8_valid k \<and> plain_value v) kvs \<Longrightarrow> NewStruct kvs = Inr kvs"
  by (induction kvs) (auto simp: NewStruct_def NewValue_plain)

subsection \<open>Traits\<close>

datatype Status = STATUS_UNSPECIFIED | STATUS_ENABLED | STATUS_DISABLED | STATUS_DELETED

datatype AccountType = ACCOUNT_TYPE_UNSPECIFIED | ACCOUNT_TYPE_HUMAN | ACCOUNT_TYPE_SERVICE | ACCOUNT_TYPE_SYSTEM

datatype DeviceType = DEVICE_TYPE_UNSPECIFIED | DEVICE_TYPE_DESKTOP | DEVICE_TYPE_LAPTOP
  | DEVICE_TYPE_TABLET | DEVICE_TYPE_MOBILE

datatype OsType = OS_TYPE_UNSPECIFIED | OS_TYPE_MACOS | OS_TYPE_IOS | OS_TYPE_IPADOS

datatype ManagementState = MANAGEMENT_STATE_UNSPECIFIED | MANAGEMENT_STATE_MANAGED

record DeviceOS =
  osType :: OsType
  osName :: string
  osVersion :: string
  osBuild :: string

record UserTrait =
  utEmails :: "(string \<times> bool) list"
  utStatus :: "Status option"
  utAccountType :: AccountType

record ManagedDeviceTrait =
  mdSerial :: string
  mdUdid :: string
  mdDeviceType :: DeviceType
  mdModel :: string
  mdVendor :: string
  mdOs :: "DeviceOS option"
  mdEncrypted :: "bool option"
  mdSupervised :: "bool option"
  mdManagementState :: ManagementState
  mdEnrolledAt :: "(int \<times> int) option"

datatype trait = TUser UserTrait | TGroup | TRole | TDevice ManagedDeviceTrait

fun kind_of :: "trait \<Rightarrow> trait_kind" where
  "kind_of (TUser _) = TRAIT_USER"
| "kind_of TGroup = TRAIT_GROUP"
| "kind_of TRole = TRAIT_ROLE"
| "kind_of (TDevice _) = TRAIT_MANAGED_DEVICE"

record Resource =
  resId :: ResourceId
  resDisplayName :: string
  resParent :: "ResourceId option"
  resProfile :: "profile option"
  resStatus :: "(Status \<times> string) option"
  resTraits :: "trait list"

text \<open>\<open>Annotations.Pick\<close> and \<open>Annotations.Update\<close> of a trait message.\<close>

definition pickTrait :: "trait_kind \<Rightarrow> Resource \<Rightarrow> trait option" where
  "pickTrait k r = List.find (\<lambda>t. kind_of t = k) (resTraits r)"

definition updateTrait :: "trait \<Rightarrow> Resource \<Rightarrow> Resource" where
  "updateTrait t r =
     (let same = (\<lambda>u. kind_of u = kind_of t) in
      r\<lparr>resTraits := (if list_ex same (resTraits r)
                      then map (\<lambda>u. if same u then t else u) (resTraits r)
                      else resTraits r @ [t])\<rparr>)"

subsection \<open>Resource options and constructors\<close>

type_synonym resource_option = "Resource \<Rightarrow> go_error + Resource"
type_synonym user_trait_option = "UserTrait \<Rightarrow> UserTrait"
type_synonym device_trait_option = "ManagedDeviceTrait \<Rightarrow> ManagedDeviceTrait"

definition WithParentResourceID :: "ResourceId option \<Rightarrow> resource_option" where
  "WithParentResourceID p r = Inr (r\<lparr>resParent := p\<rparr>)"

definition WithResourceProfile :: "profile \<Rightarrow> resource_option" where
  "WithResourceProfile p r =
     (case NewStruct p of Inl e \<Rightarrow> Inl e | Inr q \<Rightarrow> Inr (r\<lparr>resProfile := Some q\<rparr>))"

definition WithResourceStatus :: "Status \<Rightarrow> string \<Rightarrow> resource_option" where
  "WithResourceStatus st details r = Inr (r\<lparr>resStatus := Some (st, details)\<rparr>)"

definition WithEmail :: "string \<Rightarrow> bool \<Rightarrow> user_trait_option" where
  "WithEmail email primary ut =
     (if email = [] then ut else ut\<lparr>utEmails := utEmails ut @ [(email, primary)]\<rparr>)"

definition empty_UserTrait :: UserTrait where
  "empty_UserTrait = \<lparr>utEmails = [], utStatus = None, utAccountType = ACCOUNT_TYPE_UNSPECIFIED\<rparr>"

definition NewUserTrait :: "user_trait_option list \<Rightarrow> UserTrait" where
  "NewUserTrait opts =
     (let ut = fold (\<lambda>f t. f t) opts empty_UserTrait;
          ut = (if utStatus ut = None then ut\<lparr>utStatus := Some STATUS_ENABLED\<rparr> else ut)
      in if utAccountType ut = ACCOUNT_TYPE_UNSPECIFIED
         then ut\<lparr>utAccountType := ACCOUNT_TYPE_HUMAN\<rparr> else ut)"

definition syncUserTraitToResource :: "UserTrait \<Rightarrow> Resource \<Rightarrow> Resource" where
  "syncUserTraitToResource ut r =
     (case (utStatus ut, resStatus r) of
        (Some st, None) \<Rightarrow> r\<lparr>resStatus := Some (st, [])\<rparr>
      | _ \<Rightarrow> r)"

definition WithUserTrait :: "user_trait_option list \<Rightarrow> resource_option" where
  "WithUserTrait opts r =
     (let ut = (case pickTrait TRAIT_USER r of
                  Some (TUser u) \<Rightarrow> fold (\<lambda>f t. f t) opts u
                | _ \<Rightarrow> NewUserTrait opts)
      in Inr (syncUserTraitToResource ut (updateTrait (TUser ut) r)))"

definition WithGroupTrait :: resource_option where
  "WithGroupTrait r = Inr (updateTrait TGroup r)"

definition WithRoleTrait :: resource_option where
  "WithRoleTrait r = Inr (updateTrait TRole r)"

definition empty_ManagedDeviceTrait :: ManagedDeviceTrait where
  "empty_ManagedDeviceTrait =
     \<lparr>mdSerial = [], mdUdid = [], mdDeviceType = DEVICE_TYPE_UNSPECIFIED, mdModel = [], mdVendor = [],
      mdOs = None, mdEncrypted = None, mdSupervised = None,
      mdManagementState = MANAGEMENT_STATE_UNSPECIFIED, mdEnrolledAt = None\<rparr>"

definition WithManagedDeviceTrait :: "device_trait_option list \<Rightarrow> resource_option" where
  "WithManagedDeviceTrait opts r =
     (let t = (case pickTrait TRAIT_MANAGED_DEVICE r of Some (TDevice t) \<Rightarrow> t | _ \<Rightarrow> empty_ManagedDeviceTrait)
      in Inr (updateTrait (TDevice (fold (\<lambda>f t. f t) opts t)) r))"

definition NewResourceID :: "ResourceType \<Rightarrow> string \<Rightarrow> ResourceId" where
  "NewResourceID rt objectID = \<lparr>ridType = rtId rt, ridResource = objectID\<rparr>"

definition NewResource :: "string \<Rightarrow> ResourceType \<Rightarrow> string \<Rightarrow> resource_option list \<Rightarrow> go_error + Resource" where
  "NewResource name rt objectID opts =
     fold_err (\<lambda>f r. f r) opts
       \<lparr>resId = NewResourceID rt objectID, resDisplayName = name, resParent = None, resProfile = None,
        resStatus = None, resTraits = []\<rparr>"

definition NewUserResource :: "string \<Rightarrow> ResourceType \<Rightarrow> string \<Rightarrow> user_trait_option list \<Rightarrow> resource_option list \<Rightarrow> go_error + Resource" where
  "NewUserResource name rt objectID uopts opts = NewResource name rt objectID (opts @ [WithUserTrait uopts])"

definition NewGroupResource :: "string \<Rightarrow> ResourceType \<Rightarrow> string \<Rightarrow> resource_option list \<Rightarrow> go_error + Resource" where
  "NewGroupResource name rt objectID opts = NewResource name rt objectID (opts @ [WithGroupTrait])"

definition NewRoleResource :: "string \<Rightarrow> ResourceType \<Rightarrow> string \<Rightarrow> resource_option list \<Rightarrow> go_error + Resource" where
  "NewRoleResource name rt objectID opts = NewResource name rt objectID (opts @ [WithRoleTrait])"

definition NewManagedDeviceResource :: "string \<Rightarrow> ResourceType \<Rightarrow> string \<Rightarrow> device_trait_option list \<Rightarrow> resource_option list \<Rightarrow> go_error + Resource" where
  "NewManagedDeviceResource name rt objectID dopts opts =
     NewResource name rt objectID (opts @ [WithManagedDeviceTrait dopts])"

text \<open>No option changes the id: whatever resource comes out has the id it was asked for.\<close>

definition keeps_id :: "resource_option \<Rightarrow> bool" where
  "keeps_id f \<longleftrightarrow> (\<forall>r r'. f r = Inr r' \<longrightarrow> resId r' = resId r \<and> resDisplayName r' = resDisplayName r)"

lemma fold_err_keeps_id:
  "list_all keeps_id opts \<Longrightarrow> fold_err (\<lambda>f r. f r) opts r = Inr r' \<Longrightarrow>
   resId r' = resId r \<and> resDisplayName r' = resDisplayName r"
proof (induction opts arbitrary: r)
  case (Cons f opts)
  then obtain r1 where "f r = Inr r1" "fold_err (\<lambda>f r. f r) opts r1 = Inr r'"
    by (auto split: sum.splits)
  with Cons show ?case unfolding keeps_id_def list.pred_inject by metis
qed simp

lemma sync_id [simp]:
  "resId (syncUserTraitToResource ut r) = resId r"
  "resDisplayName (syncUserTraitToResource ut r) = resDisplayName r"
  by (simp_all add: syncUserTraitToResource_def split: option.splits)

lemma update_id [simp]:
  "resId (updateTrait t r) = resId r" "resDisplayName (updateTrait t r) = resDisplayName r"
  by (simp_all add: updateTrait_def Let_def)

lemma option_keeps_id [simp]:
  "keeps_id (WithParentResourceID p)" "keeps_id (WithResourceProfile q)" "keeps_id (WithResourceStatus st d)"
  "keeps_id (WithUserTrait us)" "keeps_id WithGroupTrait" "keeps_id WithRoleTrait"
  "keeps_id (WithManagedDeviceTrait ds)"
  by (auto simp: keeps_id_def WithParentResourceID_def WithResourceProfile_def WithResourceStatus_def
      WithUserTrait_def WithGroupTrait_def WithRoleTrait_def WithManagedDeviceTrait_def Let_def
      split: sum.splits)

lemma NewResource_id:
  "list_all keeps_id opts \<Longrightarrow> NewResource name rt objectID opts = Inr r \<Longrightarrow>
   resId r = NewResourceID rt objectID \<and> resDisplayName r = name"
  by (auto simp: NewResource_def dest: fold_err_keeps_id)

subsection \<open>SplitFullName\<close>

definition SplitFullName :: "string \<Rightarrow> string \<times> string" where
  "SplitFullName name =
     (case split_first (CHR '' '') name of (first, rest) \<Rightarrow> (first, case rest of None \<Rightarrow> [] | Some l \<Rightarrow> l))"

lemma SplitFullName_join:
  "SplitFullName n = (f, l) \<Longrightarrow>
   CHR '' '' \<notin> set f \<and> n = (if CHR '' '' \<in> set n then f @ CHR '' '' # l else f)"
  unfolding SplitFullName_def
  by (cases "split_first (CHR '' '') n") (auto dest: split_first_join split: option.splits)

lemma SplitFullName_utf8:
  "SplitFullName n = (f, l) \<Longrightarrow> utf8_valid f \<and> utf8_valid l \<longleftrightarrow> utf8_valid n"
proof -
  have sp: "byte_in 0 127 CHR '' ''" by (simp add: byte_in_def)
  assume "SplitFullName n = (f, l)"
  then show ?thesis
    unfolding SplitFullName_def
    by (cases "split_first (CHR '' '') n")
       (auto simp: utf8_valid_append_sep[OF sp] dest!: split_first_join split: option.splits)
qed

subsection \<open>Entitlements and grants\<close>

datatype purpose = PURPOSE_ASSIGNMENT | PURPOSE_PERMISSION

record Entitlement =
  enId :: string
  enDisplayName :: string
  enSlug :: string
  enDescription :: string
  enPurpose :: purpose
  enResource :: Resource
  enGrantableTo :: "ResourceType list"

type_synonym entitlement_option = "Entitlement \<Rightarrow> Entitlement"

definition WithGrantableTo :: "ResourceType list \<Rightarrow> entitlement_option" where
  "WithGrantableTo ts e = e\<lparr>enGrantableTo := ts\<rparr>"

definition WithDescription :: "string \<Rightarrow> entitlement_option" where
  "WithDescription d e = e\<lparr>enDescription := d\<rparr>"

definition WithDisplayName :: "string \<Rightarrow> entitlement_option" where
  "WithDisplayName d e = e\<lparr>enDisplayName := d\<rparr>"

definition NewEntitlementID :: "Resource \<Rightarrow> string \<Rightarrow> string" where
  "NewEntitlementID r permission =
     ridType (resId r) @ '':'' @ ridResource (resId r) @ '':'' @ permission"

definition new_entitlement :: "purpose \<Rightarrow> Resource \<Rightarrow> string \<Rightarrow> entitlement_option list \<Rightarrow> Entitlement" where
  "new_entitlement p r name opts =
     fold (\<lambda>f e. f e) opts
       \<lparr>enId = NewEntitlementID r name, enDisplayName = name, enSlug = name, enDescription = [],
        enPurpose = p, enResource = r, enGrantableTo = []\<rparr>"

definition NewAssignmentEntitlement :: "Resource \<Rightarrow> string \<Rightarrow> entitlement_option list \<Rightarrow> Entitlement" where
  "NewAssignmentEntitlement r name opts = new_entitlement PURPOSE_ASSIGNMENT r name opts"

definition NewPermissionEntitlement :: "Resource \<Rightarrow> string \<Rightarrow> entitlement_option list \<Rightarrow> Entitlement" where
  "NewPermissionEntitlement r name opts = new_entitlement PURPOSE_PERMISSION r name opts"

record ExternalResourceMatch =
  emResourceType :: trait_kind
  emKey :: string
  emValue :: string

record Grant =
  grId :: string
  grEntitlement :: string
  grResource :: Resource
  grPrincipal :: ResourceId
  grMatch :: "ExternalResourceMatch option"

definition NewGrant :: "Resource \<Rightarrow> string \<Rightarrow> ResourceId \<Rightarrow> Grant" where
  "NewGrant r name prin =
     \<lparr>grId = NewEntitlementID r name @ '':'' @ ridType prin @ '':'' @ ridResource prin,
      grEntitlement = NewEntitlementID r name, grResource = r, grPrincipal = prin, grMatch = None\<rparr>"

end
