(* ===== verification/Password.thy ===== *)
theory Password
  imports Http "HOL-Library.Multiset"
begin

section \<open>Generated passwords (baton-sdk pkg/crypto/password.go)\<close>

text \<open>
  The credential options of an account creation and the password made from them.  The randomness
  is \<open>crypto/rand.Int\<close>, the field \<open>randInt\<close> of the environment; its contract (a value from 0 up to,
  not including, its bound) is \<open>rand_ok\<close>.  A character set is indexed by bytes, but the shuffle
  converts the password to runes and back: bytes that are no UTF-8 come out as U+FFFD.
\<close>

record Constraint =
  coCharSet :: string
  coMinCount :: nat

datatype LocalCredentialOptions =
    RandomPassword int "Constraint list"
  | PlaintextPassword string
  | NoPasswordOption

definition upperCaseLetters :: string where
  "upperCaseLetters = ''ABCDEFGHIJKLMNOPQRSTUVWXYZ''"

definition lowerCaseLetters :: string where
  "lowerCaseLetters = ''abcdefghijklmnopqrstuvwxyz''"

definition digits :: string where
  "digits = ''0123456789''"

definition symbols :: string where
  "symbols = [CHR ''!'', CHR 0x22] @ ''#$%&'' @ [CHR 0x27] @ ''()*+,-./:;<=>?@['' @ [CHR 0x5C] @ '']^_'' @ [CHR 0x60] @ ''{|}~''"

definition characters :: string where
  "characters = upperCaseLetters @ lowerCaseLetters @ digits @ symbols"

definition drawInt :: "'w env \<Rightarrow> string \<Rightarrow> int \<Rightarrow> (('w, 'x) net_scheme, go_error, int) comp" where
  "drawInt E msg bound = (\<lambda>s.
     if bound \<le> 0 then (Inl (PanicError ''crypto/rand: argument to Int is <= 0''), s)
     else case randInt E bound (netWorld s) of
        (Inl e, w) \<Rightarrow> (Inl (PlainError msg), s\<lparr>netWorld := w\<rparr>)
      | (Inr i, w) \<Rightarrow> (Inr i, s\<lparr>netWorld := w\<rparr>))"

definition addCharacterToPassword :: "'w env \<Rightarrow> string \<Rightarrow> string \<Rightarrow> (('w, 'x) net_scheme, go_error, string) comp" where
  "addCharacterToPassword E password charset =
     bindE (drawInt E ''failed to generate password'' (int (length charset))) (\<lambda>index.
     returnE (password @ [charset ! nat index]))"

primrec addCharacters :: "'w env \<Rightarrow> nat \<Rightarrow> string \<Rightarrow> string \<Rightarrow> (('w, 'x) net_scheme, go_error, string) comp" where
  "addCharacters E 0 password charset = returnE password"
| "addCharacters E (Suc n) password charset =
     bindE (addCharacterToPassword E password charset) (\<lambda>p. addCharacters E n p charset)"

primrec addConstraints :: "'w env \<Rightarrow> Constraint list \<Rightarrow> string \<Rightarrow> (('w, 'x) net_scheme, go_error, string) comp" where
  "addConstraints E [] password = returnE password"
| "addConstraints E (c # cs) password =
     bindE (addCharacters E (coMinCount c) password (coCharSet c)) (\<lambda>p. addConstraints E cs p)"

definition basic_sets :: "Constraint list" where
  "basic_sets = map (\<lambda>s. \<lparr>coCharSet = s, coMinCount = 1\<rparr>)
     [upperCaseLetters, lowerCaseLetters, digits, symbols]"

definition addBasicValidityCharacters :: "'w env \<Rightarrow> string \<Rightarrow> (('w, 'x) net_scheme, go_error, string) comp" where
  "addBasicValidityCharacters E password = addConstraints E basic_sets password"

text \<open>The Fisher-Yates loop: \<open>i\<close> runs from the last index down to 1.\<close>

definition swap :: "'a list \<Rightarrow> nat \<Rightarrow> nat \<Rightarrow> 'a list" where
  "swap xs i j = xs[i := xs ! j, j := xs ! i]"

primrec shuffle_from :: "'w env \<Rightarrow> nat \<Rightarrow> 'a list \<Rightarrow> (('w, 'x) net_scheme, go_error, 'a list) comp" where
  "shuffle_from E 0 rs = returnE rs"
| "shuffle_from E (Suc i) rs =
     bindE (drawInt E ''error while generating password'' (int (Suc i) + 1)) (\<lambda>j.
     shuffle_from E i (swap rs (Suc i) (nat j)))"

text \<open>The conversion \<open>[]rune(password)\<close>; a rune is kept as its UTF-8 encoding, so \<open>string(runes)\<close> is \<open>concat\<close>.\<close>

definition getShuffledPassword :: "'w env \<Rightarrow> string \<Rightarrow> (('w, 'x) net_scheme, go_error, string) comp" where
  "getShuffledPassword E password =
     (let rs = runes password in
      bindE (shuffle_from E (length rs - 1) rs) (\<lambda>rs. returnE (concat rs)))"

definition GenerateRandomPassword :: "'w env \<Rightarrow> int \<Rightarrow> Constraint list \<Rightarrow> (('w, 'x) net_scheme, go_error, string) comp" where
  "GenerateRandomPassword E passwordLength constraints =
     (if passwordLength < 8 then throwE (PlainError ''invalid password length'')
      else
        bindE (if constraints \<noteq> [] then addConstraints E constraints [] else addBasicValidityCharacters E []) (\<lambda>password.
        if passwordLength - int (length password) < 0
        then throwE (PlainError ''password length is less than the sum of constraints minimums'')
        else
          bindE (addCharacters E (nat (passwordLength - int (length password))) password characters) (\<lambda>password.
          getShuffledPassword E password)))"

definition GeneratePassword :: "'w env \<Rightarrow> LocalCredentialOptions \<Rightarrow> (('w, 'x) net_scheme, go_error, string) comp" where
  "GeneratePassword E opts =
     (case opts of
        RandomPassword len constraints \<Rightarrow> GenerateRandomPassword E len constraints
      | PlaintextPassword p \<Rightarrow> returnE p
      | NoPasswordOption \<Rightarrow> throwE (PlainError ''unknown credential options''))"

subsection \<open>What is generated\<close>

text \<open>The contract of the random source.\<close>

definition rand_ok :: "'w env \<Rightarrow> bool" where
  "rand_ok E \<longleftrightarrow> (\<forall>b w i w'. 0 < b \<longrightarrow> randInt E b w = (Inr i, w') \<longrightarrow> 0 \<le> i \<and> i < b)"

lemma drawInt_bounds:
  assumes "rand_ok E" "drawInt E m b s = (Inr i, s')"
  shows "0 \<le> i \<and> i < b"
proof -
  from assms(2) have "0 < b" "randInt E b (netWorld s) = (Inr i, netWorld s')"
    by (auto simp: drawInt_def split: if_splits prod.splits sum.splits)
  with assms(1) show ?thesis unfolding rand_ok_def by blast
qed

lemma addCharacter_result:
  assumes "rand_ok E" "addCharacterToPassword E p cs s = (Inr q, s')"
  shows "\<exists>c. q = p @ [c] \<and> c \<in> set cs"
proof -
  from assms(2) obtain i t where "drawInt E ''failed to generate password'' (int (length cs)) s = (Inr i, t)"
    "q = p @ [cs ! nat i]"
    by (auto simp: addCharacterToPassword_def dest!: bindE_InrD)
  with drawInt_bounds[OF assms(1)] have "0 \<le> i" "i < int (length cs)" by blast+
  with \<open>q = _\<close> show ?thesis by auto
qed

lemma addCharacters_result:
  "rand_ok E \<Longrightarrow> addCharacters E n p cs s = (Inr q, s') \<Longrightarrow>
   \<exists>r. q = p @ r \<and> length r = n \<and> set r \<subseteq> set cs"
proof (induction n arbitrary: p s)
  case (Suc n)
  from Suc.prems(2) obtain p' t where
    a: "addCharacterToPassword E p cs s = (Inr p', t)" "addCharacters E n p' cs t = (Inr q, s')"
    by (auto dest!: bindE_InrD)
  from addCharacter_result[OF Suc.prems(1) a(1)] Suc.IH[OF Suc.prems(1) a(2)] show ?case by fastforce
qed simp

lemma addConstraints_result:
  "rand_ok E \<Longrightarrow> addConstraints E cs p s = (Inr q, s') \<Longrightarrow>
   \<exists>r. q = p @ r \<and> length r = sum_list (map coMinCount cs) \<and> set r \<subseteq> (\<Union>c\<in>set cs. set (coCharSet c))
     \<and> list_all (\<lambda>c. coMinCount c \<le> length (filter (\<lambda>x. x \<in> set (coCharSet c)) r)) cs"
proof (induction cs arbitrary: p s)
  case (Cons c cs)
  from Cons.prems(2) obtain p' t where
    a: "addCharacters E (coMinCount c) p (coCharSet c) s = (Inr p', t)" "addConstraints E cs p' t = (Inr q, s')"
    by (auto dest!: bindE_InrD)
  from addCharacters_result[OF Cons.prems(1) a(1)] obtain r1 where
    r1: "p' = p @ r1" "length r1 = coMinCount c" "set r1 \<subseteq> set (coCharSet c)" by blast
  from Cons.IH[OF Cons.prems(1) a(2)] obtain r2 where
    r2: "q = p' @ r2" "length r2 = sum_list (map coMinCount cs)" "set r2 \<subseteq> (\<Union>c\<in>set cs. set (coCharSet c))"
      "list_all (\<lambda>c. coMinCount c \<le> length (filter (\<lambda>x. x \<in> set (coCharSet c)) r2)) cs" by blast
  have "filter (\<lambda>x. x \<in> set (coCharSet c)) r1 = r1" using r1(3) by (auto simp: filter_id_conv)
  with r1 r2 show ?case
    by (intro exI[of _ "r1 @ r2"] conjI) (auto simp: list_all_iff intro: trans_le_add2)
qed simp

lemma mset_swap_index [simp]: "i < length xs \<Longrightarrow> j < length xs \<Longrightarrow> mset (swap xs i j) = mset xs"
  by (simp add: swap_def mset_swap)

lemma length_swap [simp]: "length (swap xs i j) = length xs"
  by (simp add: swap_def)

lemma shuffle_from_perm:
  "rand_ok E \<Longrightarrow> i < length xs \<Longrightarrow> shuffle_from E i xs s = (Inr ys, s') \<Longrightarrow> mset ys = mset xs"
proof (induction i arbitrary: xs s)
  case (Suc i)
  from Suc.prems(3) obtain j t where
    a: "drawInt E ''error while generating password'' (int (Suc i) + 1) s = (Inr j, t)"
      "shuffle_from E i (swap xs (Suc i) (nat j)) t = (Inr ys, s')"
    by (auto dest!: bindE_InrD)
  from drawInt_bounds[OF Suc.prems(1) a(1)] have "nat j < length xs" using Suc.prems(2) by linarith
  with Suc.IH[OF Suc.prems(1) _ a(2)] Suc.prems(2) show ?case by simp
qed simp

text \<open>Of ASCII characters each is a rune of its own, and the shuffle only reorders them.\<close>

lemma concat_singles: "set rs \<subseteq> range (\<lambda>c. [c]) \<Longrightarrow> mset (concat rs) = mset (map hd rs)"
  by (induction rs) auto

lemma getShuffledPassword_perm:
  assumes "rand_ok E" "list_all (byte_in 0 127) p" "getShuffledPassword E p s = (Inr q, s')"
  shows "mset q = mset p"
proof (cases p)
  case (Cons a list)
  from assms(3) obtain rs where rs: "shuffle_from E (length p - 1) (map (\<lambda>c. [c]) p) s = (Inr rs, s')" "q = concat rs"
    by (auto simp: getShuffledPassword_def runes_ascii[OF assms(2)] Let_def dest!: bindE_InrD)
  from shuffle_from_perm[OF assms(1) _ rs(1)] Cons have m: "mset rs = mset (map (\<lambda>c. [c]) p)" by simp
  then have "set rs \<subseteq> range (\<lambda>c. [c])" by (metis image_set mset_eq_setD image_mono subset_UNIV)
  moreover have "mset (map hd rs) = mset p" using arg_cong[OF m, of "image_mset hd"] by (simp add: multiset.map_comp comp_def)
  ultimately show ?thesis using concat_singles[of rs] rs(2) by simp
qed (use assms(3) in \<open>simp add: getShuffledPassword_def\<close>)

text \<open>
  The number of characters of a class in a password, which the shuffle does not change.
\<close>

definition count_in :: "string \<Rightarrow> string \<Rightarrow> nat" where
  "count_in cs p = length (filter (\<lambda>x. x \<in> set cs) p)"

lemma count_in_mset: "mset p = mset q \<Longrightarrow> count_in cs p = count_in cs q"
  unfolding count_in_def by (metis mset_filter size_mset)

lemma count_in_append [simp]: "count_in cs (p @ q) = count_in cs p + count_in cs q"
  by (simp add: count_in_def)

text \<open>Character sets of ASCII characters, as the built-in ones are.\<close>

definition ascii_sets :: "Constraint list \<Rightarrow> bool" where
  "ascii_sets cs \<longleftrightarrow> (\<forall>c\<in>set cs. list_all (byte_in 0 127) (coCharSet c))"

lemma builtin_ascii: "ascii_sets basic_sets" "list_all (byte_in 0 127) characters"
  unfolding ascii_sets_def list_all_iff by code_simp+

lemma GenerateRandomPassword_result:
  assumes "rand_ok E" "ascii_sets cs" "GenerateRandomPassword E n cs s = (Inr p, s')"
  shows "int (length p) = n \<and> 8 \<le> n
    \<and> list_all (\<lambda>c. coMinCount c \<le> count_in (coCharSet c) p) (if cs = [] then basic_sets else cs)"
proof -
  let ?cs = "if cs = [] then basic_sets else cs"
  have ascii: "ascii_sets ?cs" using assms(2) builtin_ascii(1) by simp
  from assms(3) obtain p1 s1 p2 s2 where
    n: "8 \<le> n" and
    a: "addConstraints E ?cs [] s = (Inr p1, s1)" "\<not> n - int (length p1) < 0"
      "addCharacters E (nat (n - int (length p1))) p1 characters s1 = (Inr p2, s2)"
      "getShuffledPassword E p2 s2 = (Inr p, s')"
    by (auto simp: GenerateRandomPassword_def addBasicValidityCharacters_def
        dest!: bindE_InrD split: if_splits)
  from addConstraints_result[OF assms(1) a(1)] have
    r1: "list_all (\<lambda>c. coMinCount c \<le> count_in (coCharSet c) p1) ?cs" "set p1 \<subseteq> (\<Union>c\<in>set ?cs. set (coCharSet c))"
    by (auto simp: count_in_def)
  from addCharacters_result[OF assms(1) a(3)] obtain r where
    r2: "p2 = p1 @ r" "length r = nat (n - int (length p1))" "set r \<subseteq> set characters" by blast
  have "list_all (byte_in 0 127) p2"
    using r1(2) r2(1,3) ascii builtin_ascii(2) unfolding ascii_sets_def list_all_iff by fastforce
  from getShuffledPassword_perm[OF assms(1) this a(4)] have m: "mset p = mset p2" .
  then have "length p = length p2" by (metis size_mset)
  with r2 a(2) have "int (length p) = n" by simp
  moreover have "list_all (\<lambda>c. coMinCount c \<le> count_in (coCharSet c) p) ?cs"
    using r1(1) by (auto simp: list_all_iff count_in_mset[OF m] r2(1) intro: trans_le_add1)
  ultimately show ?thesis using n by simp
qed

subsection \<open>That a password is generated\<close>

text \<open>A source that never fails, and draws below its bound.\<close>

definition rand_total :: "'w env \<Rightarrow> bool" where
  "rand_total E \<longleftrightarrow> (\<forall>b w. 0 < b \<longrightarrow> (\<exists>i w'. randInt E b w = (Inr i, w') \<and> 0 \<le> i \<and> i < b))"

lemma rand_total_ok: "rand_total E \<Longrightarrow> rand_ok E"
  unfolding rand_total_def rand_ok_def by (metis Inr_inject prod.inject)

lemma drawInt_total:
  assumes "rand_total E" "0 < b"
  shows "\<exists>i s'. drawInt E m b s = (Inr i, s')"
proof -
  obtain i w' where "randInt E b (netWorld s) = (Inr i, w')" using assms unfolding rand_total_def by blast
  with assms(2) show ?thesis by (simp add: drawInt_def)
qed

lemma addCharacters_total:
  "rand_total E \<Longrightarrow> 0 < n \<longrightarrow> cs \<noteq> [] \<Longrightarrow> \<exists>q s'. addCharacters E n p cs s = (Inr q, s')"
proof (induction n arbitrary: p s)
  case (Suc n)
  then obtain i t where "drawInt E ''failed to generate password'' (int (length cs)) s = (Inr i, t)"
    using drawInt_total[of E "int (length cs)"] by fastforce
  then have "addCharacterToPassword E p cs s = (Inr (p @ [cs ! nat i]), t)"
    by (simp add: addCharacterToPassword_def)
  with Suc.IH[of "p @ [cs ! nat i]" t] Suc.prems show ?case by simp
qed simp

lemma addConstraints_total:
  "rand_total E \<Longrightarrow> \<forall>c\<in>set cs. 0 < coMinCount c \<longrightarrow> coCharSet c \<noteq> [] \<Longrightarrow>
   \<exists>q s'. addConstraints E cs p s = (Inr q, s')"
proof (induction cs arbitrary: p s)
  case (Cons c cs)
  then obtain q t where "addCharacters E (coMinCount c) p (coCharSet c) s = (Inr q, t)"
    using addCharacters_total[of E "coMinCount c" "coCharSet c" p s] by auto
  with Cons.IH[of q t] Cons.prems show ?case by simp
qed simp

lemma shuffle_from_total: "rand_total E \<Longrightarrow> \<exists>q s'. shuffle_from E i xs s = (Inr q, s')"
proof (induction i arbitrary: xs s)
  case (Suc i)
  obtain j t where "drawInt E ''error while generating password'' (int (Suc i) + 1) s = (Inr j, t)"
    using drawInt_total[OF Suc.prems, of "int (Suc i) + 1"] by fastforce
  with Suc.IH[OF Suc.prems] show ?case by simp
qed simp

lemma GenerateRandomPassword_total:
  assumes "rand_total E" "8 \<le> n" "\<forall>c\<in>set cs. 0 < coMinCount c \<longrightarrow> coCharSet c \<noteq> []"
    and "int (sum_list (map coMinCount cs)) \<le> n"
  shows "\<exists>p s'. GenerateRandomPassword E n cs s = (Inr p, s')"
proof -
  let ?cs = "if cs = [] then basic_sets else cs"
  have nonempty: "\<forall>c\<in>set ?cs. 0 < coMinCount c \<longrightarrow> coCharSet c \<noteq> []"
    using assms(3) by (simp add: basic_sets_def upperCaseLetters_def lowerCaseLetters_def digits_def symbols_def)
  have small: "int (sum_list (map coMinCount ?cs)) \<le> n"
    using assms(2,4) by (simp add: basic_sets_def)
  obtain p1 s1 where a: "addConstraints E ?cs [] s = (Inr p1, s1)"
    using addConstraints_total[OF assms(1) nonempty] by blast
  have "length p1 = sum_list (map coMinCount ?cs)"
    using addConstraints_result[OF rand_total_ok[OF assms(1)] a] by auto
  with small have len: "int (length p1) \<le> n" by simp
  have "characters \<noteq> []" by (simp add: characters_def upperCaseLetters_def)
  then obtain p2 s2 where b: "addCharacters E (nat (n - int (length p1))) p1 characters s1 = (Inr p2, s2)"
    using addCharacters_total[OF assms(1)] by blast
  obtain p3 s3 where c: "getShuffledPassword E p2 s2 = (Inr p3, s3)"
    using shuffle_from_total[OF assms(1), of "length (runes p2) - 1" "runes p2" s2]
    by (auto simp: getShuffledPassword_def Let_def)
  have a': "(if cs \<noteq> [] then addConstraints E cs [] else addBasicValidityCharacters E []) s = (Inr p1, s1)"
    using a by (simp add: addBasicValidityCharacters_def split: if_splits)
  show ?thesis using assms(2) a' b c len by (auto simp: GenerateRandomPassword_def)
qed

end
