(* ===== verification/Users.thy ===== *)
theory Users
  imports Client Sdk Password
begin

section \<open>Directory users (pkg/connector/user.go)\<close>

text \<open>
  The resource types (pkg/connector/connector.go), the resource a Jamf user is shown as, the List of
  the \<open>user\<close> type, and its account creation and deletion.
\<close>

subsection \<open>Resource types\<close>

definition annotationsForUserResourceType :: "type_annotation list" where
  "annotationsForUserResourceType = [SkipEntitlementsAndGrants]"

definition annotationsForManagedDeviceResourceType :: "type_annotation list" where
  "annotationsForManagedDeviceResourceType = [OptInRequired]"

definition resourceTypeUser :: ResourceType where
  "resourceTypeUser = \<lparr>rtId = ''user'', rtDisplayName = ''User'', rtTraits = [TRAIT_USER],
     rtAnnotations = annotationsForUserResourceType\<rparr>"

definition resourceTypeGroup :: ResourceType where
  "resourceTypeGroup = \<lparr>rtId = ''group'', rtDisplayName = ''Group'', rtTraits = [TRAIT_GROUP], rtAnnotations = []\<rparr>"

definition resourceTypeUserAccount :: ResourceType where
  "resourceTypeUserAccount = \<lparr>rtId = ''userAccount'', rtDisplayName = ''User Account'', rtTraits = [TRAIT_USER],
     rtAnnotations = annotationsForUserResourceType\<rparr>"

definition resourceTypeSite :: ResourceType where
  "resourceTypeSite = \<lparr>rtId = ''site'', rtDisplayName = ''Site'', rtTraits = [], rtAnnotations = []\<rparr>"

definition resourceTypeUserGroup :: ResourceType where
  "resourceTypeUserGroup = \<lparr>rtId = ''userGroup'', rtDisplayName = ''User Group'', rtTraits = [TRAIT_GROUP], rtAnnotations = []\<rparr>"

definition resourceTypeRole :: ResourceType where
  "resourceTypeRole = \<lparr>rtId = ''role'', rtDisplayName = ''Role'', rtTraits = [TRAIT_ROLE], rtAnnotations = []\<rparr>"

definition resourceTypeManagedDevice :: ResourceType where
  "resourceTypeManagedDevice = \<lparr>rtId = ''managedDevice'', rtDisplayName = ''Managed Device'',
     rtTraits = [TRAIT_MANAGED_DEVICE], rtAnnotations = annotationsForManagedDeviceResourceType\<rparr>"

lemmas resource_types = annotationsForUserResourceType_def annotationsForManagedDeviceResourceType_def resourceTypeUser_def resourceTypeGroup_def resourceTypeUserAccount_def
  resourceTypeSite_def resourceTypeUserGroup_def resourceTypeRole_def resourceTypeManagedDevice_def

subsection \<open>The user resource\<close>

record AccountInfo =
  aiLogin :: string
  aiProfile :: profile

datatype CreateAccountResponse = SuccessResult Resource | AlreadyExistsResult Resource

definition requireLogin :: "AccountInfo \<Rightarrow> go_error + string" where
  "requireLogin info =
     (if aiLogin info = [] then Inl (PlainError ''jamf-connector: create account: login is required'')
      else Inr (aiLogin info))"

text \<open>\<open>profileMap[key].(string)\<close>, the empty string when the assertion fails.\<close>

definition profile_string :: "profile \<Rightarrow> string \<Rightarrow> string" where
  "profile_string p k = (case map_of p k of Some (PString s) \<Rightarrow> s | _ \<Rightarrow> [])"

definition user_profile :: "User \<Rightarrow> profile" where
  "user_profile user =
     (case SplitFullName (userFullName user) of (firstName, lastName) \<Rightarrow>
        [(''first_name'', PString firstName), (''last_name'', PString lastName),
         (''login'', PString (userEmail user)), (''user_id'', PString (''user:'' @ itoa (ID user))),
         (''name'', PString (Name user)), (''full_name'', PString (userFullName user))])"

definition userResource :: "User \<Rightarrow> ResourceId option \<Rightarrow> go_error + Resource" where
  "userResource user parent =
     NewUserResource (userFullName user) resourceTypeUser (itoa (ID user)) [WithEmail (userEmail user) True]
       [WithParentResourceID parent, WithResourceProfile (user_profile user),
        WithResourceStatus STATUS_ENABLED []]"

definition user_List :: "'w env \<Rightarrow> ResourceId option \<Rightarrow> (('w, 'x) conn_scheme, go_error, Resource list) comp" where
  "user_List E parent = bindE (GetUsers E) (\<lambda>users. mapE (\<lambda>u. liftE (userResource u parent)) users)"

definition user_Entitlements :: "Resource \<Rightarrow> go_error + Entitlement list" where
  "user_Entitlements r = Inr []"

definition user_Grants :: "Resource \<Rightarrow> go_error + Grant list" where
  "user_Grants r = Inr []"

subsection \<open>Account creation and deletion\<close>

definition user_CreateAccount :: "'w env \<Rightarrow> AccountInfo \<Rightarrow> LocalCredentialOptions \<Rightarrow>
    (('w, 'x) conn_scheme, go_error, CreateAccountResponse \<times> (string \<times> string) list) comp" where
  "user_CreateAccount E info creds =
     bindE (liftE (requireLogin info)) (\<lambda>name.
     let fullName = profile_string (aiProfile info) ''full_name'';
         email = profile_string (aiProfile info) ''email'' in
     bindE (tryE (CreateUser E name fullName email)) (\<lambda>created.
     let alreadyExists = (case created of Inl e \<Rightarrow> IsAlreadyExistsError e | Inr _ \<Rightarrow> False) in
     bindE (case created of
              Inl e \<Rightarrow> if \<not> alreadyExists then throwE (WrapError (''jamf-connector: create account '' @ name) e)
                       else returnE ()
            | Inr _ \<Rightarrow> returnE ()) (\<lambda>_.
     bindE (mapErr (WrapError (''jamf-connector: create account '' @ name @ '': fetch failed''))
             (GetUserByName E name)) (\<lambda>fetched.
     bindE (liftE (userResource fetched None)) (\<lambda>r.
     if alreadyExists then returnE (AlreadyExistsResult r, [])
     else returnE (SuccessResult r, []))))))"

definition user_Delete :: "'w env \<Rightarrow> ResourceId \<Rightarrow> (('w, 'x) conn_scheme, go_error, unit) comp" where
  "user_Delete E rid =
     (case atoi (ridResource rid) of
        None \<Rightarrow> throwE (WrapError (''jamf-connector: delete user: invalid resource id '' @ quoted (ridResource rid)) (AtoiError (ridResource rid)))
      | Some i \<Rightarrow>
          bindE (tryE (DeleteUser E i)) (\<lambda>r.
          case r of
            Inl e \<Rightarrow> if IsNotFoundError e then returnE ()
                     else throwE (WrapError (''jamf-connector: delete user '' @ itoa i) e)
          | Inr _ \<Rightarrow> returnE ()))"

subsection \<open>Lemmas\<close>

text \<open>The user resource in closed form: what it is built into when its three texts are UTF-8.\<close>

definition user_utf8 :: "User \<Rightarrow> bool" where
  "user_utf8 u \<longleftrightarrow> utf8_valid (userFullName u) \<and> utf8_valid (userEmail u) \<and> utf8_valid (Name u)"

definition user_view :: "User \<Rightarrow> ResourceId option \<Rightarrow> Resource" where
  "user_view u p =
     \<lparr>resId = \<lparr>ridType = ''user'', ridResource = itoa (ID u)\<rparr>, resDisplayName = userFullName u,
      resParent = p, resProfile = Some (user_profile u), resStatus = Some (STATUS_ENABLED, []),
      resTraits = [TUser \<lparr>utEmails = (if userEmail u = [] then [] else [(userEmail u, True)]),
                          utStatus = Some STATUS_ENABLED, utAccountType = ACCOUNT_TYPE_HUMAN\<rparr>]\<rparr>"

lemma utf8_ascii_literals [simp]:
  "utf8_valid ''first_name''" "utf8_valid ''last_name''" "utf8_valid ''login''" "utf8_valid ''user_id''"
  "utf8_valid ''name''" "utf8_valid ''full_name''" "utf8_valid ''group_id''" "utf8_valid ''group_name''"
  "utf8_valid ''role_name''" "utf8_valid ''role_id''"
  by (auto intro!: utf8_valid_ascii simp: byte_in_def)

lemma utf8_prefixed_id [simp]:
  "utf8_valid (''user:'' @ itoa i)" "utf8_valid (''account:'' @ itoa i)"
  by (subst utf8_valid_append_ascii; simp add: byte_in_def)+

lemma NewUserTrait_email:
  "NewUserTrait [WithEmail e True] =
     \<lparr>utEmails = (if e = [] then [] else [(e, True)]), utStatus = Some STATUS_ENABLED,
      utAccountType = ACCOUNT_TYPE_HUMAN\<rparr>"
  by (simp add: NewUserTrait_def WithEmail_def empty_UserTrait_def)

lemma user_profile_ok: "user_utf8 u \<Longrightarrow> NewStruct (user_profile u) = Inr (user_profile u)"
  by (cases "SplitFullName (userFullName u)")
     (auto simp: user_utf8_def user_profile_def plain_value_def dest: SplitFullName_utf8 simp del: append.simps
        intro!: NewStruct_plain)

lemma user_profile_bad: "\<not> user_utf8 u \<Longrightarrow> NewStruct (user_profile u) = Inl InvalidUTF8"
  by (cases "SplitFullName (userFullName u)")
     (auto simp: user_utf8_def user_profile_def NewStruct_def dest: SplitFullName_utf8 simp del: append.simps)

lemmas resource_build = NewUserResource_def NewGroupResource_def NewRoleResource_def NewManagedDeviceResource_def
  NewResource_def NewResourceID_def
  WithParentResourceID_def WithResourceProfile_def WithResourceStatus_def WithUserTrait_def WithGroupTrait_def
  WithRoleTrait_def WithManagedDeviceTrait_def pickTrait_def updateTrait_def syncUserTraitToResource_def Let_def

lemma userResource_eq:
  "userResource u p = (if user_utf8 u then Inr (user_view u p) else Inl InvalidUTF8)"
  by (simp add: userResource_def resource_build user_profile_ok user_profile_bad NewUserTrait_email
      user_view_def resourceTypeUser_def)

end
