(* ===== verification/Accounts.thy ===== *)
theory Accounts
  imports Users
begin

section \<open>Console accounts (pkg/connector/userAccount.go, pkg/connector/helpers.go)\<close>

text \<open>
  The resource a Jamf Pro admin account is shown as, the privilege set and privileges of a new
  account, and the creation and deletion of accounts.
\<close>

definition privilegeSetAdministrator :: string where "privilegeSetAdministrator = ''Administrator''"
definition privilegeSetAuditor :: string where "privilegeSetAuditor = ''Auditor''"
definition privilegeSetEnrollmentOnly :: string where "privilegeSetEnrollmentOnly = ''Enrollment Only''"
definition privilegeSetCustom :: string where "privilegeSetCustom = ''Custom''"

definition knownPrivilegeSets :: "string list" where
  "knownPrivilegeSets = [privilegeSetAdministrator, privilegeSetAuditor, privilegeSetEnrollmentOnly, privilegeSetCustom]"

definition isKnownPrivilegeSet :: "string \<Rightarrow> bool" where
  "isKnownPrivilegeSet p \<longleftrightarrow> p \<in> set knownPrivilegeSets"

definition defaultAccessLevel :: string where "defaultAccessLevel = ''Full Access''"
definition defaultPrivilegeSet :: string where "defaultPrivilegeSet = privilegeSetAuditor"
definition enabledValue :: string where "enabledValue = ''Enabled''"

lemmas privilege_set_defs = privilegeSetAdministrator_def privilegeSetAuditor_def
  privilegeSetEnrollmentOnly_def privilegeSetCustom_def

subsection \<open>The privileges of a new account\<close>

definition stringSliceFromProfile :: "profile \<Rightarrow> string \<Rightarrow> string list" where
  "stringSliceFromProfile p key =
     (case map_of p key of
        Some (PList raw) \<Rightarrow>
          concat (map (\<lambda>v. case v of PString s \<Rightarrow> if s \<noteq> [] then [s] else [] | _ \<Rightarrow> []) raw)
      | _ \<Rightarrow> [])"

definition profile_privileges :: "profile \<Rightarrow> Privileges" where
  "profile_privileges p =
     \<lparr>JSSObjects = stringSliceFromProfile p ''privileges_jss_objects'',
      JSSSettings = stringSliceFromProfile p ''privileges_jss_settings'',
      JSSActions = stringSliceFromProfile p ''privileges_jss_actions'',
      Recon = stringSliceFromProfile p ''privileges_recon'',
      CasperAdmin = stringSliceFromProfile p ''privileges_casper_admin'',
      CasperRemote = stringSliceFromProfile p ''privileges_casper_remote'',
      CasperImaging = stringSliceFromProfile p ''privileges_casper_imaging''\<rparr>"

definition resolvePrivileges :: "profile \<Rightarrow> string \<Rightarrow> go_error + Privileges option" where
  "resolvePrivileges p privilegeSet =
     (let provided = profile_privileges p in
      if privilegeSet = privilegeSetCustom \<and> IsEmpty (Some provided)
      then Inl (PlainError (''jamf-connector: privilege_set is '' @ quoted privilegeSetCustom @ '' but no privileges were set ''
             @ [CHR 0xE2, CHR 0x80, CHR 0x94] @ '' set at least one of the Privileges fields''))
      else if privilegeSet = privilegeSetCustom then Inr (Some provided)
      else if \<not> IsEmpty (Some provided) then Inl (PrivilegesWithoutCustom privilegeSet)
      else Inr None)"

subsection \<open>The account resource\<close>

definition account_profile :: "UserAccount \<Rightarrow> profile" where
  "account_profile a =
     (case SplitFullName (Name a) of (firstName, lastName) \<Rightarrow>
        [(''first_name'', PString firstName), (''last_name'', PString lastName),
         (''login'', PString (accEmail a)), (''user_id'', PString (''account:'' @ itoa (ID a)))])"

definition userAccountResource :: "UserAccount \<Rightarrow> ResourceId option \<Rightarrow> go_error + Resource" where
  "userAccountResource a parent =
     NewUserResource (Name a) resourceTypeUserAccount (itoa (ID a)) [WithEmail (accEmail a) True]
       [WithParentResourceID parent, WithResourceProfile (account_profile a),
        WithResourceStatus (if accEnabled a = enabledValue then STATUS_ENABLED else STATUS_DISABLED) []]"

definition userAccount_List :: "'w env \<Rightarrow> ResourceId option \<Rightarrow> (('w, 'x) conn_scheme, go_error, Resource list) comp" where
  "userAccount_List E parent =
     bindE (mapErr (WrapError ''jamf-connector: failed to list accounts'') (GetAccounts E)) (\<lambda>(userAccounts, _).
     mapE (\<lambda>a. liftE (userAccountResource a parent)) userAccounts)"

definition userAccount_Entitlements :: "Resource \<Rightarrow> go_error + Entitlement list" where
  "userAccount_Entitlements r = Inr []"

definition userAccount_Grants :: "Resource \<Rightarrow> go_error + Grant list" where
  "userAccount_Grants r = Inr []"

subsection \<open>Account creation and deletion\<close>

definition choosePrivilegeSet :: "profile \<Rightarrow> go_error + string" where
  "choosePrivilegeSet p =
     (case map_of p ''privilege_set'' of
        Some (PString raw) \<Rightarrow>
          if raw = [] then Inr defaultPrivilegeSet
          else if \<not> isKnownPrivilegeSet raw then Inl (UnknownPrivilegeSet raw)
          else Inr raw
      | _ \<Rightarrow> Inr defaultPrivilegeSet)"

definition userAccount_CreateAccount :: "'w env \<Rightarrow> AccountInfo \<Rightarrow> LocalCredentialOptions \<Rightarrow>
    (('w, 'x) conn_scheme, go_error, CreateAccountResponse \<times> (string \<times> string) list) comp" where
  "userAccount_CreateAccount E info creds =
     bindE (liftE (requireLogin info)) (\<lambda>name.
     let fullName = profile_string (aiProfile info) ''full_name'';
         email = profile_string (aiProfile info) ''email'' in
     bindE (liftE (choosePrivilegeSet (aiProfile info))) (\<lambda>privilegeSet.
     bindE (mapErr (WrapError ''jamf-connector: failed to generate random password'')
             (GeneratePassword E creds)) (\<lambda>password.
     bindE (liftE (resolvePrivileges (aiProfile info) privilegeSet)) (\<lambda>privileges.
     bindE (tryE (CreateUserAccount E
       \<lparr>acName = name, acPassword = password, acFullName = fullName, acEmail = email,
        acEnabled = enabledValue, acAccessLevel = defaultAccessLevel, acPrivilegeSet = privilegeSet,
        acPrivileges = privileges\<rparr>)) (\<lambda>created.
     let alreadyExists = (case created of Inl e \<Rightarrow> IsAlreadyExistsError e | Inr _ \<Rightarrow> False) in
     bindE (case created of
              Inl e \<Rightarrow> if \<not> alreadyExists then throwE (WrapError (''jamf-connector: create account '' @ name) e)
                       else returnE ()
            | Inr _ \<Rightarrow> returnE ()) (\<lambda>_.
     bindE (mapErr (WrapError (''jamf-connector: create account '' @ name @ '': fetch failed''))
             (GetUserAccountByName E name)) (\<lambda>fetched.
     bindE (liftE (userAccountResource fetched None)) (\<lambda>r.
     if alreadyExists then returnE (AlreadyExistsResult r, [])
     else returnE (SuccessResult r, [(''password'', password)])))))))))"

definition userAccount_Delete :: "'w env \<Rightarrow> ResourceId \<Rightarrow> (('w, 'x) conn_scheme, go_error, unit) comp" where
  "userAccount_Delete E rid =
     (case atoi (ridResource rid) of
        None \<Rightarrow> throwE (WrapError (''jamf-connector: delete userAccount: invalid resource id '' @ quoted (ridResource rid)) (AtoiError (ridResource rid)))
      | Some i \<Rightarrow>
          bindE (tryE (DeleteUserAccount E i)) (\<lambda>r.
          case r of
            Inl e \<Rightarrow> if IsNotFoundError e then returnE ()
                     else throwE (WrapError (''jamf-connector: delete userAccount '' @ itoa i) e)
          | Inr _ \<Rightarrow> returnE ()))"

subsection \<open>Lemmas\<close>

definition account_utf8 :: "UserAccount \<Rightarrow> bool" where
  "account_utf8 a \<longleftrightarrow> utf8_valid (Name a) \<and> utf8_valid (accEmail a)"

definition account_view :: "UserAccount \<Rightarrow> ResourceId option \<Rightarrow> Resource" where
  "account_view a p =
     \<lparr>resId = \<lparr>ridType = ''userAccount'', ridResource = itoa (ID a)\<rparr>, resDisplayName = Name a,
      resParent = p, resProfile = Some (account_profile a),
      resStatus = Some (if accEnabled a = ''Enabled'' then STATUS_ENABLED else STATUS_DISABLED, []),
      resTraits = [TUser \<lparr>utEmails = (if accEmail a = [] then [] else [(accEmail a, True)]),
                          utStatus = Some STATUS_ENABLED, utAccountType = ACCOUNT_TYPE_HUMAN\<rparr>]\<rparr>"

lemma account_profile_ok: "account_utf8 a \<Longrightarrow> NewStruct (account_profile a) = Inr (account_profile a)"
  by (cases "SplitFullName (Name a)")
     (auto simp: account_utf8_def account_profile_def plain_value_def dest: SplitFullName_utf8 simp del: append.simps
        intro!: NewStruct_plain)

lemma account_profile_bad: "\<not> account_utf8 a \<Longrightarrow> NewStruct (account_profile a) = Inl InvalidUTF8"
  by (cases "SplitFullName (Name a)")
     (auto simp: account_utf8_def account_profile_def NewStruct_def dest: SplitFullName_utf8 simp del: append.simps)

lemma userAccountResource_eq:
  "userAccountResource a p = (if account_utf8 a then Inr (account_view a p) else Inl InvalidUTF8)"
  by (simp add: userAccountResource_def resource_build account_profile_ok account_profile_bad NewUserTrait_email
      account_view_def resourceTypeUserAccount_def enabledValue_def)

text \<open>A disabled account is disabled as a resource, but its user trait, whose status nobody sets, says enabled.\<close>

lemma disabled_account_trait:
  assumes "account_utf8 a" "accEnabled a \<noteq> ''Enabled''"
  shows "\<exists>r t. userAccountResource a p = Inr r \<and> resStatus r = Some (STATUS_DISABLED, [])
    \<and> resTraits r = [TUser t] \<and> utStatus t = Some STATUS_ENABLED"
  using assms by (simp add: userAccountResource_eq account_view_def)

end
