(* ===== verification/ConsoleGroups.thy ===== *)
theory ConsoleGroups
  imports Accounts
begin

section \<open>Groups and user groups (pkg/connector/group.go, pkg/connector/userGroup.go)\<close>

text \<open>
  Console groups, whose members are console accounts, and directory user groups, whose members are
  directory users.  The group grants read the group up to five times, because Jamf may answer with
  an empty member list.
\<close>

definition memberEntitlement :: string where
  "memberEntitlement = ''member''"

subsection \<open>Console groups\<close>

definition group_profile :: "int \<Rightarrow> string \<Rightarrow> profile" where
  "group_profile i n = [(''group_id'', PNumber i), (''group_name'', PString n)]"

definition groupResource :: "Group \<Rightarrow> ResourceId option \<Rightarrow> go_error + Resource" where
  "groupResource g parent =
     NewGroupResource (Name g) resourceTypeGroup (itoa (ID g))
       [WithParentResourceID parent, WithResourceProfile (group_profile (ID g) (Name g))]"

definition group_List :: "'w env \<Rightarrow> ResourceId option \<Rightarrow> (('w, 'x) conn_scheme, go_error, Resource list) comp" where
  "group_List E parent =
     bindE (mapErr (WrapError ''jamf-connector: failed to list accounts'') (GetAccounts E)) (\<lambda>(_, groups).
     mapE (\<lambda>g. liftE (groupResource g parent)) groups)"

definition group_Entitlements :: "Resource \<Rightarrow> go_error + Entitlement list" where
  "group_Entitlements r =
     Inr [NewAssignmentEntitlement r memberEntitlement
       [WithGrantableTo [resourceTypeUserAccount],
        WithDescription (''Member of '' @ resDisplayName r @ '' Group''),
        WithDisplayName (resDisplayName r @ '' Group '' @ memberEntitlement)]]"

text \<open>The loop of at most \<open>n\<close> reads with a pause of one second after an empty one; what is returned
  is the last group read.\<close>

definition second :: int where
  "second = 10 ^ 9"

primrec readMembers :: "'w env \<Rightarrow> int \<Rightarrow> nat \<Rightarrow> Group option \<Rightarrow> (('w, 'x) conn_scheme, go_error, Group option) comp" where
  "readMembers E groupId 0 g = returnE g"
| "readMembers E groupId (Suc n) g =
     bindE (GetGroupDetails E groupId) (\<lambda>g'.
     if grpMembers g' \<noteq> [] then returnE (Some g')
     else bindE (sleep E second) (\<lambda>_. readMembers E groupId n (Some g')))"

definition group_Grants :: "'w env \<Rightarrow> Resource \<Rightarrow> (('w, 'x) conn_scheme, go_error, Grant list) comp" where
  "group_Grants E r =
     (case atoi (ridResource (resId r)) of
        None \<Rightarrow> throwE (AtoiError (ridResource (resId r)))
      | Some groupId \<Rightarrow>
          bindE (readMembers E groupId 5 None) (\<lambda>g.
          case g of
            None \<Rightarrow> throwE (PanicError ''nil group'')
          | Some g \<Rightarrow>
              mapE (\<lambda>user. bindE (GetUserAccountDetails E (ID user)) (\<lambda>a.
                           bindE (liftE (userAccountResource a (Some (resId r)))) (\<lambda>ur.
                           returnE (NewGrant r memberEntitlement (resId ur))))) (grpMembers g)))"

subsection \<open>User groups\<close>

definition userGroupResource :: "UserGroup \<Rightarrow> ResourceId option \<Rightarrow> go_error + Resource" where
  "userGroupResource g parent =
     NewGroupResource (Name g) resourceTypeUserGroup (itoa (ID g))
       [WithParentResourceID parent, WithResourceProfile (group_profile (ID g) (Name g))]"

definition userGroup_List :: "'w env \<Rightarrow> ResourceId option \<Rightarrow> (('w, 'x) conn_scheme, go_error, Resource list) comp" where
  "userGroup_List E parent =
     bindE (mapErr (WrapError ''jamf-connector: failed to list user groups'') (GetUserGroups E)) (\<lambda>userGroups.
     mapE (\<lambda>g. liftE (userGroupResource g parent)) userGroups)"

definition userGroup_Entitlements :: "Resource \<Rightarrow> go_error + Entitlement list" where
  "userGroup_Entitlements r =
     Inr [NewAssignmentEntitlement r memberEntitlement
       [WithGrantableTo [resourceTypeUser],
        WithDescription (''Member of '' @ resDisplayName r @ '' User Group in Jamf''),
        WithDisplayName (resDisplayName r @ '' User Group '' @ memberEntitlement)]]"

definition userGroup_Grants :: "'w env \<Rightarrow> Resource \<Rightarrow> (('w, 'x) conn_scheme, go_error, Grant list) comp" where
  "userGroup_Grants E r =
     (case atoi (ridResource (resId r)) of
        None \<Rightarrow> throwE (AtoiError (ridResource (resId r)))
      | Some userGroupId \<Rightarrow>
          bindE (GetUserGroupDetails E userGroupId) (\<lambda>g.
          mapE (\<lambda>user. bindE (liftE (userResource user (Some (resId r)))) (\<lambda>ur.
                       returnE (NewGrant r memberEntitlement (resId ur)))) (ugUsers g)))"

subsection \<open>Lemmas\<close>

definition group_view :: "ResourceType \<Rightarrow> int \<Rightarrow> string \<Rightarrow> ResourceId option \<Rightarrow> Resource" where
  "group_view rt i n p =
     \<lparr>resId = \<lparr>ridType = rtId rt, ridResource = itoa i\<rparr>, resDisplayName = n, resParent = p,
      resProfile = Some (group_profile (float64 i) n), resStatus = None, resTraits = [TGroup]\<rparr>"

lemma group_profile_eq:
  "NewStruct (group_profile i n) = (if utf8_valid n then Inr (group_profile (float64 i) n) else Inl InvalidUTF8)"
  by (simp add: group_profile_def NewStruct_def)

lemma groupResource_eq:
  "groupResource g p = (if utf8_valid (Name g) then Inr (group_view resourceTypeGroup (ID g) (Name g) p) else Inl InvalidUTF8)"
  by (simp add: groupResource_def resource_build group_profile_eq group_view_def)

lemma userGroupResource_eq:
  "userGroupResource g p = (if utf8_valid (Name g) then Inr (group_view resourceTypeUserGroup (ID g) (Name g) p) else Inl InvalidUTF8)"
  by (simp add: userGroupResource_def resource_build group_profile_eq group_view_def)

text \<open>The read loop never ends without a group: the nil dereference after it cannot happen.\<close>

lemma readMembers_Some:
  "readMembers E i n g s = (Inr r, s') \<Longrightarrow> 0 < n \<or> g \<noteq> None \<Longrightarrow> r \<noteq> None"
proof (induction n arbitrary: g s)
  case (Suc n)
  from Suc.prems(1) obtain g' t where d: "GetGroupDetails E i s = (Inr g', t)" and
    r: "(if grpMembers g' \<noteq> [] then returnE (Some g')
         else bindE (sleep E second) (\<lambda>_. readMembers E i n (Some g'))) t = (Inr r, s')"
    by (auto dest!: bindE_InrD)
  show ?case
  proof (cases "grpMembers g' = []")
    case True
    with r have "readMembers E i n (Some g') (t\<lparr>netWorld := pause E second (netWorld t)\<rparr>) = (Inr r, s')"
      by (simp add: bindE_def)
    from Suc.IH[OF this] show ?thesis by simp
  qed (use r in auto)
qed auto

end
