(* ===== verification/DeviceModels.thy ===== *)
theory DeviceModels
  imports Client
begin

section \<open>The device inventory payloads and requests (pkg/jamf/device_models.go, device_client.go)\<close>

text \<open>
  Every section of a computer record is a pointer, here an option.  The two requests fetch one page;
  their query is what \<open>url.Values.Encode\<close> writes, the parameters sorted by key.
\<close>

record NamedRef =
  nrID :: string
  nrName :: string

record ComputerMDMCapable =
  mdmCapable :: bool

record ComputerRemoteManagement =
  rmManaged :: bool

record ComputerGeneral =
  cgName :: string
  cgLastEnrolledDate :: string
  cgSupervised :: bool
  cgMDMCapable :: "ComputerMDMCapable option"
  cgRemoteManagement :: "ComputerRemoteManagement option"
  cgSite :: "NamedRef option"

record ComputerHardware =
  hwMake :: string
  hwModel :: string
  hwModelIdentifier :: string
  hwSerialNumber :: string

record ComputerOperatingSystem =
  cosName :: string
  cosVersion :: string
  cosBuild :: string

record ComputerUserAndLocation =
  ulUsername :: string
  ulRealname :: string
  ulEmail :: string
  ulEmailAddress :: string
  ulPosition :: string
  ulPhone :: string
  ulDepartmentID :: string
  ulBuildingID :: string
  ulRoom :: string

record BootPartitionEncryptionDetails =
  bpPartitionName :: string
  bpPartitionFileVault2State :: string

record ComputerDiskEncryption =
  deBoot :: "BootPartitionEncryptionDetails option"

record ComputerSecurity =
  secSipStatus :: string
  secGatekeeperStatus :: string
  secActivationLockEnabled :: bool
  secRecoveryLockEnabled :: bool
  secFirewallEnabled :: bool
  secSecureBootLevel :: string
  secExternalBootLevel :: string

record ComputerInventory =
  ciID :: string
  ciUDID :: string
  ciGeneral :: "ComputerGeneral option"
  ciHardware :: "ComputerHardware option"
  ciOperatingSystem :: "ComputerOperatingSystem option"
  ciUserAndLocation :: "ComputerUserAndLocation option"
  ciDiskEncryption :: "ComputerDiskEncryption option"
  ciSecurity :: "ComputerSecurity option"

record ComputersInventoryResponse =
  crTotalCount :: int
  crResults :: "ComputerInventory list"

record MobileDevice =
  mbID :: string
  mbName :: string
  mbSerialNumber :: string
  mbUDID :: string
  mbModel :: string
  mbModelIdentifier :: string
  mbUsername :: string
  mbType :: string
  mbManaged :: bool
  mbSupervised :: bool
  mbOSVersion :: string
  mbOSBuild :: string
  mbWifiMacAddress :: string
  mbPhoneNumber :: string

record MobileDevicesResponse =
  mrTotalCount :: int
  mrResults :: "MobileDevice list"

text \<open>\<open>EmailAddr\<close> on a possibly nil receiver.\<close>

definition EmailAddr :: "ComputerUserAndLocation option \<Rightarrow> string" where
  "EmailAddr u = (case u of None \<Rightarrow> []
     | Some u \<Rightarrow> if ulEmail u \<noteq> [] then ulEmail u else ulEmailAddress u)"

subsection \<open>Zero values\<close>

definition zero_NamedRef :: NamedRef where
  "zero_NamedRef = \<lparr>nrID = [], nrName = []\<rparr>"

definition zero_ComputerGeneral :: ComputerGeneral where
  "zero_ComputerGeneral = \<lparr>cgName = [], cgLastEnrolledDate = [], cgSupervised = False, cgMDMCapable = None,
     cgRemoteManagement = None, cgSite = None\<rparr>"

definition zero_ComputerHardware :: ComputerHardware where
  "zero_ComputerHardware = \<lparr>hwMake = [], hwModel = [], hwModelIdentifier = [], hwSerialNumber = []\<rparr>"

definition zero_ComputerOperatingSystem :: ComputerOperatingSystem where
  "zero_ComputerOperatingSystem = \<lparr>cosName = [], cosVersion = [], cosBuild = []\<rparr>"

definition zero_ComputerUserAndLocation :: ComputerUserAndLocation where
  "zero_ComputerUserAndLocation = \<lparr>ulUsername = [], ulRealname = [], ulEmail = [], ulEmailAddress = [],
     ulPosition = [], ulPhone = [], ulDepartmentID = [], ulBuildingID = [], ulRoom = []\<rparr>"

definition zero_Boot :: BootPartitionEncryptionDetails where
  "zero_Boot = \<lparr>bpPartitionName = [], bpPartitionFileVault2State = []\<rparr>"

definition zero_ComputerSecurity :: ComputerSecurity where
  "zero_ComputerSecurity = \<lparr>secSipStatus = [], secGatekeeperStatus = [], secActivationLockEnabled = False,
     secRecoveryLockEnabled = False, secFirewallEnabled = False, secSecureBootLevel = [], secExternalBootLevel = []\<rparr>"

definition zero_ComputerInventory :: ComputerInventory where
  "zero_ComputerInventory = \<lparr>ciID = [], ciUDID = [], ciGeneral = None, ciHardware = None,
     ciOperatingSystem = None, ciUserAndLocation = None, ciDiskEncryption = None, ciSecurity = None\<rparr>"

definition zero_MobileDevice :: MobileDevice where
  "zero_MobileDevice = \<lparr>mbID = [], mbName = [], mbSerialNumber = [], mbUDID = [], mbModel = [],
     mbModelIdentifier = [], mbUsername = [], mbType = [], mbManaged = False, mbSupervised = False,
     mbOSVersion = [], mbOSBuild = [], mbWifiMacAddress = [], mbPhoneNumber = []\<rparr>"

subsection \<open>Decoders\<close>

definition dec_NamedRef :: "NamedRef decoder" where
  "dec_NamedRef = dec_struct [fld ''id'' dec_string nrID nrID_update, fld ''name'' dec_string nrName nrName_update]"

definition dec_ComputerGeneral :: "ComputerGeneral decoder" where
  "dec_ComputerGeneral = dec_struct
     [fld ''name'' dec_string cgName cgName_update,
      fld ''lastEnrolledDate'' dec_string cgLastEnrolledDate cgLastEnrolledDate_update,
      fld ''supervised'' dec_bool cgSupervised cgSupervised_update,
      fld ''mdmCapable'' (dec_ptr \<lparr>mdmCapable = False\<rparr>
        (dec_struct [fld ''capable'' dec_bool mdmCapable mdmCapable_update])) cgMDMCapable cgMDMCapable_update,
      fld ''remoteManagement'' (dec_ptr \<lparr>rmManaged = False\<rparr>
        (dec_struct [fld ''managed'' dec_bool rmManaged rmManaged_update])) cgRemoteManagement cgRemoteManagement_update,
      fld ''site'' (dec_ptr zero_NamedRef dec_NamedRef) cgSite cgSite_update]"

definition dec_ComputerHardware :: "ComputerHardware decoder" where
  "dec_ComputerHardware = dec_struct
     [fld ''make'' dec_string hwMake hwMake_update, fld ''model'' dec_string hwModel hwModel_update,
      fld ''modelIdentifier'' dec_string hwModelIdentifier hwModelIdentifier_update,
      fld ''serialNumber'' dec_string hwSerialNumber hwSerialNumber_update]"

definition dec_ComputerOperatingSystem :: "ComputerOperatingSystem decoder" where
  "dec_ComputerOperatingSystem = dec_struct
     [fld ''name'' dec_string cosName cosName_update, fld ''version'' dec_string cosVersion cosVersion_update,
      fld ''build'' dec_string cosBuild cosBuild_update]"

definition dec_ComputerUserAndLocation :: "ComputerUserAndLocation decoder" where
  "dec_ComputerUserAndLocation = dec_struct
     [fld ''username'' dec_string ulUsername ulUsername_update, fld ''realname'' dec_string ulRealname ulRealname_update,
      fld ''email'' dec_string ulEmail ulEmail_update, fld ''emailAddress'' dec_string ulEmailAddress ulEmailAddress_update,
      fld ''position'' dec_string ulPosition ulPosition_update, fld ''phone'' dec_string ulPhone ulPhone_update,
      fld ''departmentId'' dec_string ulDepartmentID ulDepartmentID_update,
      fld ''buildingId'' dec_string ulBuildingID ulBuildingID_update, fld ''room'' dec_string ulRoom ulRoom_update]"

definition dec_ComputerDiskEncryption :: "ComputerDiskEncryption decoder" where
  "dec_ComputerDiskEncryption = dec_struct
     [fld ''bootPartitionEncryptionDetails'' (dec_ptr zero_Boot (dec_struct
        [fld ''partitionName'' dec_string bpPartitionName bpPartitionName_update,
         fld ''partitionFileVault2State'' dec_string bpPartitionFileVault2State bpPartitionFileVault2State_update]))
      deBoot deBoot_update]"

definition dec_ComputerSecurity :: "ComputerSecurity decoder" where
  "dec_ComputerSecurity = dec_struct
     [fld ''sipStatus'' dec_string secSipStatus secSipStatus_update,
      fld ''gatekeeperStatus'' dec_string secGatekeeperStatus secGatekeeperStatus_update,
      fld ''activationLockEnabled'' dec_bool secActivationLockEnabled secActivationLockEnabled_update,
      fld ''recoveryLockEnabled'' dec_bool secRecoveryLockEnabled secRecoveryLockEnabled_update,
      fld ''firewallEnabled'' dec_bool secFirewallEnabled secFirewallEnabled_update,
      fld ''secureBootLevel'' dec_string secSecureBootLevel secSecureBootLevel_update,
      fld ''externalBootLevel'' dec_string secExternalBootLevel secExternalBootLevel_update]"

definition dec_ComputerInventory :: "ComputerInventory decoder" where
  "dec_ComputerInventory = dec_struct
     [fld ''id'' dec_string ciID ciID_update, fld ''udid'' dec_string ciUDID ciUDID_update,
      fld ''general'' (dec_ptr zero_ComputerGeneral dec_ComputerGeneral) ciGeneral ciGeneral_update,
      fld ''hardware'' (dec_ptr zero_ComputerHardware dec_ComputerHardware) ciHardware ciHardware_update,
      fld ''operatingSystem'' (dec_ptr zero_ComputerOperatingSystem dec_ComputerOperatingSystem) ciOperatingSystem ciOperatingSystem_update,
      fld ''userAndLocation'' (dec_ptr zero_ComputerUserAndLocation dec_ComputerUserAndLocation) ciUserAndLocation ciUserAndLocation_update,
      fld ''diskEncryption'' (dec_ptr \<lparr>deBoot = None\<rparr> dec_ComputerDiskEncryption) ciDiskEncryption ciDiskEncryption_update,
      fld ''security'' (dec_ptr zero_ComputerSecurity dec_ComputerSecurity) ciSecurity ciSecurity_update]"

definition dec_ComputersInventoryResponse :: "ComputersInventoryResponse decoder" where
  "dec_ComputersInventoryResponse = dec_struct
     [fld ''totalCount'' dec_int crTotalCount crTotalCount_update,
      fld ''results'' (dec_slice zero_ComputerInventory dec_ComputerInventory) crResults crResults_update]"

definition dec_MobileDevice :: "MobileDevice decoder" where
  "dec_MobileDevice = dec_struct
     [fld ''id'' dec_string mbID mbID_update, fld ''name'' dec_string mbName mbName_update,
      fld ''serialNumber'' dec_string mbSerialNumber mbSerialNumber_update,
      fld ''udid'' dec_string mbUDID mbUDID_update, fld ''model'' dec_string mbModel mbModel_update,
      fld ''modelIdentifier'' dec_string mbModelIdentifier mbModelIdentifier_update,
      fld ''username'' dec_string mbUsername mbUsername_update, fld ''type'' dec_string mbType mbType_update,
      fld ''managed'' dec_bool mbManaged mbManaged_update, fld ''supervised'' dec_bool mbSupervised mbSupervised_update,
      fld ''osVersion'' dec_string mbOSVersion mbOSVersion_update, fld ''osBuild'' dec_string mbOSBuild mbOSBuild_update,
      fld ''wifiMacAddress'' dec_string mbWifiMacAddress mbWifiMacAddress_update,
      fld ''phoneNumber'' dec_string mbPhoneNumber mbPhoneNumber_update]"

definition dec_MobileDevicesResponse :: "MobileDevicesResponse decoder" where
  "dec_MobileDevicesResponse = dec_struct
     [fld ''totalCount'' dec_int mrTotalCount mrTotalCount_update,
      fld ''results'' (dec_slice zero_MobileDevice dec_MobileDevice) mrResults mrResults_update]"

subsection \<open>The page requests\<close>

definition computersInventoryUrlPath :: "string list" where
  "computersInventoryUrlPath = [''api'', ''v1'', ''computers-inventory'']"

definition mobileDevicesUrlPath :: "string list" where
  "mobileDevicesUrlPath = [''api'', ''v2'', ''mobile-devices'']"

definition ComputerInventorySections :: "string list" where
  "ComputerInventorySections =
     [''GENERAL'', ''HARDWARE'', ''OPERATING_SYSTEM'', ''USER_AND_LOCATION'', ''DISK_ENCRYPTION'', ''SECURITY'']"

definition page_query :: "int \<Rightarrow> int \<Rightarrow> (string \<times> string) list" where
  "page_query page pageSize = [(''page'', itoa page), (''page-size'', itoa pageSize)]"

definition GetComputersInventory :: "'w env \<Rightarrow> int \<Rightarrow> int \<Rightarrow> string list \<Rightarrow>
    (('w, 'x) conn_scheme, go_error, ComputersInventoryResponse) comp" where
  "GetComputersInventory E page pageSize sections =
     bindE (getUrl E computersInventoryUrlPath) (\<lambda>u.
     doRequest E (u\<lparr>uQuery := page_query page pageSize @ map (\<lambda>s. (''section'', s)) sections\<rparr>)
       (unmarshal dec_ComputersInventoryResponse \<lparr>crTotalCount = 0, crResults = []\<rparr>))"

definition GetMobileDevices :: "'w env \<Rightarrow> int \<Rightarrow> int \<Rightarrow> (('w, 'x) conn_scheme, go_error, MobileDevicesResponse) comp" where
  "GetMobileDevices E page pageSize =
     bindE (getUrl E mobileDevicesUrlPath) (\<lambda>u.
     doRequest E (u\<lparr>uQuery := page_query page pageSize\<rparr>)
       (unmarshal dec_MobileDevicesResponse \<lparr>mrTotalCount = 0, mrResults = []\<rparr>))"

context conn_inv
begin

lemma keeps_devices:
  "keeps P (GetComputersInventory E pg sz sections)" "keeps P (GetMobileDevices E pg sz)"
  unfolding GetComputersInventory_def GetMobileDevices_def doRequest_def
  by (intro keeps_rules keeps_getUrl keeps_doRequestWithMethod)+

end

end
