(* ===== verification/Paging.thy ===== *)
theory Paging
  imports Http
begin

section \<open>Page tokens and the pagination bag (baton-sdk pkg/pagination/pagination.go)\<close>

text \<open>
  A page token is a string between two List calls: empty, the JSON text of a serialized bag (held
  as its tree), or a text that is not JSON.  The bag is a stack of page states with its top held
  apart; a nil and an empty \<open>states\<close> slice are not told apart, the decoder does not either.
\<close>

datatype page_token = EmptyToken | JsonToken json | CorruptToken string

record PageState =
  psToken :: string
  psResourceTypeID :: string
  psResourceID :: string

record Bag =
  bagStates :: "PageState list"
  bagCurrent :: "PageState option"

definition empty_Bag :: Bag where
  "empty_Bag = \<lparr>bagStates = [], bagCurrent = None\<rparr>"

definition page_state :: "string \<Rightarrow> string \<Rightarrow> PageState" where
  "page_state ty tok = \<lparr>psToken = tok, psResourceTypeID = ty, psResourceID = []\<rparr>"

definition Push :: "PageState \<Rightarrow> Bag \<Rightarrow> Bag" where
  "Push s pb =
     (case bagCurrent pb of
        None \<Rightarrow> pb\<lparr>bagCurrent := Some s\<rparr>
      | Some c \<Rightarrow> pb\<lparr>bagStates := bagStates pb @ [c], bagCurrent := Some s\<rparr>)"

definition Pop :: "Bag \<Rightarrow> PageState option \<times> Bag" where
  "Pop pb =
     (case bagCurrent pb of
        None \<Rightarrow> (None, pb)
      | Some c \<Rightarrow>
          (Some c,
           if bagStates pb \<noteq> []
           then pb\<lparr>bagCurrent := Some (last (bagStates pb)), bagStates := butlast (bagStates pb)\<rparr>
           else pb\<lparr>bagCurrent := None\<rparr>))"

definition Next :: "string \<Rightarrow> Bag \<Rightarrow> go_error + Bag" where
  "Next pageToken pb =
     (case Pop pb of
        (None, _) \<Rightarrow> Inl (PlainError ''no active page state'')
      | (Some st, pb') \<Rightarrow>
          Inr (if pageToken \<noteq> [] then Push (st\<lparr>psToken := pageToken\<rparr>) pb' else pb'))"

definition Current :: "Bag \<Rightarrow> PageState option" where
  "Current pb = bagCurrent pb"

subsection \<open>Serialization\<close>

definition fields_PageState :: "(string \<times> PageState decoder) list" where
  "fields_PageState =
     [fld ''token'' dec_string psToken psToken_update,
      fld ''type'' dec_string psResourceTypeID psResourceTypeID_update,
      fld ''id'' dec_string psResourceID psResourceID_update]"

definition zero_PageState :: PageState where
  "zero_PageState = \<lparr>psToken = [], psResourceTypeID = [], psResourceID = []\<rparr>"

definition dec_PageState :: "PageState decoder" where
  "dec_PageState = dec_struct fields_PageState"

definition dec_Bag :: "Bag decoder" where
  "dec_Bag = dec_struct
     [fld ''states'' (dec_slice zero_PageState dec_PageState) bagStates bagStates_update,
      fld ''current_state'' (dec_ptr zero_PageState dec_PageState) bagCurrent bagCurrent_update]"

text \<open>\<open>omitempty\<close> on the three fields.\<close>

definition opt_field :: "string \<Rightarrow> string \<Rightarrow> (string \<times> json) list" where
  "opt_field n s = (if s = [] then [] else [(n, JStr s)])"

definition enc_PageState :: "PageState \<Rightarrow> json" where
  "enc_PageState s =
     JObj (opt_field ''token'' (psToken s) @ opt_field ''type'' (psResourceTypeID s)
           @ opt_field ''id'' (psResourceID s))"

definition Marshal :: "Bag \<Rightarrow> page_token" where
  "Marshal pb =
     (case bagCurrent pb of
        None \<Rightarrow> EmptyToken
      | Some c \<Rightarrow> JsonToken (JObj [(''states'', enc_slice enc_PageState (bagStates pb)),
                                  (''current_state'', enc_PageState c)]))"

definition Unmarshal :: "page_token \<Rightarrow> go_error + Bag" where
  "Unmarshal input =
     (case input of
        EmptyToken \<Rightarrow> Inr empty_Bag
      | CorruptToken _ \<Rightarrow> Inl (WrapError ''page token corrupt'' (JsonError JsonSyntax 0))
      | JsonToken j \<Rightarrow>
          (case dec_Bag j empty_Bag of
             Inl e \<Rightarrow> Inl (WrapError ''page token corrupt'' (JsonError e 0))
           | Inr b \<Rightarrow> Inr b))"

lemma dec_enc_PageState [decode_rules]: "dec_PageState (enc_PageState s) zero_PageState = Inr s"
  by (cases s)
     (auto simp: dec_PageState_def enc_PageState_def opt_field_def dec_struct_obj find_field_def
        fields_PageState_def fld_def zero_PageState_def dec_string_JStr)

lemma enc_PageState_not_null [simp]: "enc_PageState s \<noteq> JNull"
  by (simp add: enc_PageState_def)

subsection \<open>The stack contract\<close>

text \<open>
  What a page walk relies on: a bag stands for a stack, \<open>push\<close> adds a top, \<open>pop\<close> takes it off,
  \<open>current\<close> reads it, and a saved bag loads as itself.  \<open>ok\<close> is the invariant of the representation.
\<close>

locale page_stack =
  fixes ok :: "'b \<Rightarrow> bool"
    and stack :: "'b \<Rightarrow> 'a list"
    and push :: "'a \<Rightarrow> 'b \<Rightarrow> 'b"
    and pop :: "'b \<Rightarrow> 'a option \<times> 'b"
    and current :: "'b \<Rightarrow> 'a option"
    and save :: "'b \<Rightarrow> 't"
    and load :: "'t \<Rightarrow> 'e + 'b"
  assumes push_ok: "ok b \<Longrightarrow> ok (push s b)"
    and push_stack: "ok b \<Longrightarrow> stack (push s b) = s # stack b"
    and pop_ok: "ok b \<Longrightarrow> ok (snd (pop b))"
    and pop_stack: "ok b \<Longrightarrow> stack (snd (pop b)) = tl (stack b)"
    and pop_top: "ok b \<Longrightarrow> fst (pop b) = current b"
    and current_top: "ok b \<Longrightarrow> current b = (case stack b of [] \<Rightarrow> None | s # _ \<Rightarrow> Some s)"
    and load_save: "ok b \<Longrightarrow> load (save b) = Inr b"
begin

lemma current_push: "ok b \<Longrightarrow> current (push s b) = Some s"
  by (simp add: current_top push_ok push_stack)

lemma pop_push: "ok b \<Longrightarrow> stack (snd (pop (push s b))) = stack b \<and> fst (pop (push s b)) = Some s"
  by (simp add: push_ok push_stack pop_stack pop_top current_push)

lemma replace_top:
  "ok b \<Longrightarrow> stack (push s (snd (pop b))) = s # tl (stack b)"
  by (simp add: push_stack pop_ok pop_stack)

lemma pop_last: "ok b \<Longrightarrow> stack b = [s] \<Longrightarrow> current (snd (pop b)) = None"
  by (simp add: current_top pop_ok pop_stack)

lemma empty_after_pops:
  "ok b \<Longrightarrow> length (stack b) \<le> n \<Longrightarrow> current (((\<lambda>b. snd (pop b)) ^^ n) b) = None"
proof (induction n arbitrary: b)
  case (Suc n)
  have "length (stack (snd (pop b))) \<le> n" using Suc.prems by (simp add: pop_stack)
  with Suc.IH[OF pop_ok[OF Suc.prems(1)]] show ?case
    by (simp add: funpow_Suc_right del: funpow.simps)
qed (simp add: current_top)

end

definition bag_ok :: "Bag \<Rightarrow> bool" where
  "bag_ok b \<longleftrightarrow> (bagCurrent b = None \<longrightarrow> bagStates b = [])"

definition bag_stack :: "Bag \<Rightarrow> PageState list" where
  "bag_stack b = (case bagCurrent b of None \<Rightarrow> [] | Some c \<Rightarrow> c # rev (bagStates b))"

lemma Unmarshal_Marshal: "bag_ok b \<Longrightarrow> Unmarshal (Marshal b) = Inr b"
proof (cases "bagCurrent b")
  case None
  assume "bag_ok b"
  with None show ?thesis by (cases b) (simp add: Unmarshal_def Marshal_def empty_Bag_def bag_ok_def)
next
  case (Some c)
  have states: "dec_slice zero_PageState dec_PageState (enc_slice enc_PageState xs) x = Inr xs" for xs x
    by (rule dec_slice_slice) (rule dec_enc_PageState)
  have cur: "dec_ptr zero_PageState dec_PageState (enc_PageState c) None = Inr (Some c)"
    by (simp add: dec_ptr_def dec_enc_PageState)
  show ?thesis
    using Some by (cases b) (simp add: Unmarshal_def Marshal_def dec_Bag_def dec_struct_obj
        find_field_def fld_def empty_Bag_def states cur)
qed

interpretation bag: page_stack bag_ok bag_stack Push Pop Current Marshal Unmarshal
proof unfold_locales
  fix b :: Bag and s
  assume ok: "bag_ok b"
  show "bag_ok (Push s b)" by (simp add: bag_ok_def Push_def split: option.splits)
  show "bag_stack (Push s b) = s # bag_stack b"
    using ok by (auto simp: bag_ok_def bag_stack_def Push_def split: option.splits)
  show "bag_ok (snd (Pop b))" using ok by (auto simp: bag_ok_def Pop_def split: option.splits)
  show "bag_stack (snd (Pop b)) = tl (bag_stack b)"
    by (cases "bagStates b" rule: rev_cases) (auto simp: bag_stack_def Pop_def split: option.splits)
  show "fst (Pop b) = Current b" by (simp add: Pop_def Current_def split: option.splits)
  show "Current b = (case bag_stack b of [] \<Rightarrow> None | s # _ \<Rightarrow> Some s)"
    by (simp add: Current_def bag_stack_def split: option.splits)
  show "Unmarshal (Marshal b) = Inr b" by (rule Unmarshal_Marshal[OF ok])
qed

text \<open>\<open>Next\<close> replaces the token of the top, or drops the top when the token is empty.\<close>

lemma Next_stack:
  assumes "bag_ok b" "bag_stack b = c # cs"
  obtains b' where "Next tok b = Inr b'" "bag_ok b'"
    "bag_stack b' = (if tok = [] then cs else c\<lparr>psToken := tok\<rparr> # cs)"
proof -
  obtain p b1 where pop: "Pop b = (p, b1)" by fastforce
  with bag.pop_top[OF assms(1)] bag.current_top[OF assms(1)] assms(2) have [simp]: "p = Some c" by simp
  from pop bag.pop_ok[OF assms(1)] bag.pop_stack[OF assms(1)] assms(2)
  have b1: "bag_ok b1" "bag_stack b1 = cs" by auto
  show thesis
  proof (cases "tok = []")
    case True
    with pop b1 show ?thesis by (intro that[of b1]) (auto simp: Next_def)
  next
    case False
    with pop b1 show ?thesis
      by (intro that[of "Push (c\<lparr>psToken := tok\<rparr>) b1"]) (auto simp: Next_def bag.push_ok bag.push_stack)
  qed
qed

text \<open>A fresh walk starts from the empty token with an empty bag.\<close>

lemma Unmarshal_empty [simp]: "Unmarshal EmptyToken = Inr empty_Bag"
  by (simp add: Unmarshal_def)

lemma empty_Bag_ok [simp]: "bag_ok empty_Bag" "bag_stack empty_Bag = []" "Current empty_Bag = None"
  by (simp_all add: bag_ok_def bag_stack_def empty_Bag_def Current_def)

text \<open>The empty token is written exactly when nothing is left on the stack.\<close>

lemma Marshal_empty_iff: "bag_ok b \<Longrightarrow> Marshal b = EmptyToken \<longleftrightarrow> bag_stack b = []"
  by (simp add: Marshal_def bag_stack_def split: option.splits)

end
