(* ===== verification/GoTime.thy ===== *)
theory GoTime
  imports GoBase
begin

section \<open>Time stamps (Go's time.Parse, parseJamfTime of pkg/connector/managedDevice.go)\<close>

text \<open>
  A layout is the list of its elements.  \<open>parse_elems\<close> follows \<open>time.parse\<close> element by element, with
  its liberties: an hour of one digit, a fraction after the seconds the layout does not ask for, any
  number of fraction digits of which nine count, and an offset of up to 24 hours and 60 minutes.  An
  instant is the pair of Unix seconds and nanoseconds, what the device trait stores.
\<close>

datatype layout_elem =
    Lit char | Year | Month | Day | Hour | Minute | Second
  | Frac3 | FracAny | ZoneZ | ZoneNum

record tm =
  tmYear :: int
  tmMonth :: int
  tmDay :: int
  tmHour :: int
  tmMin :: int
  tmSec :: int
  tmNsec :: int
  tmOffset :: int

definition zero_tm :: tm where
  "zero_tm = \<lparr>tmYear = 0, tmMonth = 0, tmDay = 0, tmHour = 0, tmMin = 0, tmSec = 0, tmNsec = 0, tmOffset = 0\<rparr>"

fun getnum :: "bool \<Rightarrow> string \<Rightarrow> (int \<times> string) option" where
  "getnum fixed [] = None"
| "getnum fixed [a] = (if is_digit a \<and> \<not> fixed then Some (int (digit_val a), []) else None)"
| "getnum fixed (a # b # r) =
     (if \<not> is_digit a then None
      else if is_digit b then Some (int (10 * digit_val a + digit_val b), r)
      else if fixed then None else Some (int (digit_val a), b # r))"

definition getyear :: "string \<Rightarrow> (int \<times> string) option" where
  "getyear s = (if 4 \<le> length s \<and> list_all is_digit (take 4 s)
                then Some (int (digits_val (take 4 s)), drop 4 s) else None)"

definition comma_or_period :: "char \<Rightarrow> bool" where
  "comma_or_period c \<longleftrightarrow> c = CHR ''.'' \<or> c = CHR '',''"

text \<open>\<open>atoi\<close> of package time: an optional sign and digits, possibly none.\<close>

definition time_atoi :: "string \<Rightarrow> int option" where
  "time_atoi s =
     (let ds = (case s of [] \<Rightarrow> [] | c # r \<Rightarrow> if c = CHR ''-'' \<or> c = CHR ''+'' then r else s);
          neg = (case s of [] \<Rightarrow> False | c # _ \<Rightarrow> c = CHR ''-'')
      in if list_all is_digit ds then Some (if neg then - int (digits_val ds) else int (digits_val ds)) else None)"

text \<open>The first \<open>n\<close> bytes of the text are a separator and the fraction digits.\<close>

definition parseNanoseconds :: "string \<Rightarrow> nat \<Rightarrow> int option" where
  "parseNanoseconds s n =
     (case s of [] \<Rightarrow> None
      | c # _ \<Rightarrow>
          if \<not> comma_or_period c then None
          else (case time_atoi (take (min n 10 - 1) (drop 1 s)) of
                 None \<Rightarrow> None
               | Some ns \<Rightarrow> if ns < 0 then None else Some (ns * 10 ^ (10 - min n 10))))"

definition fraction_len :: "string \<Rightarrow> nat" where
  "fraction_len s = 1 + length (takeWhile is_digit (drop 1 s))"

definition has_fraction :: "string \<Rightarrow> bool" where
  "has_fraction s = (case s of c # d # _ \<Rightarrow> comma_or_period c \<and> is_digit d | _ \<Rightarrow> False)"

definition takeFraction :: "string \<Rightarrow> tm \<Rightarrow> (tm \<times> string) option" where
  "takeFraction s t =
     (let n = fraction_len s in
      case parseNanoseconds s n of None \<Rightarrow> None | Some ns \<Rightarrow> Some (t\<lparr>tmNsec := ns\<rparr>, drop n s))"

definition zone_offset :: "char \<Rightarrow> string \<Rightarrow> string \<Rightarrow> int option" where
  "zone_offset sign hh mm =
     (case (getnum True hh, getnum True mm) of
        (Some (h, _), Some (m, _)) \<Rightarrow>
          if h > 24 \<or> m > 60 then None
          else if sign = CHR ''+'' then Some ((h * 60 + m) * 60)
          else if sign = CHR ''-'' then Some (- ((h * 60 + m) * 60))
          else None
      | _ \<Rightarrow> None)"

text \<open>One element of the layout; \<open>nxt\<close> is the element after it.\<close>

fun parse_elem :: "layout_elem \<Rightarrow> layout_elem option \<Rightarrow> string \<Rightarrow> tm \<Rightarrow> (tm \<times> string) option" where
  "parse_elem (Lit c) nxt s t = (case s of d # r \<Rightarrow> if d = c then Some (t, r) else None | [] \<Rightarrow> None)"
| "parse_elem Year nxt s t = (case getyear s of None \<Rightarrow> None | Some (y, r) \<Rightarrow> Some (t\<lparr>tmYear := y\<rparr>, r))"
| "parse_elem Month nxt s t = (case getnum True s of None \<Rightarrow> None
     | Some (m, r) \<Rightarrow> if m \<le> 0 \<or> 12 < m then None else Some (t\<lparr>tmMonth := m\<rparr>, r))"
| "parse_elem Day nxt s t = (case getnum True s of None \<Rightarrow> None | Some (d, r) \<Rightarrow> Some (t\<lparr>tmDay := d\<rparr>, r))"
| "parse_elem Hour nxt s t = (case getnum False s of None \<Rightarrow> None
     | Some (h, r) \<Rightarrow> if 24 \<le> h then None else Some (t\<lparr>tmHour := h\<rparr>, r))"
| "parse_elem Minute nxt s t = (case getnum True s of None \<Rightarrow> None
     | Some (m, r) \<Rightarrow> if 60 \<le> m then None else Some (t\<lparr>tmMin := m\<rparr>, r))"
| "parse_elem Second nxt s t = (case getnum True s of None \<Rightarrow> None
     | Some (x, r) \<Rightarrow>
         if 60 \<le> x then None
         else if has_fraction r \<and> nxt \<noteq> Some Frac3 \<and> nxt \<noteq> Some FracAny
         then takeFraction r (t\<lparr>tmSec := x\<rparr>)
         else Some (t\<lparr>tmSec := x\<rparr>, r))"
| "parse_elem Frac3 nxt s t =
     (if length s < 4 then None
      else case parseNanoseconds s 4 of None \<Rightarrow> None | Some ns \<Rightarrow> Some (t\<lparr>tmNsec := ns\<rparr>, drop 4 s))"
| "parse_elem FracAny nxt s t = (if has_fraction s then takeFraction s t else Some (t, s))"
| "parse_elem ZoneZ nxt s t =
     (case s of
        [] \<Rightarrow> None
      | c # r \<Rightarrow>
          if c = CHR ''Z'' then Some (t\<lparr>tmOffset := 0\<rparr>, r)
          else if length s < 6 \<or> s ! 3 \<noteq> CHR '':'' then None
          else (case zone_offset c (take 2 (drop 1 s)) (take 2 (drop 4 s)) of
                 None \<Rightarrow> None | Some off \<Rightarrow> Some (t\<lparr>tmOffset := off\<rparr>, drop 6 s)))"
| "parse_elem ZoneNum nxt s t =
     (if length s < 5 then None
      else case zone_offset (hd s) (take 2 (drop 1 s)) (take 2 (drop 3 s)) of
             None \<Rightarrow> None | Some off \<Rightarrow> Some (t\<lparr>tmOffset := off\<rparr>, drop 5 s))"

fun parse_elems :: "layout_elem list \<Rightarrow> string \<Rightarrow> tm \<Rightarrow> tm option" where
  "parse_elems [] s t = (if s = [] then Some t else None)"
| "parse_elems (e # es) s t =
     (case parse_elem e (case es of [] \<Rightarrow> None | n # _ \<Rightarrow> Some n) s t of
        None \<Rightarrow> None | Some (t', r) \<Rightarrow> parse_elems es r t')"

subsection \<open>The calendar\<close>

definition leap_year :: "int \<Rightarrow> bool" where
  "leap_year y \<longleftrightarrow> 4 dvd y \<and> (\<not> 100 dvd y \<or> 400 dvd y)"

definition daysIn :: "int \<Rightarrow> int \<Rightarrow> int" where
  "daysIn m y = (if m = 2 then (if leap_year y then 29 else 28)
                 else if m \<in> {4, 6, 9, 11} then 30 else 31)"

text \<open>Days from 1970-01-01 to the first day of a year, and to a day within a year.\<close>

definition days_before_year :: "int \<Rightarrow> int" where
  "days_before_year y = 365 * (y - 1970) + ((y - 1) div 4 - (y - 1) div 100 + (y - 1) div 400) - 477"

definition days_before_month :: "int \<Rightarrow> int \<Rightarrow> int" where
  "days_before_month m y = sum_list (map (\<lambda>k. daysIn (int k) y) [1..<nat m])"

definition unix_of :: "tm \<Rightarrow> int \<times> int" where
  "unix_of t =
     ((days_before_year (tmYear t) + days_before_month (tmMonth t) (tmYear t) + tmDay t - 1) * 86400
       + tmHour t * 3600 + tmMin t * 60 + tmSec t - tmOffset t,
      tmNsec t)"

definition timeParse :: "layout_elem list \<Rightarrow> string \<Rightarrow> (int \<times> int) option" where
  "timeParse layout s =
     (case parse_elems layout s zero_tm of
        None \<Rightarrow> None
      | Some t \<Rightarrow> if tmDay t < 1 \<or> tmDay t > daysIn (tmMonth t) (tmYear t) then None else Some (unix_of t))"

subsection \<open>parseJamfTime\<close>

definition date_time :: "layout_elem list" where
  "date_time = [Year, Lit CHR ''-'', Month, Lit CHR ''-'', Day, Lit CHR ''T'', Hour, Lit CHR '':'', Minute,
                Lit CHR '':'', Second]"

definition RFC3339Nano :: "layout_elem list" where "RFC3339Nano = date_time @ [FracAny, ZoneZ]"
definition RFC3339 :: "layout_elem list" where "RFC3339 = date_time @ [ZoneZ]"
definition layout_millis :: "layout_elem list" where "layout_millis = date_time @ [Frac3, ZoneNum]"
definition layout_offset :: "layout_elem list" where "layout_offset = date_time @ [ZoneNum]"

primrec first_layout :: "layout_elem list list \<Rightarrow> string \<Rightarrow> (int \<times> int) option" where
  "first_layout [] s = None"
| "first_layout (l # ls) s = (case timeParse l s of Some t \<Rightarrow> Some t | None \<Rightarrow> first_layout ls s)"

definition parseJamfTime :: "string \<Rightarrow> (int \<times> int) option" where
  "parseJamfTime s =
     (let s = trim_space s in
      if s = [] then None else first_layout [RFC3339Nano, RFC3339, layout_millis, layout_offset] s)"

subsection \<open>Reading back what Jamf writes\<close>

text \<open>The form of the time stamps in Jamf's payloads: UTC with milliseconds.\<close>

definition pad2 :: "nat \<Rightarrow> string" where
  "pad2 n = [digit_char (n div 10), digit_char (n mod 10)]"

definition pad3 :: "nat \<Rightarrow> string" where
  "pad3 n = digit_char (n div 100) # pad2 (n mod 100)"

definition pad4 :: "nat \<Rightarrow> string" where
  "pad4 n = pad2 (n div 100) @ pad2 (n mod 100)"

definition format_millis :: "nat \<Rightarrow> nat \<Rightarrow> nat \<Rightarrow> nat \<Rightarrow> nat \<Rightarrow> nat \<Rightarrow> nat \<Rightarrow> string" where
  "format_millis y mo d h mi sec ms =
     pad4 y @ ''-'' @ pad2 mo @ ''-'' @ pad2 d @ ''T'' @ pad2 h @ '':'' @ pad2 mi @ '':'' @ pad2 sec
     @ ''.'' @ pad3 ms @ ''Z''"

lemma getnum_pad2 [simp]: "n < 100 \<Longrightarrow> getnum fixed (pad2 n @ r) = Some (int n, r)"
  by (simp add: pad2_def)

lemma getyear_pad4 [simp]: "n < 10000 \<Longrightarrow> getyear (pad4 n @ r) = Some (int n, r)"
proof -
  assume n: "n < 10000"
  have l: "take 4 (pad4 n @ r) = pad4 n" "drop 4 (pad4 n @ r) = r"
    by (simp_all add: pad4_def pad2_def)
  have v: "digits_val (pad4 n) = n"
    using n by (simp add: pad4_def pad2_def digits_val_def)
  have d: "list_all is_digit (pad4 n)" using n by (simp add: pad4_def pad2_def)
  show ?thesis unfolding getyear_def l using v d by (simp add: pad4_def pad2_def)
qed

lemma frac_pad3: 
  assumes "ms < 1000"
  shows "has_fraction (''.'' @ pad3 ms @ ''Z'')"
    "takeFraction (''.'' @ pad3 ms @ ''Z'') t = Some (t\<lparr>tmNsec := int ms * 10 ^ 6\<rparr>, ''Z'')"
proof -
  have d: "list_all is_digit (pad3 ms)" and v: "digits_val (pad3 ms) = ms" and l: "length (pad3 ms) = 3"
    using assms by (simp_all add: pad3_def pad2_def digits_val_def)
  obtain a b c where p: "pad3 ms = [a, b, c]" by (simp add: pad3_def pad2_def)
  with d have dig: "is_digit a" "is_digit b" "is_digit c" by auto
  then have sign: "a \<noteq> CHR ''-''" "a \<noteq> CHR ''+''" using digit_not_sign by blast+
  have z: "\<not> is_digit CHR ''Z''" by (simp add: is_digit_def)
  have tw: "takeWhile is_digit (pad3 ms @ ''Z'') = pad3 ms"
    using dig z by (simp add: p)
  have n: "fraction_len (''.'' @ pad3 ms @ ''Z'') = 4"
    unfolding fraction_len_def using tw l by simp
  have "time_atoi (pad3 ms) = Some (int ms)"
    using d v sign by (simp add: time_atoi_def p)
  then have "parseNanoseconds (''.'' @ pad3 ms @ ''Z'') 4 = Some (int ms * 10 ^ 6)"
    by (simp add: parseNanoseconds_def comma_or_period_def p)
  with n show "takeFraction (''.'' @ pad3 ms @ ''Z'') t = Some (t\<lparr>tmNsec := int ms * 10 ^ 6\<rparr>, ''Z'')"
    by (simp add: takeFraction_def p)
  show "has_fraction (''.'' @ pad3 ms @ ''Z'')"
    using dig by (simp add: has_fraction_def comma_or_period_def p)
qed

definition valid_date :: "nat \<Rightarrow> nat \<Rightarrow> nat \<Rightarrow> bool" where
  "valid_date y mo d \<longleftrightarrow> y < 10000 \<and> 1 \<le> mo \<and> mo \<le> 12 \<and> 1 \<le> d \<and> int d \<le> daysIn (int mo) (int y)"

lemma daysIn_le: "daysIn m y \<le> 31" by (simp add: daysIn_def)

lemma parse_elems_format:
  assumes "valid_date y mo d" "h < 24" "mi < 60" "sec < 60" "ms < 1000"
  shows "parse_elems RFC3339Nano (format_millis y mo d h mi sec ms) zero_tm =
    Some \<lparr>tmYear = int y, tmMonth = int mo, tmDay = int d, tmHour = int h, tmMin = int mi, tmSec = int sec,
          tmNsec = int ms * 10 ^ 6, tmOffset = 0\<rparr>"
proof -
  have b: "y < 10000" "mo < 100" "d < 100" "h < 100" "mi < 100" "sec < 100"
    using assms daysIn_le[of "int mo" "int y"] by (auto simp: valid_date_def)
  show ?thesis
    using assms b frac_pad3[OF assms(5)]
    by (simp add: RFC3339Nano_def date_time_def format_millis_def valid_date_def zero_tm_def)
qed

text \<open>The calendar: a year is 365 or 366 days after the one before, January 1st 1970 is day 0.\<close>

lemma div_step: "(y :: int) div k - (y - 1) div k = (if k dvd y then 1 else 0)" if "0 < k"
proof (cases "k dvd y")
  case True
  then obtain q where q: "y = k * q" by blast
  have "(k * q - 1) div k = q - 1"
  proof -
    have "(k * q - 1) = (k - 1) + k * (q - 1)" by (simp add: algebra_simps)
    then have "(k * q - 1) div k = (q - 1) + (k - 1) div k" using that by (simp only: div_mult_self2)
    then show ?thesis using that by simp
  qed
  with q that show ?thesis by simp
next
  case False
  then have "y mod k \<noteq> 0" by (simp add: dvd_eq_mod_eq_0)
  then have m: "0 < y mod k" using that pos_mod_sign[of k y] by linarith
  have "y - 1 = (y mod k - 1) + k * (y div k)" by (simp add: algebra_simps)
  then have "(y - 1) div k = y div k + (y mod k - 1) div k" using that by (simp only: div_mult_self2)
  moreover have "(y mod k - 1) div k = 0" using m that pos_mod_bound[of k y] by (intro div_pos_pos_trivial) linarith+
  ultimately show ?thesis using False by simp
qed

lemma days_before_year_step: "days_before_year (y + 1) = days_before_year y + (if leap_year y then 366 else 365)"
proof -
  define a b c where "a = (y - 1) div 4" and "b = (y - 1) div 100" and "c = (y - 1) div 400"
  have steps: "y div 4 = a + (if 4 dvd y then 1 else 0)" "y div 100 = b + (if 100 dvd y then 1 else 0)"
    "y div 400 = c + (if 400 dvd y then 1 else 0)"
    using div_step[of 4 y] div_step[of 100 y] div_step[of 400 y] by (simp_all add: a_def b_def c_def)
  have d: "100 dvd y \<Longrightarrow> 4 dvd y" "400 dvd y \<Longrightarrow> 100 dvd y"
    using dvd_trans[of "4::int" 100 y] dvd_trans[of "100::int" 400 y] by auto
  have "days_before_year (y + 1) = 365 * (y + 1 - 1970) + (y div 4 - y div 100 + y div 400) - 477"
    by (simp add: days_before_year_def)
  moreover have "days_before_year y = 365 * (y - 1970) + (a - b + c) - 477"
    by (simp add: days_before_year_def a_def b_def c_def)
  ultimately show ?thesis
    unfolding leap_year_def steps using d by (cases "4 dvd y"; cases "100 dvd y"; cases "400 dvd y") simp_all
qed

lemma days_before_year_epoch: "days_before_year 1970 = 0"
  by (simp add: days_before_year_def)

lemma days_before_month_step: "0 < m \<Longrightarrow> days_before_month (int m + 1) y = days_before_month (int m) y + daysIn (int m) y"
  by (simp add: days_before_month_def nat_add_distrib)

lemma trim_format: "ms < 1000 \<Longrightarrow> y < 10000 \<Longrightarrow> trim_space (format_millis y mo d h mi sec ms) = format_millis y mo d h mi sec ms"
proof -
  assume "y < 10000"
  define c where "c = digit_char (y div 100 div 10)"
  have c: "\<not> is_space c"
    using \<open>y < 10000\<close> by (simp add: c_def is_space_def)
  have z: "\<not> is_space CHR ''Z''" by (simp add: is_space_def)
  obtain m where f: "format_millis y mo d h mi sec ms = c # m @ ''Z''"
    by (simp add: format_millis_def pad4_def pad2_def c_def)
  have d: "dropWhile is_space (c # m @ ''Z'') = c # m @ ''Z''" using c by simp
  have r: "rev (c # m @ ''Z'') = CHR ''Z'' # rev (c # m)" by simp
  have "dropWhile is_space (rev (c # m @ ''Z'')) = rev (c # m @ ''Z'')" unfolding r using z by simp
  with d have "trim_space (c # m @ ''Z'') = c # m @ ''Z''" unfolding trim_space_def by simp
  with f show ?thesis by simp
qed

end
