(* ===== verification/Devices.thy ===== *)
theory Devices
  imports ConsoleGroups DeviceModels Paging GoTime
begin

section \<open>Managed devices (pkg/connector/managedDevice.go)\<close>

text \<open>
  One resource type over two endpoints: computers first, then mobile devices, across paginated List
  calls whose token is a pagination bag.  Its state extends the connection by the user index, built
  once, and by the owners recorded while listing.
\<close>

record deviceOwner =
  doUsername :: string
  doEmail :: string

record 'w dev = "'w conn" +
  userIndex :: "(string \<rightharpoonup> ResourceId) option"
  deviceOwners :: "string \<rightharpoonup> deviceOwner"

definition devicePhaseComputer :: string where "devicePhaseComputer = ''computer''"
definition devicePhaseMobile :: string where "devicePhaseMobile = ''mobile''"
definition defaultDevicePageSize :: int where "defaultDevicePageSize = 100"
definition assignedEntitlement :: string where "assignedEntitlement = ''assigned''"
definition matchKeyEmail :: string where "matchKeyEmail = ''email''"
definition matchKeyUsername :: string where "matchKeyUsername = ''username''"

lemmas phase_defs = devicePhaseComputer_def devicePhaseMobile_def

subsection \<open>Page tokens\<close>

definition newDevicePageToken :: "int \<Rightarrow> int \<Rightarrow> string" where
  "newDevicePageToken page seen = itoa page @ '':'' @ itoa seen"

definition parseDevicePageToken :: "string \<Rightarrow> int \<times> int" where
  "parseDevicePageToken token =
     (if token = [] then (0, 0)
      else case split_first (CHR '':'') token of (first, rest) \<Rightarrow>
        (case atoi first of None \<Rightarrow> 0 | Some p \<Rightarrow> p,
         case rest of None \<Rightarrow> 0 | Some r \<Rightarrow> (case atoi r of None \<Rightarrow> 0 | Some x \<Rightarrow> x)))"

definition hasMorePages :: "int \<Rightarrow> int \<Rightarrow> int \<Rightarrow> int \<Rightarrow> bool" where
  "hasMorePages seenBefore pageSize totalCount gotThisPage =
     (if gotThisPage = 0 then False
      else if totalCount > 0 then wrap64 (seenBefore + gotThisPage) < totalCount
      else gotThisPage \<ge> pageSize)"

definition deviceObjectID :: "string \<Rightarrow> string \<Rightarrow> string" where
  "deviceObjectID phase i = phase @ '':'' @ i"

subsection \<open>Mapping computers\<close>

definition computerDeviceType :: "ComputerHardware option \<Rightarrow> DeviceType option" where
  "computerDeviceType hw =
     (case hw of None \<Rightarrow> None
      | Some hw \<Rightarrow>
          let i = to_lower (hwModelIdentifier hw); i = (if i = [] then to_lower (hwModel hw) else i) in
          if i = [] then None
          else if contains ''book'' i then Some DEVICE_TYPE_LAPTOP
          else Some DEVICE_TYPE_DESKTOP)"

definition computerModel :: "ComputerHardware \<Rightarrow> string" where
  "computerModel hw = (if hwModel hw \<noteq> [] then hwModel hw else hwModelIdentifier hw)"

definition osTypeFromName :: "string \<Rightarrow> OsType option" where
  "osTypeFromName name =
     (let n = to_lower name in
      if contains ''ipados'' n then Some OS_TYPE_IPADOS
      else if contains ''ios'' n then Some OS_TYPE_IOS
      else if contains ''mac'' n then Some OS_TYPE_MACOS
      else None)"

definition computerOS :: "ComputerOperatingSystem option \<Rightarrow> DeviceOS option" where
  "computerOS os =
     (case os of None \<Rightarrow> None
      | Some os \<Rightarrow>
          if cosName os = [] \<and> cosVersion os = [] \<and> cosBuild os = [] then None
          else Some \<lparr>osType = (case osTypeFromName (cosName os) of None \<Rightarrow> OS_TYPE_UNSPECIFIED | Some t \<Rightarrow> t),
                     osName = cosName os, osVersion = cosVersion os, osBuild = cosBuild os\<rparr>)"

text \<open>The pair of booleans of the code (value, known) is an option.\<close>

definition isEncrypted :: "ComputerDiskEncryption option \<Rightarrow> bool option" where
  "isEncrypted de =
     (case de of None \<Rightarrow> None
      | Some de \<Rightarrow> (case deBoot de of None \<Rightarrow> None
          | Some b \<Rightarrow>
              let st = to_upper (trim_space (bpPartitionFileVault2State b)) in
              if st = ''ENCRYPTED'' \<or> st = ''VALID'' then Some True
              else if st = ''NOT_ENCRYPTED'' \<or> st = ''DECRYPTED'' then Some False
              else None))"

definition managementStateManaged :: "ComputerGeneral option \<Rightarrow> bool" where
  "managementStateManaged g =
     (case g of None \<Rightarrow> False
      | Some g \<Rightarrow>
          (case cgMDMCapable g of None \<Rightarrow> False | Some m \<Rightarrow> mdmCapable m) \<and>
          (case cgRemoteManagement g of None \<Rightarrow> False | Some m \<Rightarrow> rmManaged m))"

text \<open>The options in the order the code appends them.\<close>

definition computer_options :: "ComputerInventory \<Rightarrow> device_trait_option list" where
  "computer_options c =
     (case ciHardware c of None \<Rightarrow> []
      | Some hw \<Rightarrow> if hwSerialNumber hw \<noteq> [] then [\<lambda>t. t\<lparr>mdSerial := hwSerialNumber hw\<rparr>] else [])
   @ (if ciUDID c \<noteq> [] then [\<lambda>t. t\<lparr>mdUdid := ciUDID c\<rparr>] else [])
   @ (case computerDeviceType (ciHardware c) of None \<Rightarrow> [] | Some dt \<Rightarrow> [\<lambda>t. t\<lparr>mdDeviceType := dt\<rparr>])
   @ (case ciHardware c of None \<Rightarrow> []
      | Some hw \<Rightarrow>
          (if computerModel hw \<noteq> [] then [\<lambda>t. t\<lparr>mdModel := computerModel hw\<rparr>] else [])
        @ (if hwMake hw \<noteq> [] then [\<lambda>t. t\<lparr>mdVendor := hwMake hw\<rparr>] else []))
   @ (case computerOS (ciOperatingSystem c) of None \<Rightarrow> [] | Some os \<Rightarrow> [\<lambda>t. t\<lparr>mdOs := Some os\<rparr>])
   @ (case isEncrypted (ciDiskEncryption c) of None \<Rightarrow> [] | Some enc \<Rightarrow> [\<lambda>t. t\<lparr>mdEncrypted := Some enc\<rparr>])
   @ (case ciGeneral c of None \<Rightarrow> [] | Some g \<Rightarrow> [\<lambda>t. t\<lparr>mdSupervised := Some (cgSupervised g)\<rparr>])
   @ (if managementStateManaged (ciGeneral c)
      then [\<lambda>t. t\<lparr>mdManagementState := MANAGEMENT_STATE_MANAGED\<rparr>] else [])
   @ (case ciGeneral c of None \<Rightarrow> []
      | Some g \<Rightarrow> (case parseJamfTime (cgLastEnrolledDate g) of None \<Rightarrow> [] | Some t \<Rightarrow> [\<lambda>tr. tr\<lparr>mdEnrolledAt := Some t\<rparr>]))"

definition computerResource :: "ComputerInventory \<Rightarrow> ResourceId option \<Rightarrow> go_error + Resource" where
  "computerResource c parent =
     (let name = (case ciGeneral c of None \<Rightarrow> ciID c | Some g \<Rightarrow> if cgName g \<noteq> [] then cgName g else ciID c) in
      NewManagedDeviceResource name resourceTypeManagedDevice (deviceObjectID devicePhaseComputer (ciID c))
        (computer_options c) [WithParentResourceID parent])"

subsection \<open>Mapping mobile devices\<close>

definition mobileDeviceType :: "MobileDevice \<Rightarrow> DeviceType option" where
  "mobileDeviceType m =
     (let i = to_lower (join '' '' [mbModelIdentifier m, mbModel m, mbType m]) in
      if contains ''ipad'' i then Some DEVICE_TYPE_TABLET
      else if contains ''iphone'' i \<or> contains ''ios'' i then Some DEVICE_TYPE_MOBILE
      else None)"

definition mobileModel :: "MobileDevice \<Rightarrow> string" where
  "mobileModel m = (if mbModel m \<noteq> [] then mbModel m else mbModelIdentifier m)"

definition mobileOS :: "MobileDevice \<Rightarrow> DeviceOS option" where
  "mobileOS m =
     (let i = to_lower (join '' '' [mbModelIdentifier m, mbModel m]);
          (ty, n) = (if contains ''ipad'' i then (OS_TYPE_IPADOS, ''iPadOS'')
                     else if contains ''iphone'' i \<or> contains ''ios'' (to_lower (mbType m)) then (OS_TYPE_IOS, ''iOS'')
                     else (OS_TYPE_UNSPECIFIED, []));
          d = \<lparr>osType = ty, osName = n, osVersion = mbOSVersion m, osBuild = mbOSBuild m\<rparr>
      in if ty = OS_TYPE_UNSPECIFIED \<and> n = [] \<and> mbOSVersion m = [] \<and> mbOSBuild m = [] then None else Some d)"

definition mobile_options :: "MobileDevice \<Rightarrow> device_trait_option list" where
  "mobile_options m =
     (if mbSerialNumber m \<noteq> [] then [\<lambda>t. t\<lparr>mdSerial := mbSerialNumber m\<rparr>] else [])
   @ (if mbUDID m \<noteq> [] then [\<lambda>t. t\<lparr>mdUdid := mbUDID m\<rparr>] else [])
   @ (case mobileDeviceType m of None \<Rightarrow> [] | Some dt \<Rightarrow> [\<lambda>t. t\<lparr>mdDeviceType := dt\<rparr>])
   @ (if mobileModel m \<noteq> [] then [\<lambda>t. t\<lparr>mdModel := mobileModel m\<rparr>] else [])
   @ (case mobileOS m of None \<Rightarrow> [] | Some os \<Rightarrow> [\<lambda>t. t\<lparr>mdOs := Some os\<rparr>])
   @ [\<lambda>t. t\<lparr>mdSupervised := Some (mbSupervised m)\<rparr>]
   @ (if mbManaged m then [\<lambda>t. t\<lparr>mdManagementState := MANAGEMENT_STATE_MANAGED\<rparr>] else [])"

definition mobileDeviceResource :: "MobileDevice \<Rightarrow> ResourceId option \<Rightarrow> go_error + Resource" where
  "mobileDeviceResource m parent =
     (let name = (if mbName m = [] then mbID m else mbName m) in
      NewManagedDeviceResource name resourceTypeManagedDevice (deviceObjectID devicePhaseMobile (mbID m))
        (mobile_options m) [WithParentResourceID parent])"

subsection \<open>Owners\<close>

definition recordDeviceOwner :: "Resource \<Rightarrow> string \<Rightarrow> string \<Rightarrow> (('w, 'x) dev_scheme, go_error, unit) comp" where
  "recordDeviceOwner r username email =
     (if username = [] \<and> email = [] then returnE ()
      else updateE (\<lambda>s. s\<lparr>deviceOwners := (deviceOwners s)
             (ridResource (resId r) \<mapsto> \<lparr>doUsername = username, doEmail = email\<rparr>)\<rparr>))"

definition deviceAssignee :: "('w, 'x) dev_scheme \<Rightarrow> Resource \<Rightarrow> string \<times> string" where
  "deviceAssignee s r =
     (case deviceOwners s (ridResource (resId r)) of
        None \<Rightarrow> ([], []) | Some ow \<Rightarrow> (doUsername ow, doEmail ow))"

text \<open>The keys of the index, and the index itself: the first user with a key keeps it.\<close>

definition index_key :: "string \<Rightarrow> string" where
  "index_key k = to_lower (trim_space k)"

definition add_key :: "ResourceId \<Rightarrow> string \<Rightarrow> (string \<rightharpoonup> ResourceId) \<Rightarrow> (string \<rightharpoonup> ResourceId)" where
  "add_key rid k idx =
     (let key = index_key k in
      if key = [] then idx else case idx key of None \<Rightarrow> idx(key \<mapsto> rid) | Some _ \<Rightarrow> idx)"

definition user_rid :: "User \<Rightarrow> ResourceId" where
  "user_rid u = \<lparr>ridType = rtId resourceTypeUser, ridResource = itoa (ID u)\<rparr>"

definition user_keys :: "User \<Rightarrow> string list" where
  "user_keys u = [Name u, userUsername u, userEmail u, userEmailAddress u]"

definition add_user :: "User \<Rightarrow> (string \<rightharpoonup> ResourceId) \<Rightarrow> (string \<rightharpoonup> ResourceId)" where
  "add_user u idx = fold (add_key (user_rid u)) (user_keys u) idx"

definition build_index :: "User list \<Rightarrow> (string \<rightharpoonup> ResourceId)" where
  "build_index users = fold add_user users Map.empty"

definition getUserIndex :: "'w env \<Rightarrow> (('w, 'x) dev_scheme, go_error, string \<rightharpoonup> ResourceId) comp" where
  "getUserIndex E =
     bindE getE (\<lambda>s.
     case userIndex s of
       Some idx \<Rightarrow> returnE idx
     | None \<Rightarrow>
         bindE (GetUsers E) (\<lambda>users.
         bindE (updateE (\<lambda>s. s\<lparr>userIndex := Some (build_index users)\<rparr>)) (\<lambda>_.
         returnE (build_index users))))"

fun resolve_keys :: "(string \<rightharpoonup> ResourceId) \<Rightarrow> string list \<Rightarrow> ResourceId option" where
  "resolve_keys idx [] = None"
| "resolve_keys idx (k # ks) =
     (let key = index_key k in
      if key = [] then resolve_keys idx ks
      else case idx key of Some rid \<Rightarrow> Some rid | None \<Rightarrow> resolve_keys idx ks)"

definition resolveUser :: "(string \<rightharpoonup> ResourceId) \<Rightarrow> string \<Rightarrow> string \<Rightarrow> ResourceId option" where
  "resolveUser idx username email = resolve_keys idx [username, email]"

definition deviceGrants :: "Resource \<Rightarrow> string \<Rightarrow> string \<Rightarrow> (string \<rightharpoonup> ResourceId) \<Rightarrow> go_error + Grant list" where
  "deviceGrants r username email idx =
     (if username = [] \<and> email = [] then Inr []
      else case resolveUser idx username email of
        Some rid \<Rightarrow> Inr [NewGrant r assignedEntitlement rid]
      | None \<Rightarrow>
          let (key, v) = (if trim_space email = [] then (matchKeyUsername, trim_space username)
                          else (matchKeyEmail, trim_space email));
              prin = NewResourceID resourceTypeUser v
          in Inr [(NewGrant r assignedEntitlement prin)
                    \<lparr>grMatch := Some \<lparr>emResourceType = TRAIT_USER, emKey = key, emValue = v\<rparr>\<rparr>])"

subsection \<open>List, Entitlements and Grants\<close>

text \<open>One page, told apart by the phase: its resources, and how many records and in all.\<close>

definition computer_page :: "'w env \<Rightarrow> ResourceId option \<Rightarrow> int \<Rightarrow> int \<Rightarrow>
    (('w, 'x) dev_scheme, go_error, Resource list \<times> int \<times> int) comp" where
  "computer_page E parent page pageSize =
     bindE (mapErr (WrapError ''jamf-connector: failed to list computers inventory'')
             (GetComputersInventory E page pageSize ComputerInventorySections)) (\<lambda>resp.
     bindE (mapE (\<lambda>c. bindE (mapErr (WrapError ''jamf-connector: failed to build computer resource'')
                              (liftE (computerResource c parent))) (\<lambda>r.
                      bindE (case ciUserAndLocation c of
                               None \<Rightarrow> returnE ()
                             | Some u \<Rightarrow> recordDeviceOwner r (ulUsername u) (EmailAddr (Some u))) (\<lambda>_.
                      returnE r))) (crResults resp)) (\<lambda>rs.
     returnE (rs, crTotalCount resp, int (length (crResults resp)))))"

definition mobile_page :: "'w env \<Rightarrow> ResourceId option \<Rightarrow> int \<Rightarrow> int \<Rightarrow>
    (('w, 'x) dev_scheme, go_error, Resource list \<times> int \<times> int) comp" where
  "mobile_page E parent page pageSize =
     bindE (mapErr (WrapError ''jamf-connector: failed to list mobile devices'')
             (GetMobileDevices E page pageSize)) (\<lambda>resp.
     bindE (mapE (\<lambda>m. bindE (mapErr (WrapError ''jamf-connector: failed to build mobile device resource'')
                              (liftE (mobileDeviceResource m parent))) (\<lambda>r.
                      bindE (recordDeviceOwner r (mbUsername m) []) (\<lambda>_. returnE r))) (mrResults resp)) (\<lambda>rs.
     returnE (rs, mrTotalCount resp, int (length (mrResults resp)))))"

definition start_bag :: "Bag \<Rightarrow> Bag" where
  "start_bag bag =
     (case Current bag of
        None \<Rightarrow> Push (page_state devicePhaseComputer (newDevicePageToken 0 0)) bag
      | Some _ \<Rightarrow> bag)"

definition device_List :: "'w env \<Rightarrow> ResourceId option \<Rightarrow> page_token \<Rightarrow> int \<Rightarrow>
    (('w, 'x) dev_scheme, go_error, Resource list \<times> page_token) comp" where
  "device_List E parent token size_hint =
     bindE (mapErr (WrapError ''jamf-connector: failed to parse device page token'') (liftE (Unmarshal token))) (\<lambda>bag.
     let bag = start_bag bag;
         pageSize = (if size_hint \<le> 0 then defaultDevicePageSize else size_hint)
     in case Current bag of
       None \<Rightarrow> throwE (PanicError ''nil page state'')
     | Some current \<Rightarrow>
         (case parseDevicePageToken (psToken current) of (page, seen) \<Rightarrow>
          if psResourceTypeID current = devicePhaseComputer then
            bindE (computer_page E parent page pageSize) (\<lambda>(resources, total, got).
            if hasMorePages seen pageSize total got
            then bindE (liftE (Next (newDevicePageToken (wrap64 (page + 1)) (wrap64 (seen + got))) bag)) (\<lambda>bag.
                 returnE (resources, Marshal bag))
            else returnE (resources,
                   Marshal (Push (page_state devicePhaseMobile (newDevicePageToken 0 0)) (snd (Pop bag)))))
          else if psResourceTypeID current = devicePhaseMobile then
            bindE (mobile_page E parent page pageSize) (\<lambda>(resources, total, got).
            if hasMorePages seen pageSize total got
            then bindE (liftE (Next (newDevicePageToken (wrap64 (page + 1)) (wrap64 (seen + got))) bag)) (\<lambda>bag.
                 returnE (resources, Marshal bag))
            else returnE (resources, Marshal (snd (Pop bag))))
          else throwE (UnknownDevicePhase (psResourceTypeID current))))"

definition device_Entitlements :: "Resource \<Rightarrow> (('w, 'x) dev_scheme, go_error, Entitlement list) comp" where
  "device_Entitlements r =
     bindE getE (\<lambda>s. case deviceAssignee s r of (username, email) \<Rightarrow>
       if username = [] \<and> email = [] then returnE []
       else returnE [NewAssignmentEntitlement r assignedEntitlement
              [WithGrantableTo [resourceTypeUser],
               WithDescription (''Assigned user of the '' @ resDisplayName r @ '' device''),
               WithDisplayName (resDisplayName r @ '' device '' @ assignedEntitlement)]])"

definition device_Grants :: "'w env \<Rightarrow> Resource \<Rightarrow> (('w, 'x) dev_scheme, go_error, Grant list) comp" where
  "device_Grants E r =
     bindE getE (\<lambda>s. case deviceAssignee s r of (username, email) \<Rightarrow>
       if username = [] \<and> email = [] then returnE []
       else
         bindE (mapErr (WrapError ''jamf-connector: failed to build user index for device owner resolution'')
                 (getUserIndex E)) (\<lambda>idx.
         liftE (deviceGrants r username email idx)))"

end
