(* ===== verification/Sites.thy ===== *)
theory Sites
  imports ConsoleGroups
begin

section \<open>Sites (pkg/connector/site.go)\<close>

text \<open>
  A site is granted to every directory user, user group, console account and console group that
  names it: users once per mention in their site list, the others by their one site.
\<close>

definition siteResource :: "Site \<Rightarrow> ResourceId option \<Rightarrow> go_error + Resource" where
  "siteResource site parent = NewResource (Name site) resourceTypeSite (itoa (ID site)) []"

definition site_List :: "'w env \<Rightarrow> ResourceId option \<Rightarrow> (('w, 'x) conn_scheme, go_error, Resource list) comp" where
  "site_List E parent =
     bindE (mapErr (WrapError ''jamf-connector: failed to list sites'') (GetSites E)) (\<lambda>sites.
     mapE (\<lambda>site. liftE (siteResource site parent)) sites)"

definition site_Entitlements :: "Resource \<Rightarrow> go_error + Entitlement list" where
  "site_Entitlements r =
     Inr [NewAssignmentEntitlement r memberEntitlement
       [WithGrantableTo [resourceTypeUser],
        WithDescription (''Member of '' @ resDisplayName r @ '' Site in Jamf''),
        WithDisplayName (resDisplayName r @ '' Site '' @ memberEntitlement)]]"

text \<open>The four loops of Grants: the resource of the principal is built for every element, the grants
  are made for the matching ones.\<close>

definition site_user_grants :: "Resource \<Rightarrow> User \<Rightarrow> go_error + Grant list" where
  "site_user_grants r user =
     bind_err (userResource user (Some (resId r))) (\<lambda>ur.
     Inr (map (\<lambda>_. NewGrant r memberEntitlement (resId ur))
           (filter (\<lambda>site. itoa (ID site) = ridResource (resId r)) (userSites user))))"

definition site_grant_if :: "Resource \<Rightarrow> BaseType \<Rightarrow> go_error + Resource \<Rightarrow> go_error + Grant list" where
  "site_grant_if r site built =
     bind_err built (\<lambda>p.
     Inr (if itoa (ID site) = ridResource (resId r) then [NewGrant r memberEntitlement (resId p)] else []))"

definition site_Grants :: "'w env \<Rightarrow> Resource \<Rightarrow> (('w, 'x) conn_scheme, go_error, Grant list) comp" where
  "site_Grants E r =
     (let parent = Some (resId r) in
      bindE (GetUsers E) (\<lambda>users.
      bindE (liftE (map_err (site_user_grants r) users)) (\<lambda>g1.
      bindE (GetUserGroups E) (\<lambda>userGroups.
      bindE (liftE (map_err (\<lambda>g. site_grant_if r (ugSite g) (userGroupResource g parent)) userGroups)) (\<lambda>g2.
      bindE (GetAccounts E) (\<lambda>(userAccounts, groups).
      bindE (liftE (map_err (\<lambda>a. site_grant_if r (accSite a) (userAccountResource a parent)) userAccounts)) (\<lambda>g3.
      bindE (liftE (map_err (\<lambda>g. site_grant_if r (grpSite g) (groupResource g parent)) groups)) (\<lambda>g4.
      returnE (concat (g1 @ g2 @ g3 @ g4))))))))))"

lemma siteResource_eq:
  "siteResource site p = Inr \<lparr>resId = \<lparr>ridType = ''site'', ridResource = itoa (ID site)\<rparr>,
     resDisplayName = Name site, resParent = None, resProfile = None, resStatus = None, resTraits = []\<rparr>"
  by (simp add: siteResource_def NewResource_def NewResourceID_def resourceTypeSite_def)

text \<open>The grants when every principal can be shown.\<close>

definition site_match :: "Resource \<Rightarrow> BaseType \<Rightarrow> bool" where
  "site_match r site \<longleftrightarrow> itoa (ID site) = ridResource (resId r)"

definition site_grant :: "Resource \<Rightarrow> string \<Rightarrow> int \<Rightarrow> Grant" where
  "site_grant r rt i = NewGrant r ''member'' \<lparr>ridType = rt, ridResource = itoa i\<rparr>"

lemma site_Grants_total:
  assumes "GetUsers E s = (Inr users, s1)" "GetUserGroups E s1 = (Inr ugs, s2)" "GetAccounts E s2 = (Inr (accounts, groups), t)"
    and "\<forall>u\<in>set users. user_utf8 u" "\<forall>h\<in>set ugs. utf8_valid (Name h)"
    and "\<forall>a\<in>set accounts. account_utf8 a" "\<forall>g\<in>set groups. utf8_valid (Name g)"
  shows "site_Grants E r s =
    (Inr (concat (map (\<lambda>u. map (\<lambda>_. site_grant r ''user'' (ID u)) (filter (site_match r) (userSites u))) users)
        @ map (\<lambda>h. site_grant r ''userGroup'' (ID h)) (filter (\<lambda>h. site_match r (ugSite h)) ugs)
        @ map (\<lambda>a. site_grant r ''userAccount'' (ID a)) (filter (\<lambda>a. site_match r (accSite a)) accounts)
        @ map (\<lambda>g. site_grant r ''group'' (ID g)) (filter (\<lambda>g. site_match r (grpSite g)) groups)), t)"
proof -
  let ?p = "Some (resId r)"
  note defs = bind_err_def site_match_def site_grant_def memberEntitlement_def site_grant_if_def
  have "map_err (site_user_grants r) users
      = Inr (map (\<lambda>u. map (\<lambda>_. site_grant r ''user'' (ID u)) (filter (site_match r) (userSites u))) users)"
    by (rule map_err_total) (use assms(4) in \<open>simp add: site_user_grants_def userResource_eq user_view_def defs
        site_match_def[abs_def]\<close>)
  moreover have "map_err (\<lambda>h. site_grant_if r (ugSite h) (userGroupResource h ?p)) ugs
      = Inr (map (\<lambda>h. if site_match r (ugSite h) then [site_grant r ''userGroup'' (ID h)] else []) ugs)"
    by (rule map_err_total) (use assms(5) in \<open>simp add: userGroupResource_eq group_view_def resourceTypeUserGroup_def defs\<close>)
  moreover have "map_err (\<lambda>a. site_grant_if r (accSite a) (userAccountResource a ?p)) accounts
      = Inr (map (\<lambda>a. if site_match r (accSite a) then [site_grant r ''userAccount'' (ID a)] else []) accounts)"
    by (rule map_err_total) (use assms(6) in \<open>simp add: userAccountResource_eq account_view_def defs\<close>)
  moreover have "map_err (\<lambda>g. site_grant_if r (grpSite g) (groupResource g ?p)) groups
      = Inr (map (\<lambda>g. if site_match r (grpSite g) then [site_grant r ''group'' (ID g)] else []) groups)"
    by (rule map_err_total) (use assms(7) in \<open>simp add: groupResource_eq group_view_def resourceTypeGroup_def defs\<close>)
  ultimately show ?thesis
    using assms(1-3) by (simp add: site_Grants_def Let_def concat_if)
qed

end
