(* ===== verification/Roles.thy ===== *)
theory Roles
  imports ConsoleGroups
begin

section \<open>Roles (pkg/connector/role.go)\<close>

text \<open>
  A role is one of the built-in privilege sets or one individual privilege.  Groups and accounts
  with a Custom privilege set hold the individual privileges of their list; the others hold the
  role named by their privilege set.
\<close>

definition privilegeSets :: "string list" where
  "privilegeSets = [privilegeSetAdministrator, privilegeSetAuditor, privilegeSetEnrollmentOnly]"

definition role_profile :: "string \<Rightarrow> profile" where
  "role_profile role = [(''role_name'', PString role), (''role_id'', PString role)]"

definition roleResource :: "string \<Rightarrow> ResourceId option \<Rightarrow> go_error + Resource" where
  "roleResource role parent =
     NewRoleResource role resourceTypeRole role [WithParentResourceID parent, WithResourceProfile (role_profile role)]"

definition role_List :: "'w env \<Rightarrow> ResourceId option \<Rightarrow> (('w, 'x) conn_scheme, go_error, Resource list) comp" where
  "role_List E parent =
     bindE (liftE (map_err (\<lambda>p. roleResource p parent) privilegeSets)) (\<lambda>sets.
     bindE (GetPrivileges E) (\<lambda>privileges.
     bindE (liftE (map_err (\<lambda>p. roleResource p parent) privileges)) (\<lambda>rest.
     returnE (sets @ rest))))"

definition role_Entitlements :: "Resource \<Rightarrow> go_error + Entitlement list" where
  "role_Entitlements r =
     Inr [NewPermissionEntitlement r memberEntitlement
       [WithGrantableTo [resourceTypeUserAccount, resourceTypeGroup],
        WithDescription (''Privilege set of '' @ resDisplayName r),
        WithDisplayName (resDisplayName r @ '' privilege set '' @ memberEntitlement)]]"

definition matchesIndividualPrivilege :: "string \<Rightarrow> Privileges option \<Rightarrow> string \<Rightarrow> bool" where
  "matchesIndividualPrivilege privilegeSet privileges privilege \<longleftrightarrow>
     privilegeSet = privilegeSetCustom \<and> Contains privileges privilege"

definition role_grant_if :: "Resource \<Rightarrow> string \<Rightarrow> Privileges \<Rightarrow> go_error + Resource \<Rightarrow> go_error + Grant list" where
  "role_grant_if r privilegeSet privileges built =
     bind_err built (\<lambda>p.
     let role = ridResource (resId r); isCustomPrivilege = (role \<notin> set privilegeSets) in
     if isCustomPrivilege \<and> matchesIndividualPrivilege privilegeSet (Some privileges) role
     then Inr [NewGrant r memberEntitlement (resId p)]
     else if privilegeSet = role then Inr [NewGrant r memberEntitlement (resId p)]
     else Inr [])"

definition role_Grants :: "'w env \<Rightarrow> Resource \<Rightarrow> (('w, 'x) conn_scheme, go_error, Grant list) comp" where
  "role_Grants E r =
     (let parent = Some (resId r) in
      bindE (GetAccounts E) (\<lambda>(userAccounts, groups).
      bindE (liftE (map_err (\<lambda>g. role_grant_if r (grpPrivilegeSet g) (grpPrivileges g) (groupResource g parent)) groups)) (\<lambda>g1.
      bindE (liftE (map_err (\<lambda>a. role_grant_if r (accPrivilegeSet a) (accPrivileges a) (userAccountResource a parent)) userAccounts)) (\<lambda>g2.
      returnE (concat (g1 @ g2))))))"

text \<open>When a privilege set and a list of privileges give a role.\<close>

definition holds_role :: "string \<Rightarrow> Privileges \<Rightarrow> string \<Rightarrow> bool" where
  "holds_role privilegeSet privileges role \<longleftrightarrow>
     privilegeSet = role \<or>
     (role \<notin> {''Administrator'', ''Auditor'', ''Enrollment Only''} \<and> privilegeSet = ''Custom'' \<and>
      Contains (Some privileges) role)"

lemma role_grant_if_eq:
  "role_grant_if r ps pv built = bind_err built (\<lambda>p.
     Inr (if holds_role ps pv (ridResource (resId r)) then [NewGrant r memberEntitlement (resId p)] else []))"
  by (auto simp: role_grant_if_def holds_role_def bind_err_def privilegeSets_def privilege_set_defs
      matchesIndividualPrivilege_def Let_def split: sum.splits)

definition role_view :: "string \<Rightarrow> ResourceId option \<Rightarrow> Resource" where
  "role_view role p =
     \<lparr>resId = \<lparr>ridType = ''role'', ridResource = role\<rparr>, resDisplayName = role, resParent = p,
      resProfile = Some (role_profile role), resStatus = None, resTraits = [TRole]\<rparr>"

lemma roleResource_eq:
  "roleResource role p = (if utf8_valid role then Inr (role_view role p) else Inl InvalidUTF8)"
  by (simp add: roleResource_def resource_build role_view_def resourceTypeRole_def role_profile_def NewStruct_def)

text \<open>The grants when every account and group can be shown.\<close>

lemma role_Grants_total:
  assumes "GetAccounts E s = (Inr (accounts, groups), t)"
    and "\<forall>g\<in>set groups. utf8_valid (Name g)" "\<forall>a\<in>set accounts. account_utf8 a"
  shows "role_Grants E r s =
    (Inr (map (\<lambda>g. NewGrant r ''member'' \<lparr>ridType = ''group'', ridResource = itoa (ID g)\<rparr>)
            (filter (\<lambda>g. holds_role (grpPrivilegeSet g) (grpPrivileges g) (ridResource (resId r))) groups)
        @ map (\<lambda>a. NewGrant r ''member'' \<lparr>ridType = ''userAccount'', ridResource = itoa (ID a)\<rparr>)
            (filter (\<lambda>a. holds_role (accPrivilegeSet a) (accPrivileges a) (ridResource (resId r))) accounts)), t)"
proof -
  let ?p = "Some (resId r)"
  have "map_err (\<lambda>g. role_grant_if r (grpPrivilegeSet g) (grpPrivileges g) (groupResource g ?p)) groups = Inr (map (\<lambda>g.
      if holds_role (grpPrivilegeSet g) (grpPrivileges g) (ridResource (resId r))
      then [NewGrant r ''member'' \<lparr>ridType = ''group'', ridResource = itoa (ID g)\<rparr>] else []) groups)"
    by (rule map_err_total) (use assms(2) in \<open>simp add: role_grant_if_eq groupResource_eq bind_err_def group_view_def
        resourceTypeGroup_def memberEntitlement_def\<close>)
  moreover have "map_err (\<lambda>a. role_grant_if r (accPrivilegeSet a) (accPrivileges a) (userAccountResource a ?p)) accounts = Inr (map (\<lambda>a.
      if holds_role (accPrivilegeSet a) (accPrivileges a) (ridResource (resId r))
      then [NewGrant r ''member'' \<lparr>ridType = ''userAccount'', ridResource = itoa (ID a)\<rparr>] else []) accounts)"
    by (rule map_err_total) (use assms(3) in \<open>simp add: role_grant_if_eq userAccountResource_eq bind_err_def account_view_def
        memberEntitlement_def\<close>)
  ultimately show ?thesis
    using assms(1) by (simp add: role_Grants_def Let_def concat_if)
qed

end
