(* ===== verification/Config.thy ===== *)
theory Config
  imports Http
begin

section \<open>The configuration (pkg/config/config.go, pkg/config/conf.gen.go)\<close>

text \<open>
  The declared fields, the struct they are decoded into, and the getters that find a field by its
  \<open>mapstructure\<close> tag with reflection.  A getter of another type than the field's panics; that branch
  is the error \<open>PanicError\<close>.
\<close>

subsection \<open>The declared fields\<close>

datatype field_kind = StringField | SelectField "string list"

datatype export_target = ExportTargetNone | ExportTargetGUI | ExportTargetOps | ExportTargetCLIOnly

record SchemaField =
  sfName :: string
  sfKind :: field_kind
  sfDisplayName :: string
  sfDescription :: string
  sfRequired :: bool
  sfSecret :: bool
  sfDefault :: string
  sfExport :: export_target

text \<open>\<open>field.StringField\<close> and \<open>field.SelectField\<close> with a display name and a description.\<close>

definition schema_field_of :: "field_kind \<Rightarrow> string \<Rightarrow> string \<Rightarrow> string \<Rightarrow> SchemaField" where
  "schema_field_of k n d t = \<lparr>sfName = n, sfKind = k, sfDisplayName = d, sfDescription = t, sfRequired = False,
     sfSecret = False, sfDefault = [], sfExport = ExportTargetGUI\<rparr>"

definition UsernameField :: SchemaField where
  "UsernameField = (schema_field_of StringField ''username'' ''Username''
     ''Username for your Jamf Pro instance'')\<lparr>sfRequired := True\<rparr>"

definition PasswordField :: SchemaField where
  "PasswordField = (schema_field_of StringField ''password'' ''Password''
     ''Password for your Jamf Pro instance'')\<lparr>sfSecret := True, sfRequired := True\<rparr>"

definition InstanceUrlField :: SchemaField where
  "InstanceUrlField = (schema_field_of StringField ''instance-url'' ''Instance URL''
     ''URL of your Jamf Pro instance'')\<lparr>sfRequired := True\<rparr>"

definition CreateAccountResourceTypeField :: SchemaField where
  "CreateAccountResourceTypeField =
     (schema_field_of (SelectField [''user'', ''userAccount'']) ''create-account-resource-type''
        ''Account Provisioning Target''
        (''Which Jamf account type C1 should create when provisioning accounts. ''
         @ [CHR 0x27] @ ''user'' @ [CHR 0x27] @ '' (default) creates directory users; ''
         @ [CHR 0x27] @ ''userAccount'' @ [CHR 0x27] @ '' creates Jamf Pro console admin accounts. ''
         @ ''Only one type can be created at a time per connector instance.''))
       \<lparr>sfDefault := ''user'', sfExport := ExportTargetGUI\<rparr>"

definition ConfigurationFields :: "SchemaField list" where
  "ConfigurationFields = [UsernameField, PasswordField, InstanceUrlField, CreateAccountResourceTypeField]"

text \<open>\<open>field.NewConfiguration\<close>: the fields, the names related by constraints (none), and what the user
  interface shows of the connector.\<close>

record Configuration =
  cfFields :: "SchemaField list"
  cfConstraints :: "string list list"
  cfDisplayName :: string
  cfHelpUrl :: string
  cfIconUrl :: string

definition FieldRelationships :: "string list list" where
  "FieldRelationships = []"

definition Config :: Configuration where
  "Config = \<lparr>cfFields = ConfigurationFields, cfConstraints = FieldRelationships, cfDisplayName = ''Jamf'',
     cfHelpUrl = ''/docs/baton/jamf'', cfIconUrl = ''/static/app-icons/jamf.svg''\<rparr>"

subsection \<open>The struct and its getters\<close>

record JamfConfig =
  Username :: string
  Password :: string
  InstanceUrl :: string
  CreateAccountResourceType :: string

text \<open>A field's value as \<open>any\<close>; every field of the struct is a string, the other kinds are what the
  getters ask for.\<close>

datatype any_value = AnyString string | AnyBytes string | AnyInt int | AnyBool bool | AnyStrings "string list"
  | AnyMap "(string \<times> string) list"

definition struct_fields :: "JamfConfig \<Rightarrow> (string \<times> any_value) list" where
  "struct_fields c =
     [(''username'', AnyString (Username c)), (''password'', AnyString (Password c)),
      (''instance-url'', AnyString (InstanceUrl c)),
      (''create-account-resource-type'', AnyString (CreateAccountResourceType c))]"

definition findFieldByTag :: "JamfConfig \<Rightarrow> string \<Rightarrow> any_value option" where
  "findFieldByTag c tagValue = map_option snd (List.find (\<lambda>f. fst f = tagValue) (struct_fields c))"

definition wrong_type :: "go_error + 'a" where
  "wrong_type = Inl (PanicError ''wrong type'')"

definition GetStringSlice :: "JamfConfig \<Rightarrow> string \<Rightarrow> go_error + string list" where
  "GetStringSlice c n =
     (case findFieldByTag c n of None \<Rightarrow> Inr [] | Some (AnyStrings t) \<Rightarrow> Inr t | Some _ \<Rightarrow> wrong_type)"

definition GetString :: "JamfConfig \<Rightarrow> string \<Rightarrow> go_error + string" where
  "GetString c n =
     (case findFieldByTag c n of None \<Rightarrow> Inr [] | Some (AnyString t) \<Rightarrow> Inr t | Some (AnyBytes t) \<Rightarrow> Inr t
      | Some _ \<Rightarrow> wrong_type)"

definition GetInt :: "JamfConfig \<Rightarrow> string \<Rightarrow> go_error + int" where
  "GetInt c n = (case findFieldByTag c n of None \<Rightarrow> Inr 0 | Some (AnyInt t) \<Rightarrow> Inr t | Some _ \<Rightarrow> wrong_type)"

definition GetBool :: "JamfConfig \<Rightarrow> string \<Rightarrow> go_error + bool" where
  "GetBool c n = (case findFieldByTag c n of None \<Rightarrow> Inr False | Some (AnyBool t) \<Rightarrow> Inr t | Some _ \<Rightarrow> wrong_type)"

definition GetStringMap :: "JamfConfig \<Rightarrow> string \<Rightarrow> go_error + (string \<times> string) list" where
  "GetStringMap c n = (case findFieldByTag c n of None \<Rightarrow> Inr [] | Some (AnyMap t) \<Rightarrow> Inr t | Some _ \<Rightarrow> wrong_type)"

lemmas field_defs = UsernameField_def PasswordField_def InstanceUrlField_def CreateAccountResourceTypeField_def
  schema_field_of_def

lemmas getter_defs = GetString_def GetInt_def GetBool_def GetStringSlice_def GetStringMap_def findFieldByTag_def
  struct_fields_def wrong_type_def

text \<open>
  C40.  The declared fields and the struct agree: each declared field is read by \<open>GetString\<close> from the
  struct field of its own, and for any name, declared or not, \<open>GetString\<close> never panics while every
  other getter panics exactly on the declared names.
\<close>

theorem config_getters:
  "map (\<lambda>f. GetString c (sfName f)) ConfigurationFields =
     [Inr (Username c), Inr (Password c), Inr (InstanceUrl c), Inr (CreateAccountResourceType c)]
   \<and> (\<exists>t. GetString c n = Inr t)
   \<and> (GetInt c n = wrong_type) = (n \<in> sfName ` set ConfigurationFields)
   \<and> (GetBool c n = wrong_type) = (n \<in> sfName ` set ConfigurationFields)
   \<and> (GetStringSlice c n = wrong_type) = (n \<in> sfName ` set ConfigurationFields)
   \<and> (GetStringMap c n = wrong_type) = (n \<in> sfName ` set ConfigurationFields)"
  by (simp add: ConfigurationFields_def field_defs getter_defs)

end
