(* ===== verification/Connector.thy ===== *)
theory Connector
  imports Devices Sites Roles Accounts Config
begin

section \<open>The connector (pkg/connector/connector.go) and its registration with the SDK\<close>

text \<open>
  The connector value, its metadata and validation, which syncers it registers, and what the SDK's
  \<open>connectorbuilder\<close> makes of them: one map of syncers, one of account managers, one of deleters, each
  keyed by resource type id.  A syncer is named by the builder function that makes it; the argument
  says whether it is wrapped with account creation.
\<close>

subsection \<open>The connector value\<close>

text \<open>\<open>cli.ConnectorOpts\<close>: the resource types the operator asked for.\<close>

record ConnectorOpts =
  SyncResourceTypeIDs :: "string list"

definition SyncFilterIsExplicit :: "ConnectorOpts \<Rightarrow> bool" where
  "SyncFilterIsExplicit opts \<longleftrightarrow> length (SyncResourceTypeIDs opts) > 0"

definition SyncResourceTypeSet :: "ConnectorOpts \<Rightarrow> string set option" where
  "SyncResourceTypeSet opts = (if \<not> SyncFilterIsExplicit opts then None else Some (set (SyncResourceTypeIDs opts)))"

definition WillSyncResourceType :: "ConnectorOpts \<Rightarrow> string \<Rightarrow> bool" where
  "WillSyncResourceType opts i =
     (if \<not> SyncFilterIsExplicit opts then True
      else case SyncResourceTypeSet opts of None \<Rightarrow> False | Some ids \<Rightarrow> i \<in> ids)"

text \<open>\<open>Jamf\<close>, less the client, which is the state of the computations.\<close>

record Jamf =
  jOpts :: "ConnectorOpts option"
  accountProvisioningTarget :: string

definition zero_Jamf :: Jamf where
  "zero_Jamf = \<lparr>jOpts = None, accountProvisioningTarget = []\<rparr>"

definition userProvisioningActive :: "Jamf \<Rightarrow> bool" where
  "userProvisioningActive j \<longleftrightarrow>
     accountProvisioningTarget j = [] \<or> accountProvisioningTarget j = rtId resourceTypeUser"

definition userAccountProvisioningActive :: "Jamf \<Rightarrow> bool" where
  "userAccountProvisioningActive j \<longleftrightarrow> accountProvisioningTarget j = rtId resourceTypeUserAccount"

definition New :: "'w env \<Rightarrow> 'w \<Rightarrow> JamfConfig \<Rightarrow> ConnectorOpts option \<Rightarrow> (go_error + Jamf) \<times> 'w conn" where
  "New E w cc opts =
     bindE (mapErr (WrapError ''jamf-connector: failed to get token'') (CreateBearerToken E (Username cc) (Password cc))) (\<lambda>tok.
     bindE (SetBearerToken E tok) (\<lambda>_.
     let target = CreateAccountResourceType cc;
         target = (if target = [] then rtId resourceTypeUser else target)
     in returnE \<lparr>jOpts = opts, accountProvisioningTarget = target\<rparr>))
     (NewClient E Map.empty w (Username cc) (Password cc) [] (InstanceUrl cc))"

text \<open>\<open>reflect.ValueOf(p).IsZero()\<close> of a pointer is \<open>p == nil\<close>; \<open>GetTokenDetails\<close> returns the address of
  its local \<open>target\<close>.\<close>

definition pointer_IsZero :: "'a option \<Rightarrow> bool" where
  "pointer_IsZero p \<longleftrightarrow> p = None"

definition Validate :: "'w env \<Rightarrow> (('w, 'x) conn_scheme, go_error, unit) comp" where
  "Validate E =
     bindE (mapErr (WrapError ''jamf-connector: error fetching token details'')
       (bindE (GetTokenDetails E) (\<lambda>target. returnE (Some target)))) (\<lambda>tokenDetails.
     if pointer_IsZero tokenDetails then throwE (PlainError ''jamf-connector: missing token details'')
     else returnE ())"

subsection \<open>Account creation schemas and capabilities\<close>

datatype schema_kind = SchemaStringField | SchemaStringListField

record schema_field =
  scDisplayName :: string
  scRequired :: bool
  scDescription :: string
  scKind :: schema_kind
  scPlaceholder :: string
  scOrder :: int

type_synonym creation_schema = "(string \<times> schema_field) list"

definition schema_string :: "string \<Rightarrow> string \<Rightarrow> string \<Rightarrow> int \<Rightarrow> schema_field" where
  "schema_string name desc p n = \<lparr>scDisplayName = name, scRequired = False, scDescription = desc,
     scKind = SchemaStringField, scPlaceholder = p, scOrder = n\<rparr>"

definition userCreationSchema :: creation_schema where
  "userCreationSchema =
     [(''full_name'', schema_string ''Full Name'' (''The user'' @ [CHR 0x27] @ ''s full name.'') ''Jane Doe'' 1),
      (''email'', schema_string ''Email'' (''The user'' @ [CHR 0x27] @ ''s email address.'') ''jane.doe@example.com'' 2)]"

text \<open>\<open>customPrivilegeFields\<close>: the profile fields of the seven categories, in display order.\<close>

definition customPrivilegeFields :: "(string \<times> string) list" where
  "customPrivilegeFields =
     [(''privileges_jss_objects'', ''Privileges: JSS Objects''),
      (''privileges_jss_settings'', ''Privileges: JSS Settings''),
      (''privileges_jss_actions'', ''Privileges: JSS Actions''),
      (''privileges_recon'', ''Privileges: Recon''),
      (''privileges_casper_admin'', ''Privileges: Casper Admin''),
      (''privileges_casper_remote'', ''Privileges: Casper Remote''),
      (''privileges_casper_imaging'', ''Privileges: Casper Imaging'')]"

definition privilegeSetDescription :: string where
  "privilegeSetDescription =
     ''The admin'' @ [CHR 0x27] @ ''s privilege set. One of: '' @ join '', '' knownPrivilegeSets
     @ ''. Defaults to '' @ quoted defaultPrivilegeSet @ ''. When '' @ quoted privilegeSetCustom
     @ '', set at least one of the Privileges fields below.''"

definition userAccountCreationSchema :: creation_schema where
  "userAccountCreationSchema =
     [(''full_name'', schema_string ''Full Name'' (''The admin'' @ [CHR 0x27] @ ''s full name.'') ''Jane Doe'' 1),
      (''email'', schema_string ''Email'' (''The admin'' @ [CHR 0x27] @ ''s email address.'') ''jane.doe@example.com'' 2),
      (''privilege_set'', schema_string ''Privilege Set'' privilegeSetDescription defaultPrivilegeSet 3)]
     @ map (\<lambda>(i, field, displayName).
              (field, \<lparr>scDisplayName = displayName, scRequired = False,
                       scDescription = ''Only used when Privilege Set is '' @ quoted privilegeSetCustom
                         @ ''. List of privilege names to grant in this category.'',
                       scKind = SchemaStringListField, scPlaceholder = [], scOrder = 4 + int i\<rparr>))
           (enumerate 0 customPrivilegeFields)"

definition accountCreationSchema :: "Jamf \<Rightarrow> creation_schema" where
  "accountCreationSchema j =
     (if userAccountProvisioningActive j then userAccountCreationSchema else userCreationSchema)"

record ConnectorMetadata =
  mdDisplayName :: string
  mdDescription :: string
  mdAccountCreationSchema :: creation_schema

definition Metadata :: "Jamf \<Rightarrow> ConnectorMetadata" where
  "Metadata j = \<lparr>mdDisplayName = ''Jamf'',
     mdDescription = ''Connector syncing groups, users, user accounts, user groups, sites, roles, and managed devices from Jamf Pro to Baton, ''
       @ ''with account provisioning (create/delete) for users and user accounts'',
     mdAccountCreationSchema = accountCreationSchema j\<rparr>"

datatype credential_option = NO_PASSWORD | RANDOM_PASSWORD

text \<open>Supported options and the preferred one.\<close>

type_synonym credential_details = "credential_option list \<times> credential_option"

definition user_CreateAccountCapabilityDetails :: credential_details where
  "user_CreateAccountCapabilityDetails = ([NO_PASSWORD], NO_PASSWORD)"

definition userAccount_CreateAccountCapabilityDetails :: credential_details where
  "userAccount_CreateAccountCapabilityDetails = ([RANDOM_PASSWORD], RANDOM_PASSWORD)"

subsection \<open>Syncers\<close>

datatype syncer =
    UserSyncer bool
  | GroupSyncer
  | UserAccountSyncer bool
  | UserGroupSyncer
  | SiteSyncer
  | RoleSyncer
  | ManagedDeviceSyncer

fun syncer_type :: "syncer \<Rightarrow> ResourceType" where
  "syncer_type (UserSyncer _) = resourceTypeUser"
| "syncer_type GroupSyncer = resourceTypeGroup"
| "syncer_type (UserAccountSyncer _) = resourceTypeUserAccount"
| "syncer_type UserGroupSyncer = resourceTypeUserGroup"
| "syncer_type SiteSyncer = resourceTypeSite"
| "syncer_type RoleSyncer = resourceTypeRole"
| "syncer_type ManagedDeviceSyncer = resourceTypeManagedDevice"

text \<open>The builder functions, and the types \<open>provisionableUserType\<close> and \<open>provisionableUserAccountType\<close> that
  add account creation to a base syncer.\<close>

definition userBuilder :: syncer where "userBuilder = UserSyncer False"
definition groupBuilder :: syncer where "groupBuilder = GroupSyncer"
definition userAccountBuilder :: syncer where "userAccountBuilder = UserAccountSyncer False"
definition userGroupBuilder :: syncer where "userGroupBuilder = UserGroupSyncer"
definition siteBuilder :: syncer where "siteBuilder = SiteSyncer"
definition roleBuilder :: syncer where "roleBuilder = RoleSyncer"
definition managedDeviceBuilder :: syncer where "managedDeviceBuilder = ManagedDeviceSyncer"

fun provisionable :: "syncer \<Rightarrow> syncer" where
  "provisionable (UserSyncer _) = UserSyncer True"
| "provisionable (UserAccountSyncer _) = UserAccountSyncer True"
| "provisionable x = x"

definition userSyncer :: "Jamf \<Rightarrow> syncer" where
  "userSyncer j = (let base = userBuilder in if userProvisioningActive j then provisionable base else base)"

definition userAccountSyncer :: "Jamf \<Rightarrow> syncer" where
  "userAccountSyncer j =
     (let base = userAccountBuilder in if userAccountProvisioningActive j then provisionable base else base)"

definition shouldSyncManagedDevice :: "Jamf \<Rightarrow> bool" where
  "shouldSyncManagedDevice j =
     (case jOpts j of None \<Rightarrow> True
      | Some opts \<Rightarrow> SyncFilterIsExplicit opts \<and> WillSyncResourceType opts (rtId resourceTypeManagedDevice))"

definition ResourceSyncers :: "Jamf \<Rightarrow> syncer list" where
  "ResourceSyncers j =
     [userSyncer j, groupBuilder, userAccountSyncer j, userGroupBuilder, siteBuilder, roleBuilder]
     @ (if shouldSyncManagedDevice j then [managedDeviceBuilder] else [])"

lemmas builder_defs = userBuilder_def groupBuilder_def userAccountBuilder_def userGroupBuilder_def siteBuilder_def
  roleBuilder_def managedDeviceBuilder_def

lemma provisioning_syncers:
  "userSyncer j = UserSyncer (userProvisioningActive j)"
  "userAccountSyncer j = UserAccountSyncer (userAccountProvisioningActive j)"
  by (simp_all add: userSyncer_def userAccountSyncer_def builder_defs Let_def)

text \<open>The operations of a syncer, as the interface \<open>ResourceSyncerV2\<close> dispatches them.  Only the device
  syncer uses its page token; the others answer in one page.\<close>

fun syncer_List :: "'w env \<Rightarrow> syncer \<Rightarrow> ResourceId option \<Rightarrow> page_token \<Rightarrow> int \<Rightarrow>
    (('w, 'x) dev_scheme, go_error, Resource list \<times> page_token) comp" where
  "syncer_List E (UserSyncer _) p t n = bindE (user_List E p) (\<lambda>rs. returnE (rs, EmptyToken))"
| "syncer_List E GroupSyncer p t n = bindE (group_List E p) (\<lambda>rs. returnE (rs, EmptyToken))"
| "syncer_List E (UserAccountSyncer _) p t n = bindE (userAccount_List E p) (\<lambda>rs. returnE (rs, EmptyToken))"
| "syncer_List E UserGroupSyncer p t n = bindE (userGroup_List E p) (\<lambda>rs. returnE (rs, EmptyToken))"
| "syncer_List E SiteSyncer p t n = bindE (site_List E p) (\<lambda>rs. returnE (rs, EmptyToken))"
| "syncer_List E RoleSyncer p t n = bindE (role_List E p) (\<lambda>rs. returnE (rs, EmptyToken))"
| "syncer_List E ManagedDeviceSyncer p t n = device_List E p t n"

fun syncer_Entitlements :: "syncer \<Rightarrow> Resource \<Rightarrow> (('w, 'x) dev_scheme, go_error, Entitlement list) comp" where
  "syncer_Entitlements (UserSyncer _) r = liftE (user_Entitlements r)"
| "syncer_Entitlements GroupSyncer r = liftE (group_Entitlements r)"
| "syncer_Entitlements (UserAccountSyncer _) r = liftE (userAccount_Entitlements r)"
| "syncer_Entitlements UserGroupSyncer r = liftE (userGroup_Entitlements r)"
| "syncer_Entitlements SiteSyncer r = liftE (site_Entitlements r)"
| "syncer_Entitlements RoleSyncer r = liftE (role_Entitlements r)"
| "syncer_Entitlements ManagedDeviceSyncer r = device_Entitlements r"

fun syncer_Grants :: "'w env \<Rightarrow> syncer \<Rightarrow> Resource \<Rightarrow> (('w, 'x) dev_scheme, go_error, Grant list) comp" where
  "syncer_Grants E (UserSyncer _) r = liftE (user_Grants r)"
| "syncer_Grants E GroupSyncer r = group_Grants E r"
| "syncer_Grants E (UserAccountSyncer _) r = liftE (userAccount_Grants r)"
| "syncer_Grants E UserGroupSyncer r = userGroup_Grants E r"
| "syncer_Grants E SiteSyncer r = site_Grants E r"
| "syncer_Grants E RoleSyncer r = role_Grants E r"
| "syncer_Grants E ManagedDeviceSyncer r = device_Grants E r"

subsection \<open>Registration\<close>

text \<open>Which of the SDK's optional interfaces the Go type of a syncer implements.\<close>

fun implements_CreateAccount :: "syncer \<Rightarrow> bool" where
  "implements_CreateAccount (UserSyncer p) = p"
| "implements_CreateAccount (UserAccountSyncer p) = p"
| "implements_CreateAccount _ = False"

fun implements_Delete :: "syncer \<Rightarrow> bool" where
  "implements_Delete (UserSyncer _) = True"
| "implements_Delete (UserAccountSyncer _) = True"
| "implements_Delete _ = False"

text \<open>The maps of the SDK's \<open>builder\<close>, in the order of registration.\<close>

record builder =
  resourceSyncers :: "(string \<times> syncer) list"
  resourceDeleters :: "(string \<times> syncer) list"
  accountManagers :: "(string \<times> syncer) list"

definition empty_builder :: builder where
  "empty_builder = \<lparr>resourceSyncers = [], resourceDeleters = [], accountManagers = []\<rparr>"

definition addResourceSyncers :: "string \<Rightarrow> syncer \<Rightarrow> builder \<Rightarrow> go_error + builder" where
  "addResourceSyncers typeId x b =
     (if map_of (resourceSyncers b) typeId \<noteq> None
      then Inl (PlainError (''error: duplicate resource type found for resource builder '' @ typeId))
      else Inr (b\<lparr>resourceSyncers := resourceSyncers b @ [(typeId, x)]\<rparr>))"

definition addResourceManager :: "string \<Rightarrow> syncer \<Rightarrow> builder \<Rightarrow> go_error + builder" where
  "addResourceManager typeId x b =
     (if implements_Delete x then
        if map_of (resourceDeleters b) typeId \<noteq> None
        then Inl (PlainError (''error: duplicate resource type found for resource deleterV2 '' @ typeId))
        else Inr (b\<lparr>resourceDeleters := resourceDeleters b @ [(typeId, x)]\<rparr>)
      else Inr b)"

definition addAccountManager :: "string \<Rightarrow> syncer \<Rightarrow> builder \<Rightarrow> go_error + builder" where
  "addAccountManager typeId x b =
     (if implements_CreateAccount x then
        if map_of (accountManagers b) typeId \<noteq> None
        then Inl (PlainError (''error: duplicate resource type found for account manager '' @ typeId))
        else Inr (b\<lparr>accountManagers := accountManagers b @ [(typeId, x)]\<rparr>)
      else Inr b)"

definition addResourceType :: "syncer \<Rightarrow> builder \<Rightarrow> go_error + builder" where
  "addResourceType x b =
     (let typeId = rtId (syncer_type x) in
      bind_err (addResourceSyncers typeId x b) (\<lambda>b.
      bind_err (addResourceManager typeId x b) (\<lambda>b.
      addAccountManager typeId x b)))"

definition NewConnector :: "Jamf \<Rightarrow> go_error + builder" where
  "NewConnector j = fold_err addResourceType (ResourceSyncers j) empty_builder"

subsection \<open>Dispatch\<close>

definition unimplemented :: "string \<Rightarrow> go_error" where
  "unimplemented m = StatusError Unimplemented [PlainError m]"

text \<open>
  The calls of a sync (pkg/connectorbuilder/resource_syncer.go).  The request carries no type-scoped
  annotations; \<open>Entitlements\<close> and \<open>Grants\<close> of the connector answer in one page, so their next page
  token is empty and the check for an unchanged one cannot apply; no entitlement carries an exclusion
  group.  The order of \<open>ListResourceTypes\<close> is that of a Go map, here the order of registration.
\<close>

definition builder_ListResourceTypes :: "builder \<Rightarrow> go_error + ResourceType list" where
  "builder_ListResourceTypes b =
     (if resourceSyncers b = [] then Inl (StatusError FailedPrecondition [PlainError ''no resource builders found''])
      else Inr (map (\<lambda>e. syncer_type (snd e)) (resourceSyncers b)))"

definition unknown_type :: "string \<Rightarrow> string \<Rightarrow> go_error" where
  "unknown_type what typeId =
     StatusError NotFound [PlainError (''error: list '' @ what @ '' with unknown resource type '' @ typeId)]"

definition token_unchanged :: go_error where
  "token_unchanged =
     StatusError Internal [PlainError ''listing resources failed: next page token unchanged - likely a connector bug'']"

definition builder_ListResources :: "'w env \<Rightarrow> builder \<Rightarrow> string \<Rightarrow> ResourceId option \<Rightarrow> page_token \<Rightarrow> int \<Rightarrow>
    (('w, 'x) dev_scheme, go_error, Resource list \<times> page_token) comp" where
  "builder_ListResources E b typeId parent token size_hint =
     (case map_of (resourceSyncers b) typeId of
        None \<Rightarrow> throwE (unknown_type ''resources'' typeId)
      | Some rb \<Rightarrow>
          bindE (mapErr (WrapError ''error: listing resources failed'') (syncer_List E rb parent token size_hint))
            (\<lambda>(out, next). if token \<noteq> EmptyToken \<and> token = next then throwE token_unchanged
                           else returnE (out, next)))"

definition builder_ListStaticEntitlements :: "builder \<Rightarrow> string \<Rightarrow> go_error + Entitlement list" where
  "builder_ListStaticEntitlements b typeId =
     (case map_of (resourceSyncers b) typeId of
        None \<Rightarrow> Inl (unknown_type ''static entitlements'' typeId)
      | Some _ \<Rightarrow> Inr [])"

definition builder_ListEntitlements :: "builder \<Rightarrow> Resource \<Rightarrow> (('w, 'x) dev_scheme, go_error, Entitlement list) comp" where
  "builder_ListEntitlements b r =
     (case map_of (resourceSyncers b) (ridType (resId r)) of
        None \<Rightarrow> throwE (unknown_type ''entitlements'' (ridType (resId r)))
      | Some rb \<Rightarrow> mapErr (WrapError ''error: listing entitlements failed'') (syncer_Entitlements rb r))"

definition builder_ListGrants :: "'w env \<Rightarrow> builder \<Rightarrow> Resource \<Rightarrow> (('w, 'x) dev_scheme, go_error, Grant list) comp" where
  "builder_ListGrants E b r =
     (case map_of (resourceSyncers b) (ridType (resId r)) of
        None \<Rightarrow> throwE (unknown_type ''grants'' (ridType (resId r)))
      | Some rb \<Rightarrow>
          mapErr (WrapError (''error: listing grants for resource '' @ ridType (resId r) @ ''/'' @ ridResource (resId r) @ '' failed''))
            (syncer_Grants E rb r))"

text \<open>\<open>Cleanup\<close> (pkg/connectorbuilder/connectorbuilder.go) ends a sync; the connector uses no session store.\<close>

definition builder_Cleanup :: "(('w, 'x) dev_scheme, go_error, unit) comp" where
  "builder_Cleanup = ClearCaches"

text \<open>The account manager \<open>builder.CreateAccount\<close> picks; a map with one entry has no order.\<close>

definition pickAccountManager :: "builder \<Rightarrow> string \<Rightarrow> go_error + syncer" where
  "pickAccountManager b resourceTypeId =
     (let managers = accountManagers b;
          specified = (case map_of managers resourceTypeId of
              None \<Rightarrow> Inl (unimplemented (''connector does not have account manager configured for resource type: '' @ resourceTypeId))
            | Some am \<Rightarrow> Inr am) in
      if managers = [] then Inl (unimplemented ''connector does not have account manager configured'')
      else if resourceTypeId = [] then
        (case managers of
           [(_, am)] \<Rightarrow> Inr am
         | _ \<Rightarrow> (case map_of managers ''user'' of
               None \<Rightarrow> Inl (unimplemented ''connector has multiple account managers configured, but no resource type specified, and no default account manager configured'')
             | Some am \<Rightarrow> Inr am))
      else specified)"

fun syncer_CreateAccount :: "'w env \<Rightarrow> syncer \<Rightarrow> AccountInfo \<Rightarrow> LocalCredentialOptions \<Rightarrow>
    (('w, 'x) conn_scheme, go_error, CreateAccountResponse \<times> (string \<times> string) list) comp" where
  "syncer_CreateAccount E (UserSyncer _) info creds = user_CreateAccount E info creds"
| "syncer_CreateAccount E (UserAccountSyncer _) info creds = userAccount_CreateAccount E info creds"
| "syncer_CreateAccount E _ info creds = throwE (PlainError ''not an account manager'')"

definition builder_CreateAccount :: "'w env \<Rightarrow> builder \<Rightarrow> string \<Rightarrow> AccountInfo \<Rightarrow> LocalCredentialOptions \<Rightarrow>
    (('w, 'x) conn_scheme, go_error, CreateAccountResponse \<times> (string \<times> string) list) comp" where
  "builder_CreateAccount E b resourceTypeId info creds =
     bindE (liftE (pickAccountManager b resourceTypeId)) (\<lambda>am.
     mapErr (WrapError ''error: create account failed'') (syncer_CreateAccount E am info creds))"

fun syncer_Delete :: "'w env \<Rightarrow> syncer \<Rightarrow> ResourceId \<Rightarrow> (('w, 'x) conn_scheme, go_error, unit) comp" where
  "syncer_Delete E (UserSyncer _) rid = user_Delete E rid"
| "syncer_Delete E (UserAccountSyncer _) rid = userAccount_Delete E rid"
| "syncer_Delete E _ rid = throwE (PlainError ''not a deleter'')"

definition builder_DeleteResource :: "'w env \<Rightarrow> builder \<Rightarrow> ResourceId \<Rightarrow> (('w, 'x) conn_scheme, go_error, unit) comp" where
  "builder_DeleteResource E b rid =
     (case map_of (resourceDeleters b) (ridType rid) of
        None \<Rightarrow> throwE (unimplemented (''resource type '' @ ridType rid @ '' does not have resource Delete() configured''))
      | Some d \<Rightarrow> mapErr (WrapError ''error: delete resource failed'') (syncer_Delete E d rid))"

text \<open>\<open>getCredentialDetails\<close> takes the details of whichever manager the map yields first: the
  possible answers.\<close>

fun syncer_details :: "syncer \<Rightarrow> credential_details" where
  "syncer_details (UserSyncer _) = user_CreateAccountCapabilityDetails"
| "syncer_details _ = userAccount_CreateAccountCapabilityDetails"

definition possible_details :: "builder \<Rightarrow> credential_details list" where
  "possible_details b = map (\<lambda>m. syncer_details (snd m)) (accountManagers b)"

end
