(* ===== verification/MockServer.thy ===== *)
theory MockServer
  imports ModelsJson Http
begin

section \<open>The mock Jamf server (test-server/main.go)\<close>

text \<open>
  A handler is a function from the request and the server state to the response and the state; the
  lock makes each one atomic.  Users and accounts are kept twice, in a map by id and in a list in
  creation order, as in the code; the records are never changed after their creation, so the shared
  pointers are plain values.  \<open>expires\<close> is the printed time of expiry of a token.
\<close>

record server =
  srvUsername :: string
  srvPassword :: string
  srvToken :: string
  srvUsers :: "int \<rightharpoonup> User"
  srvUserList :: "User list"
  srvNextUserID :: int
  srvAccounts :: "int \<rightharpoonup> UserAccount"
  srvAccountList :: "UserAccount list"
  srvNextAccountID :: int
  srvGroups :: "int \<rightharpoonup> Group"
  srvGroupList :: "Group list"
  srvUserGroups :: "int \<rightharpoonup> UserGroup"
  srvUserGroupList :: "UserGroup list"
  srvSites :: "Site list"
  srvPrivileges :: "string list"

subsection \<open>Seed data\<close>

definition headquarters :: BaseType where "headquarters = \<lparr>ID = 1, Name = ''Headquarters''\<rparr>"
definition remote :: BaseType where "remote = \<lparr>ID = 2, Name = ''Remote''\<rparr>"

definition seed_user :: "int \<Rightarrow> string \<Rightarrow> string \<Rightarrow> string \<Rightarrow> BaseType list \<Rightarrow> User" where
  "seed_user i n full email sites =
     zero_User\<lparr>ID := i, Name := n, userFullName := full, userEmail := email, userSites := sites\<rparr>"

definition seed_users :: "User list" where
  "seed_users =
     [seed_user 1 ''john.appleseed'' ''John Appleseed'' ''john.appleseed@example.com'' [headquarters],
      seed_user 2 ''jane.doe'' ''Jane Doe'' ''jane.doe@example.com'' [],
      seed_user 3 ''carol.smith'' ''Carol Smith'' ''carol.smith@example.com'' [],
      seed_user 4 ''dave.jones'' ''Dave Jones'' ''dave.jones@example.com'' [],
      seed_user 5 ''eve.miller'' ''Eve Miller'' ''eve.miller@example.com'' [remote]]"

definition custom_privileges :: Privileges where
  "custom_privileges = zero_Privileges\<lparr>JSSObjects := [''Read Advanced Computer Searches'']\<rparr>"

definition seed_account :: "int \<Rightarrow> string \<Rightarrow> string \<Rightarrow> string \<Rightarrow> string \<Rightarrow> string \<Rightarrow> Privileges \<Rightarrow> BaseType \<Rightarrow> UserAccount" where
  "seed_account i n full email enabled pset privs site =
     zero_UserAccount\<lparr>ID := i, Name := n, accFullName := full, accEmail := email, accEnabled := enabled,
       accAccessLevel := ''Full Access'', accPrivilegeSet := pset, accPrivileges := privs, accSite := site\<rparr>"

definition seed_accounts :: "UserAccount list" where
  "seed_accounts =
     [seed_account 101 ''admin1'' ''Admin One'' ''admin1@example.com'' ''Enabled'' ''Administrator'' zero_Privileges headquarters,
      seed_account 102 ''admin2'' ''Admin Two'' ''admin2@example.com'' ''Disabled'' ''Auditor'' zero_Privileges headquarters,
      seed_account 103 ''admin3'' ''Admin Three'' ''admin3@example.com'' ''Enabled'' ''Custom'' custom_privileges remote]"

definition seed_group :: "int \<Rightarrow> string \<Rightarrow> string \<Rightarrow> Privileges \<Rightarrow> BaseType \<Rightarrow> BaseType list \<Rightarrow> Group" where
  "seed_group i n pset privs site members =
     zero_Group\<lparr>ID := i, Name := n, grpAccessLevel := ''Full Access'', grpPrivilegeSet := pset,
       grpPrivileges := privs, grpSite := site, grpMembers := members\<rparr>"

definition seed_groups :: "Group list" where
  "seed_groups =
     (let admin1 = \<lparr>ID = 101, Name = ''admin1''\<rparr>; admin2 = \<lparr>ID = 102, Name = ''admin2''\<rparr>;
          admin3 = \<lparr>ID = 103, Name = ''admin3''\<rparr> in
     [seed_group 201 ''group-admins'' ''Administrator'' zero_Privileges headquarters [admin1, admin2],
      seed_group 202 ''group-auditors'' ''Auditor'' zero_Privileges headquarters [admin2, admin3],
      seed_group 203 ''group-custom'' ''Custom'' custom_privileges remote [admin3]])"

definition seed_user_groups :: "UserGroup list" where
  "seed_user_groups =
     [zero_UserGroup\<lparr>ID := 301, Name := ''usergroup-eng'', ugSite := headquarters,
        ugUsers := [seed_users ! 0, seed_users ! 1]\<rparr>,
      zero_UserGroup\<lparr>ID := 302, Name := ''usergroup-sales'', ugIsSmart := True, ugSite := remote,
        ugUsers := [seed_users ! 1, seed_users ! 3]\<rparr>,
      zero_UserGroup\<lparr>ID := 303, Name := ''usergroup-empty'', ugSite := headquarters\<rparr>]"

text \<open>The loops \<open>s.users[u.ID] = u\<close>.\<close>

definition by_id :: "('a \<Rightarrow> int) \<Rightarrow> 'a list \<Rightarrow> int \<rightharpoonup> 'a" where
  "by_id ident xs = fold (\<lambda>x m. m(ident x \<mapsto> x)) xs Map.empty"

definition newServer :: "string \<Rightarrow> string \<Rightarrow> string \<Rightarrow> server" where
  "newServer username password token =
     \<lparr>srvUsername = username, srvPassword = password, srvToken = token,
      srvUsers = by_id ID seed_users, srvUserList = seed_users, srvNextUserID = int (length seed_users),
      srvAccounts = by_id ID seed_accounts, srvAccountList = seed_accounts,
      srvNextAccountID = ID (last seed_accounts),
      srvGroups = by_id ID seed_groups, srvGroupList = seed_groups,
      srvUserGroups = by_id ID seed_user_groups, srvUserGroupList = seed_user_groups,
      srvSites = [headquarters, remote],
      srvPrivileges = [''Read Advanced Computer Searches'', ''Update Advanced Computer Searches'',
                       ''Read User'', ''Update User'']\<rparr>"

subsection \<open>Helpers\<close>

type_synonym handler = "http_request \<Rightarrow> server \<Rightarrow> http_response \<times> server"

definition writeJSON :: "int \<Rightarrow> json \<Rightarrow> http_response" where
  "writeJSON code v = \<lparr>rsStatus = code, rsContentType = ''application/json'', rsBody = JsonBody v\<rparr>"

definition writeJSONError :: "int \<Rightarrow> string \<Rightarrow> http_response" where
  "writeJSONError code message = writeJSON code (JObj [(''message'', JStr message)])"

definition empty_ok :: http_response where
  "empty_ok = \<lparr>rsStatus = 200, rsContentType = [], rsBody = EmptyBody\<rparr>"

definition pathTail :: "string \<Rightarrow> string \<Rightarrow> string" where
  "pathTail path pre = trim_prefix path pre"

definition pathID :: "string \<Rightarrow> string \<Rightarrow> int option" where
  "pathID path pre = atoi (pathTail path pre)"

definition deleteByID :: "('a \<Rightarrow> int) \<Rightarrow> 'a list \<Rightarrow> int \<Rightarrow> 'a list" where
  "deleteByID itemID items i = filter (\<lambda>item. itemID item \<noteq> i) items"

definition requireBearer :: "server \<Rightarrow> http_request \<Rightarrow> http_response option" where
  "requireBearer s r =
     (if rqAuth r \<noteq> AuthText (''Bearer '' @ srvToken s)
      then Some (writeJSONError 401 ''missing or invalid bearer token'') else None)"

text \<open>\<open>Inl\<close> is the response already written.  The text of the XML decoder's own error is left out of the message.\<close>

definition decodeXMLBody :: "(xml \<Rightarrow> 'a option) \<Rightarrow> http_request \<Rightarrow> http_response + 'a" where
  "decodeXMLBody unxml r =
     (let contentType = header r ''Content-Type'' in
      if \<not> contains ''xml'' (to_lower contentType)
      then Inl (writeJSONError 415 (''Classic API POST/PUT requires an XML body; got Content-Type '' @ quoted contentType))
      else case rqBody r of
             XmlBody x \<Rightarrow> (case unxml x of None \<Rightarrow> Inl (writeJSONError 400 ''malformed XML body'') | Some b \<Rightarrow> Inr b)
           | _ \<Rightarrow> Inl (writeJSONError 400 ''malformed XML body''))"

definition guarded :: "http_request \<Rightarrow> server \<Rightarrow> http_response \<times> server \<Rightarrow> http_response \<times> server" where
  "guarded r s k = (case requireBearer s r of Some rs \<Rightarrow> (rs, s) | None \<Rightarrow> k)"

definition only_get :: "http_request \<Rightarrow> server \<Rightarrow> http_response \<times> server \<Rightarrow> http_response \<times> server" where
  "only_get r s k = (if rqMethod r \<noteq> GET then (writeJSONError 405 ''method must be GET'', s) else k)"

subsection \<open>Auth\<close>

definition token_answer :: "server \<Rightarrow> string \<Rightarrow> http_response" where
  "token_answer s expires = writeJSON 200 (enc_TokenResponse \<lparr>trToken = srvToken s, trExpires = expires\<rparr>)"

definition handleCreateToken :: "string \<Rightarrow> handler" where
  "handleCreateToken expires r s =
     (if rqMethod r \<noteq> POST then (writeJSONError 405 ''method must be POST'', s)
      else case rqAuth r of
        AuthBasic cred \<Rightarrow>
          (case split_first (CHR '':'') cred of
             (user, Some pass) \<Rightarrow>
               if user \<noteq> srvUsername s \<or> pass \<noteq> srvPassword s then (writeJSONError 401 ''invalid credentials'', s)
               else (token_answer s expires, s)
           | (_, None) \<Rightarrow> (writeJSONError 401 ''invalid credentials'', s))
      | _ \<Rightarrow> (writeJSONError 401 ''invalid credentials'', s))"

definition handleKeepAlive :: "string \<Rightarrow> handler" where
  "handleKeepAlive expires r s =
     guarded r s (if rqMethod r \<noteq> POST then (writeJSONError 405 ''method must be POST'', s)
                  else (token_answer s expires, s))"

definition handleTokenDetails :: handler where
  "handleTokenDetails r s =
     guarded r s (writeJSON 200 (enc_TokenDetails
       \<lparr>tdAccount = zero_Account\<lparr>atID := ''1'', atUsername := srvUsername s, atRealName := ''Test User'',
           atEmail := ''test-user@example.com'', atAccessLevel := ''Full Access'',
           atPrivilegeSet := ''Administrator'', atCurrentSiteID := ''-1''\<rparr>,
        tdSites = [(''1'', ''Headquarters'')], tdAuthenticationType = ''Basic''\<rparr>), s)"

subsection \<open>Directory users\<close>

definition minimal :: "'a BaseType_scheme \<Rightarrow> BaseType" where
  "minimal u = \<lparr>ID = ID u, Name = Name u\<rparr>"

definition findUserByName :: "server \<Rightarrow> string \<Rightarrow> User option" where
  "findUserByName s name = List.find (\<lambda>u. Name u = name) (srvUserList s)"

definition handleListUsers :: handler where
  "handleListUsers r s = guarded r s (only_get r s
     (writeJSON 200 (JObj [(''users'', enc_array enc_BaseType (map minimal (srvUserList s)))]), s))"

definition add_user_record :: "UserCreateBody \<Rightarrow> server \<Rightarrow> int \<times> server" where
  "add_user_record b s =
     (let i = wrap64 (srvNextUserID s + 1);
          u = zero_User\<lparr>ID := i, Name := ucName b, userFullName := ucFullName b, userEmail := ucEmail b\<rparr>
      in (i, s\<lparr>srvNextUserID := i, srvUsers := (srvUsers s)(i \<mapsto> u), srvUserList := srvUserList s @ [u]\<rparr>))"

definition remove_user :: "int \<Rightarrow> server \<Rightarrow> server" where
  "remove_user i s =
     s\<lparr>srvUsers := (srvUsers s)(i := None), srvUserList := deleteByID ID (srvUserList s) i\<rparr>"

definition created :: "int \<Rightarrow> http_response" where
  "created i = writeJSON 201 (JObj [(''id'', JNum i)])"

definition post_user :: handler where
  "post_user r s =
     (case decodeXMLBody unxml_UserCreateBody r of
        Inl rs \<Rightarrow> (rs, s)
      | Inr b \<Rightarrow>
          if ucName b = [] then (writeJSONError 400 ''name is required'', s)
          else if findUserByName s (ucName b) \<noteq> None
          then (writeJSONError 409 ''user already exists with this name'', s)
          else (case add_user_record b s of (i, s') \<Rightarrow> (created i, s')))"

definition delete_user :: "int \<Rightarrow> server \<Rightarrow> http_response \<times> server" where
  "delete_user i s =
     (case srvUsers s i of None \<Rightarrow> (writeJSONError 404 ''user not found'', s)
      | Some _ \<Rightarrow> (empty_ok, remove_user i s))"

definition handleUserByID :: handler where
  "handleUserByID r s =
     guarded r s
      (case pathID (uPath (rqURL r)) ''/JSSResource/users/id/'' of
         None \<Rightarrow> (writeJSONError 400 ''invalid id'', s)
       | Some i \<Rightarrow>
           (case rqMethod r of
              GET \<Rightarrow> (case srvUsers s i of None \<Rightarrow> (writeJSONError 404 ''user not found'', s)
                      | Some u \<Rightarrow> (writeJSON 200 (JObj [(''user'', enc_User u)]), s))
            | POST \<Rightarrow> post_user r s
            | DELETE \<Rightarrow> delete_user i s
            | OtherMethod _ \<Rightarrow> (writeJSONError 405 ''method not allowed'', s)))"

definition handleUserByName :: handler where
  "handleUserByName r s = guarded r s (only_get r s
     (case findUserByName s (pathTail (uPath (rqURL r)) ''/JSSResource/users/name/'') of
        None \<Rightarrow> (writeJSONError 404 ''user not found'', s)
      | Some u \<Rightarrow> (writeJSON 200 (JObj [(''user'', enc_User u)]), s)))"

subsection \<open>Console accounts and groups\<close>

definition validAccessLevels :: "string list" where
  "validAccessLevels = [''Full Access'', ''Site Access'', ''Group Access'']"

definition validPrivilegeSets :: "string list" where
  "validPrivilegeSets = [''Administrator'', ''Auditor'', ''Enrollment Only'', ''Custom'']"

definition validEnabledValues :: "string list" where
  "validEnabledValues = [''Enabled'', ''Disabled'']"

definition findAccountByName :: "server \<Rightarrow> string \<Rightarrow> UserAccount option" where
  "findAccountByName s name = List.find (\<lambda>a. Name a = name) (srvAccountList s)"

definition handleListAccounts :: handler where
  "handleListAccounts r s = guarded r s (only_get r s
     (writeJSON 200 (JObj [(''accounts'', JObj
        [(''users'', enc_array enc_User (map (\<lambda>a. zero_User\<lparr>ID := ID a, Name := Name a\<rparr>) (srvAccountList s))),
         (''groups'', enc_array enc_Group (map (\<lambda>g. zero_Group\<lparr>ID := ID g, Name := Name g\<rparr>) (srvGroupList s)))])]), s))"

definition enum_ok :: "string list \<Rightarrow> string \<Rightarrow> bool" where
  "enum_ok allowed v \<longleftrightarrow> v = [] \<or> v \<in> set allowed"

definition enum_error :: "UserAccountCreateBody \<Rightarrow> string option" where
  "enum_error b =
     (if \<not> enum_ok validAccessLevels (acAccessLevel b) then Some (''invalid access_level '' @ quoted (acAccessLevel b))
      else if \<not> enum_ok validPrivilegeSets (acPrivilegeSet b) then Some (''invalid privilege_set '' @ quoted (acPrivilegeSet b))
      else if \<not> enum_ok validEnabledValues (acEnabled b) then Some (''invalid enabled '' @ quoted (acEnabled b))
      else None)"

definition add_account_record :: "UserAccountCreateBody \<Rightarrow> server \<Rightarrow> int \<times> server" where
  "add_account_record b s =
     (let i = wrap64 (srvNextAccountID s + 1);
          a = zero_UserAccount\<lparr>ID := i, Name := acName b, accFullName := acFullName b, accEmail := acEmail b,
                accEnabled := acEnabled b, accAccessLevel := acAccessLevel b, accPrivilegeSet := acPrivilegeSet b\<rparr>;
          a = (case acPrivileges b of None \<Rightarrow> a | Some p \<Rightarrow> a\<lparr>accPrivileges := p\<rparr>)
      in (i, s\<lparr>srvNextAccountID := i, srvAccounts := (srvAccounts s)(i \<mapsto> a), srvAccountList := srvAccountList s @ [a]\<rparr>))"

definition remove_account :: "int \<Rightarrow> server \<Rightarrow> server" where
  "remove_account i s =
     s\<lparr>srvAccounts := (srvAccounts s)(i := None), srvAccountList := deleteByID ID (srvAccountList s) i\<rparr>"

definition post_account :: handler where
  "post_account r s =
     (case decodeXMLBody unxml_UserAccountCreateBody r of
        Inl rs \<Rightarrow> (rs, s)
      | Inr b \<Rightarrow>
          if acName b = [] \<or> acPassword b = [] then (writeJSONError 400 ''name and password are required'', s)
          else (case enum_error b of
             Some m \<Rightarrow> (writeJSONError 400 m, s)
           | None \<Rightarrow>
               if findAccountByName s (acName b) \<noteq> None
               then (writeJSONError 409 ''account already exists with this name'', s)
               else (case add_account_record b s of (i, s') \<Rightarrow> (created i, s'))))"

definition delete_account :: "int \<Rightarrow> server \<Rightarrow> http_response \<times> server" where
  "delete_account i s =
     (case srvAccounts s i of None \<Rightarrow> (writeJSONError 404 ''account not found'', s)
      | Some _ \<Rightarrow> (empty_ok, remove_account i s))"

definition handleAccountByID :: handler where
  "handleAccountByID r s =
     guarded r s
      (case pathID (uPath (rqURL r)) ''/JSSResource/accounts/userid/'' of
         None \<Rightarrow> (writeJSONError 400 ''invalid id'', s)
       | Some i \<Rightarrow>
           (case rqMethod r of
              GET \<Rightarrow> (case srvAccounts s i of None \<Rightarrow> (writeJSONError 404 ''account not found'', s)
                      | Some a \<Rightarrow> (writeJSON 200 (JObj [(''account'', enc_UserAccount a)]), s))
            | POST \<Rightarrow> post_account r s
            | DELETE \<Rightarrow> delete_account i s
            | OtherMethod _ \<Rightarrow> (writeJSONError 405 ''method not allowed'', s)))"

definition handleAccountByName :: handler where
  "handleAccountByName r s = guarded r s (only_get r s
     (case findAccountByName s (pathTail (uPath (rqURL r)) ''/JSSResource/accounts/username/'') of
        None \<Rightarrow> (writeJSONError 404 ''account not found'', s)
      | Some a \<Rightarrow> (writeJSON 200 (JObj [(''account'', enc_UserAccount a)]), s)))"

definition handleGroupByID :: handler where
  "handleGroupByID r s = guarded r s (only_get r s
     (case pathID (uPath (rqURL r)) ''/JSSResource/accounts/groupid/'' of
        None \<Rightarrow> (writeJSONError 400 ''invalid id'', s)
      | Some i \<Rightarrow> (case srvGroups s i of None \<Rightarrow> (writeJSONError 404 ''group not found'', s)
                  | Some g \<Rightarrow> (writeJSON 200 (JObj [(''group'', enc_Group g)]), s))))"

subsection \<open>User groups, sites and privileges\<close>

definition handleListUserGroups :: handler where
  "handleListUserGroups r s = guarded r s (only_get r s
     (writeJSON 200 (JObj [(''user_groups'', enc_array enc_UserGroup
        (map (\<lambda>g. zero_UserGroup\<lparr>ID := ID g, Name := Name g\<rparr>) (srvUserGroupList s)))]), s))"

definition handleUserGroupByID :: handler where
  "handleUserGroupByID r s = guarded r s (only_get r s
     (case pathID (uPath (rqURL r)) ''/JSSResource/usergroups/id/'' of
        None \<Rightarrow> (writeJSONError 400 ''invalid id'', s)
      | Some i \<Rightarrow> (case srvUserGroups s i of None \<Rightarrow> (writeJSONError 404 ''user group not found'', s)
                  | Some g \<Rightarrow> (writeJSON 200 (JObj [(''user_group'', enc_UserGroup g)]), s))))"

definition handleListSites :: handler where
  "handleListSites r s = guarded r s (only_get r s
     (writeJSON 200 (JObj [(''sites'', enc_array enc_BaseType (srvSites s))]), s))"

definition handleListPrivileges :: handler where
  "handleListPrivileges r s = guarded r s (only_get r s
     (writeJSON 200 (JObj [(''privileges'', enc_array JStr (srvPrivileges s))]), s))"

subsection \<open>The request multiplexer\<close>

text \<open>
  Patterns without a final slash match the path itself, those with one every path below.  A subtree
  path without its slash is redirected, any other path is not found.  Paths are clean, as the client's
  \<open>JoinPath\<close> leaves them; the redirect of a path that is not is left out.
\<close>

definition exact_routes :: "string \<Rightarrow> (string \<times> handler) list" where
  "exact_routes expires =
     [(''/api/v1/auth/token'', handleCreateToken expires),
      (''/api/v1/auth/keep-alive'', handleKeepAlive expires),
      (''/api/v1/auth'', handleTokenDetails),
      (''/api/v1/api-role-privileges'', handleListPrivileges),
      (''/JSSResource/users'', handleListUsers),
      (''/JSSResource/accounts'', handleListAccounts),
      (''/JSSResource/usergroups'', handleListUserGroups),
      (''/JSSResource/sites'', handleListSites)]"

definition subtree_routes :: "(string \<times> handler) list" where
  "subtree_routes =
     [(''/JSSResource/users/id/'', handleUserByID),
      (''/JSSResource/users/name/'', handleUserByName),
      (''/JSSResource/accounts/userid/'', handleAccountByID),
      (''/JSSResource/accounts/username/'', handleAccountByName),
      (''/JSSResource/accounts/groupid/'', handleGroupByID),
      (''/JSSResource/usergroups/id/'', handleUserGroupByID)]"

definition not_found :: http_response where
  "not_found = \<lparr>rsStatus = 404, rsContentType = ''text/plain; charset=utf-8'', rsBody = TextBody ''404 page not found''\<rparr>"

definition redirect :: http_response where
  "redirect = \<lparr>rsStatus = 301, rsContentType = ''text/html; charset=utf-8'', rsBody = TextBody ''Moved Permanently''\<rparr>"

definition serve :: "string \<Rightarrow> handler" where
  "serve expires r s =
     (let path = uPath (rqURL r) in
      case map_of (exact_routes expires) path of
        Some h \<Rightarrow> h r s
      | None \<Rightarrow>
          (case List.find (\<lambda>e. prefix (fst e) path) subtree_routes of
             Some e \<Rightarrow> snd e r s
           | None \<Rightarrow> if list_ex (\<lambda>e. fst e = path @ ''/'') subtree_routes then (redirect, s) else (not_found, s)))"

subsection \<open>Start-up\<close>

text \<open>The server \<open>run\<close> serves: the environment variables, with their defaults where they are empty.\<close>

definition env_or :: "(string \<Rightarrow> string) \<Rightarrow> string \<Rightarrow> string \<Rightarrow> string" where
  "env_or getenv k d = (if getenv k = [] then d else getenv k)"

definition run_server :: "(string \<Rightarrow> string) \<Rightarrow> server" where
  "run_server getenv =
     newServer (env_or getenv ''JAMF_USERNAME'' ''test-user'') (env_or getenv ''JAMF_PASSWORD'' ''test-pass'')
       (env_or getenv ''JAMF_TOKEN'' ''test-bearer-token'')"

end
