(* ===== verification/MockFacts.thy ===== *)
theory MockFacts
  imports MockServer
begin

section \<open>What the mock server promises\<close>

text \<open>
  Its two stores, users and accounts, satisfy one contract, a store of records with an id the store
  chooses and a name that is unique.  Every request is one step of an abstract machine that adds or
  removes one record; the invariant holds of every state the machine reaches from the seed data.
\<close>

subsection \<open>The store contract\<close>

locale resource_store =
  fixes inv :: "'s \<Rightarrow> bool"
    and room :: "'s \<Rightarrow> bool"
    and elems :: "'s \<Rightarrow> 'a list"
    and ident :: "'a \<Rightarrow> int"
    and label :: "'a \<Rightarrow> string"
    and byId :: "'s \<Rightarrow> int \<Rightarrow> 'a option"
    and byName :: "'s \<Rightarrow> string \<Rightarrow> 'a option"
    and wanted :: "'b \<Rightarrow> string"
    and add :: "'b \<Rightarrow> 's \<Rightarrow> int \<times> 's"
    and remove :: "int \<Rightarrow> 's \<Rightarrow> 's"
  assumes add_inv: "inv s \<Longrightarrow> room s \<Longrightarrow> byName s (wanted b) = None \<Longrightarrow> inv (snd (add b s))"
    and add_elems: "inv s \<Longrightarrow> room s \<Longrightarrow> \<exists>x. elems (snd (add b s)) = elems s @ [x]
          \<and> ident x = fst (add b s) \<and> label x = wanted b \<and> fst (add b s) \<notin> ident ` set (elems s)"
    and remove_inv: "inv s \<Longrightarrow> inv (remove i s)"
    and remove_elems: "elems (remove i s) = filter (\<lambda>x. ident x \<noteq> i) (elems s)"
    and byId_elems: "inv s \<Longrightarrow> byId s i = List.find (\<lambda>x. ident x = i) (elems s)"
    and byName_elems: "byName s n = List.find (\<lambda>x. label x = n) (elems s)"
begin

lemma byId_add:
  assumes "inv s" "room s" "byName s (wanted b) = None"
  shows "\<exists>x. byId (snd (add b s)) (fst (add b s)) = Some x \<and> label x = wanted b \<and> ident x = fst (add b s)"
proof -
  obtain x where x: "elems (snd (add b s)) = elems s @ [x]" "ident x = fst (add b s)" "label x = wanted b"
    "fst (add b s) \<notin> ident ` set (elems s)" using add_elems[OF assms(1,2)] by blast
  have "List.find (\<lambda>y. ident y = fst (add b s)) (elems s) = None"
    using x(4) by (force simp: find_None_iff_all)
  with x byId_elems[OF add_inv[OF assms]] show ?thesis by (auto simp: find_append)
qed

lemma byName_add:
  assumes "inv s" "room s" "byName s (wanted b) = None"
  shows "\<exists>x. byName (snd (add b s)) (wanted b) = Some x \<and> label x = wanted b \<and> ident x = fst (add b s)"
proof -
  obtain x where x: "elems (snd (add b s)) = elems s @ [x]" "ident x = fst (add b s)" "label x = wanted b"
    using add_elems[OF assms(1,2)] by blast
  with assms(3) show ?thesis by (auto simp: byName_elems find_append)
qed

lemma others_after_add:
  assumes "inv s" "room s" "byName s (wanted b) = None" "byId s i = Some y"
  shows "byId (snd (add b s)) i = Some y"
proof -
  obtain x where "elems (snd (add b s)) = elems s @ [x]" using add_elems[OF assms(1,2)] by blast
  with assms(4) byId_elems[OF assms(1)] byId_elems[OF add_inv[OF assms(1-3)]] show ?thesis
    by (simp add: find_append)
qed

lemma byId_remove: "inv s \<Longrightarrow> byId (remove i s) i = None"
  by (simp add: byId_elems[OF remove_inv] remove_elems find_None_iff_all)

lemma others_after_remove: "inv s \<Longrightarrow> j \<noteq> i \<Longrightarrow> byId (remove i s) j = byId s j"
  by (auto simp: byId_elems remove_inv remove_elems intro: find_filter_same)

lemma remove_absent: "inv s \<Longrightarrow> byId s i = None \<Longrightarrow> elems (remove i s) = elems s"
  by (auto simp: byId_elems remove_elems find_None_iff_all filter_id_conv)

text \<open>Removing what was just added gives the records back as they were.\<close>

lemma remove_add:
  assumes "inv s" "room s"
  shows "elems (remove (fst (add b s)) (snd (add b s))) = elems s"
proof -
  obtain x where "elems (snd (add b s)) = elems s @ [x]" "ident x = fst (add b s)"
    "fst (add b s) \<notin> ident ` set (elems s)" using add_elems[OF assms] by blast
  then show ?thesis by (force simp: remove_elems filter_id_conv)
qed

end

subsection \<open>The invariant of the two stores\<close>

definition store_ok :: "('a \<Rightarrow> int) \<Rightarrow> ('a \<Rightarrow> string) \<Rightarrow> 'a list \<Rightarrow> (int \<rightharpoonup> 'a) \<Rightarrow> int \<Rightarrow> bool" where
  "store_ok ident label xs m nxt \<longleftrightarrow>
     distinct (map ident xs) \<and> distinct (map label xs) \<and>
     (\<forall>x\<in>set xs. 0 < ident x \<and> ident x \<le> nxt) \<and>
     m = (\<lambda>i. List.find (\<lambda>x. ident x = i) xs) \<and> 0 \<le> nxt \<and> nxt < 2 ^ 63"

definition users_ok :: "server \<Rightarrow> bool" where
  "users_ok s \<longleftrightarrow> store_ok ID Name (srvUserList s) (srvUsers s) (srvNextUserID s)"

definition accounts_ok :: "server \<Rightarrow> bool" where
  "accounts_ok s \<longleftrightarrow> store_ok ID Name (srvAccountList s) (srvAccounts s) (srvNextAccountID s)"

lemma store_ok_add:
  assumes "store_ok ident label xs m nxt" "nxt < 2 ^ 63 - 1" "ident x = nxt + 1"
    "List.find (\<lambda>y. label y = label x) xs = None"
  shows "store_ok ident label (xs @ [x]) (m(nxt + 1 \<mapsto> x)) (nxt + 1)"
proof -
  have fresh: "\<forall>y\<in>set xs. ident y \<noteq> nxt + 1" using assms(1) by (fastforce simp: store_ok_def)
  moreover have "\<forall>y\<in>set xs. label y \<noteq> label x" using assms(4) by (simp add: find_None_iff_all)
  moreover have "m(nxt + 1 \<mapsto> x) = (\<lambda>i. List.find (\<lambda>x. ident x = i) (xs @ [x]))"
  proof
    fix i
    have "List.find (\<lambda>y. ident y = nxt + 1) xs = None" using fresh by (simp add: find_None_iff_all)
    then show "(m(nxt + 1 \<mapsto> x)) i = List.find (\<lambda>x. ident x = i) (xs @ [x])"
      using assms(1,3) by (auto simp: store_ok_def find_append split: option.splits)
  qed
  ultimately show ?thesis using assms by (fastforce simp: store_ok_def)
qed

lemma store_ok_remove:
  assumes "store_ok ident label xs m nxt"
  shows "store_ok ident label (deleteByID ident xs i) (m(i := None)) nxt"
proof -
  have "m(i := None) = (\<lambda>j. List.find (\<lambda>x. ident x = j) (deleteByID ident xs i))"
  proof
    fix j
    show "(m(i := None)) j = List.find (\<lambda>x. ident x = j) (deleteByID ident xs i)"
    proof (cases "j = i")
      case True
      then show ?thesis by (auto simp: deleteByID_def find_None_iff_all eq_commute[of None])
    next
      case False
      then have "List.find (\<lambda>x. ident x = j) (filter (\<lambda>x. ident x \<noteq> i) xs) = List.find (\<lambda>x. ident x = j) xs"
        by (intro find_filter_same) auto
      with False assms show ?thesis by (simp add: store_ok_def deleteByID_def)
    qed
  qed
  with assms show ?thesis
    by (auto simp: store_ok_def deleteByID_def distinct_map_filter)
qed

lemma next_id: "0 \<le> n \<Longrightarrow> n < 2 ^ 63 - 1 \<Longrightarrow> wrap64 (n + 1) = n + 1"
  by (rule wrap64_id) (simp add: int64_def)

lemma store_ok_next: "store_ok ident label xs m nxt \<Longrightarrow> 0 \<le> nxt"
  by (simp add: store_ok_def)

lemma store_ok_lookup: "store_ok ident label xs m nxt \<Longrightarrow> m i = List.find (\<lambda>x. ident x = i) xs"
  by (simp add: store_ok_def)

lemma store_ok_fresh: "store_ok ident label xs m nxt \<Longrightarrow> nxt + 1 \<notin> ident ` set xs"
  by (fastforce simp: store_ok_def)

interpretation users: resource_store users_ok "\<lambda>s. srvNextUserID s < 2 ^ 63 - 1" srvUserList ID Name
  srvUsers findUserByName ucName add_user_record remove_user
proof unfold_locales
  fix s :: server and b i n
  show "users_ok s \<Longrightarrow> users_ok (remove_user i s)"
    by (simp add: users_ok_def remove_user_def store_ok_remove)
  show "srvUserList (remove_user i s) = filter (\<lambda>x. ID x \<noteq> i) (srvUserList s)"
    by (simp add: remove_user_def deleteByID_def)
  show "findUserByName s n = List.find (\<lambda>x. Name x = n) (srvUserList s)"
    by (simp add: findUserByName_def)
  show "users_ok s \<Longrightarrow> srvUsers s i = List.find (\<lambda>x. ID x = i) (srvUserList s)"
    by (simp add: users_ok_def store_ok_lookup)
  assume ok: "users_ok s" and room: "srvNextUserID s < 2 ^ 63 - 1"
  have nx: "wrap64 (srvNextUserID s + 1) = srvNextUserID s + 1"
    using next_id[OF store_ok_next room] ok by (auto simp: users_ok_def)
  show "\<exists>x. srvUserList (snd (add_user_record b s)) = srvUserList s @ [x] \<and> ID x = fst (add_user_record b s)
      \<and> Name x = ucName b \<and> fst (add_user_record b s) \<notin> ID ` set (srvUserList s)"
    using store_ok_fresh[of ID Name "srvUserList s" "srvUsers s" "srvNextUserID s"] ok
    by (simp add: add_user_record_def Let_def nx users_ok_def)
  show "findUserByName s (ucName b) = None \<Longrightarrow> users_ok (snd (add_user_record b s))"
    using ok room by (auto simp: add_user_record_def Let_def nx users_ok_def findUserByName_def intro!: store_ok_add)
qed

interpretation accounts: resource_store accounts_ok "\<lambda>s. srvNextAccountID s < 2 ^ 63 - 1" srvAccountList ID Name
  srvAccounts findAccountByName acName add_account_record remove_account
proof unfold_locales
  fix s :: server and b i n
  show "accounts_ok s \<Longrightarrow> accounts_ok (remove_account i s)"
    by (simp add: accounts_ok_def remove_account_def store_ok_remove)
  show "srvAccountList (remove_account i s) = filter (\<lambda>x. ID x \<noteq> i) (srvAccountList s)"
    by (simp add: remove_account_def deleteByID_def)
  show "findAccountByName s n = List.find (\<lambda>x. Name x = n) (srvAccountList s)"
    by (simp add: findAccountByName_def)
  show "accounts_ok s \<Longrightarrow> srvAccounts s i = List.find (\<lambda>x. ID x = i) (srvAccountList s)"
    by (simp add: accounts_ok_def store_ok_lookup)
  assume ok: "accounts_ok s" and room: "srvNextAccountID s < 2 ^ 63 - 1"
  have nx: "wrap64 (srvNextAccountID s + 1) = srvNextAccountID s + 1"
    using next_id[OF store_ok_next room] ok by (auto simp: accounts_ok_def)
  show "\<exists>x. srvAccountList (snd (add_account_record b s)) = srvAccountList s @ [x] \<and> ID x = fst (add_account_record b s)
      \<and> Name x = acName b \<and> fst (add_account_record b s) \<notin> ID ` set (srvAccountList s)"
    using store_ok_fresh[of ID Name "srvAccountList s" "srvAccounts s" "srvNextAccountID s"] ok
    by (simp add: add_account_record_def Let_def nx accounts_ok_def split: option.splits)
  show "findAccountByName s (acName b) = None \<Longrightarrow> accounts_ok (snd (add_account_record b s))"
    using ok room by (auto simp: add_account_record_def Let_def nx accounts_ok_def findAccountByName_def
        intro!: store_ok_add split: option.splits)
qed

end
