(* ===== verification/MockSteps.thy ===== *)
theory MockSteps
  imports MockFacts
begin

section \<open>The mock server as a state machine\<close>

text \<open>
  Every request leaves the server as it is or makes one of four abstract steps.  What the handlers
  decide (status codes, bodies) is in the theory MockServer; here is what they do to the state, and the
  invariants of every reachable state.
\<close>

inductive srv_step :: "server \<Rightarrow> server \<Rightarrow> bool" where
  step_add_user: "ucName b \<noteq> [] \<Longrightarrow> findUserByName s (ucName b) = None \<Longrightarrow> srv_step s (snd (add_user_record b s))"
| step_del_user: "srvUsers s i = Some u \<Longrightarrow> srv_step s (remove_user i s)"
| step_add_account: "acName a \<noteq> [] \<Longrightarrow> acPassword a \<noteq> [] \<Longrightarrow> enum_error a = None \<Longrightarrow>
    findAccountByName s (acName a) = None \<Longrightarrow> srv_step s (snd (add_account_record a s))"
| step_del_account: "srvAccounts s i = Some c \<Longrightarrow> srv_step s (remove_account i s)"

inductive reach :: "nat \<Rightarrow> server \<Rightarrow> bool" where
  reach_start: "reach 0 (newServer u p t)"
| reach_step: "reach n s \<Longrightarrow> srv_step s s' \<Longrightarrow> reach (Suc n) s'"
| reach_idle: "reach n s \<Longrightarrow> reach (Suc n) s"

inductive_cases srv_stepE: "srv_step s s'"
inductive_cases reachE: "reach n s"
inductive_simps reach_zero: "reach 0 s"

lemmas record_ops = add_user_record_def remove_user_def add_account_record_def remove_account_def Let_def

subsection \<open>Each request is a step\<close>

text \<open>What a handler may do to the state.\<close>

definition stepping :: "server \<Rightarrow> http_response \<times> server \<Rightarrow> bool" where
  "stepping s rs \<longleftrightarrow> snd rs = s \<or> srv_step s (snd rs)"

lemma stepping_same [simp]: "stepping s (rs, s)"
  by (simp add: stepping_def)

lemma stepping_guarded: "stepping s k \<Longrightarrow> stepping s (guarded r s k)"
  by (simp add: guarded_def split: option.splits)

lemma stepping_get: "stepping s k \<Longrightarrow> stepping s (only_get r s k)"
  by (simp add: only_get_def)

lemma stepping_post_user [simp]: "stepping s (post_user r s)"
  by (auto simp: post_user_def stepping_def split: sum.splits prod.splits intro: srv_step.intros)
     (metis snd_conv step_add_user)

lemma stepping_delete_user [simp]: "stepping s (delete_user i s)"
  by (auto simp: delete_user_def stepping_def split: option.splits intro: srv_step.intros)

lemma stepping_post_account [simp]: "stepping s (post_account r s)"
  by (auto simp: post_account_def stepping_def split: sum.splits option.splits prod.splits intro: srv_step.intros)
     (metis snd_conv step_add_account)

lemma stepping_delete_account [simp]: "stepping s (delete_account i s)"
  by (auto simp: delete_account_def stepping_def split: option.splits intro: srv_step.intros)

lemmas handler_defs = handleListUsers_def handleUserByID_def handleUserByName_def handleListAccounts_def
  handleAccountByID_def handleAccountByName_def handleGroupByID_def handleListUserGroups_def
  handleUserGroupByID_def handleListSites_def handleListPrivileges_def handleTokenDetails_def handleKeepAlive_def

lemma stepping_handlers [simp]:
  "stepping s (handleCreateToken e r s)" "stepping s (handleKeepAlive e r s)" "stepping s (handleTokenDetails r s)"
  "stepping s (handleListPrivileges r s)" "stepping s (handleListUsers r s)" "stepping s (handleListAccounts r s)"
  "stepping s (handleListUserGroups r s)" "stepping s (handleListSites r s)" "stepping s (handleUserByID r s)"
  "stepping s (handleUserByName r s)" "stepping s (handleAccountByID r s)" "stepping s (handleAccountByName r s)"
  "stepping s (handleGroupByID r s)" "stepping s (handleUserGroupByID r s)"
  by (simp_all add: handler_defs handleCreateToken_def stepping_guarded stepping_get
      split: option.split http_method.split auth.split prod.split)

text \<open>The route table: a request is answered by one of these handlers, or by none.\<close>

definition all_handlers :: "string \<Rightarrow> handler list" where
  "all_handlers expires = map snd (exact_routes expires) @ map snd subtree_routes"

lemma serve_cases:
  "(\<exists>h\<in>set (all_handlers expires). serve expires r s = h r s) \<or>
   serve expires r s = (redirect, s) \<or> serve expires r s = (not_found, s)"
proof -
  have "map_of (exact_routes expires) p = Some h \<Longrightarrow> h \<in> set (all_handlers expires)" for p h
    by (force simp: all_handlers_def dest: map_of_SomeD)
  moreover have "List.find (\<lambda>e. prefix (fst e) p) subtree_routes = Some e \<Longrightarrow> snd e \<in> set (all_handlers expires)" for p e
    by (auto simp: all_handlers_def find_Some_iff)
  ultimately show ?thesis by (auto simp: serve_def Let_def split: option.split)
qed

lemma serve_stepping: "stepping s (serve expires r s)"
  using serve_cases[of expires r s] by (auto simp: all_handlers_def exact_routes_def subtree_routes_def)

subsection \<open>Invariants\<close>

lemma by_id_fold:
  "distinct (map ident xs) \<Longrightarrow> fold (\<lambda>x m. m(ident x \<mapsto> x)) xs m i =
     (case List.find (\<lambda>x. ident x = i) xs of Some x \<Rightarrow> Some x | None \<Rightarrow> m i)"
proof (induction xs arbitrary: m)
  case (Cons x xs)
  moreover have "ident x = i \<Longrightarrow> List.find (\<lambda>y. ident y = i) xs = None"
    unfolding find_None_iff_all using Cons.prems by (simp add: image_iff) metis
  ultimately show ?case by (simp split: option.split)
qed simp

lemma by_id_find: "distinct (map ident xs) \<Longrightarrow> by_id ident xs i = List.find (\<lambda>x. ident x = i) xs"
  by (simp add: by_id_def by_id_fold split: option.split)

lemma store_ok_seed:
  "distinct (map ident xs) \<Longrightarrow> distinct (map label xs) \<Longrightarrow> \<forall>x\<in>set xs. 0 < ident x \<and> ident x \<le> nxt \<Longrightarrow>
   0 \<le> nxt \<Longrightarrow> nxt < 2 ^ 63 \<Longrightarrow> store_ok ident label xs (by_id ident xs) nxt"
  by (simp add: store_ok_def by_id_find fun_eq_iff)

lemmas seed_defs = seed_users_def seed_user_def seed_accounts_def seed_account_def zero_User_def zero_UserAccount_def

lemma users_ok_start: "users_ok (newServer u p t)"
  unfolding users_ok_def newServer_def server.simps by (rule store_ok_seed) (simp_all add: seed_defs)

lemma accounts_ok_start: "accounts_ok (newServer u p t)"
  unfolding accounts_ok_def newServer_def server.simps by (rule store_ok_seed) (simp_all add: seed_defs)

text \<open>What a step keeps: the other store, and everything no handler writes.\<close>

definition srv_fixed where
  "srv_fixed s = (srvUsername s, srvPassword s, srvToken s, srvGroups s, srvGroupList s, srvUserGroups s,
     srvUserGroupList s, srvSites s, srvPrivileges s)"

definition next_ids :: "server \<Rightarrow> int \<times> int" where
  "next_ids s = (srvNextUserID s, srvNextAccountID s)"

lemma step_fixed: "srv_step s s' \<Longrightarrow> srv_fixed s' = srv_fixed s"
  by (auto elim!: srv_stepE simp: record_ops srv_fixed_def)

lemma frame_users [simp]:
  "users_ok (snd (add_account_record a s)) = users_ok s" "users_ok (remove_account i s) = users_ok s"
  "accounts_ok (snd (add_user_record b s)) = accounts_ok s" "accounts_ok (remove_user i s) = accounts_ok s"
  by (simp_all add: record_ops users_ok_def accounts_ok_def)

definition room :: "nat \<Rightarrow> server \<Rightarrow> bool" where
  "room n s \<longleftrightarrow> srvNextUserID s + int n < 2 ^ 63 \<and> srvNextAccountID s + int n < 2 ^ 63"

lemma step_inv:
  assumes "srv_step s s'" "users_ok s" "accounts_ok s" "room 1 s"
  shows "users_ok s' \<and> accounts_ok s'"
  using assms by (cases rule: srv_step.cases)
    (simp_all add: room_def users.add_inv accounts.add_inv users.remove_inv accounts.remove_inv)

lemma step_next:
  assumes "srv_step s s'" "users_ok s" "accounts_ok s" "room 1 s"
  shows "srvNextUserID s \<le> srvNextUserID s' \<and> srvNextUserID s' \<le> srvNextUserID s + 1
       \<and> srvNextAccountID s \<le> srvNextAccountID s' \<and> srvNextAccountID s' \<le> srvNextAccountID s + 1"
  using assms store_ok_next[of ID Name "srvUserList s"] store_ok_next[of ID Name "srvAccountList s"]
  by (cases rule: srv_step.cases)
    (auto simp: record_ops room_def users_ok_def accounts_ok_def next_id)

lemma reach_inv:
  "reach n s \<Longrightarrow> n < 2 ^ 62 \<Longrightarrow> users_ok s \<and> accounts_ok s \<and> srvNextUserID s \<le> 5 + int n \<and> srvNextAccountID s \<le> 103 + int n"
proof (induction rule: reach.induct)
  case (reach_start u p t)
  then show ?case by (simp add: users_ok_start accounts_ok_start) (simp add: newServer_def seed_defs)
next
  case (reach_step n s s')
  then have "n < 2 ^ 62" by simp
  with reach_step have inv: "users_ok s" "accounts_ok s" "srvNextUserID s \<le> 5 + int n" "srvNextAccountID s \<le> 103 + int n"
    by simp_all
  then have "room 1 s" using \<open>n < 2 ^ 62\<close> by (simp add: room_def)
  with reach_step step_inv[of s s'] step_next[of s s'] inv show ?case by simp
next
  case (reach_idle n s)
  then show ?case by simp
qed

subsection \<open>Runs of requests\<close>

text \<open>The state after a sequence of requests, each with the expiry time the server would print.\<close>

definition served :: "(string \<times> http_request) list \<Rightarrow> server \<Rightarrow> server" where
  "served rqs s = fold (\<lambda>(e, r) s. snd (serve e r s)) rqs s"

lemma served_simps [simp]: "served [] s = s" "served ((e, r) # rqs) s = served rqs (snd (serve e r s))"
  by (simp_all add: served_def)

lemma reach_served: "reach n s \<Longrightarrow> reach (n + length rqs) (served rqs s)"
proof (induction rqs arbitrary: n s)
  case (Cons q rqs)
  obtain e r where q: "q = (e, r)" by (cases q)
  have "reach (Suc n) (snd (serve e r s))"
    using serve_stepping[of s e r] Cons.prems by (auto simp: stepping_def intro: reach_idle reach_step)
  from Cons.IH[OF this] show ?case by (simp add: q)
qed simp

lemma serve_fixed: "srv_fixed (snd (serve e r s)) = srv_fixed s"
  using serve_stepping[of s e r] by (auto simp: stepping_def dest: step_fixed)

lemma served_fixed: "srv_fixed (served rqs s) = srv_fixed s"
  by (induction rqs arbitrary: s) (auto simp: serve_fixed)

end
