(* ===== verification/MockWorld.thy ===== *)
theory MockWorld
  imports MockSteps Users Accounts ConsoleGroups Sites Roles
begin

section \<open>The client against the mock server\<close>

text \<open>
  The mock server as the environment of the client: one exchange is one request served, in the world
  of the server's state, the clock and the random source.  Here is what a request does that carries the server's token,
  one that carries a stale token, and one that comes too late to keep the token alive.
\<close>

record mock_world =
  wServer :: server
  wClock :: int
  wSource :: nat

text \<open>
  \<open>expiry\<close> prints the time a token made now expires, \<open>rnd\<close> is the random source, whose position is
  \<open>wSource\<close>.  The clock moves only when the client waits: an exchange takes no time.
\<close>

definition mock_env :: "(int \<Rightarrow> string) \<Rightarrow> (int \<Rightarrow> mock_world \<Rightarrow> (string + int) \<times> mock_world) \<Rightarrow> int option \<Rightarrow> mock_world env" where
  "mock_env expiry rnd ttl =
     \<lparr>exchange = (\<lambda>rq w. case serve (expiry (wClock w)) rq (wServer w) of (rs, srv) \<Rightarrow> (Inr rs, w\<lparr>wServer := srv\<rparr>)),
      now = wClock, pause = (\<lambda>d w. w\<lparr>wClock := wClock w + d\<rparr>), parseBase = (\<lambda>u. Some (u, [])),
      randInt = rnd, cacheTTL = ttl\<rparr>"

lemma mock_env_simps [simp]:
  "exchange (mock_env x rnd ttl) rq w = (case serve (x (wClock w)) rq (wServer w) of (rs, srv) \<Rightarrow> (Inr rs, w\<lparr>wServer := srv\<rparr>))"
  "now (mock_env x rnd ttl) = wClock" "parseBase (mock_env x rnd ttl) u = Some (u, [])"
  "cacheTTL (mock_env x rnd ttl) = ttl" "pause (mock_env x rnd ttl) d w = w\<lparr>wClock := wClock w + d\<rparr>"
  "randInt (mock_env x rnd ttl) = rnd"
  by (simp_all add: mock_env_def)

type_synonym mock_conn = "mock_world conn"

definition srv_of :: "(mock_world, 'x) conn_scheme \<Rightarrow> server" where
  "srv_of s = wServer (netWorld s)"

definition with_server :: "(mock_world, 'x) conn_scheme \<Rightarrow> server \<Rightarrow> (mock_world, 'x) conn_scheme" where
  "with_server s srv = s\<lparr>netWorld := (netWorld s)\<lparr>wServer := srv\<rparr>\<rparr>"

lemma with_server_simps [simp]:
  "srv_of (with_server s srv) = srv" "clToken (with_server s srv) = clToken s"
  "with_server (with_server s a) b = with_server s b" "with_server s (srv_of s) = s"
  "wClock (netWorld (with_server s srv)) = wClock (netWorld s)" "clUserName (with_server s srv) = clUserName s"
  "clPassword (with_server s srv) = clPassword s" "clInstanceURL (with_server s srv) = clInstanceURL s"
  "clLastKeepAlive (with_server s srv) = clLastKeepAlive s" "netCache (with_server s srv) = netCache s"
  by (simp_all add: with_server_def srv_of_def)

text \<open>The client is connected: it has the server's token, and used or made it less than five minutes ago.\<close>

definition fresh_token :: "(mock_world, 'x) conn_scheme \<Rightarrow> bool" where
  "fresh_token s \<longleftrightarrow> clToken s \<noteq> [] \<and> wClock (netWorld s) - clLastKeepAlive s < five_minutes"

definition connected :: "(mock_world, 'x) conn_scheme \<Rightarrow> bool" where
  "connected s \<longleftrightarrow> fresh_token s \<and> clToken s = srvToken (srv_of s)"

text \<open>A state whose random source stands elsewhere is the same to the server and the client.\<close>

definition at_source :: "(mock_world, 'x) net_scheme \<Rightarrow> nat \<Rightarrow> (mock_world, 'x) net_scheme" where
  "at_source s k = s\<lparr>netWorld := (netWorld s)\<lparr>wSource := k\<rparr>\<rparr>"

lemma at_source_net [simp]:
  "netCache (at_source s k) = netCache s" "wClock (netWorld (at_source s k)) = wClock (netWorld s)"
  "wServer (netWorld (at_source s k)) = wServer (netWorld s)" "wSource (netWorld (at_source s k)) = k"
  "at_source (at_source s k) l = at_source s l" "at_source s (wSource (netWorld s)) = s"
  by (simp_all add: at_source_def)

lemma at_source_simps [simp]:
  fixes s :: "(mock_world, 'x) conn_scheme"
  shows "srv_of (at_source s k) = srv_of s" "clToken (at_source s k) = clToken s"
    "clUserName (at_source s k) = clUserName s" "clPassword (at_source s k) = clPassword s"
    "clInstanceURL (at_source s k) = clInstanceURL s" "clLastKeepAlive (at_source s k) = clLastKeepAlive s"
    "fresh_token (at_source s k) = fresh_token s" "connected (at_source s k) = connected s"
    "with_server (at_source s k) srv = at_source (with_server s srv) k"
    "wSource (netWorld (with_server s srv)) = wSource (netWorld s)"
  by (simp_all add: at_source_def srv_of_def with_server_def connected_def fresh_token_def)

text \<open>What the server answers now, and the state it is left in.\<close>

definition reply :: "(int \<Rightarrow> string) \<Rightarrow> http_request \<Rightarrow> (mock_world, 'x) conn_scheme \<Rightarrow> http_response \<times> server" where
  "reply x rq s = serve (x (wClock (netWorld s))) rq (srv_of s)"

lemma fresh_with_server [simp]: "fresh_token (with_server s srv) = fresh_token s"
  by (simp add: fresh_token_def)

subsection \<open>One request\<close>

lemma getUrl_mock [simp]:
  "getUrl (mock_env x rnd ttl) path s = (Inr \<lparr>uHost = clInstanceURL s, uPath = join_path [] path, uQuery = []\<rparr>, s)"
  by (simp add: getUrl_def)

lemma keepAlive_fresh: "fresh_token s \<Longrightarrow> keepAliveToken (mock_env x rnd ttl) s = (Inr (), s)"
  by (simp add: keepAliveToken_def fresh_token_def)

text \<open>Without a cache, and for anything but a GET with one, every \<open>Do\<close> is one exchange.\<close>

lemma Do_mock:
  assumes "reply x rq s = (rs, srv)" "ttl = None \<or> rqMethod rq \<noteq> GET"
  shows "Do (mock_env x rnd ttl) rq opt s =
     (if rsStatus rs < 200 \<or> rsStatus rs \<ge> 300
      then Inl (StatusError (GrpcCodeFromHTTPStatus (rsStatus rs)) (case opt rs of Inl e \<Rightarrow> [e] | Inr _ \<Rightarrow> []))
      else (case opt rs of Inl e \<Rightarrow> Inl e | Inr a \<Rightarrow> Inr (rs, a)), with_server s srv)"
  using assms
  by (auto simp: Do_def bindE_def send_def reply_def cacheGet_def cacheSet_def srv_of_def with_server_def split: sum.splits)

lemma attempt_mock:
  assumes "reply x (apiRequest meth u b (clToken s)) s = (rs, srv)" "ttl = None \<or> meth \<noteq> GET"
  shows "attempt (mock_env x rnd ttl) meth u b s =
     (if rsStatus rs < 200 \<or> rsStatus rs \<ge> 300
      then Inl (StatusError (GrpcCodeFromHTTPStatus (rsStatus rs)) []) else Inr rs, with_server s srv)"
  using Do_mock[where opt = no_option, OF assms(1), of ttl rnd] assms(2)
  by (simp add: attempt_def bindE_def no_option_def apiRequest_def)

text \<open>A request that is not answered with 401 is sent once, and its answer is the result.\<close>

lemma request_mock:
  assumes "fresh_token s"
    and "reply x (apiRequest meth u b (clToken s)) s = (rs, srv)"
    and "rsStatus rs \<noteq> 401" "ttl = None \<or> meth \<noteq> GET"
  shows "doRequestWithMethod (mock_env x rnd ttl) meth u b tg s =
     (if rsStatus rs < 200 \<or> rsStatus rs \<ge> 300
      then Inl (StatusError (GrpcCodeFromHTTPStatus (rsStatus rs)) []) else read_target tg rs, with_server s srv)"
  unfolding doRequestWithMethod_def bindE_Inr[where m = "keepAliveToken E" for E, OF keepAlive_fresh[OF assms(1)]]
  by (subst gotoRetry_first[OF attempt_mock[OF assms(2,4)]])
     (use assms(3) in \<open>auto simp: Grpc_Unauthenticated_iff split: if_splits\<close>)

lemma fetch_mock:
  assumes "fresh_token s"
    and "reply x (apiRequest GET \<lparr>uHost = clInstanceURL s, uPath = join_path [] path, uQuery = []\<rparr> None (clToken s)) s = (rs, srv)"
    and "rsStatus rs = 200" "unmarshal d z (rsBody rs) = Inr a"
  shows "fetch (mock_env x rnd None) path d z s = (Inr a, with_server s srv)"
  using assms(3,4) by (simp add: request_mock[OF assms(1,2)] fetch_def doRequest_def read_target_def)

subsection \<open>The routes the client uses\<close>

lemma guarded_ok: "rqAuth r = bearer (srvToken s) \<Longrightarrow> guarded r s k = k"
  by (simp add: guarded_def requireBearer_def bearer_def)

lemma only_get_ok: "rqMethod r = GET \<Longrightarrow> only_get r s k = k"
  by (simp add: only_get_def)

lemma serve_exact: "map_of (exact_routes e) (uPath (rqURL r)) = Some h \<Longrightarrow> serve e r s = h r s"
  by (simp add: serve_def)

lemma serve_subtree:
  "map_of (exact_routes e) (uPath (rqURL r)) = None \<Longrightarrow>
   List.find (\<lambda>t. prefix (fst t) (uPath (rqURL r))) subtree_routes = Some (p, h) \<Longrightarrow> serve e r s = h r s"
  by (simp add: serve_def)

definition plain_segment :: "string \<Rightarrow> bool" where
  "plain_segment n \<longleftrightarrow> n \<noteq> [] \<and> n \<noteq> ''.'' \<and> n \<noteq> ''..''"

lemma plain_itoa [simp]: "plain_segment (itoa i)"
  using itoa_no_sep[of i] by (auto simp: plain_segment_def)

lemma join_plain:
  "join_path [] [''JSSResource'', ''users'', ''id'', itoa i] = ''/JSSResource/users/id/'' @ itoa i"
  "join_path [] [''JSSResource'', ''accounts'', ''userid'', itoa i] = ''/JSSResource/accounts/userid/'' @ itoa i"
  "join_path [] [''JSSResource'', ''accounts'', ''groupid'', itoa i] = ''/JSSResource/accounts/groupid/'' @ itoa i"
  "join_path [] [''JSSResource'', ''usergroups'', ''id'', itoa i] = ''/JSSResource/usergroups/id/'' @ itoa i"
  "plain_segment n \<Longrightarrow> join_path [] [''JSSResource'', ''users'', ''name'', n] = ''/JSSResource/users/name/'' @ n"
  "plain_segment n \<Longrightarrow> join_path [] [''JSSResource'', ''accounts'', ''username'', n] = ''/JSSResource/accounts/username/'' @ n"
  "join_path [] [''JSSResource'', ''users''] = ''/JSSResource/users''"
  "join_path [] [''JSSResource'', ''accounts''] = ''/JSSResource/accounts''"
  "join_path [] [''JSSResource'', ''usergroups''] = ''/JSSResource/usergroups''"
  "join_path [] [''JSSResource'', ''sites''] = ''/JSSResource/sites''"
  "join_path [] [''api'', ''v1'', ''api-role-privileges''] = ''/api/v1/api-role-privileges''"
  "join_path [] [''api'', ''v1'', ''auth''] = ''/api/v1/auth''"
  "join_path [] [''api'', ''v1'', ''auth'', ''token''] = ''/api/v1/auth/token''"
  "join_path [] [''api'', ''v1'', ''auth'', ''keep-alive''] = ''/api/v1/auth/keep-alive''"
  using plain_itoa[of i]
  by (simp_all add: join_path_plain plain_segment_def render_path_def del: plain_itoa)

lemma serve_routes:
  "uPath (rqURL r) = ''/JSSResource/users'' \<Longrightarrow> serve e r s = handleListUsers r s"
  "uPath (rqURL r) = ''/JSSResource/accounts'' \<Longrightarrow> serve e r s = handleListAccounts r s"
  "uPath (rqURL r) = ''/JSSResource/usergroups'' \<Longrightarrow> serve e r s = handleListUserGroups r s"
  "uPath (rqURL r) = ''/JSSResource/sites'' \<Longrightarrow> serve e r s = handleListSites r s"
  "uPath (rqURL r) = ''/api/v1/api-role-privileges'' \<Longrightarrow> serve e r s = handleListPrivileges r s"
  "uPath (rqURL r) = ''/api/v1/auth'' \<Longrightarrow> serve e r s = handleTokenDetails r s"
  "uPath (rqURL r) = ''/api/v1/auth/token'' \<Longrightarrow> serve e r s = handleCreateToken e r s"
  "uPath (rqURL r) = ''/api/v1/auth/keep-alive'' \<Longrightarrow> serve e r s = handleKeepAlive e r s"
  by (rule serve_exact, simp add: exact_routes_def)+

lemma serve_user_id: "uPath (rqURL r) = ''/JSSResource/users/id/'' @ n \<Longrightarrow> serve e r s = handleUserByID r s"
  by (rule serve_subtree) (simp_all add: exact_routes_def subtree_routes_def)

lemma serve_user_name: "uPath (rqURL r) = ''/JSSResource/users/name/'' @ n \<Longrightarrow> serve e r s = handleUserByName r s"
  by (rule serve_subtree) (simp_all add: exact_routes_def subtree_routes_def)

lemma serve_account_id: "uPath (rqURL r) = ''/JSSResource/accounts/userid/'' @ n \<Longrightarrow> serve e r s = handleAccountByID r s"
  by (rule serve_subtree) (simp_all add: exact_routes_def subtree_routes_def)

lemma serve_account_name: "uPath (rqURL r) = ''/JSSResource/accounts/username/'' @ n \<Longrightarrow> serve e r s = handleAccountByName r s"
  by (rule serve_subtree) (simp_all add: exact_routes_def subtree_routes_def)

lemma serve_group_id: "uPath (rqURL r) = ''/JSSResource/accounts/groupid/'' @ n \<Longrightarrow> serve e r s = handleGroupByID r s"
  by (rule serve_subtree) (simp_all add: exact_routes_def subtree_routes_def)

lemma serve_user_group_id: "uPath (rqURL r) = ''/JSSResource/usergroups/id/'' @ n \<Longrightarrow> serve e r s = handleUserGroupByID r s"
  by (rule serve_subtree) (simp_all add: exact_routes_def subtree_routes_def)

end
