(* ===== verification/MockCalls.thy ===== *)
theory MockCalls
  imports MockWorld
begin

section \<open>The client's operations against the mock server\<close>

text \<open>
  In a reachable state of the server, a connected client without a response cache reads exactly the
  server's records, and its writes are the server's abstract steps.
\<close>

subsection \<open>What the server stores can be sent\<close>

definition stored_ok :: "server \<Rightarrow> bool" where
  "stored_ok s \<longleftrightarrow> list_all ok_User (srvUserList s) \<and> list_all ok_UserAccount (srvAccountList s)"

definition fixed_ok :: "server \<Rightarrow> bool" where
  "fixed_ok s \<longleftrightarrow> list_all ok_Group (srvGroupList s) \<and> srvGroups s = by_id ID (srvGroupList s)
     \<and> distinct (map ID (srvGroupList s)) \<and> list_all ok_UserGroup (srvUserGroupList s)
     \<and> srvUserGroups s = by_id ID (srvUserGroupList s) \<and> distinct (map ID (srvUserGroupList s))
     \<and> list_all ok_BaseType (srvSites s)"

definition server_inv :: "server \<Rightarrow> bool" where
  "server_inv s \<longleftrightarrow> users_ok s \<and> accounts_ok s \<and> stored_ok s \<and> fixed_ok s"

lemma step_stored: "srv_step s s' \<Longrightarrow> stored_ok s \<Longrightarrow> stored_ok s'"
  by (auto elim!: srv_stepE simp: record_ops stored_ok_def list_all_iff deleteByID_def ok_defs zero_defs
      split: option.splits)

lemma step_fixed_ok: "srv_step s s' \<Longrightarrow> fixed_ok s \<Longrightarrow> fixed_ok s'"
  by (auto elim!: srv_stepE simp: record_ops fixed_ok_def)

lemmas seed_groups_defs = seed_groups_def seed_group_def seed_user_groups_def zero_Group_def zero_UserGroup_def

lemma start_stored: "stored_ok (newServer u p t)" "fixed_ok (newServer u p t)"
  by (simp_all add: stored_ok_def fixed_ok_def newServer_def seed_defs seed_groups_defs Let_def ok_defs headquarters_def
      remote_def int64_def zero_BaseType_def)

lemma reach_server_inv: "reach n s \<Longrightarrow> n < 2 ^ 62 \<Longrightarrow> server_inv s"
proof -
  have "stored_ok s \<and> fixed_ok s" if "reach n s" for n s
    using that by (induction rule: reach.induct) (auto intro: step_stored step_fixed_ok start_stored)
  then show "reach n s \<Longrightarrow> n < 2 ^ 62 \<Longrightarrow> server_inv s"
    using reach_inv[of n s] by (simp add: server_inv_def)
qed

lemma reach_room: "reach n s \<Longrightarrow> n < 2 ^ 62 \<Longrightarrow> room 1 s"
  using reach_inv[of n s] by (simp add: room_def)

lemma inv_ID: "server_inv s \<Longrightarrow> u \<in> set (srvUserList s) \<Longrightarrow> ok_User u"
  "server_inv s \<Longrightarrow> a \<in> set (srvAccountList s) \<Longrightarrow> ok_UserAccount a"
  "server_inv s \<Longrightarrow> g \<in> set (srvGroupList s) \<Longrightarrow> ok_Group g"
  "server_inv s \<Longrightarrow> h \<in> set (srvUserGroupList s) \<Longrightarrow> ok_UserGroup h"
  by (auto simp: server_inv_def stored_ok_def fixed_ok_def list_all_iff)

lemma ok_ID: "ok_User u \<Longrightarrow> int64 (ID u)" "ok_UserAccount a \<Longrightarrow> int64 (ID a)" "ok_Group g \<Longrightarrow> int64 (ID g)"
  "ok_UserGroup h \<Longrightarrow> int64 (ID h)"
  by (simp_all add: ok_defs)

text \<open>Each record of a list is the one the map has under its id.\<close>

lemma find_distinct: "distinct (map ident xs) \<Longrightarrow> x \<in> set xs \<Longrightarrow> List.find (\<lambda>y. ident y = ident x) xs = Some x"
  by (induction xs) (auto simp: image_iff)

lemma inv_lookup:
  "server_inv s \<Longrightarrow> u \<in> set (srvUserList s) \<Longrightarrow> srvUsers s (ID u) = Some u"
  "server_inv s \<Longrightarrow> a \<in> set (srvAccountList s) \<Longrightarrow> srvAccounts s (ID a) = Some a"
  "server_inv s \<Longrightarrow> g \<in> set (srvGroupList s) \<Longrightarrow> srvGroups s (ID g) = Some g"
  "server_inv s \<Longrightarrow> h \<in> set (srvUserGroupList s) \<Longrightarrow> srvUserGroups s (ID h) = Some h"
  by (simp_all add: server_inv_def users_ok_def accounts_ok_def store_ok_def fixed_ok_def by_id_find find_distinct)

lemma find_user_mem: "findUserByName s n = Some u \<Longrightarrow> u \<in> set (srvUserList s) \<and> Name u = n"
  by (auto simp: findUserByName_def dest: find_SomeD)

lemma find_account_mem: "findAccountByName s n = Some a \<Longrightarrow> a \<in> set (srvAccountList s) \<and> Name a = n"
  by (auto simp: findAccountByName_def dest: find_SomeD)

lemma users_map_mem: "server_inv s \<Longrightarrow> srvUsers s i = Some u \<Longrightarrow> u \<in> set (srvUserList s) \<and> ID u = i"
  by (auto simp: server_inv_def users_ok_def store_ok_def dest: find_SomeD)

lemma accounts_map_mem: "server_inv s \<Longrightarrow> srvAccounts s i = Some u \<Longrightarrow> u \<in> set (srvAccountList s) \<and> ID u = i"
  by (auto simp: server_inv_def accounts_ok_def store_ok_def dest: find_SomeD)

subsection \<open>Reading\<close>

definition api_get :: "('w, 'x) conn_scheme \<Rightarrow> string list \<Rightarrow> http_request" where
  "api_get s path = apiRequest GET \<lparr>uHost = clInstanceURL s, uPath = join_path [] path, uQuery = []\<rparr> None (clToken s)"

lemma api_get_simps [simp]:
  "rqMethod (api_get s path) = GET" "uPath (rqURL (api_get s path)) = join_path [] path"
  "rqAuth (api_get s path) = bearer (clToken s)"
  by (simp_all add: api_get_def apiRequest_def)

lemma connected_guard [simp]: "connected s \<Longrightarrow> rqAuth r = bearer (clToken s) \<Longrightarrow> guarded r (srv_of s) k = k"
  by (simp add: guarded_ok connected_def)

lemma connected_fresh: "connected s \<Longrightarrow> fresh_token s"
  by (simp add: connected_def)

lemma fetch_same:
  assumes "connected s" "reply x (api_get s path) s = (writeJSON 200 j, srv_of s)" "d j z = Inr a"
  shows "fetch (mock_env x rnd None) path d z s = (Inr a, s)"
  using fetch_mock[where s = s, OF connected_fresh[OF assms(1)] assms(2)[unfolded api_get_def], of d z a rnd] assms(3)
  by (simp add: writeJSON_def unmarshal_def)

lemmas url_paths = userUrlPath_def userNameUrlPath_def usersUrlPath_def accountUrlPath_def accountUsernameUrlPath_def
  accountsUrlPath_def groupUrlPath_def userGroupUrlPath_def userGroupsUrlPath_def sitesUrlPath_def
  authUrlPath_def privilegesUrlPath_def tokenUrlPath_def keepAliveUrlPath_def

lemma dec_minimal_users:
  assumes "server_inv v"
  shows "dec_UsersResponse (JObj [(''users'', enc_array enc_BaseType (map minimal (srvUserList v)))]) []
    = Inr (map minimal (srvUserList v))"
  unfolding dec_UsersResponse_def using inv_ID(1)[OF assms]
  by (auto intro!: decode_rules simp: minimal_def ok_defs)

lemma getBaseUsers_mock:
  assumes "connected s" "server_inv (srv_of s)"
  shows "getBaseUsers (mock_env x rnd None) s = (Inr (map minimal (srvUserList (srv_of s))), s)"
  unfolding getBaseUsers_def
proof (rule fetch_same[OF assms(1)])
  show "reply x (api_get s usersUrlPath) s =
      (writeJSON 200 (JObj [(''users'', enc_array enc_BaseType (map minimal (srvUserList (srv_of s))))]), srv_of s)"
    using assms(1) by (simp add: reply_def url_paths join_plain serve_routes handleListUsers_def only_get_ok)
  show "dec_UsersResponse (JObj [(''users'', enc_array enc_BaseType (map minimal (srvUserList (srv_of s))))]) []
      = Inr (map minimal (srvUserList (srv_of s)))"
    by (rule dec_minimal_users[OF assms(2)])
qed

lemma getUserDetails_mock:
  assumes "connected s" "server_inv (srv_of s)" "srvUsers (srv_of s) i = Some u"
  shows "getUserDetails (mock_env x rnd None) i s = (Inr u, s)"
  unfolding getUserDetails_def
proof (rule fetch_same[OF assms(1)])
  have u: "ok_User u" "ID u = i" using users_map_mem[OF assms(2,3)] inv_ID(1)[OF assms(2)] by auto
  then have "atoi (itoa i) = Some i" using ok_ID(1)[of u] by simp
  then show "reply x (api_get s (userUrlPath i)) s = (writeJSON 200 (JObj [(''user'', enc_User u)]), srv_of s)"
    using assms(1,3) by (simp add: reply_def url_paths join_plain serve_user_id handleUserByID_def
        pathID_def pathTail_def trim_prefix_append del: append.simps)
  show "dec_UserResponse (JObj [(''user'', enc_User u)]) zero_User = Inr u"
    unfolding dec_UserResponse_def using u by (auto intro!: decode_rules)
qed

text \<open>The loop over the minimal records of a listing, each read in full.\<close>

lemma mapE_details:
  assumes "\<And>x. x \<in> set xs \<Longrightarrow> f (g x) s = (Inr x, s)"
  shows "mapE f (map g xs) s = (Inr xs, s)"
  using assms by (induction xs) (auto simp: bindE_def)

lemma GetUsers_mock:
  assumes "connected s" "server_inv (srv_of s)"
  shows "GetUsers (mock_env x rnd None) s = (Inr (srvUserList (srv_of s)), s)"
proof -
  have "mapE (\<lambda>b. getUserDetails (mock_env x rnd None) (ID b)) (map minimal (srvUserList (srv_of s))) s
      = (Inr (srvUserList (srv_of s)), s)"
    by (rule mapE_details) (simp add: minimal_def getUserDetails_mock[OF assms] inv_lookup(1)[OF assms(2)])
  then show ?thesis
    by (simp add: GetUsers_def getBaseUsers_mock[OF assms])
qed

lemma GetUserAccountDetails_mock:
  assumes "connected s" "server_inv (srv_of s)" "srvAccounts (srv_of s) i = Some a"
  shows "GetUserAccountDetails (mock_env x rnd None) i s = (Inr a, s)"
  unfolding GetUserAccountDetails_def
proof (rule fetch_same[OF assms(1)])
  have u: "ok_UserAccount a" "ID a = i" using accounts_map_mem[OF assms(2,3)] inv_ID(2)[OF assms(2)] by auto
  then have "atoi (itoa i) = Some i" using ok_ID(2)[of a] by simp
  then show "reply x (api_get s (accountUrlPath i)) s = (writeJSON 200 (JObj [(''account'', enc_UserAccount a)]), srv_of s)"
    using assms(1,3) by (simp add: reply_def url_paths join_plain serve_account_id handleAccountByID_def
        pathID_def pathTail_def trim_prefix_append del: append.simps)
  show "dec_UserAccountResponse (JObj [(''account'', enc_UserAccount a)]) zero_UserAccount = Inr a"
    unfolding dec_UserAccountResponse_def using u by (auto intro!: decode_rules)
qed

lemma GetGroupDetails_mock:
  assumes "connected s" "server_inv (srv_of s)" "g \<in> set (srvGroupList (srv_of s))"
  shows "GetGroupDetails (mock_env x rnd None) (ID g) s = (Inr g, s)"
  unfolding GetGroupDetails_def
proof (rule fetch_same[OF assms(1)])
  have g: "ok_Group g" using inv_ID(3)[OF assms(2,3)] .
  then have "atoi (itoa (ID g)) = Some (ID g)" using ok_ID(3)[of g] by simp
  then show "reply x (api_get s (groupUrlPath (ID g))) s = (writeJSON 200 (JObj [(''group'', enc_Group g)]), srv_of s)"
    using assms(1) inv_lookup(3)[OF assms(2,3)]
    by (simp add: reply_def url_paths join_plain serve_group_id handleGroupByID_def only_get_ok
        pathID_def pathTail_def trim_prefix_append del: append.simps)
  show "dec_GroupResponse (JObj [(''group'', enc_Group g)]) zero_Group = Inr g"
    unfolding dec_GroupResponse_def using g by (auto intro!: decode_rules)
qed

lemma GetUserGroupDetails_mock:
  assumes "connected s" "server_inv (srv_of s)" "g \<in> set (srvUserGroupList (srv_of s))"
  shows "GetUserGroupDetails (mock_env x rnd None) (ID g) s = (Inr g, s)"
  unfolding GetUserGroupDetails_def
proof (rule fetch_same[OF assms(1)])
  have g: "ok_UserGroup g" using inv_ID(4)[OF assms(2,3)] .
  then have "atoi (itoa (ID g)) = Some (ID g)" using ok_ID(4)[of g] by simp
  then show "reply x (api_get s (userGroupUrlPath (ID g))) s
      = (writeJSON 200 (JObj [(''user_group'', enc_UserGroup g)]), srv_of s)"
    using assms(1) inv_lookup(4)[OF assms(2,3)]
    by (simp add: reply_def url_paths join_plain serve_user_group_id handleUserGroupByID_def only_get_ok
        pathID_def pathTail_def trim_prefix_append del: append.simps)
  show "dec_UserGroupResponse (JObj [(''user_group'', enc_UserGroup g)]) zero_UserGroup = Inr g"
    unfolding dec_UserGroupResponse_def using g by (auto intro!: decode_rules)
qed

definition bare_user :: "'a BaseType_scheme \<Rightarrow> User" where
  "bare_user a = zero_User\<lparr>ID := ID a, Name := Name a\<rparr>"

definition bare_group :: "'a BaseType_scheme \<Rightarrow> Group" where
  "bare_group g = zero_Group\<lparr>ID := ID g, Name := Name g\<rparr>"

definition bare_user_group :: "'a BaseType_scheme \<Rightarrow> UserGroup" where
  "bare_user_group g = zero_UserGroup\<lparr>ID := ID g, Name := Name g\<rparr>"

lemma ok_bare [simp]:
  "ok_User (bare_user a) = int64 (ID a)" "ok_Group (bare_group g) = int64 (ID g)"
  "ok_UserGroup (bare_user_group g) = int64 (ID g)"
  "ID (bare_user a) = ID a" "ID (bare_group g) = ID g" "ID (bare_user_group g) = ID g"
  by (simp_all add: bare_user_def bare_group_def bare_user_group_def ok_defs zero_defs)

definition accounts_document :: "server \<Rightarrow> json" where
  "accounts_document v = JObj [(''accounts'', JObj [(''users'', enc_array enc_User (map bare_user (srvAccountList v))),
       (''groups'', enc_array enc_Group (map bare_group (srvGroupList v)))])]"

lemma dec_accounts_document:
  assumes "server_inv v"
  shows "dec_AccountsResponse (accounts_document v) zero_BaseAccount =
      Inr \<lparr>baUsers = map bare_user (srvAccountList v), baGroups = map bare_group (srvGroupList v)\<rparr>"
proof -
  have "dec_slice zero_User dec_User (enc_array enc_User (map bare_user (srvAccountList v))) y
      = Inr (map bare_user (srvAccountList v))" for y
    using inv_ID(2)[OF assms] ok_ID(2) by (auto intro!: decode_rules)
  moreover have "dec_slice zero_Group dec_Group (enc_array enc_Group (map bare_group (srvGroupList v))) y
      = Inr (map bare_group (srvGroupList v))" for y
    using inv_ID(3)[OF assms] ok_ID(3) by (auto intro!: decode_rules)
  ultimately show ?thesis
    unfolding dec_AccountsResponse_def accounts_document_def
    by (intro dec_envelope_one) (simp add: dec_BaseAccount_def fields_BaseAccount_def dec_struct_obj
        find_field_def fld_def zero_BaseAccount_def)
qed

lemma handleListAccounts_document: "handleListAccounts r v = guarded r v (only_get r v (writeJSON 200 (accounts_document v), v))"
  by (simp add: handleListAccounts_def accounts_document_def bare_user_def[abs_def] bare_group_def[abs_def])

lemma getBaseAccounts_mock:
  assumes "connected s" "server_inv (srv_of s)"
  shows "getBaseAccounts (mock_env x rnd None) s =
    (Inr \<lparr>baUsers = map bare_user (srvAccountList (srv_of s)), baGroups = map bare_group (srvGroupList (srv_of s))\<rparr>, s)"
  unfolding getBaseAccounts_def
proof (rule fetch_same[OF assms(1)])
  show "reply x (api_get s accountsUrlPath) s = (writeJSON 200 (accounts_document (srv_of s)), srv_of s)"
    using assms(1) by (simp add: reply_def url_paths join_plain serve_routes handleListAccounts_document only_get_ok)
  show "dec_AccountsResponse (accounts_document (srv_of s)) zero_BaseAccount =
      Inr \<lparr>baUsers = map bare_user (srvAccountList (srv_of s)), baGroups = map bare_group (srvGroupList (srv_of s))\<rparr>"
    by (rule dec_accounts_document[OF assms(2)])
qed

lemma GetAccounts_mock:
  assumes "connected s" "server_inv (srv_of s)"
  shows "GetAccounts (mock_env x rnd None) s = (Inr (srvAccountList (srv_of s), srvGroupList (srv_of s)), s)"
proof -
  have "mapE (\<lambda>user. GetUserAccountDetails (mock_env x rnd None) (ID user)) (map bare_user (srvAccountList (srv_of s))) s
      = (Inr (srvAccountList (srv_of s)), s)"
    by (rule mapE_details) (simp add: GetUserAccountDetails_mock[OF assms] inv_lookup(2)[OF assms(2)])
  moreover have "mapE (\<lambda>g. GetGroupDetails (mock_env x rnd None) (ID g)) (map bare_group (srvGroupList (srv_of s))) s
      = (Inr (srvGroupList (srv_of s)), s)"
    by (rule mapE_details) (simp add: GetGroupDetails_mock[OF assms])
  ultimately show ?thesis by (simp add: GetAccounts_def getBaseAccounts_mock[OF assms])
qed

lemma GetUserGroups_mock:
  assumes "connected s" "server_inv (srv_of s)"
  shows "GetUserGroups (mock_env x rnd None) s = (Inr (srvUserGroupList (srv_of s)), s)"
proof -
  have "getBaseUserGroups (mock_env x rnd None) s = (Inr (map bare_user_group (srvUserGroupList (srv_of s))), s)"
    unfolding getBaseUserGroups_def
  proof (rule fetch_same[OF assms(1)])
    show "reply x (api_get s userGroupsUrlPath) s = (writeJSON 200 (JObj [(''user_groups'',
        enc_array enc_UserGroup (map bare_user_group (srvUserGroupList (srv_of s))))]), srv_of s)"
      using assms(1) by (simp add: reply_def url_paths join_plain serve_routes handleListUserGroups_def only_get_ok
          bare_user_group_def[abs_def])
    show "dec_UserGroupsResponse (JObj [(''user_groups'',
        enc_array enc_UserGroup (map bare_user_group (srvUserGroupList (srv_of s))))]) []
        = Inr (map bare_user_group (srvUserGroupList (srv_of s)))"
      unfolding dec_UserGroupsResponse_def using inv_ID(4)[OF assms(2)] ok_ID(4)
      by (auto intro!: decode_rules)
  qed
  moreover have "mapE (\<lambda>g. GetUserGroupDetails (mock_env x rnd None) (ID g))
      (map bare_user_group (srvUserGroupList (srv_of s))) s = (Inr (srvUserGroupList (srv_of s)), s)"
    by (rule mapE_details) (simp add: GetUserGroupDetails_mock[OF assms])
  ultimately show ?thesis by (simp add: GetUserGroups_def)
qed

lemma GetSites_mock:
  assumes "connected s" "server_inv (srv_of s)"
  shows "GetSites (mock_env x rnd None) s = (Inr (srvSites (srv_of s)), s)"
  unfolding GetSites_def
proof (rule fetch_same[OF assms(1)])
  show "reply x (api_get s sitesUrlPath) s =
      (writeJSON 200 (JObj [(''sites'', enc_array enc_BaseType (srvSites (srv_of s)))]), srv_of s)"
    using assms(1) by (simp add: reply_def url_paths join_plain serve_routes handleListSites_def only_get_ok)
  show "dec_SitesResponse (JObj [(''sites'', enc_array enc_BaseType (srvSites (srv_of s)))]) [] = Inr (srvSites (srv_of s))"
    unfolding dec_SitesResponse_def using assms(2)
    by (auto intro!: decode_rules simp: server_inv_def fixed_ok_def list_all_iff)
qed

lemma GetUserByName_mock:
  assumes "connected s" "server_inv (srv_of s)" "plain_segment n" "findUserByName (srv_of s) n = Some u"
  shows "GetUserByName (mock_env x rnd None) n s = (Inr u, s)"
  unfolding GetUserByName_def
proof (rule fetch_same[OF assms(1)])
  show "reply x (api_get s (userNameUrlPath n)) s = (writeJSON 200 (JObj [(''user'', enc_User u)]), srv_of s)"
    using assms(1,3,4) by (simp add: reply_def url_paths join_plain serve_user_name handleUserByName_def only_get_ok
        pathTail_def trim_prefix_append del: append.simps)
  show "dec_UserResponse (JObj [(''user'', enc_User u)]) zero_User = Inr u"
    unfolding dec_UserResponse_def using find_user_mem[OF assms(4)] inv_ID(1)[OF assms(2)]
    by (auto intro!: decode_rules)
qed

lemma GetUserAccountByName_mock:
  assumes "connected s" "server_inv (srv_of s)" "plain_segment n" "findAccountByName (srv_of s) n = Some u"
  shows "GetUserAccountByName (mock_env x rnd None) n s = (Inr u, s)"
  unfolding GetUserAccountByName_def
proof (rule fetch_same[OF assms(1)])
  show "reply x (api_get s (accountUsernameUrlPath n)) s = (writeJSON 200 (JObj [(''account'', enc_UserAccount u)]), srv_of s)"
    using assms(1,3,4) by (simp add: reply_def url_paths join_plain serve_account_name handleAccountByName_def only_get_ok
        pathTail_def trim_prefix_append del: append.simps)
  show "dec_UserAccountResponse (JObj [(''account'', enc_UserAccount u)]) zero_UserAccount = Inr u"
    unfolding dec_UserAccountResponse_def using find_account_mem[OF assms(4)] inv_ID(2)[OF assms(2)]
    by (auto intro!: decode_rules)
qed

end
