(* ===== verification/MockProvision.thy ===== *)
theory MockProvision
  imports MockCalls
begin

section \<open>Provisioning against the mock server\<close>

text \<open>
  Creating and deleting directory users and console accounts: what the connector's handlers make of
  the server's state, and what the connector returns.
\<close>

definition api_send :: "http_method \<Rightarrow> ('w, 'x) conn_scheme \<Rightarrow> string list \<Rightarrow> xml option \<Rightarrow> http_request" where
  "api_send meth s path b =
     apiRequest meth \<lparr>uHost = clInstanceURL s, uPath = join_path [] path, uQuery = []\<rparr> b (clToken s)"

lemma api_send_simps [simp]:
  "rqMethod (api_send meth s path b) = meth" "uPath (rqURL (api_send meth s path b)) = join_path [] path"
  "rqAuth (api_send meth s path b) = bearer (clToken s)"
  "rqBody (api_send meth s path b) = (case b of None \<Rightarrow> EmptyBody | Some x \<Rightarrow> XmlBody x)"
  "header (api_send meth s path b) ''Content-Type'' = (case b of None \<Rightarrow> [] | Some _ \<Rightarrow> ''application/xml'')"
  by (simp_all add: api_send_def apiRequest_def header_def acceptJSON_def split: option.split)

text \<open>A write that the server answers with a status other than 401.\<close>

lemma write_mock:
  assumes "connected s" "reply x (api_send meth s path b) s = (rs, srv)" "rsStatus rs \<noteq> 401" "meth \<noteq> GET"
  shows "bindE (getUrl (mock_env x rnd ttl) path) (\<lambda>u. doRequestWithMethod (mock_env x rnd ttl) meth u b nil_target) s =
    (if rsStatus rs < 200 \<or> rsStatus rs \<ge> 300 then Inl (StatusError (GrpcCodeFromHTTPStatus (rsStatus rs)) [])
     else Inr (), with_server s srv)"
  by (simp add: request_mock[OF connected_fresh[OF assms(1)] assms(2)[unfolded api_send_def] assms(3)]
      assms(4) read_target_def nil_target_def)

lemma connected_with_server:
  "connected s \<Longrightarrow> srvToken srv = srvToken (srv_of s) \<Longrightarrow> connected (with_server s srv)"
  by (simp add: connected_def)

lemma token_kept [simp]:
  "srvToken (snd (add_user_record b s)) = srvToken s" "srvToken (remove_user i s) = srvToken s"
  "srvToken (snd (add_account_record a s)) = srvToken s" "srvToken (remove_account i s) = srvToken s"
  by (simp_all add: record_ops)

lemma step_server_inv:
  assumes "srv_step s s'" "server_inv s" "room 1 s"
  shows "server_inv s'"
  using assms step_inv[of s s'] step_stored[of s s'] step_fixed_ok[of s s'] by (simp add: server_inv_def)

lemma xml_content_type: "contains ''xml'' (to_lower ''application/xml'')"
  by code_simp

lemma decode_body:
  "unxml bd = Some a \<Longrightarrow> decodeXMLBody unxml (api_send POST s path (Some bd)) = Inr a"
  by (simp add: decodeXMLBody_def Let_def xml_content_type del: contains.simps)

lemma path_ids:
  "int64 i \<Longrightarrow> pathID (''/JSSResource/users/id/'' @ itoa i) ''/JSSResource/users/id/'' = Some i"
  "int64 i \<Longrightarrow> pathID (''/JSSResource/accounts/userid/'' @ itoa i) ''/JSSResource/accounts/userid/'' = Some i"
  unfolding pathID_def pathTail_def trim_prefix_append by simp_all

lemma created_status [simp]: "rsStatus (created i) = 201" "rsStatus empty_ok = 200" "rsStatus (writeJSONError c m) = c"
  by (simp_all add: created_def writeJSON_def empty_ok_def writeJSONError_def)

lemma status_404: "GrpcCodeFromHTTPStatus 404 = NotFound" "GrpcCodeFromHTTPStatus 409 = AlreadyExists"
  by (simp_all add: GrpcCodeFromHTTPStatus_def)

subsection \<open>Directory users\<close>

definition user_body :: "string \<Rightarrow> profile \<Rightarrow> UserCreateBody" where
  "user_body n p = \<lparr>ucName = n, ucFullName = profile_string p ''full_name'', ucEmail = profile_string p ''email''\<rparr>"

definition new_user :: "UserCreateBody \<Rightarrow> server \<Rightarrow> User" where
  "new_user b s = zero_User\<lparr>ID := wrap64 (srvNextUserID s + 1), Name := ucName b, userFullName := ucFullName b,
     userEmail := ucEmail b\<rparr>"

lemma CreateUser_mock:
  assumes "connected s" "n \<noteq> []"
  shows "findUserByName (srv_of s) n = None \<Longrightarrow> CreateUser (mock_env x rnd ttl) n f e s =
      (Inr (), with_server s (snd (add_user_record \<lparr>ucName = n, ucFullName = f, ucEmail = e\<rparr> (srv_of s))))"
    and "findUserByName (srv_of s) n = Some u \<Longrightarrow> CreateUser (mock_env x rnd ttl) n f e s =
      (Inl (StatusError AlreadyExists []), s)"
proof -
  let ?b = "\<lparr>ucName = n, ucFullName = f, ucEmail = e\<rparr>"
  let ?rq = "api_send POST s (userUrlPath newResourceID) (Some (xml_UserCreateBody ?b))"
  have "reply x ?rq s = post_user ?rq (srv_of s)"
    using assms(1) by (simp add: reply_def url_paths join_plain serve_user_id handleUserByID_def path_ids
        newResourceID_def del: append.simps)
  then have r: "findUserByName (srv_of s) n = None \<Longrightarrow> reply x ?rq s
      = (created (fst (add_user_record ?b (srv_of s))), snd (add_user_record ?b (srv_of s)))"
    "findUserByName (srv_of s) n = Some u \<Longrightarrow> reply x ?rq s
      = (writeJSONError 409 ''user already exists with this name'', srv_of s)"
    using assms(2) by (simp_all add: post_user_def decode_body case_prod_unfold)
  show "findUserByName (srv_of s) n = None \<Longrightarrow> CreateUser (mock_env x rnd ttl) n f e s =
      (Inr (), with_server s (snd (add_user_record ?b (srv_of s))))"
    unfolding CreateUser_def by (subst write_mock[OF assms(1) r(1)]) simp_all
  show "findUserByName (srv_of s) n = Some u \<Longrightarrow> CreateUser (mock_env x rnd ttl) n f e s =
      (Inl (StatusError AlreadyExists []), s)"
    unfolding CreateUser_def by (subst write_mock[OF assms(1) r(2)]) (simp_all add: status_404)
qed

lemma DeleteUser_mock:
  assumes "connected s" "int64 i"
  shows "DeleteUser (mock_env x rnd ttl) i s =
    (case srvUsers (srv_of s) i of None \<Rightarrow> (Inl (StatusError NotFound []), s)
     | Some _ \<Rightarrow> (Inr (), with_server s (remove_user i (srv_of s))))"
proof -
  let ?rq = "api_send DELETE s (userUrlPath i) None"
  have "reply x ?rq s = delete_user i (srv_of s)"
    using assms by (simp add: reply_def url_paths join_plain serve_user_id handleUserByID_def path_ids
        del: append.simps)
  then have r: "srvUsers (srv_of s) i = None \<Longrightarrow> reply x ?rq s = (writeJSONError 404 ''user not found'', srv_of s)"
    "srvUsers (srv_of s) i = Some u \<Longrightarrow> reply x ?rq s = (empty_ok, remove_user i (srv_of s))" for u
    by (simp_all add: delete_user_def)
  show ?thesis
    by (cases "srvUsers (srv_of s) i")
       (simp_all add: DeleteUser_def write_mock[OF assms(1) r(1)] write_mock[OF assms(1) r(2)] status_404
          del: getUrl_mock)
qed

lemma add_user_record_eq:
  "add_user_record b s = (wrap64 (srvNextUserID s + 1),
     s\<lparr>srvNextUserID := wrap64 (srvNextUserID s + 1), srvUsers := (srvUsers s)(wrap64 (srvNextUserID s + 1) \<mapsto> new_user b s),
       srvUserList := srvUserList s @ [new_user b s]\<rparr>)"
  by (simp add: add_user_record_def new_user_def Let_def)

lemma find_new_user:
  "findUserByName s (ucName b) = None \<Longrightarrow> findUserByName (snd (add_user_record b s)) (ucName b) = Some (new_user b s)"
  by (simp add: add_user_record_eq findUserByName_def find_append) (simp add: new_user_def)

text \<open>What is returned is what the lookup after the creation finds.\<close>

lemma create_user_run:
  assumes "connected s" "aiLogin info \<noteq> []" "findUserByName (srv_of s) (aiLogin info) = None"
    and "GetUserByName (mock_env x rnd ttl) (aiLogin info)
      (with_server s (snd (add_user_record (user_body (aiLogin info) (aiProfile info)) (srv_of s)))) = (Inr u, t)"
  shows "user_CreateAccount (mock_env x rnd ttl) info creds s =
    (case userResource u None of Inl e \<Rightarrow> Inl e | Inr r \<Rightarrow> Inr (SuccessResult r, []), t)"
  using assms CreateUser_mock(1)[OF assms(1-3), of x rnd ttl]
  by (cases "userResource u None")
     (simp_all add: user_CreateAccount_def requireLogin_def Let_def user_body_def)

lemma create_user_new:
  assumes "connected s" "server_inv (srv_of s)" "room 1 (srv_of s)"
    "plain_segment (aiLogin info)" "findUserByName (srv_of s) (aiLogin info) = None"
  shows "user_CreateAccount (mock_env x rnd None) info creds s =
    (let b = user_body (aiLogin info) (aiProfile info) in
     (case userResource (new_user b (srv_of s)) None of Inl e \<Rightarrow> Inl e | Inr r \<Rightarrow> Inr (SuccessResult r, []),
      with_server s (snd (add_user_record b (srv_of s)))))"
proof -
  let ?b = "user_body (aiLogin info) (aiProfile info)" and ?srv = "srv_of s"
  let ?t = "with_server s (snd (add_user_record ?b ?srv))"
  have n: "aiLogin info \<noteq> []" using assms(4) by (simp add: plain_segment_def)
  have nb: "ucName ?b = aiLogin info" by (simp add: user_body_def)
  have "srv_step ?srv (snd (add_user_record ?b ?srv))"
    by (rule step_add_user) (use n nb assms(5) in simp_all)
  from step_server_inv[OF this assms(2,3)] have inv: "server_inv (srv_of ?t)" by simp
  have con: "connected ?t" by (rule connected_with_server[OF assms(1)]) simp
  have "GetUserByName (mock_env x rnd None) (aiLogin info) ?t = (Inr (new_user ?b ?srv), ?t)"
    by (rule GetUserByName_mock[OF con inv assms(4)]) (use find_new_user[of ?srv ?b] assms(5) nb in simp)
  from create_user_run[OF assms(1) n assms(5) this] show ?thesis by (simp add: Let_def)
qed

lemma create_user_existing:
  assumes "connected s" "server_inv (srv_of s)"
    "plain_segment (aiLogin info)" "findUserByName (srv_of s) (aiLogin info) = Some u"
  shows "user_CreateAccount (mock_env x rnd None) info creds s =
    (case userResource u None of Inl e \<Rightarrow> Inl e | Inr r \<Rightarrow> Inr (AlreadyExistsResult r, []), s)"
proof -
  have n: "aiLogin info \<noteq> []" using assms(3) by (simp add: plain_segment_def)
  show ?thesis
    using n CreateUser_mock(2)[OF assms(1) n assms(4)] GetUserByName_mock[OF assms]
    by (cases "userResource u None")
       (simp_all add: user_CreateAccount_def requireLogin_def Let_def IsAlreadyExistsError_def)
qed

lemma remove_absent_user: "srvUsers s i = None \<Longrightarrow> users_ok s \<Longrightarrow> remove_user i s = s"
  using users.remove_absent[of s i] by (cases s) (auto simp: remove_user_def fun_upd_idem)

lemma delete_user_mock:
  assumes "connected s" "server_inv (srv_of s)" "atoi (ridResource rid) = Some i"
  shows "user_Delete (mock_env x rnd ttl) rid s = (Inr (), with_server s (remove_user i (srv_of s)))"
proof -
  have "int64 i" by (rule atoi_int64[OF assms(3)])
  have ok: "users_ok (srv_of s)" using assms(2) by (simp add: server_inv_def)
  show ?thesis
  proof (cases "srvUsers (srv_of s) i")
    case None
    with DeleteUser_mock[OF assms(1) \<open>int64 i\<close>] assms(3) remove_absent_user[OF None ok] show ?thesis
      by (simp add: user_Delete_def IsNotFoundError_def)
  next
    case (Some u)
    with DeleteUser_mock[OF assms(1) \<open>int64 i\<close>] assms(3) show ?thesis by (simp add: user_Delete_def)
  qed
qed

subsection \<open>Console accounts\<close>

definition account_body :: "string \<Rightarrow> string \<Rightarrow> string \<Rightarrow> Privileges option \<Rightarrow> profile \<Rightarrow> UserAccountCreateBody" where
  "account_body n pw pset privs p =
     \<lparr>acName = n, acPassword = pw, acFullName = profile_string p ''full_name'', acEmail = profile_string p ''email'',
      acEnabled = enabledValue, acAccessLevel = defaultAccessLevel, acPrivilegeSet = pset, acPrivileges = privs\<rparr>"

definition new_account :: "UserAccountCreateBody \<Rightarrow> server \<Rightarrow> UserAccount" where
  "new_account b s = zero_UserAccount\<lparr>ID := wrap64 (srvNextAccountID s + 1), Name := acName b,
     accFullName := acFullName b, accEmail := acEmail b, accEnabled := acEnabled b,
     accAccessLevel := acAccessLevel b, accPrivilegeSet := acPrivilegeSet b,
     accPrivileges := (case acPrivileges b of None \<Rightarrow> zero_Privileges | Some p \<Rightarrow> p)\<rparr>"

lemma add_account_record_eq:
  "add_account_record b s = (wrap64 (srvNextAccountID s + 1),
     s\<lparr>srvNextAccountID := wrap64 (srvNextAccountID s + 1),
       srvAccounts := (srvAccounts s)(wrap64 (srvNextAccountID s + 1) \<mapsto> new_account b s),
       srvAccountList := srvAccountList s @ [new_account b s]\<rparr>)"
  by (cases "acPrivileges b") (simp_all add: add_account_record_def new_account_def Let_def zero_UserAccount_def)

text \<open>Whatever set the profile asks for, what is sent is one the server knows.\<close>

lemma choosePrivilegeSet_known: "choosePrivilegeSet p = Inr pset \<Longrightarrow> pset \<in> set knownPrivilegeSets"
  by (auto simp: choosePrivilegeSet_def isKnownPrivilegeSet_def defaultPrivilegeSet_def knownPrivilegeSets_def
      split: option.splits profile_value.splits if_splits)

lemma account_body_enums:
  assumes "pset \<in> set knownPrivilegeSets"
  shows "enum_error (account_body n pw pset privs p) = None"
proof -
  have "set knownPrivilegeSets = set validPrivilegeSets"
    by (simp add: knownPrivilegeSets_def validPrivilegeSets_def privilege_set_defs)
  with assms show ?thesis
    by (simp add: enum_error_def enum_ok_def account_body_def validAccessLevels_def defaultAccessLevel_def
        validEnabledValues_def enabledValue_def)
qed

lemma CreateUserAccount_mock:
  assumes "connected s" "acName b \<noteq> []" "acPassword b \<noteq> []" "enum_error b = None"
  shows "findAccountByName (srv_of s) (acName b) = None \<Longrightarrow> CreateUserAccount (mock_env x rnd ttl) b s =
      (Inr (), with_server s (snd (add_account_record b (srv_of s))))"
    and "findAccountByName (srv_of s) (acName b) = Some u \<Longrightarrow> CreateUserAccount (mock_env x rnd ttl) b s =
      (Inl (StatusError AlreadyExists []), s)"
proof -
  let ?rq = "api_send POST s (accountUrlPath newResourceID) (Some (xml_UserAccountCreateBody b))"
  have "reply x ?rq s = post_account ?rq (srv_of s)"
    using assms(1) by (simp add: reply_def url_paths join_plain serve_account_id handleAccountByID_def path_ids
        newResourceID_def del: append.simps)
  then have r: "findAccountByName (srv_of s) (acName b) = None \<Longrightarrow> reply x ?rq s
      = (created (fst (add_account_record b (srv_of s))), snd (add_account_record b (srv_of s)))"
    "findAccountByName (srv_of s) (acName b) = Some u \<Longrightarrow> reply x ?rq s
      = (writeJSONError 409 ''account already exists with this name'', srv_of s)"
    using assms(2-4) by (simp_all add: post_account_def decode_body case_prod_unfold)
  show "findAccountByName (srv_of s) (acName b) = None \<Longrightarrow> CreateUserAccount (mock_env x rnd ttl) b s =
      (Inr (), with_server s (snd (add_account_record b (srv_of s))))"
    unfolding CreateUserAccount_def by (subst write_mock[OF assms(1) r(1)]) simp_all
  show "findAccountByName (srv_of s) (acName b) = Some u \<Longrightarrow> CreateUserAccount (mock_env x rnd ttl) b s =
      (Inl (StatusError AlreadyExists []), s)"
    unfolding CreateUserAccount_def by (subst write_mock[OF assms(1) r(2)]) (simp_all add: status_404)
qed

lemma find_new_account:
  "findAccountByName s (acName b) = None \<Longrightarrow> findAccountByName (snd (add_account_record b s)) (acName b) = Some (new_account b s)"
  by (simp add: add_account_record_eq findAccountByName_def find_append) (simp add: new_account_def)

lemma create_account_new:
  assumes "connected s" "server_inv (srv_of s)" "room 1 (srv_of s)"
    "plain_segment (aiLogin info)" "findAccountByName (srv_of s) (aiLogin info) = None"
    "choosePrivilegeSet (aiProfile info) = Inr pset" "resolvePrivileges (aiProfile info) pset = Inr privs"
    "GeneratePassword (mock_env x rnd None) creds s0 = (Inr pw, s)" "pw \<noteq> []"
  shows "userAccount_CreateAccount (mock_env x rnd None) info creds s0 =
    (let b = account_body (aiLogin info) pw pset privs (aiProfile info) in
     (case userAccountResource (new_account b (srv_of s)) None of Inl e \<Rightarrow> Inl e
      | Inr r \<Rightarrow> Inr (SuccessResult r, [(''password'', pw)]),
      with_server s (snd (add_account_record b (srv_of s)))))"
proof -
  let ?b = "account_body (aiLogin info) pw pset privs (aiProfile info)" and ?srv = "srv_of s"
  let ?t = "with_server s (snd (add_account_record ?b ?srv))"
  have n: "aiLogin info \<noteq> []" using assms(4) by (simp add: plain_segment_def)
  have nb: "acName ?b = aiLogin info" "acPassword ?b = pw" by (simp_all add: account_body_def)
  have enums: "enum_error ?b = None" by (rule account_body_enums[OF choosePrivilegeSet_known[OF assms(6)]])
  have "srv_step ?srv (snd (add_account_record ?b ?srv))"
    by (rule step_add_account) (use n nb enums assms(5,9) in simp_all)
  from step_server_inv[OF this assms(2,3)] have inv: "server_inv (srv_of ?t)" by simp
  have con: "connected ?t" by (rule connected_with_server[OF assms(1)]) simp
  have "GetUserAccountByName (mock_env x rnd None) (aiLogin info) ?t = (Inr (new_account ?b ?srv), ?t)"
    by (rule GetUserAccountByName_mock[OF con inv assms(4)]) (use find_new_account[of ?srv ?b] assms(5) nb in simp)
  moreover have "CreateUserAccount (mock_env x rnd None) ?b s = (Inr (), ?t)"
    by (rule CreateUserAccount_mock(1)[OF assms(1)]) (use n nb assms(5,9) enums in simp_all)
  ultimately show ?thesis using n assms(6-8)
    by (cases "userAccountResource (new_account ?b ?srv) None")
       (simp_all add: userAccount_CreateAccount_def requireLogin_def Let_def account_body_def)
qed

end
