(* ===== verification/MockTokens.thy ===== *)
theory MockTokens
  imports MockProvision
begin

section \<open>Tokens and the response cache against the mock server\<close>

text \<open>
  A request with a stale token is answered 401; the client makes a new token and sends the request
  once more.  When the last keep-alive is five minutes old the keep-alive comes first, and its 401 is
  not retried.  With the default cache a lookup by name may answer with a record that is gone.
\<close>

subsection \<open>Authorisation\<close>

definition protected :: "string \<Rightarrow> bool" where
  "protected path \<longleftrightarrow>
     path \<in> set [''/api/v1/auth/keep-alive'', ''/api/v1/auth'', ''/api/v1/api-role-privileges'', ''/JSSResource/users'',
        ''/JSSResource/accounts'', ''/JSSResource/usergroups'', ''/JSSResource/sites''] \<or>
     list_ex (\<lambda>e. prefix (fst e) path) subtree_routes"

lemma guarded_bad:
  "rqAuth r \<noteq> bearer (srvToken s) \<Longrightarrow> guarded r s k = (writeJSONError 401 ''missing or invalid bearer token'', s)"
  by (simp add: guarded_def requireBearer_def bearer_def)

lemma protected_handlers:
  assumes "protected (uPath (rqURL r))"
  shows "serve e r s \<in> {handleKeepAlive e r s, handleTokenDetails r s, handleListPrivileges r s, handleListUsers r s,
     handleListAccounts r s, handleListUserGroups r s, handleListSites r s, handleUserByID r s, handleUserByName r s,
     handleAccountByID r s, handleAccountByName r s, handleGroupByID r s, handleUserGroupByID r s}"
proof (cases "list_ex (\<lambda>t. prefix (fst t) (uPath (rqURL r))) subtree_routes")
  case True
  then have "(\<exists>n. uPath (rqURL r) = ''/JSSResource/users/id/'' @ n) \<or> (\<exists>n. uPath (rqURL r) = ''/JSSResource/users/name/'' @ n)
     \<or> (\<exists>n. uPath (rqURL r) = ''/JSSResource/accounts/userid/'' @ n) \<or> (\<exists>n. uPath (rqURL r) = ''/JSSResource/accounts/username/'' @ n)
     \<or> (\<exists>n. uPath (rqURL r) = ''/JSSResource/accounts/groupid/'' @ n) \<or> (\<exists>n. uPath (rqURL r) = ''/JSSResource/usergroups/id/'' @ n)"
    by (auto simp: subtree_routes_def prefix_def simp del: append.simps)
  then show ?thesis
    using serve_user_id serve_user_name serve_account_id serve_account_name serve_group_id serve_user_group_id
    unfolding insert_iff by metis
next
  case False
  with assms show ?thesis unfolding protected_def by (auto simp: serve_routes)
qed

lemma serve_unauthorised:
  assumes "protected (uPath (rqURL r))" "rqAuth r \<noteq> bearer (srvToken s)"
  shows "serve e r s = (writeJSONError 401 ''missing or invalid bearer token'', s)"
  using protected_handlers[OF assms(1), of e s]
  by (elim insertE emptyE) (simp_all add: handler_defs guarded_bad[OF assms(2)])

lemma serve_unchanged: "rqAuth r \<noteq> bearer (srvToken s) \<Longrightarrow> snd (serve e r s) = s"
  using serve_cases[of e r s]
  by (auto simp: all_handlers_def exact_routes_def subtree_routes_def handler_defs guarded_bad handleCreateToken_def
      split: auth.split prod.split option.split)

lemma post_status: "rsStatus (fst (post_user r s)) \<noteq> 401" "rsStatus (fst (post_account r s)) \<noteq> 401"
  by (auto simp: post_user_def post_account_def decodeXMLBody_def Let_def split: sum.splits option.splits body.splits
      prod.splits if_splits)

lemma delete_status: "rsStatus (fst (delete_user i s)) \<noteq> 401" "rsStatus (fst (delete_account i s)) \<noteq> 401"
  by (auto simp: delete_user_def delete_account_def split: option.splits)

lemma writeJSON_status [simp]: "rsStatus (writeJSON c v) = c"
  by (simp add: writeJSON_def)

lemma only_get_status: "rsStatus rs \<noteq> 401 \<Longrightarrow> rsStatus (fst (only_get r s (rs, s'))) \<noteq> 401"
  by (simp add: only_get_def)

lemma serve_authorised:
  assumes "protected (uPath (rqURL r))" "rqAuth r = bearer (srvToken s)"
  shows "rsStatus (fst (serve e r s)) \<noteq> 401"
  using protected_handlers[OF assms(1), of e s]
  by (elim insertE emptyE)
     (simp_all add: handler_defs guarded_ok[OF assms(2)] token_answer_def only_get_def post_status delete_status
        split: option.split http_method.split)

subsection \<open>A stale token is renewed\<close>

definition renewed :: "(mock_world, 'x) conn_scheme \<Rightarrow> (mock_world, 'x) conn_scheme" where
  "renewed s = s\<lparr>clToken := srvToken (srv_of s), clLastKeepAlive := wClock (netWorld s)\<rparr>"

definition own_credentials :: "(mock_world, 'x) conn_scheme \<Rightarrow> bool" where
  "own_credentials s \<longleftrightarrow> clUserName s = srvUsername (srv_of s) \<and> clPassword s = srvPassword (srv_of s)
     \<and> CHR '':'' \<notin> set (clUserName s) \<and> srvToken (srv_of s) \<noteq> []"

lemma renewed_simps [simp]:
  "srv_of (renewed s) = srv_of s" "clToken (renewed s) = srvToken (srv_of s)" "netWorld (renewed s) = netWorld s"
  "clInstanceURL (renewed s) = clInstanceURL s"
  by (simp_all add: renewed_def srv_of_def)

lemma renewed_connected: "srvToken (srv_of s) \<noteq> [] \<Longrightarrow> connected (renewed s)"
  by (simp add: connected_def fresh_token_def) (simp add: renewed_def five_minutes_def)

lemma json_type: "IsJSONContentType ''application/json''"
  by code_simp

lemma read_token: "WithJSONResponse dec_TokenResponse zero_TokenResponse (token_answer srv e) = Inr \<lparr>trToken = srvToken srv, trExpires = e\<rparr>"
  by (simp add: WithJSONResponse_def token_answer_def writeJSON_def json_type unmarshal_def dec_enc_TokenResponse)

lemma CreateBearerToken_mock:
  assumes "own_credentials s"
  shows "CreateBearerToken (mock_env x rnd ttl) (clUserName s) (clPassword s) s = (Inr (srvToken (srv_of s)), s)"
proof -
  define w where "w = \<lparr>uHost = clInstanceURL s, uPath = join_path [] tokenUrlPath, uQuery = []\<rparr>"
  let ?rq = "tokenRequest w (clUserName s) (clPassword s)"
  have "split_first (CHR '':'') (clUserName s @ '':'' @ clPassword s) = (clUserName s, Some (clPassword s))"
    unfolding append_Cons append_Nil by (rule split_first_sep) (use assms in \<open>auto simp: own_credentials_def\<close>)
  then have r: "reply x ?rq s = (token_answer (srv_of s) (x (wClock (netWorld s))), srv_of s)"
    using assms by (simp add: reply_def w_def url_paths join_plain serve_routes tokenRequest_def handleCreateToken_def
        own_credentials_def)
  have "Do (mock_env x rnd ttl) ?rq (WithJSONResponse dec_TokenResponse zero_TokenResponse) s
      = (Inr (token_answer (srv_of s) (x (wClock (netWorld s))),
          \<lparr>trToken = srvToken (srv_of s), trExpires = x (wClock (netWorld s))\<rparr>), s)"
    by (subst Do_mock[OF r]) (simp add: tokenRequest_def, simp add: read_token, simp add: token_answer_def)
  then show ?thesis by (simp add: CreateBearerToken_def w_def)
qed

lemma attempt_protected:
  assumes "protected (uPath u)"
  shows "clToken s = srvToken (srv_of s) \<Longrightarrow>
     rsStatus (fst (reply x (apiRequest meth u b (clToken s)) s)) \<noteq> 401"
    and "clToken s \<noteq> srvToken (srv_of s) \<Longrightarrow> reply x (apiRequest meth u b (clToken s)) s
       = (writeJSONError 401 ''missing or invalid bearer token'', srv_of s)"
  using assms serve_authorised[of "apiRequest meth u b (clToken s)" "srv_of s"]
    serve_unauthorised[of "apiRequest meth u b (clToken s)" "srv_of s"]
  by (simp_all add: reply_def apiRequest_def bearer_def)

text \<open>The request is not answered from the cache: without one, or for a write, it never is.\<close>

definition cache_miss :: "mock_world env \<Rightarrow> http_method \<Rightarrow> url \<Rightarrow> xml option \<Rightarrow> (mock_world, 'x) conn_scheme \<Rightarrow> bool" where
  "cache_miss E meth u b s \<longleftrightarrow> meth = GET \<longrightarrow> cacheGet E (apiRequest GET u b (clToken s)) s = None"

lemma cache_miss_renewed: "cache_miss (mock_env x rnd ttl) meth u b s \<Longrightarrow> cache_miss (mock_env x rnd ttl) meth u b (renewed s)"
proof -
  have "CreateCacheKey (apiRequest GET u b t) = CreateCacheKey (apiRequest GET u b t')" for t t'
    by (simp add: CreateCacheKey_def apiRequest_def)
  moreover have "netCache (renewed s) = netCache s" by (simp add: renewed_def)
  ultimately have "cacheGet (mock_env x rnd ttl) (apiRequest GET u b (clToken (renewed s))) (renewed s)
      = cacheGet (mock_env x rnd ttl) (apiRequest GET u b (clToken s)) s"
    unfolding cacheGet_def renewed_simps by metis
  then show "cache_miss (mock_env x rnd ttl) meth u b s \<Longrightarrow> cache_miss (mock_env x rnd ttl) meth u b (renewed s)"
    by (simp only: cache_miss_def)
qed

lemma attempt_miss:
  assumes "reply x (apiRequest meth u b (clToken s)) s = (rs, srv)" "cache_miss (mock_env x rnd ttl) meth u b s"
  shows "attempt (mock_env x rnd ttl) meth u b s =
     (if rsStatus rs < 200 \<or> rsStatus rs \<ge> 300
      then Inl (StatusError (GrpcCodeFromHTTPStatus (rsStatus rs)) []) else Inr rs,
      if meth = GET \<and> rsStatus rs = 200 then cacheSet (mock_env x rnd ttl) (apiRequest meth u b (clToken s)) rs (with_server s srv)
      else with_server s srv)"
  using assms
  by (auto simp: attempt_def Do_def bindE_def send_def reply_def srv_of_def with_server_def no_option_def cache_miss_def
      apiRequest_def split: sum.splits)

text \<open>A request of the renewed client is not answered 401, so it is sent once.\<close>

lemma attempt_renewed:
  assumes "protected (uPath u)" "srvToken (srv_of s) \<noteq> []" "cache_miss (mock_env x rnd ttl) meth u b s"
  obtains r t where "attempt (mock_env x rnd ttl) meth u b (renewed s) = (r, t)" "clToken t = srvToken (srv_of s)"
    "case r of Inl e \<Rightarrow> \<exists>c. e = StatusError c [] \<and> c \<noteq> Unauthenticated | Inr _ \<Rightarrow> True"
proof -
  obtain rs srv where r: "reply x (apiRequest meth u b (clToken (renewed s))) (renewed s) = (rs, srv)"
    by fastforce
  have "rsStatus rs \<noteq> 401" using attempt_protected(1)[OF assms(1), of "renewed s" x meth b] r by simp
  with attempt_miss[OF r cache_miss_renewed[OF assms(3)]] show thesis
    by (intro that) (auto simp: Grpc_Unauthenticated_iff cacheSet_def split: option.split)
qed

lemma request_renewed:
  assumes "protected (uPath u)" "srvToken (srv_of s) \<noteq> []" "cache_miss (mock_env x rnd ttl) meth u b s"
  shows "gotoRetry (mock_env x rnd ttl) meth u b tg False (renewed s)
       = doRequestWithMethod (mock_env x rnd ttl) meth u b tg (renewed s)"
    and "clToken (snd (doRequestWithMethod (mock_env x rnd ttl) meth u b tg (renewed s))) = srvToken (srv_of s)"
proof -
  obtain r t where att: "attempt (mock_env x rnd ttl) meth u b (renewed s) = (r, t)" "clToken t = srvToken (srv_of s)"
    "case r of Inl e \<Rightarrow> \<exists>c. e = StatusError c [] \<and> c \<noteq> Unauthenticated | Inr _ \<Rightarrow> True"
    by (rule attempt_renewed[OF assms])
  have "fresh_token (renewed s)" using renewed_connected[OF assms(2)] by (simp add: connected_def)
  then have run: "doRequestWithMethod (mock_env x rnd ttl) meth u b tg (renewed s)
      = gotoRetry (mock_env x rnd ttl) meth u b tg True (renewed s)"
    by (simp add: doRequestWithMethod_def keepAlive_fresh)
  have first: "gotoRetry (mock_env x rnd ttl) meth u b tg again (renewed s) = (case r of Inl e \<Rightarrow> Inl e | Inr rs \<Rightarrow> read_target tg rs, t)"
    for again
  proof (cases again)
    case True
    have "status_code e \<noteq> Unauthenticated" if "r = Inl e" for e using att(3) that by auto
    from gotoRetry_first[OF att(1) this] True show ?thesis by simp
  qed (cases r; simp add: gotoRetry_False bindE_def att(1) liftE_def)
  show "gotoRetry (mock_env x rnd ttl) meth u b tg False (renewed s)
       = doRequestWithMethod (mock_env x rnd ttl) meth u b tg (renewed s)"
    unfolding run first ..
  show "clToken (snd (doRequestWithMethod (mock_env x rnd ttl) meth u b tg (renewed s))) = srvToken (srv_of s)"
    unfolding run first using att(2) by simp
qed

lemma stale_token_retry:
  assumes "fresh_token s" "clToken s \<noteq> srvToken (srv_of s)" "own_credentials s" "protected (uPath u)"
    "cache_miss (mock_env x rnd ttl) meth u b s"
  shows "doRequestWithMethod (mock_env x rnd ttl) meth u b tg s
       = doRequestWithMethod (mock_env x rnd ttl) meth u b tg (renewed s)"
proof -
  have a: "attempt (mock_env x rnd ttl) meth u b s = (Inl (StatusError Unauthenticated []), s)"
    by (subst attempt_miss[OF attempt_protected(2)[OF assms(4,2)] assms(5)]) (simp add: GrpcCodeFromHTTPStatus_def)
  have t: "srvToken (srv_of s) \<noteq> []" using assms(3) by (simp add: own_credentials_def)
  have "SetBearerToken (mock_env x rnd ttl) (srvToken (srv_of s)) s = (Inr (), renewed s)"
    by (simp add: SetBearerToken_run renewed_def token_fields_commute)
  then have "doRequestWithMethod (mock_env x rnd ttl) meth u b tg s
      = gotoRetry (mock_env x rnd ttl) meth u b tg False (renewed s)"
    unfolding doRequestWithMethod_def
    by (simp add: keepAlive_fresh[OF assms(1)] gotoRetry_again[OF a] CreateBearerToken_mock[OF assms(3)])
  then show ?thesis by (simp add: request_renewed(1)[OF assms(4) t assms(5)])
qed

subsection \<open>The keep-alive\<close>

lemma keepAlive_mock:
  assumes "clToken s \<noteq> []" "\<not> fresh_token s"
  shows "clToken s = srvToken (srv_of s) \<Longrightarrow> keepAliveToken (mock_env x rnd ttl) s = (Inr (), renewed s)"
    and "clToken s \<noteq> srvToken (srv_of s) \<Longrightarrow>
      \<exists>es. keepAliveToken (mock_env x rnd ttl) s = (Inl (StatusError Unauthenticated es), s)"
proof -
  define w where "w = \<lparr>uHost = clInstanceURL s, uPath = join_path [] keepAliveUrlPath, uQuery = []\<rparr>"
  let ?rq = "keepAliveRequest w (clToken s)"
  have run: "keepAliveToken (mock_env x rnd ttl) s =
      bindE (Do (mock_env x rnd ttl) ?rq (WithJSONResponse dec_TokenResponse zero_TokenResponse)) (\<lambda>(rs, t).
       updateE (\<lambda>s. s\<lparr>clToken := trToken t, clLastKeepAlive := wClock (netWorld s)\<rparr>)) s"
    using assms by (simp add: keepAliveToken_def fresh_token_def w_def)
  have post: "rqMethod ?rq \<noteq> GET" by (simp add: keepAliveRequest_def)
  have h: "reply x ?rq s = handleKeepAlive (x (wClock (netWorld s))) ?rq (srv_of s)"
    by (simp add: reply_def keepAliveRequest_def w_def url_paths join_plain serve_routes)
  show "keepAliveToken (mock_env x rnd ttl) s = (Inr (), renewed s)" if "clToken s = srvToken (srv_of s)"
  proof -
    have r: "reply x ?rq s = (token_answer (srv_of s) (x (wClock (netWorld s))), srv_of s)"
      unfolding h using that by (simp add: handleKeepAlive_def guarded_ok keepAliveRequest_def)
    show ?thesis unfolding run
      by (simp add: bindE_def Do_mock[OF r] post read_token renewed_def) (simp add: token_answer_def)
  qed
  show "\<exists>es. keepAliveToken (mock_env x rnd ttl) s = (Inl (StatusError Unauthenticated es), s)"
    if "clToken s \<noteq> srvToken (srv_of s)"
  proof -
    have r: "reply x ?rq s = (writeJSONError 401 ''missing or invalid bearer token'', srv_of s)"
      unfolding h using that by (simp add: handleKeepAlive_def guarded_bad keepAliveRequest_def bearer_def)
    show ?thesis unfolding run
      by (simp add: bindE_def Do_mock[OF r] post GrpcCodeFromHTTPStatus_def)
  qed
qed

subsection \<open>The response cache\<close>

text \<open>A lookup with the cache: the first one stores the answer, the next ones read it.\<close>

lemma fetch_cached:
  assumes "connected s" "cacheGet (mock_env x rnd (Some ttl)) (api_get s path) s = None \<Longrightarrow>
      reply x (api_get s path) s = (writeJSON 200 j, srv_of s)"
    and "\<And>rs. cacheGet (mock_env x rnd (Some ttl)) (api_get s path) s = Some rs \<Longrightarrow> rs = writeJSON 200 j"
    and "d j z = Inr a"
  shows "fetch (mock_env x rnd (Some ttl)) path d z s =
    (Inr a, cacheSet (mock_env x rnd (Some ttl)) (api_get s path) (writeJSON 200 j) s)"
proof -
  let ?E = "mock_env x rnd (Some ttl)" and ?rq = "api_get s path"
  have "fetched ?E ?rq s = (Inr (writeJSON 200 j), s)"
  proof (cases "cacheGet ?E ?rq s")
    case None
    then show ?thesis using assms(2)[OF None]
      by (cases s) (simp add: fetched_def send_def reply_def srv_of_def)
  next
    case (Some rs)
    then show ?thesis using assms(3)[OF Some] by (simp add: fetched_def)
  qed
  then have "Do ?E ?rq no_option s = (Inr (writeJSON 200 j, ()), cacheSet ?E ?rq (writeJSON 200 j) s)"
    using Do_get_run[of ?rq ?E s "writeJSON 200 j" s no_option "()"]
    by (simp add: header_def no_option_def) (simp add: api_get_def apiRequest_def acceptJSON_def)
  then have att: "attempt ?E GET \<lparr>uHost = clInstanceURL s, uPath = join_path [] path, uQuery = []\<rparr> None s
      = (Inr (writeJSON 200 j), cacheSet ?E ?rq (writeJSON 200 j) s)"
    by (simp add: attempt_def api_get_def)
  have "gotoRetry ?E GET \<lparr>uHost = clInstanceURL s, uPath = join_path [] path, uQuery = []\<rparr> None
       (unmarshal d z) True s = (Inr a, cacheSet ?E ?rq (writeJSON 200 j) s)"
    by (subst gotoRetry_first[OF att]) (simp_all add: read_target_def unmarshal_def writeJSON_def assms(4))
  then show ?thesis
    by (simp add: fetch_def doRequest_def doRequestWithMethod_def keepAlive_fresh[OF connected_fresh[OF assms(1)]])
qed

definition name_key :: "string \<Rightarrow> string" where
  "name_key n = CreateCacheKey (apiRequest GET \<lparr>uHost = [], uPath = join_path [] (userNameUrlPath n), uQuery = []\<rparr> None [])"

lemma name_key_api: "CreateCacheKey (api_get s (userNameUrlPath n)) = name_key n"
  by (simp add: name_key_def api_get_def CreateCacheKey_def apiRequest_def)

definition user_answer :: "User \<Rightarrow> http_response" where
  "user_answer u = writeJSON 200 (JObj [(''user'', enc_User u)])"

text \<open>The state after a lookup by name was answered with \<open>u\<close>.\<close>

definition name_cached :: "string \<Rightarrow> User \<Rightarrow> (mock_world, 'x) conn_scheme \<Rightarrow> (mock_world, 'x) conn_scheme" where
  "name_cached n u s = s\<lparr>netCache := (netCache s)(name_key n \<mapsto> (user_answer u, wClock (netWorld s)))\<rparr>"

lemma name_cached_simps [simp]:
  "srv_of (name_cached n u s) = srv_of s" "connected (name_cached n u s) = connected s"
  "wClock (netWorld (name_cached n u s)) = wClock (netWorld s)"
  "netCache (name_cached n u s) (name_key n) = Some (user_answer u, wClock (netWorld s))"
  by (simp_all add: name_cached_def srv_of_def connected_def fresh_token_def)

lemma cacheSet_name:
  "cacheSet (mock_env x rnd (Some ttl)) (api_get s (userNameUrlPath n)) (user_answer u) s = name_cached n u s"
  by (simp add: cacheSet_def name_cached_def name_key_api)

lemma lookup_stores:
  assumes "connected s" "server_inv (srv_of s)" "plain_segment n" "findUserByName (srv_of s) n = Some u"
    "netCache s (name_key n) = None"
  shows "GetUserByName (mock_env x rnd (Some ttl)) n s = (Inr u, name_cached n u s)"
  unfolding GetUserByName_def cacheSet_name[of x rnd ttl, symmetric] user_answer_def
proof (rule fetch_cached[OF assms(1)])
  show "reply x (api_get s (userNameUrlPath n)) s = (writeJSON 200 (JObj [(''user'', enc_User u)]), srv_of s)"
    using assms(1,3,4) by (simp add: reply_def url_paths join_plain serve_user_name handleUserByName_def only_get_ok
        pathTail_def trim_prefix_append del: append.simps)
  show "dec_UserResponse (JObj [(''user'', enc_User u)]) zero_User = Inr u"
    unfolding dec_UserResponse_def using find_user_mem[OF assms(4)] inv_ID(1)[OF assms(2)]
    by (auto intro!: decode_rules)
qed (use assms(5) in \<open>simp add: cacheGet_def name_key_api\<close>)

text \<open>While the entry lives the answer is the one stored, whatever the server holds by then.\<close>

lemma lookup_stale:
  assumes "connected s" "ok_User u" "netCache s (name_key n) = Some (user_answer u, k)"
    "wClock (netWorld s) < k + ttl"
  shows "GetUserByName (mock_env x rnd (Some ttl)) n s = (Inr u, name_cached n u s)"
  unfolding GetUserByName_def cacheSet_name[of x rnd ttl, symmetric] user_answer_def
proof (rule fetch_cached[OF assms(1)])
  show "dec_UserResponse (JObj [(''user'', enc_User u)]) zero_User = Inr u"
    unfolding dec_UserResponse_def using assms(2) by (auto intro!: decode_rules)
qed (use assms(3,4) in \<open>simp_all add: cacheGet_def name_key_api user_answer_def\<close>)

end
