(* ===== verification/MockProps.thy ===== *)
theory MockProps
  imports MockTokens
begin

section \<open>End-to-end properties of the connector on the mock server\<close>

text \<open>
  The properties of the theories MockServer to MockTokens, each with an instance on the seeded server.
\<close>

text \<open>A client of a freshly seeded server.\<close>

definition demo :: "string \<Rightarrow> int \<Rightarrow> mock_conn" where
  "demo tok clock =
     \<lparr>netCache = Map.empty, netWorld = \<lparr>wServer = newServer ''u'' ''p'' ''t'', wClock = clock, wSource = 0\<rparr>, clToken = tok,
      clInstanceURL = ''h'', clLastKeepAlive = 0, clUserName = ''u'', clPassword = ''p''\<rparr>"

definition no_expiry :: "int \<Rightarrow> string" where "no_expiry c = []"

definition no_random :: "int \<Rightarrow> mock_world \<Rightarrow> (string + int) \<times> mock_world" where
  "no_random b w = (Inr 0, w)"

lemma demo_simps [simp]:
  "srv_of (demo tok c) = newServer ''u'' ''p'' ''t''" "clToken (demo tok c) = tok" "wClock (netWorld (demo tok c)) = c"
  "netCache (demo tok c) = Map.empty" "clUserName (demo tok c) = ''u''" "clPassword (demo tok c) = ''p''"
  by (simp_all add: demo_def srv_of_def)

lemma newServer_simps [simp]:
  "srvToken (newServer u p t) = t" "srvUsername (newServer u p t) = u" "srvPassword (newServer u p t) = p"
  by (simp_all add: newServer_def)

lemma demo_fresh: "tok \<noteq> [] \<Longrightarrow> c < five_minutes \<Longrightarrow> fresh_token (demo tok c)"
  by (simp add: fresh_token_def) (simp add: demo_def)

lemma demo_connected: "connected (demo ''t'' 0)"
  by (simp add: connected_def demo_fresh five_minutes_def)

lemma demo_reach: "reach 0 (srv_of (demo tok c))"
  by (simp add: reach_start)

subsection \<open>The server\<close>

text \<open>
  C9.  After any sequence of requests to the mock server (fewer than \<open>2^62\<close>), whatever they are, the
  two ways it keeps its users agree and neither an id nor a name occurs twice, the same for the
  console accounts, and the credentials, the token, the groups, the sites and the privileges are those
  it started with.
\<close>

theorem served_consistent:
  fixes rqs u p t
  assumes "length rqs < 2 ^ 62"
  defines "s \<equiv> served rqs (newServer u p t)"
  shows "(\<forall>i. srvUsers s i = List.find (\<lambda>u. ID u = i) (srvUserList s))
    \<and> distinct (map ID (srvUserList s)) \<and> distinct (map Name (srvUserList s))
    \<and> (\<forall>i. srvAccounts s i = List.find (\<lambda>a. ID a = i) (srvAccountList s))
    \<and> distinct (map ID (srvAccountList s)) \<and> distinct (map Name (srvAccountList s))
    \<and> srv_fixed s = srv_fixed (newServer u p t)"
proof -
  have "reach (length rqs) s"
    using reach_served[OF reach_start[of u p t], of rqs] by (simp add: s_def)
  from reach_inv[OF this assms(1)] have "users_ok s" "accounts_ok s" by simp_all
  moreover have "srv_fixed s = srv_fixed (newServer u p t)"
    unfolding s_def by (rule served_fixed)
  ultimately show ?thesis by (simp add: users_ok_def accounts_ok_def store_ok_def)
qed

text \<open>
  C18.  A request without the server's bearer token changes nothing on the mock server, and unless it
  asks for a token or an unknown path it is answered 401.
\<close>

theorem unauthorised_request:
  assumes "rqAuth r \<noteq> bearer (srvToken s)"
  shows "snd (serve e r s) = s \<and> (protected (uPath (rqURL r)) \<longrightarrow> rsStatus (fst (serve e r s)) = 401)"
  using serve_unchanged[OF assms] serve_unauthorised[OF _ assms] by simp

lemma demo_delete: "snd (serve [] (api_send DELETE (demo ''t'' 0) (userUrlPath 2) None) (newServer ''u'' ''p'' ''t''))
    = remove_user 2 (newServer ''u'' ''p'' ''t'')"
proof -
  have "int64 2" "srvUsers (newServer ''u'' ''p'' ''t'') 2 \<noteq> None"
    by (simp_all add: int64_def newServer_def by_id_def seed_defs)
  then show ?thesis
    by (auto simp: url_paths join_plain serve_user_id handleUserByID_def guarded_ok path_ids delete_user_def
        simp del: append.simps)
qed

theorem served_consistent_witness:
  "distinct (map ID (srvUserList (remove_user 2 (newServer ''u'' ''p'' ''t''))))
   \<and> map ID (srvUserList (remove_user 2 (newServer ''u'' ''p'' ''t''))) = [1, 3, 4, 5]"
  using served_consistent[of "[([], api_send DELETE (demo ''t'' 0) (userUrlPath 2) None)]" "''u''" "''p''" "''t''"]
  by (simp add: demo_delete) (simp add: remove_user_def newServer_def deleteByID_def seed_defs)

theorem unauthorised_request_witness:
  "snd (serve [] (api_send DELETE (demo ''x'' 0) (userUrlPath 2) None) (newServer ''u'' ''p'' ''t'')) = newServer ''u'' ''p'' ''t''
   \<and> rsStatus (fst (serve [] (api_send DELETE (demo ''x'' 0) (userUrlPath 2) None) (newServer ''u'' ''p'' ''t''))) = 401"
proof -
  have "protected (uPath (rqURL (api_send DELETE (demo ''x'' 0) (userUrlPath 2) None)))"
    by (simp add: url_paths join_plain protected_def subtree_routes_def)
  then show ?thesis
    using unauthorised_request[of "api_send DELETE (demo ''x'' 0) (userUrlPath 2) None" "newServer ''u'' ''p'' ''t''" "[]"]
    by (simp add: bearer_def)
qed

subsection \<open>Reading\<close>

text \<open>
  A connected client without a response cache lists exactly the server's directory users, in the
  server's order and each through the connector's view of it, in every state the server can reach, and
  leaves the server as it is.
\<close>

theorem list_users_complete:
  assumes "reach n (srv_of s)" "n < 2 ^ 62" "connected s"
  shows "user_List (mock_env x rnd None) parent s = (map_err (\<lambda>u. userResource u parent) (srvUserList (srv_of s)), s)"
  using GetUsers_mock[OF assms(3) reach_server_inv[OF assms(1,2)], of x rnd]
  by (simp add: user_List_def mapE_pure)

theorem list_users_complete_witness:
  "user_List (mock_env no_expiry no_random None) None (demo ''t'' 0) = (map_err (\<lambda>u. userResource u None) seed_users, demo ''t'' 0)"
  using list_users_complete[OF demo_reach _ demo_connected, of no_expiry no_random None] by (simp add: newServer_def)

subsection \<open>Creating and deleting\<close>

text \<open>
  Creating a directory user whose login is not taken adds exactly one record, with the next id and
  the names of the profile, and returns it as created.  (The login is one path segment that URL
  cleaning leaves alone.)
\<close>

theorem create_user_fresh:
  assumes "reach n (srv_of s)" "n < 2 ^ 62" "connected s"
    and "plain_segment (aiLogin info)" "findUserByName (srv_of s) (aiLogin info) = None"
  defines "b \<equiv> user_body (aiLogin info) (aiProfile info)"
  shows "user_CreateAccount (mock_env x rnd None) info creds s =
    (case userResource (new_user b (srv_of s)) None of Inl e \<Rightarrow> Inl e | Inr r \<Rightarrow> Inr (SuccessResult r, []),
     with_server s (snd (add_user_record b (srv_of s))))"
  using create_user_new[OF assms(3) reach_server_inv[OF assms(1,2)] reach_room[OF assms(1,2)] assms(4,5), of x rnd creds]
  by (simp add: b_def Let_def)

definition kim :: AccountInfo where
  "kim = \<lparr>aiLogin = ''kim'', aiProfile = [(''full_name'', PString ''Kim Lee''), (''email'', PString ''k@x.y'')]\<rparr>"

lemma kim_simps: "plain_segment ''kim''" "aiLogin kim = ''kim''" "findUserByName (newServer u p t) ''kim'' = None"
  "findAccountByName (newServer u p t) ''kim'' = None"
  by (simp_all add: kim_def plain_segment_def findUserByName_def findAccountByName_def newServer_def seed_defs)

theorem create_user_fresh_witness:
  "\<exists>r t. user_CreateAccount (mock_env no_expiry no_random None) kim NoPasswordOption (demo ''t'' 0) = (Inr (SuccessResult r, []), t)
     \<and> ridResource (resId r) = ''6'' \<and> length (srvUserList (srv_of t)) = 6"
proof -
  let ?u = "new_user (user_body ''kim'' (aiProfile kim)) (newServer ''u'' ''p'' ''t'')"
  have "srvNextUserID (newServer ''u'' ''p'' ''t'') = 5" by (simp add: newServer_def seed_defs)
  then have "ID ?u = 6" by (simp add: new_user_def int64_def)
  moreover have "user_utf8 ?u"
    by (simp add: user_utf8_def new_user_def user_body_def kim_def profile_string_def zero_User_def byte_in_def)
  moreover have "itoa 6 = ''6''" by (simp add: itoa_def go_eval)
  ultimately have "userResource ?u None = Inr (user_view ?u None)" "ridResource (resId (user_view ?u None)) = ''6''"
    by (simp_all add: userResource_eq user_view_def)
  moreover have "length (srvUserList (snd (add_user_record b (newServer ''u'' ''p'' ''t'')))) = 6" for b
    by (simp add: add_user_record_eq) (simp add: newServer_def seed_users_def)
  ultimately show ?thesis
    using create_user_fresh[OF demo_reach _ demo_connected, of kim no_expiry no_random NoPasswordOption]
    by (simp add: kim_simps)
qed

text \<open>
  Creating a directory user whose login is taken changes nothing and returns the user who has it,
  marked as already existing.
\<close>

theorem create_user_taken:
  assumes "reach n (srv_of s)" "n < 2 ^ 62" "connected s"
    and "plain_segment (aiLogin info)" "findUserByName (srv_of s) (aiLogin info) = Some u"
  shows "user_CreateAccount (mock_env x rnd None) info creds s =
    (case userResource u None of Inl e \<Rightarrow> Inl e | Inr r \<Rightarrow> Inr (AlreadyExistsResult r, []), s)"
  by (rule create_user_existing[OF assms(3) reach_server_inv[OF assms(1,2)] assms(4,5)])

definition jane :: AccountInfo where
  "jane = \<lparr>aiLogin = ''jane.doe'', aiProfile = []\<rparr>"

theorem create_user_taken_witness:
  "user_CreateAccount (mock_env no_expiry no_random None) jane NoPasswordOption (demo ''t'' 0) =
     (case userResource (seed_users ! 1) None of Inl e \<Rightarrow> Inl e | Inr r \<Rightarrow> Inr (AlreadyExistsResult r, []), demo ''t'' 0)"
proof -
  have "findUserByName (newServer ''u'' ''p'' ''t'') (aiLogin jane) = Some (seed_users ! 1)"
    by (simp add: jane_def findUserByName_def newServer_def seed_defs)
  then show ?thesis
    using create_user_taken[OF demo_reach _ demo_connected, of jane "seed_users ! 1" no_expiry no_random NoPasswordOption]
    by (simp add: jane_def plain_segment_def)
qed

text \<open>
  Deleting a directory user succeeds whether or not the user exists, removes it and no other, and
  a second deletion changes nothing more; deleting what was just created gives the user list back.
\<close>

theorem delete_user_idempotent:
  assumes "reach n (srv_of s)" "n < 2 ^ 62" "connected s" "atoi (ridResource rid) = Some i"
  shows "\<exists>t. user_Delete (mock_env x rnd ttl) rid s = (Inr (), t)
    \<and> srvUsers (srv_of t) i = None \<and> (\<forall>j. j \<noteq> i \<longrightarrow> srvUsers (srv_of t) j = srvUsers (srv_of s) j)
    \<and> user_Delete (mock_env x rnd ttl) rid t = (Inr (), t)
    \<and> (\<forall>b. i = fst (add_user_record b (srv_of s)) \<longrightarrow>
        srvUserList (remove_user i (snd (add_user_record b (srv_of s)))) = srvUserList (srv_of s))"
proof -
  let ?srv = "srv_of s" and ?t = "with_server s (remove_user i (srv_of s))"
  have inv: "server_inv ?srv" by (rule reach_server_inv[OF assms(1,2)])
  then have ok: "users_ok ?srv" by (simp add: server_inv_def)
  have inv': "server_inv (srv_of ?t)"
  proof (cases "srvUsers ?srv i")
    case None
    then show ?thesis using inv remove_absent_user[OF None ok] by simp
  next
    case (Some u)
    then show ?thesis using step_server_inv[OF step_del_user[OF Some] inv reach_room[OF assms(1,2)]] by simp
  qed
  have con: "connected ?t" by (rule connected_with_server[OF assms(3)]) simp
  have gone: "srvUsers (srv_of ?t) i = None" using users.byId_remove[OF ok] by simp
  have "remove_user i (srv_of ?t) = srv_of ?t"
    by (rule remove_absent_user[OF gone]) (use inv' in \<open>simp add: server_inv_def\<close>)
  then have "user_Delete (mock_env x rnd ttl) rid ?t = (Inr (), ?t)"
    using delete_user_mock[OF con inv' assms(4), of x rnd ttl] by simp
  moreover have "user_Delete (mock_env x rnd ttl) rid s = (Inr (), ?t)"
    by (rule delete_user_mock[OF assms(3) inv assms(4)])
  moreover have "srvNextUserID ?srv < 2 ^ 63 - 1" using reach_room[OF assms(1,2)] by (simp add: room_def)
  ultimately show ?thesis
    using gone users.others_after_remove[OF ok, of _ i] users.remove_add[OF ok] by auto
qed

theorem delete_user_idempotent_witness:
  "\<exists>t. user_Delete (mock_env no_expiry no_random None) \<lparr>ridType = ''user'', ridResource = ''2''\<rparr> (demo ''t'' 0) = (Inr (), t)
     \<and> srvUsers (srv_of t) 2 = None \<and> srvUsers (srv_of t) 3 = Some (seed_users ! 2)"
proof -
  have "atoi ''2'' = Some 2" by code_simp
  moreover have "srvUsers (newServer ''u'' ''p'' ''t'') 3 = Some (seed_users ! 2)"
    by (simp add: newServer_def by_id_def seed_defs)
  ultimately show ?thesis
    using delete_user_idempotent[OF demo_reach _ demo_connected,
        of "\<lparr>ridType = ''user'', ridResource = ''2''\<rparr>" 2 no_expiry no_random None] by auto
qed



subsection \<open>Tokens\<close>

text \<open>
  C11.  A stale token is no obstacle as long as the last keep-alive is recent: a request to a protected path
  of the mock server has the result and the effect it has for a client that holds the server's token, and
  that is the token the client is left with.  The client's stored credentials are the server's, without a
  colon in the user name, and the request is not a GET answered from the response cache, which would not
  show the token at all.
\<close>

theorem stale_token_renewed:
  assumes "fresh_token s" "clToken s \<noteq> srvToken (srv_of s)" "own_credentials s" "protected (uPath u)"
    and "meth = GET \<longrightarrow> cacheGet (mock_env x rnd ttl) (apiRequest GET u b (clToken s)) s = None"
  shows "doRequestWithMethod (mock_env x rnd ttl) meth u b tg s = doRequestWithMethod (mock_env x rnd ttl) meth u b tg (renewed s)
    \<and> clToken (snd (doRequestWithMethod (mock_env x rnd ttl) meth u b tg s)) = srvToken (srv_of s)
    \<and> connected (renewed s)"
proof -
  have miss: "cache_miss (mock_env x rnd ttl) meth u b s" using assms(5) by (simp add: cache_miss_def)
  show ?thesis
    unfolding stale_token_retry[OF assms(1-4) miss]
    using assms(3) renewed_connected[of s] by (simp add: own_credentials_def request_renewed(2)[OF assms(4) _ miss])
qed

theorem stale_token_renewed_witness:
  "doRequestWithMethod (mock_env no_expiry no_random (Some 5)) GET \<lparr>uHost = ''h'', uPath = ''/JSSResource/users'', uQuery = []\<rparr>
       None nil_target (demo ''old'' 7)
     = doRequestWithMethod (mock_env no_expiry no_random (Some 5)) GET \<lparr>uHost = ''h'', uPath = ''/JSSResource/users'', uQuery = []\<rparr>
       None nil_target (renewed (demo ''old'' 7))
   \<and> connected (renewed (demo ''old'' 7))"
  using stale_token_renewed[of "demo ''old'' 7" "\<lparr>uHost = ''h'', uPath = ''/JSSResource/users'', uQuery = []\<rparr>" GET
      no_expiry no_random "Some 5" None nil_target]
  by (simp add: demo_fresh five_minutes_def own_credentials_def protected_def cacheGet_def)

text \<open>
  C19.  When the last keep-alive is five minutes old, a valid token is renewed first and the request then
  runs as for a fresh token.
\<close>

theorem keep_alive_renews:
  assumes "clToken s \<noteq> []" "\<not> fresh_token s" "clToken s = srvToken (srv_of s)"
  shows "doRequestWithMethod (mock_env x rnd ttl) meth u b tg s = doRequestWithMethod (mock_env x rnd ttl) meth u b tg (renewed s)"
proof -
  have "fresh_token (renewed s)" using renewed_connected[of s] assms(1,3) by (simp add: connected_def)
  then show ?thesis
    by (simp add: doRequestWithMethod_def keepAlive_mock(1)[OF assms] keepAlive_fresh)
qed

theorem keep_alive_renews_witness:
  "doRequestWithMethod (mock_env no_expiry no_random None) GET \<lparr>uHost = ''h'', uPath = ''/JSSResource/users'', uQuery = []\<rparr>
       None nil_target (demo ''t'' (10 ^ 12))
     = doRequestWithMethod (mock_env no_expiry no_random None) GET \<lparr>uHost = ''h'', uPath = ''/JSSResource/users'', uQuery = []\<rparr>
       None nil_target (renewed (demo ''t'' (10 ^ 12)))"
proof -
  have "\<not> fresh_token (demo ''t'' (10 ^ 12))" by (simp add: fresh_token_def five_minutes_def) (simp add: demo_def)
  then show ?thesis
    using keep_alive_renews[of "demo ''t'' (10 ^ 12)" no_expiry no_random None GET
      "\<lparr>uHost = ''h'', uPath = ''/JSSResource/users'', uQuery = []\<rparr>" None nil_target] by simp
qed

text \<open>
  C35.  When the last keep-alive is five minutes old and the token has expired, every request fails with
  Unauthenticated before it is sent, the credentials are not used, and the client is left exactly as it
  was, so the next request fails the same way.
\<close>

theorem expired_token_stuck:
  assumes "clToken s \<noteq> []" "\<not> fresh_token s" "clToken s \<noteq> srvToken (srv_of s)"
  shows "\<exists>e. doRequestWithMethod (mock_env x rnd ttl) meth u b tg s = (Inl e, s) \<and> status_code e = Unauthenticated"
  using keepAlive_mock(2)[OF assms, of x rnd ttl] by (auto simp: doRequestWithMethod_def)

theorem expired_token_stuck_witness:
  "\<exists>e. doRequestWithMethod (mock_env no_expiry no_random None) GET \<lparr>uHost = ''h'', uPath = ''/JSSResource/users'', uQuery = []\<rparr>
      None nil_target (demo ''old'' (10 ^ 12)) = (Inl e, demo ''old'' (10 ^ 12)) \<and> status_code e = Unauthenticated"
proof -
  have "\<not> fresh_token (demo ''old'' (10 ^ 12))" by (simp add: fresh_token_def five_minutes_def) (simp add: demo_def)
  then show ?thesis
    using expired_token_stuck[of "demo ''old'' (10 ^ 12)" no_expiry no_random None GET] by simp
qed

subsection \<open>The cache\<close>

text \<open>A user created and deleted again: the server has its list back and the next id is one further.\<close>

lemma created_user_facts:
  assumes "reach n srv" "n < 2 ^ 62 - 2" "ucName b \<noteq> []" "findUserByName srv (ucName b) = None"
  defines "u \<equiv> new_user b srv" and "srv1 \<equiv> snd (add_user_record b srv)" and "i \<equiv> srvNextUserID srv + 1"
  shows "server_inv srv1" "ID u = i" "ok_User u"
    "srvUserList (remove_user i srv1) = srvUserList srv" "ID (new_user b (remove_user i srv1)) = i + 1"
proof -
  have st: "srv_step srv srv1" unfolding srv1_def by (rule step_add_user) (use assms(3,4) in simp_all)
  have reach1: "reach (Suc n) srv1" by (rule reach_step[OF assms(1) st])
  then show inv1: "server_inv srv1" using reach_server_inv[OF reach1] assms(2) by simp
  have nn: "0 \<le> srvNextUserID srv" "srvNextUserID srv \<le> 5 + int n"
    using reach_inv[OF assms(1)] assms(2) store_ok_next[of ID Name "srvUserList srv" "srvUsers srv"]
    by (auto simp: users_ok_def)
  have wrap: "wrap64 (srvNextUserID srv + 1) = i" "wrap64 (i + 1) = i + 1"
    using nn assms(2) by (auto intro!: wrap64_id simp: int64_def i_def)
  show "ID u = i" using wrap by (simp add: new_user_def u_def)
  have "u \<in> set (srvUserList srv1)" by (simp add: add_user_record_eq u_def srv1_def)
  then show "ok_User u" by (rule inv_ID(1)[OF inv1])
  have "srvUserList (remove_user (fst (add_user_record b srv)) srv1) = srvUserList srv"
    using users.remove_add[of srv b] reach_inv[OF assms(1)] assms(2) by (simp add: srv1_def)
  then show "srvUserList (remove_user i srv1) = srvUserList srv" by (simp add: add_user_record_eq wrap)
  have "srvNextUserID (remove_user i srv1) = i" by (simp add: srv1_def record_ops wrap)
  then show "ID (new_user b (remove_user i srv1)) = i + 1" using wrap(2) by (simp add: new_user_def)
qed

text \<open>
  C34.  With the in-memory cache, creating a directory user, deleting it and creating it again (all
  within the time-to-live) returns the deleted user: the server has the login under a new id, and the
  id that is returned no longer exists.
\<close>

theorem recreated_user_stale:
  assumes "reach n (srv_of s)" "n < 2 ^ 62 - 2" "connected s" "0 < ttl"
    and "plain_segment (aiLogin info)" "findUserByName (srv_of s) (aiLogin info) = None"
    and "netCache s (name_key (aiLogin info)) = None"
    and "userResource (new_user (user_body (aiLogin info) (aiProfile info)) (srv_of s)) None = Inr r"
  shows "\<exists>s1 s2 s3 i u.
      user_CreateAccount (mock_env x rnd (Some ttl)) info creds s = (Inr (SuccessResult r, []), s1)
    \<and> user_Delete (mock_env x rnd (Some ttl)) (resId r) s1 = (Inr (), s2)
    \<and> user_CreateAccount (mock_env x rnd (Some ttl)) info creds s2 = (Inr (SuccessResult r, []), s3)
    \<and> atoi (ridResource (resId r)) = Some i \<and> srvUsers (srv_of s3) i = None
    \<and> findUserByName (srv_of s3) (aiLogin info) = Some u \<and> ID u \<noteq> i"
proof -
  let ?E = "mock_env x rnd (Some ttl)" and ?n = "aiLogin info" and ?srv = "srv_of s"
  let ?b = "user_body (aiLogin info) (aiProfile info)"
  let ?u = "new_user ?b ?srv" and ?srv1 = "snd (add_user_record ?b ?srv)" and ?i = "srvNextUserID ?srv + 1"
  let ?s1 = "name_cached ?n ?u (with_server s ?srv1)"
  have nb: "ucName ?b = ?n" by (simp add: user_body_def)
  have ne: "?n \<noteq> []" using assms(5) by (simp add: plain_segment_def)
  note new = created_user_facts[OF assms(1,2), of ?b, unfolded nb, OF ne assms(6)]
  have con1: "connected (with_server s ?srv1)" by (rule connected_with_server[OF assms(3)]) simp
  have "GetUserByName ?E ?n (with_server s ?srv1) = (Inr ?u, ?s1)"
    by (rule lookup_stores[OF con1 _ assms(5)]) (use new(1) find_new_user[of ?srv ?b] assms(6,7) nb in simp_all)
  from create_user_run[OF assms(3) ne assms(6) this] assms(8)
  have one: "user_CreateAccount ?E info creds s = (Inr (SuccessResult r, []), ?s1)" by simp
  have rid: "atoi (ridResource (resId r)) = Some ?i"
    using assms(8) ok_ID(1)[OF new(3)] new(2) by (auto simp: userResource_eq user_view_def split: if_splits)
  let ?srv2 = "remove_user ?i ?srv1" and ?s2 = "with_server ?s1 (remove_user ?i ?srv1)"
  have two: "user_Delete ?E (resId r) ?s1 = (Inr (), ?s2)"
    using delete_user_mock[of ?s1 "resId r" ?i x rnd "Some ttl"] con1 new(1) rid by simp
  have free2: "findUserByName ?srv2 ?n = None" using assms(6) new(4) by (simp add: findUserByName_def)
  let ?srv3 = "snd (add_user_record ?b ?srv2)" and ?v = "new_user ?b ?srv2"
  let ?s3 = "name_cached ?n ?u (with_server ?s2 ?srv3)"
  have con2: "connected ?s2" using connected_with_server[of ?s1 ?srv2] con1 by simp
  have con3: "connected (with_server ?s2 ?srv3)" using connected_with_server[OF con2, of ?srv3] by simp
  have "GetUserByName ?E ?n (with_server ?s2 ?srv3) = (Inr ?u, ?s3)"
    by (rule lookup_stale[OF con3 new(3), where k = "wClock (netWorld s)"]) (use assms(4) in simp_all)
  then have three: "user_CreateAccount ?E info creds ?s2 = (Inr (SuccessResult r, []), ?s3)"
    using create_user_run[of ?s2 info x rnd "Some ttl", OF con2 ne] free2 assms(8) by simp
  have "srvUsers (srv_of ?s3) ?i = None"
    using new(5) by (simp add: add_user_record_eq new_user_def) (simp add: remove_user_def)
  moreover have "findUserByName (srv_of ?s3) ?n = Some ?v"
    using find_new_user[of ?srv2 ?b] free2 nb by simp
  moreover have "ID ?v \<noteq> ?i" using new(5) by simp
  ultimately show ?thesis using one two three rid by blast
qed

theorem recreated_user_stale_witness:
  "\<exists>r s1 s2 s3 i u.
      user_CreateAccount (mock_env no_expiry no_random (Some 3600)) kim NoPasswordOption (demo ''t'' 0) = (Inr (SuccessResult r, []), s1)
    \<and> user_Delete (mock_env no_expiry no_random (Some 3600)) (resId r) s1 = (Inr (), s2)
    \<and> user_CreateAccount (mock_env no_expiry no_random (Some 3600)) kim NoPasswordOption s2 = (Inr (SuccessResult r, []), s3)
    \<and> findUserByName (srv_of s3) ''kim'' = Some u \<and> atoi (ridResource (resId r)) = Some i \<and> ID u \<noteq> i"
proof -
  let ?u = "new_user (user_body ''kim'' (aiProfile kim)) (newServer ''u'' ''p'' ''t'')"
  have "user_utf8 ?u"
    by (simp add: user_utf8_def new_user_def user_body_def kim_def profile_string_def zero_User_def byte_in_def)
  then have r: "userResource ?u None = Inr (user_view ?u None)" by (simp add: userResource_eq)
  obtain s1 s2 s3 i u where *:
      "user_CreateAccount (mock_env no_expiry no_random (Some 3600)) kim NoPasswordOption (demo ''t'' 0) = (Inr (SuccessResult (user_view ?u None), []), s1)"
      "user_Delete (mock_env no_expiry no_random (Some 3600)) (resId (user_view ?u None)) s1 = (Inr (), s2)"
      "user_CreateAccount (mock_env no_expiry no_random (Some 3600)) kim NoPasswordOption s2 = (Inr (SuccessResult (user_view ?u None), []), s3)"
      "atoi (ridResource (resId (user_view ?u None))) = Some i" "findUserByName (srv_of s3) ''kim'' = Some u" "ID u \<noteq> i"
    using recreated_user_stale[OF demo_reach _ demo_connected, of 3600 kim "user_view ?u None" no_expiry no_random NoPasswordOption] r
    by (auto simp: kim_simps)
  then show ?thesis by blast
qed

end
