(* ===== verification/ConnectorProps.thy ===== *)
theory ConnectorProps
  imports Connector MockProps
begin

section \<open>Properties of the connector as a whole\<close>

text \<open>
  What is registered for which configuration, which account manager and deleter the SDK then picks, the
  creation schema, validation, and the start of a connector against the mock server.
\<close>

subsection \<open>Registration\<close>

lemmas registration_defs = ResourceSyncers_def provisioning_syncers builder_defs
  addResourceType_def addResourceSyncers_def addResourceManager_def addAccountManager_def empty_builder_def Let_def

lemma shouldSync_iff:
  "shouldSyncManagedDevice j = (case jOpts j of None \<Rightarrow> True | Some opts \<Rightarrow> ''managedDevice'' \<in> set (SyncResourceTypeIDs opts))"
  by (auto simp: shouldSyncManagedDevice_def SyncFilterIsExplicit_def WillSyncResourceType_def SyncResourceTypeSet_def
      resourceTypeManagedDevice_def split: option.split)

text \<open>The maps after the registration, for every configuration.\<close>

definition registered :: "Jamf \<Rightarrow> builder" where
  "registered j =
     (let u = UserSyncer (userProvisioningActive j); a = UserAccountSyncer (userAccountProvisioningActive j) in
      \<lparr>resourceSyncers = [(''user'', u), (''group'', GroupSyncer), (''userAccount'', a), (''userGroup'', UserGroupSyncer),
         (''site'', SiteSyncer), (''role'', RoleSyncer)]
         @ (if shouldSyncManagedDevice j then [(''managedDevice'', ManagedDeviceSyncer)] else []),
       resourceDeleters = [(''user'', u), (''userAccount'', a)],
       accountManagers = (if userAccountProvisioningActive j then [(''userAccount'', a)]
         else if userProvisioningActive j then [(''user'', u)] else [])\<rparr>)"

lemma one_target: "\<not> (userProvisioningActive j \<and> userAccountProvisioningActive j)"
  by (auto simp: userProvisioningActive_def userAccountProvisioningActive_def resource_types)

lemma NewConnector_eq: "NewConnector j = Inr (registered j)"
  using one_target[of j]
  by (cases "userProvisioningActive j"; cases "userAccountProvisioningActive j"; cases "shouldSyncManagedDevice j")
     (simp_all add: NewConnector_def registration_defs registered_def resource_types bind_err_def)

text \<open>
  C24.  Every connector registers without an error.  The managed device type is registered exactly when
  there are no options (capabilities metadata) or the operator names it; both account types can be
  deleted whatever the configuration; at most one type is an account manager, the one configured, and
  none when the configured value is neither of the two.
\<close>

theorem registration:
  "\<exists>b. NewConnector j = Inr b
    \<and> map fst (resourceSyncers b) = [''user'', ''group'', ''userAccount'', ''userGroup'', ''site'', ''role'']
        @ (if (case jOpts j of None \<Rightarrow> True | Some opts \<Rightarrow> ''managedDevice'' \<in> set (SyncResourceTypeIDs opts))
           then [''managedDevice''] else [])
    \<and> map fst (resourceDeleters b) = [''user'', ''userAccount'']
    \<and> map fst (accountManagers b) =
        (if accountProvisioningTarget j = ''userAccount'' then [''userAccount'']
         else if accountProvisioningTarget j \<in> {[], ''user''} then [''user''] else [])"
  unfolding NewConnector_eq
  by (simp add: registered_def Let_def shouldSync_iff userAccountProvisioningActive_def userProvisioningActive_def resource_types)

text \<open>
  C25.  With a configured target of the two the SDK creates accounts of that type only: a request
  without a type or with the target's type goes to it, one for the other type is refused as
  unimplemented; the advertised credential option and the creation schema are the target's.
\<close>

theorem account_manager_picked:
  assumes "NewConnector j = Inr b" "accountProvisioningTarget j \<in> {''user'', ''userAccount''}"
  defines "admin \<equiv> accountProvisioningTarget j = ''userAccount''"
  shows "pickAccountManager b [] = Inr (if admin then UserAccountSyncer True else UserSyncer True)
    \<and> pickAccountManager b (accountProvisioningTarget j) = pickAccountManager b []
    \<and> (\<forall>rt. rt \<noteq> [] \<and> rt \<noteq> accountProvisioningTarget j \<longrightarrow> (\<exists>e. pickAccountManager b rt = Inl e \<and> status_code e = Unimplemented))
    \<and> possible_details b = [if admin then ([RANDOM_PASSWORD], RANDOM_PASSWORD) else ([NO_PASSWORD], NO_PASSWORD)]
    \<and> accountCreationSchema j = (if admin then userAccountCreationSchema else userCreationSchema)"
proof -
  have b: "b = registered j" using assms(1) by (simp add: NewConnector_eq)
  have active: "userAccountProvisioningActive j = admin" "userProvisioningActive j = (\<not> admin)"
    using assms(2) by (auto simp: userAccountProvisioningActive_def userProvisioningActive_def resource_types admin_def)
  show ?thesis
  proof (cases admin)
    case True
    then have "accountProvisioningTarget j = ''userAccount''" by (simp add: admin_def)
    with True show ?thesis unfolding b
      by (simp add: registered_def active pickAccountManager_def possible_details_def Let_def
          userAccount_CreateAccountCapabilityDetails_def accountCreationSchema_def unimplemented_def)
  next
    case False
    then have "accountProvisioningTarget j = ''user''" using assms(2) by (simp add: admin_def)
    with False show ?thesis unfolding b
      by (simp add: registered_def active pickAccountManager_def possible_details_def Let_def
          user_CreateAccountCapabilityDetails_def accountCreationSchema_def unimplemented_def)
  qed
qed

theorem account_manager_picked_witness:
  "pickAccountManager (registered \<lparr>jOpts = None, accountProvisioningTarget = ''userAccount''\<rparr>) [] = Inr (UserAccountSyncer True)
   \<and> (\<exists>m. pickAccountManager (registered \<lparr>jOpts = None, accountProvisioningTarget = ''userAccount''\<rparr>) ''user'' = Inl m \<and> status_code m = Unimplemented)"
  using account_manager_picked[OF NewConnector_eq, of "\<lparr>jOpts = None, accountProvisioningTarget = ''userAccount''\<rparr>"]
  by simp

definition null_env :: "unit env" where
  "null_env = \<lparr>exchange = (\<lambda>rq w. (Inr \<lparr>rsStatus = 200, rsContentType = ''application/json'', rsBody = JsonBody JNull\<rparr>, w)),
     now = (\<lambda>w. 0), pause = (\<lambda>d w. w), parseBase = (\<lambda>u. Some (u, [])), randInt = (\<lambda>b w. (Inr 0, w)), cacheTTL = None\<rparr>"

definition null_conn :: "unit conn" where
  "null_conn = NewClient null_env Map.empty () ''u'' ''p'' ''t'' ''h''"

text \<open>
  Deletion is not gated by the configuration: the SDK sends a directory user to the user deletion
  and a console account to the account deletion for every connector, and refuses every other type
  without a request.
\<close>

theorem deletion_dispatch:
  assumes "NewConnector j = Inr b"
  shows "builder_DeleteResource E b rid s =
    (if ridType rid = ''user'' then mapErr (WrapError ''error: delete resource failed'') (user_Delete E rid) s
     else if ridType rid = ''userAccount'' then mapErr (WrapError ''error: delete resource failed'') (userAccount_Delete E rid) s
     else (Inl (unimplemented (''resource type '' @ ridType rid @ '' does not have resource Delete() configured'')), s))"
proof -
  have "b = registered j" using assms by (simp add: NewConnector_eq)
  then show ?thesis by (simp add: builder_DeleteResource_def registered_def Let_def)
qed

theorem deletion_dispatch_witness:
  "builder_DeleteResource null_env (registered zero_Jamf) \<lparr>ridType = ''userAccount'', ridResource = ''7''\<rparr> null_conn
     = mapErr (WrapError ''error: delete resource failed'')
         (userAccount_Delete null_env \<lparr>ridType = ''userAccount'', ridResource = ''7''\<rparr>) null_conn"
  using deletion_dispatch[OF NewConnector_eq, of null_env zero_Jamf "\<lparr>ridType = ''userAccount'', ridResource = ''7''\<rparr>" null_conn]
  by simp

subsection \<open>The creation schema\<close>

lemma schema_keys:
  "map fst userAccountCreationSchema = [''full_name'', ''email'', ''privilege_set'', ''privileges_jss_objects'',
     ''privileges_jss_settings'', ''privileges_jss_actions'', ''privileges_recon'', ''privileges_casper_admin'',
     ''privileges_casper_remote'', ''privileges_casper_imaging'']"
  "map (scOrder \<circ> snd) userAccountCreationSchema = [1, 2, 3, 4, 5, 6, 7, 8, 9, 10]"
  by (simp_all add: userAccountCreationSchema_def customPrivilegeFields_def schema_string_def)

text \<open>
  The creation of a console account reads of the profile exactly what its schema declares: two
  profiles that agree on the ten declared fields are treated the same.  The fields are numbered 1 to 10.
\<close>

theorem account_schema_complete:
  assumes "\<forall>k\<in>set (map fst userAccountCreationSchema). map_of p k = map_of q k"
  shows "userAccount_CreateAccount E \<lparr>aiLogin = n, aiProfile = p\<rparr> creds s = userAccount_CreateAccount E \<lparr>aiLogin = n, aiProfile = q\<rparr> creds s
    \<and> map (scOrder \<circ> snd) userAccountCreationSchema = [1, 2, 3, 4, 5, 6, 7, 8, 9, 10]"
proof -
  have "profile_string p k = profile_string q k" if "k \<in> {''full_name'', ''email''}" for k
    using assms that unfolding schema_keys by (auto simp: profile_string_def)
  moreover have "choosePrivilegeSet p = choosePrivilegeSet q"
    using assms unfolding schema_keys by (simp add: choosePrivilegeSet_def)
  moreover have "profile_privileges p = profile_privileges q"
    using assms unfolding schema_keys by (simp add: profile_privileges_def stringSliceFromProfile_def)
  ultimately show ?thesis
    by (simp add: userAccount_CreateAccount_def requireLogin_def resolvePrivileges_def schema_keys(2))
qed

theorem account_schema_complete_witness:
  "userAccount_CreateAccount null_env \<lparr>aiLogin = ''kim'', aiProfile = [(''email'', PString ''k@x.y'')]\<rparr> (RandomPassword 12 []) null_conn
   = userAccount_CreateAccount null_env
       \<lparr>aiLogin = ''kim'', aiProfile = [(''password'', PString ''p''), (''email'', PString ''k@x.y'')]\<rparr> (RandomPassword 12 []) null_conn"
  using account_schema_complete[of "[(''email'', PString ''k@x.y'')]" "[(''password'', PString ''p''), (''email'', PString ''k@x.y'')]"
    null_env "''kim''" "RandomPassword 12 []" null_conn]
  by (simp add: schema_keys)

subsection \<open>Start and validation\<close>






lemma mock_token:
  assumes "CHR '':'' \<notin> set us"
  shows "us = srvUsername (srv_of s) \<Longrightarrow> pw = srvPassword (srv_of s) \<Longrightarrow>
      CreateBearerToken (mock_env x rnd ttl) us pw s = (Inr (srvToken (srv_of s)), s)"
    and "us \<noteq> srvUsername (srv_of s) \<or> pw \<noteq> srvPassword (srv_of s) \<Longrightarrow>
      \<exists>es. CreateBearerToken (mock_env x rnd ttl) us pw s = (Inl (StatusError Unauthenticated es), s)"
proof -
  define w where "w = \<lparr>uHost = clInstanceURL s, uPath = join_path [] tokenUrlPath, uQuery = []\<rparr>"
  let ?rq = "tokenRequest w us pw"
  have sp: "split_first (CHR '':'') (us @ '':'' @ pw) = (us, Some pw)"
    unfolding append_Cons append_Nil by (rule split_first_sep[OF assms])
  have run: "CreateBearerToken (mock_env x rnd ttl) us pw s =
      bindE (Do (mock_env x rnd ttl) ?rq (WithJSONResponse dec_TokenResponse zero_TokenResponse)) (\<lambda>(rs, t). returnE (trToken t)) s"
    by (simp add: CreateBearerToken_def w_def)
  have post: "rqMethod ?rq \<noteq> GET" by (simp add: tokenRequest_def)
  have h: "reply x ?rq s = handleCreateToken (x (wClock (netWorld s))) ?rq (srv_of s)"
    by (simp add: reply_def w_def url_paths join_plain serve_routes tokenRequest_def)
  show "CreateBearerToken (mock_env x rnd ttl) us pw s = (Inr (srvToken (srv_of s)), s)"
    if "us = srvUsername (srv_of s)" "pw = srvPassword (srv_of s)"
  proof -
    have r: "reply x ?rq s = (token_answer (srv_of s) (x (wClock (netWorld s))), srv_of s)"
      unfolding h using sp that by (simp add: handleCreateToken_def tokenRequest_def)
    show ?thesis unfolding run
      by (simp add: bindE_def Do_mock[OF r] post read_token) (simp add: token_answer_def)
  qed
  show "\<exists>es. CreateBearerToken (mock_env x rnd ttl) us pw s = (Inl (StatusError Unauthenticated es), s)"
    if "us \<noteq> srvUsername (srv_of s) \<or> pw \<noteq> srvPassword (srv_of s)"
  proof -
    have r: "reply x ?rq s = (writeJSONError 401 ''invalid credentials'', srv_of s)"
      unfolding h using sp that by (simp add: handleCreateToken_def tokenRequest_def)
    show ?thesis unfolding run
      by (simp add: bindE_def Do_mock[OF r] post GrpcCodeFromHTTPStatus_def)
  qed
qed

text \<open>
  C26.  For a configured user name without a colon, and a mock server that has a token, starting the connector
  succeeds exactly with the server's credentials, and then leaves a connected client and the default target \<open>user\<close> for an empty setting; with others it
  fails with Unauthenticated.
\<close>

theorem start_connects:
  assumes "CHR '':'' \<notin> set (Username cc)" "srvToken (wServer w) \<noteq> []"
  shows "if Username cc = srvUsername (wServer w) \<and> Password cc = srvPassword (wServer w)
    then \<exists>s. New (mock_env x rnd ttl) w cc opts = (Inr \<lparr>jOpts = opts, accountProvisioningTarget =
           (if CreateAccountResourceType cc = [] then ''user'' else CreateAccountResourceType cc)\<rparr>, s)
         \<and> connected s \<and> srv_of s = wServer w
    else \<exists>e s. New (mock_env x rnd ttl) w cc opts = (Inl e, s) \<and> status_code e = Unauthenticated \<and> srv_of s = wServer w"
proof -
  define s where "s = NewClient (mock_env x rnd ttl) Map.empty w (Username cc) (Password cc) [] (InstanceUrl cc)"
  have srv: "srv_of s = wServer w" by (simp add: s_def NewClient_def srv_of_def)
  let ?E = "mock_env x rnd ttl"
  have run: "New ?E w cc opts =
      bindE (mapErr (WrapError ''jamf-connector: failed to get token'') (CreateBearerToken ?E (Username cc) (Password cc))) (\<lambda>tok.
      bindE (SetBearerToken ?E tok) (\<lambda>_. returnE \<lparr>jOpts = opts, accountProvisioningTarget =
        (if CreateAccountResourceType cc = [] then ''user'' else CreateAccountResourceType cc)\<rparr>)) s"
    by (simp add: New_def s_def Let_def resourceTypeUser_def)
  show ?thesis
  proof (cases "Username cc = srvUsername (srv_of s) \<and> Password cc = srvPassword (srv_of s)")
    case True
    then have tok: "CreateBearerToken (mock_env x rnd ttl) (Username cc) (Password cc) s = (Inr (srvToken (srv_of s)), s)"
      using mock_token(1)[OF assms(1), of s "Password cc" x rnd ttl] by simp
    have "SetBearerToken (mock_env x rnd ttl) (srvToken (srv_of s)) s = (Inr (), renewed s)"
      by (simp add: SetBearerToken_run renewed_def token_fields_commute)
    moreover have "mapErr f (CreateBearerToken (mock_env x rnd ttl) (Username cc) (Password cc)) s = (Inr (srvToken (srv_of s)), s)" for f
      using tok by simp
    ultimately show ?thesis
      using True renewed_connected[of s] assms(2) srv unfolding run by simp
  next
    case False
    then obtain es where tok: "CreateBearerToken (mock_env x rnd ttl) (Username cc) (Password cc) s = (Inl (StatusError Unauthenticated es), s)"
      using mock_token(2)[OF assms(1), of s "Password cc" x rnd ttl] by auto
    then have "mapErr f (CreateBearerToken (mock_env x rnd ttl) (Username cc) (Password cc)) s = (Inl (f (StatusError Unauthenticated es)), s)" for f
      by simp
    with False srv show ?thesis unfolding run by auto
  qed
qed

theorem start_connects_witness:
  "\<exists>s. New (mock_env no_expiry no_random (Some 3600)) \<lparr>wServer = newServer ''u'' ''p'' ''t'', wClock = 0, wSource = 0\<rparr>
      \<lparr>Username = ''u'', Password = ''p'', InstanceUrl = ''h'', CreateAccountResourceType = []\<rparr> None
      = (Inr \<lparr>jOpts = None, accountProvisioningTarget = ''user''\<rparr>, s) \<and> connected s"
  using start_connects[of "\<lparr>Username = ''u'', Password = ''p'', InstanceUrl = ''h'', CreateAccountResourceType = []\<rparr>"
      "\<lparr>wServer = newServer ''u'' ''p'' ''t'', wClock = 0, wSource = 0\<rparr>" no_expiry no_random "Some 3600" None] by auto

end
