(* ===== verification/DeviceFacts.thy ===== *)
theory DeviceFacts
  imports Devices
begin

section \<open>What the device mapping promises\<close>

text \<open>
  Page tokens, object ids, the closed form of the device resources, and the user index against its
  abstract reading: the first user with a key.
\<close>

lemma parse_new_token [simp]:
  "int64 page \<Longrightarrow> int64 seen \<Longrightarrow> parseDevicePageToken (newDevicePageToken page seen) = (page, seen)"
  using itoa_no_sep[of page]
  by (simp add: parseDevicePageToken_def newDevicePageToken_def split_first_sep)

lemma newDevicePageToken_nonempty [simp]: "newDevicePageToken p q \<noteq> []"
  by (simp add: newDevicePageToken_def)

subsection \<open>The resources in closed form\<close>

definition device_view :: "string \<Rightarrow> string \<Rightarrow> device_trait_option list \<Rightarrow> ResourceId option \<Rightarrow> Resource" where
  "device_view name i opts p =
     \<lparr>resId = \<lparr>ridType = ''managedDevice'', ridResource = i\<rparr>, resDisplayName = name, resParent = p,
      resProfile = None, resStatus = None,
      resTraits = [TDevice (fold (\<lambda>f t. f t) opts empty_ManagedDeviceTrait)]\<rparr>"

definition computer_name :: "ComputerInventory \<Rightarrow> string" where
  "computer_name c = (case ciGeneral c of None \<Rightarrow> ciID c | Some g \<Rightarrow> if cgName g \<noteq> [] then cgName g else ciID c)"

definition computer_view :: "ResourceId option \<Rightarrow> ComputerInventory \<Rightarrow> Resource" where
  "computer_view p c = device_view (computer_name c) (deviceObjectID ''computer'' (ciID c)) (computer_options c) p"

definition mobile_view :: "ResourceId option \<Rightarrow> MobileDevice \<Rightarrow> Resource" where
  "mobile_view p m = device_view (if mbName m = [] then mbID m else mbName m)
     (deviceObjectID ''mobile'' (mbID m)) (mobile_options m) p"

lemma computerResource_eq: "computerResource c p = Inr (computer_view p c)"
  by (simp add: computerResource_def resource_build computer_view_def computer_name_def device_view_def
      resourceTypeManagedDevice_def phase_defs)

lemma mobileDeviceResource_eq: "mobileDeviceResource m p = Inr (mobile_view p m)"
  by (simp add: mobileDeviceResource_def resource_build mobile_view_def device_view_def
      resourceTypeManagedDevice_def phase_defs)

text \<open>The trait of a computer, field by field.\<close>

definition computer_trait :: "ComputerInventory \<Rightarrow> ManagedDeviceTrait" where
  "computer_trait c =
     \<lparr>mdSerial = (case ciHardware c of None \<Rightarrow> [] | Some hw \<Rightarrow> hwSerialNumber hw),
      mdUdid = ciUDID c,
      mdDeviceType = (case computerDeviceType (ciHardware c) of None \<Rightarrow> DEVICE_TYPE_UNSPECIFIED | Some d \<Rightarrow> d),
      mdModel = (case ciHardware c of None \<Rightarrow> [] | Some hw \<Rightarrow> computerModel hw),
      mdVendor = (case ciHardware c of None \<Rightarrow> [] | Some hw \<Rightarrow> hwMake hw),
      mdOs = computerOS (ciOperatingSystem c),
      mdEncrypted = isEncrypted (ciDiskEncryption c),
      mdSupervised = map_option cgSupervised (ciGeneral c),
      mdManagementState = (if managementStateManaged (ciGeneral c) then MANAGEMENT_STATE_MANAGED
                           else MANAGEMENT_STATE_UNSPECIFIED),
      mdEnrolledAt = (case ciGeneral c of None \<Rightarrow> None | Some g \<Rightarrow> parseJamfTime (cgLastEnrolledDate g))\<rparr>"

text \<open>Each group of options as one update of the fields it writes.\<close>

lemma fold_options_append:
  "fold (\<lambda>f t. f t) (a @ b) t = fold (\<lambda>f t. f t) b (fold (\<lambda>f t. f t) a t)"
  by simp

definition fill :: "string \<Rightarrow> string \<Rightarrow> string" where
  "fill s old = (if s = [] then old else s)"

lemma fill_Nil [simp]: "fill s [] = s"
  by (simp add: fill_def)

lemma serial_option:
  "fold (\<lambda>f t. f t) (case h of None \<Rightarrow> [] | Some hw \<Rightarrow> if hwSerialNumber hw \<noteq> [] then [\<lambda>t. t\<lparr>mdSerial := hwSerialNumber hw\<rparr>] else []) t
   = t\<lparr>mdSerial := fill (case h of None \<Rightarrow> [] | Some hw \<Rightarrow> hwSerialNumber hw) (mdSerial t)\<rparr>"
  by (cases h) (auto simp: fill_def)

lemma udid_option:
  "fold (\<lambda>f t. f t) (if u \<noteq> [] then [\<lambda>t. t\<lparr>mdUdid := u\<rparr>] else []) t = t\<lparr>mdUdid := fill u (mdUdid t)\<rparr>"
  by (auto simp: fill_def)

lemma type_option:
  "fold (\<lambda>f t. f t) (case d of None \<Rightarrow> [] | Some dt \<Rightarrow> [\<lambda>t. t\<lparr>mdDeviceType := dt\<rparr>]) t
   = t\<lparr>mdDeviceType := (case d of None \<Rightarrow> mdDeviceType t | Some dt \<Rightarrow> dt)\<rparr>"
  by (cases d) auto

lemma model_option:
  "fold (\<lambda>f t. f t) (case h of None \<Rightarrow> [] | Some hw \<Rightarrow>
      (if computerModel hw \<noteq> [] then [\<lambda>t. t\<lparr>mdModel := computerModel hw\<rparr>] else [])
    @ (if hwMake hw \<noteq> [] then [\<lambda>t. t\<lparr>mdVendor := hwMake hw\<rparr>] else [])) t
   = t\<lparr>mdModel := fill (case h of None \<Rightarrow> [] | Some hw \<Rightarrow> computerModel hw) (mdModel t),
       mdVendor := fill (case h of None \<Rightarrow> [] | Some hw \<Rightarrow> hwMake hw) (mdVendor t)\<rparr>"
  by (cases h) (auto simp: fill_def)

lemma os_option:
  "fold (\<lambda>f t. f t) (case d of None \<Rightarrow> [] | Some x \<Rightarrow> [\<lambda>t. t\<lparr>mdOs := Some x\<rparr>]) t
   = t\<lparr>mdOs := (case d of None \<Rightarrow> mdOs t | Some x \<Rightarrow> Some x)\<rparr>"
  by (cases d) auto

lemma encrypted_option:
  "fold (\<lambda>f t. f t) (case d of None \<Rightarrow> [] | Some x \<Rightarrow> [\<lambda>t. t\<lparr>mdEncrypted := Some x\<rparr>]) t
   = t\<lparr>mdEncrypted := (case d of None \<Rightarrow> mdEncrypted t | Some x \<Rightarrow> Some x)\<rparr>"
  by (cases d) auto

lemma supervised_option:
  "fold (\<lambda>f t. f t) (case d of None \<Rightarrow> [] | Some g \<Rightarrow> [\<lambda>t. t\<lparr>mdSupervised := Some (cgSupervised g)\<rparr>]) t
   = t\<lparr>mdSupervised := (case d of None \<Rightarrow> mdSupervised t | Some g \<Rightarrow> Some (cgSupervised g))\<rparr>"
  by (cases d) auto

lemma managed_option:
  "fold (\<lambda>f t. f t) (if b then [\<lambda>t. t\<lparr>mdManagementState := MANAGEMENT_STATE_MANAGED\<rparr>] else []) t
   = t\<lparr>mdManagementState := (if b then MANAGEMENT_STATE_MANAGED else mdManagementState t)\<rparr>"
  by auto

lemma enrolled_option:
  "fold (\<lambda>f t. f t) (case d of None \<Rightarrow> []
      | Some g \<Rightarrow> (case parseJamfTime (cgLastEnrolledDate g) of None \<Rightarrow> [] | Some t \<Rightarrow> [\<lambda>tr. tr\<lparr>mdEnrolledAt := Some t\<rparr>])) t
   = t\<lparr>mdEnrolledAt := (case d of None \<Rightarrow> mdEnrolledAt t
      | Some g \<Rightarrow> (case parseJamfTime (cgLastEnrolledDate g) of None \<Rightarrow> mdEnrolledAt t | Some x \<Rightarrow> Some x))\<rparr>"
  by (cases d) (auto split: option.splits)

lemmas device_option_folds = serial_option udid_option type_option model_option os_option encrypted_option
  supervised_option managed_option enrolled_option

lemma option_case_id: "(case v of None \<Rightarrow> None | Some x \<Rightarrow> Some x) = v"
  by (cases v) auto

lemma computer_options_trait:
  "fold (\<lambda>f t. f t) (computer_options c) empty_ManagedDeviceTrait = computer_trait c"
  unfolding computer_options_def fold_options_append device_option_folds
  by (simp add: empty_ManagedDeviceTrait_def computer_trait_def option_case_id map_option_case
      cong: option.case_cong if_cong)

subsection \<open>The user index\<close>

definition has_key :: "string \<Rightarrow> User \<Rightarrow> bool" where
  "has_key k u \<longleftrightarrow> k \<in> index_key ` set (user_keys u)"

definition first_with_key :: "User list \<Rightarrow> string \<Rightarrow> ResourceId option" where
  "first_with_key users k = (if k = [] then None else map_option user_rid (List.find (has_key k) users))"

lemma add_key_apply:
  "add_key rid k idx q = (if idx q = None \<and> q = index_key k \<and> q \<noteq> [] then Some rid else idx q)"
  by (auto simp: add_key_def Let_def split: option.splits)

lemma fold_add_key_apply:
  "fold (add_key rid) ks idx q = (if idx q = None \<and> q \<noteq> [] \<and> q \<in> index_key ` set ks then Some rid else idx q)"
  by (induction ks arbitrary: idx) (auto simp: add_key_apply)

lemma add_user_apply:
  "add_user u idx q = (if idx q = None \<and> q \<noteq> [] \<and> has_key q u then Some (user_rid u) else idx q)"
  by (simp add: add_user_def fold_add_key_apply has_key_def)

lemma fold_add_user_apply:
  "fold add_user users idx q = (case idx q of Some r \<Rightarrow> Some r | None \<Rightarrow> first_with_key users q)"
  by (induction users arbitrary: idx)
     (auto simp: add_user_apply first_with_key_def split: option.splits)

lemma build_index_apply: "build_index users = first_with_key users"
  by (rule ext) (simp add: build_index_def fold_add_user_apply)

text \<open>The owner of a device as the first user with its user name, or else with its email.\<close>

definition owner_of :: "User list \<Rightarrow> string \<Rightarrow> string \<Rightarrow> ResourceId option" where
  "owner_of users username email =
     (case first_with_key users (index_key username) of
        Some r \<Rightarrow> Some r | None \<Rightarrow> first_with_key users (index_key email))"

lemma resolveUser_build: "resolveUser (build_index users) username email = owner_of users username email"
  by (auto simp: resolveUser_def build_index_apply owner_of_def Let_def first_with_key_def split: option.splits)

subsection \<open>The index is built once\<close>

lemma getUserIndex_cached:
  "userIndex s = Some idx \<Longrightarrow> getUserIndex E s = (Inr idx, s)"
  by (simp add: getUserIndex_def)

lemma getUserIndex_fresh:
  assumes "userIndex s = None" "GetUsers E s = (Inr users, t)"
  shows "getUserIndex E s = (Inr (build_index users), t\<lparr>userIndex := Some (build_index users)\<rparr>)"
  using assms by (simp add: getUserIndex_def bindE_def)

text \<open>The fields of the device state are not the client's: no client operation writes them.\<close>

definition device_fields :: "('w, 'x) dev_scheme \<Rightarrow> (string \<rightharpoonup> ResourceId) option \<times> (string \<rightharpoonup> deviceOwner)" where
  "device_fields s = (userIndex s, deviceOwners s)"

lemma device_fields_update [simp]:
  "device_fields (s\<lparr>netWorld := w\<rparr>) = device_fields s"
  "device_fields (s\<lparr>netCache := c\<rparr>) = device_fields s"
  "device_fields (s\<lparr>clToken := t, clLastKeepAlive := k\<rparr>) = device_fields s"
  "device_fields (cacheSet E rq rs s) = device_fields s"
  by (auto simp: device_fields_def cacheSet_def split: option.splits)

interpretation devfields: conn_inv E "\<lambda>s :: ('w, 'x) dev_scheme. device_fields s = v" for E v
  by unfold_locales auto

lemma getUserIndex_error:
  assumes "userIndex s = None" "getUserIndex E s = (Inl e, t)"
  shows "userIndex t = None"
proof -
  from assms have g: "GetUsers E s = (Inl e, t)"
    by (auto simp: getUserIndex_def bindE_def split: prod.splits sum.splits)
  have "device_fields t = device_fields s"
    by (rule keepsD[OF devfields.keeps_lists(1) refl g])
  with assms(1) show ?thesis by (simp add: device_fields_def)
qed

end
