(* ===== verification/DeviceWalk.thy ===== *)
theory DeviceWalk
  imports DeviceFacts
begin

section \<open>The walk over all device pages\<close>

text \<open>
  The sync calls List with the token of the call before until it gets the empty token.  Against a
  server that answers a page request with the page, of a size it may cap, the walk ends and has
  listed every computer and then every mobile device, each once and in the server's order.  The
  response cache is in the way of every request; its entries are right because two pages never
  share a cache key.
\<close>

primrec device_walk :: "'w env \<Rightarrow> ResourceId option \<Rightarrow> int \<Rightarrow> nat \<Rightarrow> page_token \<Rightarrow>
    (('w, 'x) dev_scheme, go_error, Resource list option) comp" where
  "device_walk E parent sz 0 token = returnE None"
| "device_walk E parent sz (Suc n) token =
     bindE (device_List E parent token sz) (\<lambda>(rs, nxt).
     if nxt = EmptyToken then returnE (Some rs)
     else bindE (device_walk E parent sz n nxt) (\<lambda>more. returnE (map_option ((@) rs) more)))"

subsection \<open>Page requests and their cache keys\<close>

datatype page_index = CPage nat | MPage nat

definition page_url :: "string \<Rightarrow> string list \<Rightarrow> int \<Rightarrow> page_index \<Rightarrow> url" where
  "page_url host base sz i =
     (case i of
        CPage n \<Rightarrow> \<lparr>uHost = host, uPath = join_path base computersInventoryUrlPath,
                    uQuery = page_query (int n) sz @ map (\<lambda>s. (''section'', s)) ComputerInventorySections\<rparr>
      | MPage n \<Rightarrow> \<lparr>uHost = host, uPath = join_path base mobileDevicesUrlPath, uQuery = page_query (int n) sz\<rparr>)"

definition page_request :: "string \<Rightarrow> string list \<Rightarrow> string \<Rightarrow> int \<Rightarrow> page_index \<Rightarrow> http_request" where
  "page_request host base tok sz i = apiRequest GET (page_url host base sz i) None tok"

lemma sort_computer_params:
  "sort (map (\<lambda>(k, v). k @ ''='' @ v) (page_query pg sz @ map (\<lambda>s. (''section'', s)) ComputerInventorySections)) =
   [''page-size='' @ itoa sz, ''page='' @ itoa pg, ''section=DISK_ENCRYPTION'', ''section=GENERAL'',
    ''section=HARDWARE'', ''section=OPERATING_SYSTEM'', ''section=SECURITY'', ''section=USER_AND_LOCATION'']"
  by (simp add: page_query_def ComputerInventorySections_def less_char_def)

lemma sort_mobile_params:
  "sort (map (\<lambda>(k, v). k @ ''='' @ v) (page_query pg sz)) = [''page-size='' @ itoa sz, ''page='' @ itoa pg]"
  by (simp add: page_query_def less_char_def)

lemma itoa_nat_inj: "itoa (int m) = itoa (int n) \<Longrightarrow> m = n"
  by (metis digits_val_nat_digits itoa_def nat_int of_nat_less_0_iff)

lemma to_lower_append [simp]: "to_lower (a @ b) = to_lower a @ to_lower b"
  by (simp add: to_lower_def)

lemma lower_page_paths:
  "to_lower (join_path base computersInventoryUrlPath)
     = to_lower (render_path (clean_path [] base)) @ ''/api/v1/computers-inventory''"
  "to_lower (join_path base mobileDevicesUrlPath)
     = to_lower (render_path (clean_path [] base)) @ ''/api/v2/mobile-devices''"
proof -
  have "to_lower ''/api/v1/computers-inventory'' = ''/api/v1/computers-inventory''"
    "to_lower ''/api/v2/mobile-devices'' = ''/api/v2/mobile-devices''" by code_simp+
  then show "to_lower (join_path base computersInventoryUrlPath)
     = to_lower (render_path (clean_path [] base)) @ ''/api/v1/computers-inventory''"
  "to_lower (join_path base mobileDevicesUrlPath)
     = to_lower (render_path (clean_path [] base)) @ ''/api/v2/mobile-devices''"
    by (simp_all add: join_path_plain computersInventoryUrlPath_def mobileDevicesUrlPath_def render_path_def)
qed

definition key_tail :: "http_request \<Rightarrow> string" where
  "key_tail rq = ''&headers='' @ join ''&'' (sort (map (\<lambda>(k, v). k @ ''='' @ v)
         (filter (\<lambda>(k, v). k \<in> set [''Accept'', ''Content-Type'', ''Cookie'', ''Range'']) (rqHeaders rq))))"

lemma page_key:
  "CreateCacheKey (page_request host base tok sz i) =
     to_lower (render_path (clean_path [] base)) @
     (case i of CPage n \<Rightarrow> ''/api/v1/computers-inventory?page-size='' @ itoa sz @ ''&page='' @ itoa (int n)
          @ ''&section=DISK_ENCRYPTION&section=GENERAL&section=HARDWARE&section=OPERATING_SYSTEM&section=SECURITY&section=USER_AND_LOCATION''
      | MPage n \<Rightarrow> ''/api/v2/mobile-devices?page-size='' @ itoa sz @ ''&page='' @ itoa (int n))
     @ ''&headers=Accept=application/json''"
  by (cases i)
     (simp_all only: CreateCacheKey_def page_request_def apiRequest_def page_url_def http_request.simps url.simps
        lower_page_paths sort_computer_params sort_mobile_params option.case page_index.case,
      simp_all add: acceptJSON_def)

lemma page_key_inj:
  "CreateCacheKey (page_request host base tok sz i) = CreateCacheKey (page_request host base tok' sz j) \<Longrightarrow> i = j"
  unfolding page_key by (cases i; cases j) (auto dest: itoa_nat_inj)

subsection \<open>A session with an inventory server\<close>

definition page_slice :: "nat \<Rightarrow> nat \<Rightarrow> 'a list \<Rightarrow> 'a list" where
  "page_slice c n xs = take c (drop (n * c) xs)"

definition page_ok :: "(body \<Rightarrow> json_error + 'r) \<Rightarrow> 'r \<Rightarrow> http_response \<Rightarrow> bool" where
  "page_ok target r rs \<longleftrightarrow> 200 \<le> rsStatus rs \<and> rsStatus rs < 300 \<and> target (rsBody rs) = Inr r"

definition computers_target :: "body \<Rightarrow> json_error + ComputersInventoryResponse" where
  "computers_target = unmarshal dec_ComputersInventoryResponse \<lparr>crTotalCount = 0, crResults = []\<rparr>"

definition mobiles_target :: "body \<Rightarrow> json_error + MobileDevicesResponse" where
  "mobiles_target = unmarshal dec_MobileDevicesResponse \<lparr>mrTotalCount = 0, mrResults = []\<rparr>"

text \<open>The right answer to a page request: the total, and the page of at most \<open>c\<close> records.\<close>

definition good_answer :: "ComputerInventory list \<Rightarrow> MobileDevice list \<Rightarrow> nat \<Rightarrow> page_index \<Rightarrow> http_response \<Rightarrow> bool" where
  "good_answer cs ms c i rs =
     (case i of
        CPage n \<Rightarrow> page_ok computers_target \<lparr>crTotalCount = int (length cs), crResults = page_slice c n cs\<rparr> rs
      | MPage n \<Rightarrow> page_ok mobiles_target \<lparr>mrTotalCount = int (length ms), mrResults = page_slice c n ms\<rparr> rs)"

text \<open>What the server is known to do while \<open>live\<close> holds of its state, and what a session is.\<close>

definition serves_inventory :: "'w env \<Rightarrow> ('w \<Rightarrow> bool) \<Rightarrow> string \<times> string list \<times> string \<Rightarrow> int \<Rightarrow>
    ComputerInventory list \<Rightarrow> MobileDevice list \<Rightarrow> nat \<Rightarrow> bool" where
  "serves_inventory E live peer sz cs ms c =
     (case peer of (host, base, tok) \<Rightarrow>
        \<forall>w i. live w \<longrightarrow> (\<exists>rs w'. exchange E (page_request host base tok sz i) w = (Inr rs, w')
                            \<and> live w' \<and> good_answer cs ms c i rs))"

definition walking :: "'w env \<Rightarrow> ('w \<Rightarrow> bool) \<Rightarrow> string \<times> string list \<times> string \<Rightarrow> int \<Rightarrow>
    ComputerInventory list \<Rightarrow> MobileDevice list \<Rightarrow> nat \<Rightarrow> ('w, 'x) conn_scheme \<Rightarrow> bool" where
  "walking E live peer sz cs ms c s =
     (case peer of (host, base, tok) \<Rightarrow>
        tok \<noteq> [] \<and> clToken s = tok \<and> parseBase E (clInstanceURL s) = Some (host, base) \<and>
        live (netWorld s) \<and> (\<forall>w. live w \<longrightarrow> now E w - clLastKeepAlive s < five_minutes) \<and>
        (\<forall>i rs t. netCache s (CreateCacheKey (page_request host base tok sz i)) = Some (rs, t) \<longrightarrow>
                  good_answer cs ms c i rs))"

lemma cacheSet_fields [simp]:
  "clInstanceURL (cacheSet E rq rs s) = clInstanceURL s"
  by (auto simp: cacheSet_def split: option.splits)

lemma walking_cacheSet:
  assumes "walking E live (host, base, tok) sz cs ms c s" "good_answer cs ms c i rs"
  shows "walking E live (host, base, tok) sz cs ms c (cacheSet E (page_request host base tok sz i) rs s)"
  using assms
  by (auto simp: walking_def cacheSet_def dest: page_key_inj split: option.splits if_splits)

lemma walking_world:
  "walking E live peer sz cs ms c s \<Longrightarrow> live w \<Longrightarrow> walking E live peer sz cs ms c (s\<lparr>netWorld := w\<rparr>)"
  by (auto simp: walking_def split: prod.splits)

lemma good_status: "good_answer cs ms c i rs \<Longrightarrow> 200 \<le> rsStatus rs \<and> rsStatus rs < 300"
  by (auto simp: good_answer_def page_ok_def split: page_index.splits)

lemma keepAlive_recent:
  "clToken s \<noteq> [] \<Longrightarrow> now E (netWorld s) - clLastKeepAlive s < five_minutes \<Longrightarrow> keepAliveToken E s = (Inr (), s)"
  by (simp add: keepAliveToken_def)

lemma attempt_page:
  assumes "walking E live (host, base, tok) sz cs ms c s" "serves_inventory E live (host, base, tok) sz cs ms c"
  shows "\<exists>rs s'. attempt E GET (page_url host base sz i) None s = (Inr rs, s') \<and> good_answer cs ms c i rs
    \<and> walking E live (host, base, tok) sz cs ms c s'"
proof -
  let ?rq = "page_request host base tok sz i"
  have rq: "rqMethod ?rq = GET" "header ?rq ''Cache-Control'' = []"
    by (simp_all add: page_request_def apiRequest_def header_def acceptJSON_def)
  have tok: "apiRequest GET (page_url host base sz i) None (clToken s) = ?rq" "live (netWorld s)"
    using assms(1) by (simp_all add: page_request_def walking_def)
  have fin: "\<exists>s'. attempt E GET (page_url host base sz i) None s = (Inr rs, s')
      \<and> walking E live (host, base, tok) sz cs ms c s'"
    if "fetched E ?rq s = (Inr rs, t)" "walking E live (host, base, tok) sz cs ms c t" "good_answer cs ms c i rs" for rs t
    using Do_get_run[OF rq that(1), of no_option "()"] good_status[OF that(3)] walking_cacheSet[OF that(2,3)] that(2)
    by (simp add: attempt_def tok(1) no_option_def)
  show ?thesis
  proof (cases "cacheGet E ?rq s")
    case (Some rs)
    then obtain t where "netCache s (CreateCacheKey ?rq) = Some (rs, t)"
      by (auto simp: cacheGet_def split: option.splits if_splits)
    with assms(1) have "good_answer cs ms c i rs" by (auto simp: walking_def)
    with fin[of rs s] Some assms(1) show ?thesis by (auto simp: fetched_def)
  next
    case None
    from assms(2)[unfolded serves_inventory_def prod.case] tok(2) obtain rs w' where
      x: "exchange E ?rq (netWorld s) = (Inr rs, w')" "live w'" "good_answer cs ms c i rs" by blast
    with fin[of rs "s\<lparr>netWorld := w'\<rparr>"] None walking_world[OF assms(1) x(2)] show ?thesis
      by (auto simp: send_def fetched_def)
  qed
qed

lemma doRequest_page:
  assumes "walking E live (host, base, tok) sz cs ms c s" "serves_inventory E live (host, base, tok) sz cs ms c"
  shows "\<exists>rs s'. doRequest E (page_url host base sz i) target s = (read_target target rs, s')
    \<and> good_answer cs ms c i rs \<and> walking E live (host, base, tok) sz cs ms c s'"
proof -
  obtain rs s' where a: "attempt E GET (page_url host base sz i) None s = (Inr rs, s')"
    "good_answer cs ms c i rs" "walking E live (host, base, tok) sz cs ms c s'"
    using attempt_page[OF assms] by blast
  have "keepAliveToken E s = (Inr (), s)"
    using assms(1) by (intro keepAlive_recent) (auto simp: walking_def)
  then have "doRequest E (page_url host base sz i) target s = (read_target target rs, s')"
    using gotoRetry_first[OF a(1)] by (simp add: doRequest_def doRequestWithMethod_def)
  with a show ?thesis by blast
qed

lemma getUrl_known:
  "parseBase E (clInstanceURL s) = Some (host, base) \<Longrightarrow>
   getUrl E path s = (Inr \<lparr>uHost = host, uPath = join_path base path, uQuery = []\<rparr>, s)"
  by (simp add: getUrl_def)

lemma GetComputersInventory_page:
  assumes "walking E live (host, base, tok) sz cs ms c s" "serves_inventory E live (host, base, tok) sz cs ms c"
  shows "\<exists>s'. GetComputersInventory E (int n) sz ComputerInventorySections s
      = (Inr \<lparr>crTotalCount = int (length cs), crResults = page_slice c n cs\<rparr>, s')
    \<and> walking E live (host, base, tok) sz cs ms c s'"
proof -
  obtain rs s' where r: "doRequest E (page_url host base sz (CPage n)) computers_target s = (read_target computers_target rs, s')"
    "good_answer cs ms c (CPage n) rs" "walking E live (host, base, tok) sz cs ms c s'"
    using doRequest_page[OF assms] by blast
  have u: "getUrl E computersInventoryUrlPath s =
      (Inr \<lparr>uHost = host, uPath = join_path base computersInventoryUrlPath, uQuery = []\<rparr>, s)"
    using assms(1) by (intro getUrl_known) (simp add: walking_def)
  from r u show ?thesis
    by (auto simp: GetComputersInventory_def page_url_def good_answer_def page_ok_def read_target_def
        computers_target_def)
qed

lemma GetMobileDevices_page:
  assumes "walking E live (host, base, tok) sz cs ms c s" "serves_inventory E live (host, base, tok) sz cs ms c"
  shows "\<exists>s'. GetMobileDevices E (int n) sz s
      = (Inr \<lparr>mrTotalCount = int (length ms), mrResults = page_slice c n ms\<rparr>, s')
    \<and> walking E live (host, base, tok) sz cs ms c s'"
proof -
  obtain rs s' where r: "doRequest E (page_url host base sz (MPage n)) mobiles_target s = (read_target mobiles_target rs, s')"
    "good_answer cs ms c (MPage n) rs" "walking E live (host, base, tok) sz cs ms c s'"
    using doRequest_page[OF assms] by blast
  have u: "getUrl E mobileDevicesUrlPath s =
      (Inr \<lparr>uHost = host, uPath = join_path base mobileDevicesUrlPath, uQuery = []\<rparr>, s)"
    using assms(1) by (intro getUrl_known) (simp add: walking_def)
  from r u show ?thesis
    by (auto simp: GetMobileDevices_def page_url_def good_answer_def page_ok_def read_target_def
        mobiles_target_def)
qed

subsection \<open>One page of the walk\<close>

definition page_size_of :: "int \<Rightarrow> int" where
  "page_size_of sz = (if sz \<le> 0 then defaultDevicePageSize else sz)"

definition owner_entry :: "string \<Rightarrow> string \<Rightarrow> string \<Rightarrow> (string \<rightharpoonup> deviceOwner) \<Rightarrow> (string \<rightharpoonup> deviceOwner)" where
  "owner_entry i username email d =
     (if username = [] \<and> email = [] then d else d(i \<mapsto> \<lparr>doUsername = username, doEmail = email\<rparr>))"

definition computer_owner :: "ComputerInventory \<Rightarrow> (string \<rightharpoonup> deviceOwner) \<Rightarrow> (string \<rightharpoonup> deviceOwner)" where
  "computer_owner c d = (case ciUserAndLocation c of None \<Rightarrow> d
     | Some u \<Rightarrow> owner_entry (deviceObjectID ''computer'' (ciID c)) (ulUsername u) (EmailAddr (Some u)) d)"

definition mobile_owner :: "MobileDevice \<Rightarrow> (string \<rightharpoonup> deviceOwner) \<Rightarrow> (string \<rightharpoonup> deviceOwner)" where
  "mobile_owner m d = owner_entry (deviceObjectID ''mobile'' (mbID m)) (mbUsername m) [] d"

lemma recordDeviceOwner_run:
  "recordDeviceOwner r u e s = (Inr (), s\<lparr>deviceOwners := owner_entry (ridResource (resId r)) u e (deviceOwners s)\<rparr>)"
  by (auto simp: recordDeviceOwner_def owner_entry_def)

lemma device_view_id [simp]:
  "ridResource (resId (computer_view p c)) = deviceObjectID ''computer'' (ciID c)"
  "ridResource (resId (mobile_view p m)) = deviceObjectID ''mobile'' (mbID m)"
  by (simp_all add: computer_view_def mobile_view_def device_view_def)

lemma walking_owners [simp]:
  "walking E live peer sz cs ms c (s\<lparr>deviceOwners := d\<rparr>) = walking E live peer sz cs ms c s"
  by (simp add: walking_def split: prod.splits)

lemma fold_owners:
  "fold (\<lambda>x s. s\<lparr>deviceOwners := k x (deviceOwners s)\<rparr>) xs s = s\<lparr>deviceOwners := fold k xs (deviceOwners s)\<rparr>"
  by (induction xs arbitrary: s) auto

lemma build_computers:
  "mapE (\<lambda>c. bindE (mapErr (WrapError m) (liftE (computerResource c p))) (\<lambda>r.
        bindE (case ciUserAndLocation c of None \<Rightarrow> returnE ()
               | Some u \<Rightarrow> recordDeviceOwner r (ulUsername u) (EmailAddr (Some u))) (\<lambda>_. returnE r))) cs s
   = (Inr (map (computer_view p) cs), s\<lparr>deviceOwners := fold computer_owner cs (deviceOwners s)\<rparr>)"
  unfolding fold_owners[symmetric]
  by (rule mapE_run)
     (simp add: computerResource_eq bindE_def mapErr_def recordDeviceOwner_run computer_owner_def split: option.splits)

lemma build_mobiles:
  "mapE (\<lambda>x. bindE (mapErr (WrapError m) (liftE (mobileDeviceResource x p))) (\<lambda>r.
        bindE (recordDeviceOwner r (mbUsername x) []) (\<lambda>_. returnE r))) xs s
   = (Inr (map (mobile_view p) xs), s\<lparr>deviceOwners := fold mobile_owner xs (deviceOwners s)\<rparr>)"
  unfolding fold_owners[symmetric]
  by (rule mapE_run)
     (simp add: mobileDeviceResource_eq bindE_def mapErr_def recordDeviceOwner_run mobile_owner_def)

lemma computer_page_run:
  fixes s :: "('w, 'x) dev_scheme"
  assumes "walking E live (host, base, tok) sz cs ms c s" "serves_inventory E live (host, base, tok) sz cs ms c"
  shows "\<exists>s'. computer_page E parent (int n) sz s =
      (Inr (map (computer_view parent) (page_slice c n cs), int (length cs), int (length (page_slice c n cs))), s')
    \<and> walking E live (host, base, tok) sz cs ms c s'
    \<and> deviceOwners s' = fold computer_owner (page_slice c n cs) (deviceOwners s)"
proof -
  obtain t where t: "GetComputersInventory E (int n) sz ComputerInventorySections s
      = (Inr \<lparr>crTotalCount = int (length cs), crResults = page_slice c n cs\<rparr>, t)"
    "walking E live (host, base, tok) sz cs ms c t"
    using GetComputersInventory_page[OF assms] by blast
  have "device_fields t = device_fields s"
    by (rule keepsD[OF devfields.keeps_devices(1) refl t(1)])
  with t show ?thesis
    by (simp add: computer_page_def build_computers device_fields_def)
qed

lemma mobile_page_run:
  fixes s :: "('w, 'x) dev_scheme"
  assumes "walking E live (host, base, tok) sz cs ms c s" "serves_inventory E live (host, base, tok) sz cs ms c"
  shows "\<exists>s'. mobile_page E parent (int n) sz s =
      (Inr (map (mobile_view parent) (page_slice c n ms), int (length ms), int (length (page_slice c n ms))), s')
    \<and> walking E live (host, base, tok) sz cs ms c s'
    \<and> deviceOwners s' = fold mobile_owner (page_slice c n ms) (deviceOwners s)"
proof -
  obtain t where t: "GetMobileDevices E (int n) sz s
      = (Inr \<lparr>mrTotalCount = int (length ms), mrResults = page_slice c n ms\<rparr>, t)"
    "walking E live (host, base, tok) sz cs ms c t"
    using GetMobileDevices_page[OF assms] by blast
  have "device_fields t = device_fields s"
    by (rule keepsD[OF devfields.keeps_devices(2) refl t(1)])
  with t show ?thesis
    by (simp add: mobile_page_def build_mobiles device_fields_def)
qed

text \<open>The bags of a walk: one page state with its phase, page and number of records seen.\<close>

definition walk_bag :: "string \<Rightarrow> nat \<Rightarrow> nat \<Rightarrow> Bag" where
  "walk_bag phase c n =
     \<lparr>bagStates = [], bagCurrent = Some (page_state phase (newDevicePageToken (int n) (int (n * c))))\<rparr>"

lemma page_state_fields [simp]:
  "psToken (page_state ph t) = t" "psResourceTypeID (page_state ph t) = ph"
  by (simp_all add: page_state_def)

lemma walk_bag_load [simp]: "Unmarshal (Marshal (walk_bag ph c n)) = Inr (walk_bag ph c n)"
  by (rule Unmarshal_Marshal) (simp add: bag_ok_def walk_bag_def)

lemma walk_bag_simps [simp]:
  "start_bag (walk_bag ph c n) = walk_bag ph c n"
  "Current (walk_bag ph c n) = Some (page_state ph (newDevicePageToken (int n) (int (n * c))))"
  "snd (Pop (walk_bag ph c n)) = empty_Bag"
  "Marshal (walk_bag ph c n) \<noteq> EmptyToken" "Marshal empty_Bag = EmptyToken"
  by (simp_all add: walk_bag_def start_bag_def Current_def Pop_def empty_Bag_def
      Push_def Marshal_def phase_defs)

text \<open>Page 0 with nothing seen, whatever the page size.\<close>

lemma walk_bag_start:
  "Push (page_state ph (newDevicePageToken 0 0)) empty_Bag = walk_bag ph c 0"
  "start_bag empty_Bag = walk_bag ''computer'' c 0"
  by (simp_all add: walk_bag_def start_bag_def Current_def empty_Bag_def Push_def phase_defs)

lemma Next_walk_bag:
  "Next (newDevicePageToken (int (Suc n)) (int (Suc n * c))) (walk_bag ph c n) = Inr (walk_bag ph c (Suc n))"
  by (simp add: Next_def walk_bag_def Pop_def Push_def page_state_def)

lemma page_slice_length: "length (page_slice c n xs) = min c (length xs - n * c)"
  by (simp add: page_slice_def min.commute)

lemma seen_so_far:
  assumes "n * c \<le> len" "len < 2 ^ 62"
  shows "wrap64 (int (n * c) + int (min c (len - n * c))) = int (n * c + min c (len - n * c))"
proof -
  have "n * c + min c (len - n * c) \<le> len" using assms(1) by linarith
  also have "len < 2 ^ 63" using assms(2) by simp
  finally show ?thesis by (simp only: of_nat_add[symmetric] wrap64_nat)
qed

lemma more_pages_iff:
  assumes "0 < c" "n * c \<le> len" "len < 2 ^ 62"
  shows "hasMorePages (int (n * c)) sz (int len) (int (min c (len - n * c))) \<longleftrightarrow> Suc n * c < len"
proof -
  have "hasMorePages (int (n * c)) sz (int len) (int (min c (len - n * c)))
      \<longleftrightarrow> min c (len - n * c) \<noteq> 0 \<and> (if 0 < len then n * c + min c (len - n * c) < len
            else int (min c (len - n * c)) \<ge> sz)"
    unfolding hasMorePages_def seen_so_far[OF assms(2,3)]
    by (simp del: of_nat_mult of_nat_add min_less_iff_conj)
  also have "\<dots> \<longleftrightarrow> Suc n * c < len" using assms(1,2) by (auto simp: min_def)
  finally show ?thesis .
qed

lemma next_token_wrap:
  assumes "0 < c" "Suc n * c < len" "len < 2 ^ 62"
  shows "wrap64 (int n + 1) = int (Suc n)"
    "wrap64 (int (n * c) + int (min c (len - n * c))) = int (Suc n * c)"
proof -
  have "Suc n \<le> Suc n * c" using assms(1) by (cases c) auto
  with assms(2) have "Suc n < len" by (rule le_less_trans[rotated])
  then have "Suc n < 2 ^ 62" using assms(3) by (rule less_trans)
  then have "Suc n < 2 ^ 63" by simp
  from wrap64_nat[OF this] show "wrap64 (int n + 1) = int (Suc n)" by (simp add: add.commute)
  have "n * c \<le> len" "min c (len - n * c) = c" using assms(2) by simp_all
  with seen_so_far[of n c len] assms(3) show
    "wrap64 (int (n * c) + int (min c (len - n * c))) = int (Suc n * c)" by (simp add: add.commute)
qed

lemma parse_walk_token:
  assumes "0 < c" "n * c \<le> len" "len < 2 ^ 62"
  shows "parseDevicePageToken (newDevicePageToken (int n) (int (n * c))) = (int n, int (n * c))"
proof -
  have le: "n \<le> n * c" using assms(1) by (cases c) auto
  have "n * c < 2 ^ 62" using assms(2,3) by (rule le_less_trans)
  moreover from le this have "n < 2 ^ 62" by (rule le_less_trans)
  ultimately have "n < 2 ^ 62" "n * c < 2 ^ 62" by blast+
  then have "n < 2 ^ 63" "n * c < 2 ^ 63" by simp_all
  then show ?thesis by (intro parse_new_token int64_of_nat)
qed

definition ready :: "'w env \<Rightarrow> ('w \<Rightarrow> bool) \<Rightarrow> string \<times> string list \<times> string \<Rightarrow> int \<Rightarrow>
    ComputerInventory list \<Rightarrow> MobileDevice list \<Rightarrow> nat \<Rightarrow> bool" where
  "ready E live peer sz cs ms c \<longleftrightarrow> 0 < c \<and> length cs < 2 ^ 62 \<and> length ms < 2 ^ 62
     \<and> serves_inventory E live peer (page_size_of sz) cs ms c"

lemma list_computers:
  fixes s :: "('w, 'x) dev_scheme"
  assumes "walking E live (host, base, tok) (page_size_of sz) cs ms c s"
    and "ready E live (host, base, tok) sz cs ms c" "n * c \<le> length cs"
    and "Unmarshal token = Inr b" "start_bag b = walk_bag ''computer'' c n"
  shows "\<exists>s'. device_List E parent token sz s =
      (Inr (map (computer_view parent) (page_slice c n cs),
            Marshal (if Suc n * c < length cs then walk_bag ''computer'' c (Suc n) else walk_bag ''mobile'' c 0)), s')
    \<and> walking E live (host, base, tok) (page_size_of sz) cs ms c s'
    \<and> deviceOwners s' = fold computer_owner (page_slice c n cs) (deviceOwners s)"
proof -
  have r: "0 < c" "length cs < 2 ^ 62" "serves_inventory E live (host, base, tok) (page_size_of sz) cs ms c"
    using assms(2) by (auto simp: ready_def)
  obtain s' where p: "computer_page E parent (int n) (page_size_of sz) s =
      (Inr (map (computer_view parent) (page_slice c n cs), int (length cs), int (length (page_slice c n cs))), s')"
    "walking E live (host, base, tok) (page_size_of sz) cs ms c s'"
    "deviceOwners s' = fold computer_owner (page_slice c n cs) (deviceOwners s)"
    using computer_page_run[OF assms(1) r(3)] by blast
  note tok = parse_walk_token[OF r(1) assms(3) r(2)] and more = more_pages_iff[OF r(1) assms(3) r(2)]
  show ?thesis
  proof (cases "Suc n * c < length cs")
    case True
    with p assms(4,5) tok more next_token_wrap[OF r(1) True r(2)] Next_walk_bag[of n c "''computer''"]
    show ?thesis
      by (simp add: device_List_def Let_def phase_defs page_slice_length page_size_of_def[symmetric]
          mapErr_def del: of_nat_mult of_nat_Suc mult_Suc)
  next
    case False
    with p assms(4,5) tok more show ?thesis
      by (simp add: device_List_def Let_def phase_defs page_slice_length page_size_of_def[symmetric]
          mapErr_def walk_bag_start(1)[of _ c] del: of_nat_mult of_nat_Suc mult_Suc)
  qed
qed

lemma list_mobiles:
  fixes s :: "('w, 'x) dev_scheme"
  assumes "walking E live (host, base, tok) (page_size_of sz) cs ms c s"
    and "ready E live (host, base, tok) sz cs ms c" "n * c \<le> length ms"
  shows "\<exists>s'. device_List E parent (Marshal (walk_bag ''mobile'' c n)) sz s =
      (Inr (map (mobile_view parent) (page_slice c n ms),
            Marshal (if Suc n * c < length ms then walk_bag ''mobile'' c (Suc n) else empty_Bag)), s')
    \<and> walking E live (host, base, tok) (page_size_of sz) cs ms c s'
    \<and> deviceOwners s' = fold mobile_owner (page_slice c n ms) (deviceOwners s)"
proof -
  have r: "0 < c" "length ms < 2 ^ 62" "serves_inventory E live (host, base, tok) (page_size_of sz) cs ms c"
    using assms(2) by (auto simp: ready_def)
  obtain s' where p: "mobile_page E parent (int n) (page_size_of sz) s =
      (Inr (map (mobile_view parent) (page_slice c n ms), int (length ms), int (length (page_slice c n ms))), s')"
    "walking E live (host, base, tok) (page_size_of sz) cs ms c s'"
    "deviceOwners s' = fold mobile_owner (page_slice c n ms) (deviceOwners s)"
    using mobile_page_run[OF assms(1) r(3)] by blast
  note tok = parse_walk_token[OF r(1) assms(3) r(2)] and more = more_pages_iff[OF r(1) assms(3) r(2)]
  show ?thesis
  proof (cases "Suc n * c < length ms")
    case True
    with p tok more next_token_wrap[OF r(1) True r(2)] Next_walk_bag[of n c "''mobile''"]
    show ?thesis
      by (simp add: device_List_def Let_def phase_defs page_slice_length page_size_of_def[symmetric]
          mapErr_def del: of_nat_mult of_nat_Suc mult_Suc)
  next
    case False
    with p tok more show ?thesis
      by (simp add: device_List_def Let_def phase_defs page_slice_length page_size_of_def[symmetric]
          mapErr_def del: of_nat_mult of_nat_Suc mult_Suc)
  qed
qed

subsection \<open>The whole walk\<close>

lemma page_slice_rest: "page_slice c n xs @ drop (Suc n * c) xs = drop (n * c) xs"
  by (simp add: page_slice_def add.commute flip: drop_drop)

lemma walk_mobiles:
  fixes s :: "('w, 'x) dev_scheme"
  assumes "walking E live (host, base, tok) (page_size_of sz) cs ms c s"
    and "ready E live (host, base, tok) sz cs ms c" "n * c \<le> length ms" "length ms - n * c < fuel"
  shows "\<exists>s'. device_walk E parent sz fuel (Marshal (walk_bag ''mobile'' c n)) s =
      (Inr (Some (map (mobile_view parent) (drop (n * c) ms))), s')
    \<and> walking E live (host, base, tok) (page_size_of sz) cs ms c s'
    \<and> deviceOwners s' = fold mobile_owner (drop (n * c) ms) (deviceOwners s)"
  using assms(1,3,4)
proof (induction fuel arbitrary: n s)
  case (Suc fuel)
  obtain t where t: "device_List E parent (Marshal (walk_bag ''mobile'' c n)) sz s =
      (Inr (map (mobile_view parent) (page_slice c n ms),
            Marshal (if Suc n * c < length ms then walk_bag ''mobile'' c (Suc n) else empty_Bag)), t)"
    "walking E live (host, base, tok) (page_size_of sz) cs ms c t"
    "deviceOwners t = fold mobile_owner (page_slice c n ms) (deviceOwners s)"
    using list_mobiles[OF Suc.prems(1) assms(2) Suc.prems(2)] by blast
  have rest: "page_slice c n ms @ drop (Suc n * c) ms = drop (n * c) ms" by (rule page_slice_rest)
  show ?case
  proof (cases "Suc n * c < length ms")
    case False
    with rest have "drop (n * c) ms = page_slice c n ms" by simp
    with False t show ?thesis by (simp del: mult_Suc)
  next
    case True
    have "0 < c" using assms(2) by (simp add: ready_def)
    with True Suc.prems(3) have "length ms - Suc n * c < fuel" by simp
    from Suc.IH[OF t(2) less_imp_le[OF True] this] obtain s' where
      w: "device_walk E parent sz fuel (Marshal (walk_bag ''mobile'' c (Suc n))) t =
        (Inr (Some (map (mobile_view parent) (drop (Suc n * c) ms))), s')"
        "walking E live (host, base, tok) (page_size_of sz) cs ms c s'"
        "deviceOwners s' = fold mobile_owner (drop (Suc n * c) ms) (deviceOwners t)" by blast
    with True t show ?thesis by (simp add: rest[symmetric] bindE_def del: mult_Suc)
  qed
qed simp

lemma walk_computers:
  fixes s :: "('w, 'x) dev_scheme"
  assumes "walking E live (host, base, tok) (page_size_of sz) cs ms c s"
    and "ready E live (host, base, tok) sz cs ms c" "n * c \<le> length cs"
    and "length cs - n * c + length ms + 1 < fuel"
    and "Unmarshal token = Inr b" "start_bag b = walk_bag ''computer'' c n"
  shows "\<exists>s'. device_walk E parent sz fuel token s =
      (Inr (Some (map (computer_view parent) (drop (n * c) cs) @ map (mobile_view parent) ms)), s')
    \<and> walking E live (host, base, tok) (page_size_of sz) cs ms c s'
    \<and> deviceOwners s' = fold mobile_owner ms (fold computer_owner (drop (n * c) cs) (deviceOwners s))"
  using assms(1,3,4,5,6)
proof (induction fuel arbitrary: n s token b)
  case (Suc fuel)
  obtain t where t: "device_List E parent token sz s =
      (Inr (map (computer_view parent) (page_slice c n cs),
            Marshal (if Suc n * c < length cs then walk_bag ''computer'' c (Suc n) else walk_bag ''mobile'' c 0)), t)"
    "walking E live (host, base, tok) (page_size_of sz) cs ms c t"
    "deviceOwners t = fold computer_owner (page_slice c n cs) (deviceOwners s)"
    using list_computers[OF Suc.prems(1) assms(2) Suc.prems(2,4,5)] by blast
  have rest: "page_slice c n cs @ drop (Suc n * c) cs = drop (n * c) cs" by (rule page_slice_rest)
  show ?case
  proof (cases "Suc n * c < length cs")
    case False
    with rest have d: "drop (n * c) cs = page_slice c n cs" by simp
    have "length ms - 0 * c < fuel" using Suc.prems(3) by simp
    from walk_mobiles[OF t(2) assms(2) _ this, of parent] obtain s' where
      w: "device_walk E parent sz fuel (Marshal (walk_bag ''mobile'' c 0)) t =
        (Inr (Some (map (mobile_view parent) ms)), s')"
        "walking E live (host, base, tok) (page_size_of sz) cs ms c s'"
        "deviceOwners s' = fold mobile_owner ms (deviceOwners t)" by auto
    with False t d show ?thesis by (simp add: bindE_def del: mult_Suc)
  next
    case True
    have "0 < c" using assms(2) by (simp add: ready_def)
    with True Suc.prems(3) have "length cs - Suc n * c + length ms + 1 < fuel" by simp
    from Suc.IH[OF t(2) less_imp_le[OF True] this walk_bag_load walk_bag_simps(1)] obtain s' where
      w: "device_walk E parent sz fuel (Marshal (walk_bag ''computer'' c (Suc n))) t =
        (Inr (Some (map (computer_view parent) (drop (Suc n * c) cs) @ map (mobile_view parent) ms)), s')"
        "walking E live (host, base, tok) (page_size_of sz) cs ms c s'"
        "deviceOwners s' = fold mobile_owner ms (fold computer_owner (drop (Suc n * c) cs) (deviceOwners t))" by blast
    with True t show ?thesis by (simp add: rest[symmetric] bindE_def del: mult_Suc)
  qed
qed simp

subsection \<open>A concrete inventory server\<close>

text \<open>A server that holds the ids of its devices and answers with pages of at most \<open>c\<close> records.\<close>

definition id_page :: "nat \<Rightarrow> nat \<Rightarrow> string list \<Rightarrow> json" where
  "id_page c n ids = JObj [(''totalCount'', JNum (int (length ids))),
     (''results'', enc_array (\<lambda>i. JObj [(''id'', JStr i)]) (page_slice c n ids))]"

definition asked_page :: "http_request \<Rightarrow> nat option" where
  "asked_page rq = (case map_of (uQuery (rqURL rq)) ''page'' of None \<Rightarrow> None | Some p \<Rightarrow> map_option nat (atoi p))"

definition id_answer :: "string list \<Rightarrow> string list \<Rightarrow> nat \<Rightarrow> http_request \<Rightarrow> json" where
  "id_answer cids mids c rq =
     (let ids = (if uPath (rqURL rq) = ''/api/v1/computers-inventory'' then cids else mids) in
      case asked_page rq of Some n \<Rightarrow> id_page c n ids | None \<Rightarrow> id_page c (length ids) ids)"

definition id_env :: "string list \<Rightarrow> string list \<Rightarrow> nat \<Rightarrow> unit env" where
  "id_env cids mids c =
     \<lparr>exchange = (\<lambda>rq w. (Inr \<lparr>rsStatus = 200, rsContentType = ''application/json'',
                               rsBody = JsonBody (id_answer cids mids c rq)\<rparr>, w)),
      now = (\<lambda>w. 0), pause = (\<lambda>d w. w), parseBase = (\<lambda>u. Some (u, [])),
      randInt = (\<lambda>b w. (Inr 0, w)), cacheTTL = Some 3600\<rparr>"

definition bare_computer :: "string \<Rightarrow> ComputerInventory" where
  "bare_computer i = zero_ComputerInventory\<lparr>ciID := i\<rparr>"

definition bare_mobile :: "string \<Rightarrow> MobileDevice" where
  "bare_mobile i = zero_MobileDevice\<lparr>mbID := i\<rparr>"

lemma page_slice_map: "map f (page_slice c n xs) = page_slice c n (map f xs)"
  by (simp add: page_slice_def take_map drop_map)

lemma dec_bare:
  "dec_ComputerInventory (JObj [(''id'', JStr i)]) zero_ComputerInventory = Inr (bare_computer i)"
  "dec_MobileDevice (JObj [(''id'', JStr i)]) zero_MobileDevice = Inr (bare_mobile i)"
  by (simp_all add: dec_ComputerInventory_def dec_MobileDevice_def dec_struct_obj find_field_def fld_def
      dec_string_JStr bare_computer_def bare_mobile_def)

lemma map_err_map: "map_err f (map g xs) = map_err (\<lambda>x. f (g x)) xs"
  by (induction xs) (auto split: sum.splits)

lemma dec_id_slices:
  "dec_slice zero_ComputerInventory dec_ComputerInventory (enc_array (\<lambda>i. JObj [(''id'', JStr i)]) ids) x
     = Inr (map bare_computer ids)"
  "dec_slice zero_MobileDevice dec_MobileDevice (enc_array (\<lambda>i. JObj [(''id'', JStr i)]) ids) y
     = Inr (map bare_mobile ids)"
  by (simp_all add: dec_slice_def enc_array_def map_err_map dec_bare map_err_total[where g = bare_computer]
      map_err_total[where g = bare_mobile])

lemma id_page_decodes:
  assumes "length ids < 2 ^ 62"
  shows "computers_target (JsonBody (id_page c n ids))
      = Inr \<lparr>crTotalCount = int (length ids), crResults = page_slice c n (map bare_computer ids)\<rparr>"
    "mobiles_target (JsonBody (id_page c n ids))
      = Inr \<lparr>mrTotalCount = int (length ids), mrResults = page_slice c n (map bare_mobile ids)\<rparr>"
proof -
  have "int64 (int (length ids))" using assms by (simp add: int64_def)
  then show "computers_target (JsonBody (id_page c n ids))
      = Inr \<lparr>crTotalCount = int (length ids), crResults = page_slice c n (map bare_computer ids)\<rparr>"
    "mobiles_target (JsonBody (id_page c n ids))
      = Inr \<lparr>mrTotalCount = int (length ids), mrResults = page_slice c n (map bare_mobile ids)\<rparr>"
    by (simp_all add: computers_target_def mobiles_target_def unmarshal_def id_page_def
        dec_ComputersInventoryResponse_def dec_MobileDevicesResponse_def dec_struct_obj find_field_def fld_def
        dec_int_JNum dec_id_slices page_slice_map)
qed

lemma far_page: "0 < c \<Longrightarrow> length xs \<le> n \<Longrightarrow> page_slice c n xs = []"
proof -
  assume a: "0 < c" "length xs \<le> n"
  have "n \<le> n * c" using a(1) by (cases c) auto
  with a(2) have "length xs \<le> n * c" by (rule le_trans)
  then show ?thesis by (simp add: page_slice_def)
qed

lemma atoi_far:
  assumes "\<not> int64 (int n)"
  shows "atoi (itoa (int n)) = None"
proof (cases "atoi (itoa (int n))")
  case (Some i)
  obtain k where k: "itoa (int n) = nat_digits n" by (simp add: itoa_def)
  from Some have "i = int n"
    using digit_not_sign nat_digits_cons[of n]
    by (auto simp: atoi_def k Let_def split: list.splits if_splits)
       (metis digits_val_nat_digits)+
  with Some atoi_int64 assms show ?thesis by blast
qed

text \<open>A page too far to be a 64-bit number is empty, like the page the server falls back to.\<close>

lemma id_answer_page:
  assumes "0 < c" "length cids < 2 ^ 62" "length mids < 2 ^ 62"
  shows "\<exists>n'. id_answer cids mids c (page_request host [] tok sz (CPage n)) = id_page c n' cids
      \<and> page_slice c n' (map bare_computer cids) = page_slice c n (map bare_computer cids)" (is ?A)
    and "\<exists>n'. id_answer cids mids c (page_request host [] tok sz (MPage n)) = id_page c n' mids
      \<and> page_slice c n' (map bare_mobile mids) = page_slice c n (map bare_mobile mids)" (is ?B)
proof -
  have asked: "asked_page (page_request host [] tok sz (CPage n)) = map_option nat (atoi (itoa (int n)))"
    "asked_page (page_request host [] tok sz (MPage n)) = map_option nat (atoi (itoa (int n)))"
    by (simp_all add: asked_page_def page_request_def apiRequest_def page_url_def page_query_def)
  have path: "uPath (rqURL (page_request host [] tok sz (CPage n))) = ''/api/v1/computers-inventory''"
    "uPath (rqURL (page_request host [] tok sz (MPage n))) = ''/api/v2/mobile-devices''"
    by (simp_all add: page_request_def apiRequest_def page_url_def join_path_plain computersInventoryUrlPath_def
        mobileDevicesUrlPath_def render_path_def)
  have "?A \<and> ?B"
  proof (cases "int64 (int n)")
    case True
    then show ?thesis by (auto simp: id_answer_def asked path)
  next
    case False
    then have big: "length cids \<le> n" "length mids \<le> n" using assms(2,3) by (auto simp: int64_def)
    have none: "atoi (itoa (int n)) = None" by (rule atoi_far[OF False])
    have "page_slice c n (map bare_computer cids) = []" "page_slice c n (map bare_mobile mids) = []"
      "page_slice c (length cids) (map bare_computer cids) = []"
      "page_slice c (length mids) (map bare_mobile mids) = []"
      using assms(1) big by (auto intro!: far_page)
    with none show ?thesis by (auto simp: id_answer_def asked path)
  qed
  then show ?A ?B by blast+
qed

lemma id_env_serves:
  assumes "0 < c" "length cids < 2 ^ 62" "length mids < 2 ^ 62"
  shows "serves_inventory (id_env cids mids c) (\<lambda>_. True) (host, [], tok) sz
    (map bare_computer cids) (map bare_mobile mids) c"
  unfolding serves_inventory_def prod.case
proof (intro allI impI)
  fix w i
  show "\<exists>rs w'. exchange (id_env cids mids c) (page_request host [] tok sz i) w = (Inr rs, w') \<and> True
      \<and> good_answer (map bare_computer cids) (map bare_mobile mids) c i rs"
  proof (cases i)
    case (CPage n)
    obtain n' where n': "id_answer cids mids c (page_request host [] tok sz (CPage n)) = id_page c n' cids"
      "page_slice c n' (map bare_computer cids) = page_slice c n (map bare_computer cids)"
      using id_answer_page(1)[OF assms] by blast
    show ?thesis unfolding CPage
      by (simp add: id_env_def good_answer_def page_ok_def n' id_page_decodes(1)[OF assms(2)])
  next
    case (MPage n)
    obtain n' where n': "id_answer cids mids c (page_request host [] tok sz (MPage n)) = id_page c n' mids"
      "page_slice c n' (map bare_mobile mids) = page_slice c n (map bare_mobile mids)"
      using id_answer_page(2)[OF assms] by blast
    show ?thesis unfolding MPage
      by (simp add: id_env_def good_answer_def page_ok_def n' id_page_decodes(2)[OF assms(3)])
  qed
qed

definition id_state :: "unit dev" where
  "id_state = \<lparr>netCache = Map.empty, netWorld = (), clToken = ''t'', clInstanceURL = ''h'',
     clLastKeepAlive = 0, clUserName = ''u'', clPassword = ''p'', userIndex = None, deviceOwners = Map.empty\<rparr>"

text \<open>
  C2.  Against a server that answers page requests with pages of at most \<open>c\<close> records (whatever page
  size was asked for) and the true total, the walk over the device pages ends within as many calls
  as there are devices plus two, and lists every computer, then every mobile device, each exactly
  once and in the server's order; the owners recorded are those of the listed devices, later ones
  overriding.
\<close>

theorem device_walk_complete:
  fixes s :: "('w, 'x) dev_scheme"
  assumes "walking E live (host, base, tok) (page_size_of sz) cs ms c s"
    and "ready E live (host, base, tok) sz cs ms c"
  shows "\<exists>s'. device_walk E parent sz (length cs + length ms + 2) EmptyToken s =
      (Inr (Some (map (computer_view parent) cs @ map (mobile_view parent) ms)), s')
    \<and> deviceOwners s' = fold mobile_owner ms (fold computer_owner cs (deviceOwners s))"
  using walk_computers[OF assms, of 0 "length cs + length ms + 2" EmptyToken empty_Bag parent]
  by (auto simp: walk_bag_start(2)[of c])

theorem device_walk_complete_witness:
  "\<exists>s'. device_walk (id_env [''1'', ''2'', ''3''] [''7''] 2) None 5 6 EmptyToken id_state =
      (Inr (Some (map (computer_view None) (map bare_computer [''1'', ''2'', ''3''])
                  @ map (mobile_view None) (map bare_mobile [''7'']))), s')
    \<and> deviceOwners s' = Map.empty"
proof -
  have serves: "serves_inventory (id_env [''1'', ''2'', ''3''] [''7''] 2) (\<lambda>_. True) (''h'', [], ''t'') 5
      (map bare_computer [''1'', ''2'', ''3'']) (map bare_mobile [''7'']) 2"
    by (rule id_env_serves) simp_all
  have w: "walking (id_env [''1'', ''2'', ''3''] [''7''] 2) (\<lambda>_. True) (''h'', [], ''t'') (page_size_of 5)
      (map bare_computer [''1'', ''2'', ''3'']) (map bare_mobile [''7'']) 2 id_state"
    by (simp add: walking_def id_state_def id_env_def five_minutes_def)
  have r: "ready (id_env [''1'', ''2'', ''3''] [''7''] 2) (\<lambda>_. True) (''h'', [], ''t'') 5
      (map bare_computer [''1'', ''2'', ''3'']) (map bare_mobile [''7'']) 2"
    using serves by (simp add: ready_def page_size_of_def)
  have owners: "fold mobile_owner (map bare_mobile [''7'']) (fold computer_owner
      (map bare_computer [''1'', ''2'', ''3'']) (deviceOwners id_state)) = Map.empty"
    by (simp add: computer_owner_def mobile_owner_def bare_computer_def bare_mobile_def owner_entry_def
        zero_ComputerInventory_def zero_MobileDevice_def id_state_def)
  have len: "length (map bare_computer [''1'', ''2'', ''3'']) + length (map bare_mobile [''7'']) + 2 = 6"
    by simp
  from device_walk_complete[OF w r, of None, unfolded owners len] show ?thesis .
qed

end
