(* ===== verification/SyncProps.thy ===== *)
theory SyncProps
  imports DeviceWalk MockProps
begin

section \<open>Properties of the sync operations\<close>

text \<open>
  Paging tokens, device resources and their owners, group reads, privileges, the wire forms, passwords
  and error codes: the properties of the components taken alone, for any server.
\<close>

subsection \<open>Paging\<close>

text \<open>
  C23.  A page token survives the round trip through the sync engine: a well-formed bag is read back as
  it was saved, the saved token is empty exactly when no page is left, and the device position inside
  the token is read back exactly.
\<close>

theorem page_token_roundtrip:
  assumes "bag_ok b" "int64 page" "int64 seen"
  shows "Unmarshal (Marshal b) = Inr b \<and> (Marshal b = EmptyToken \<longleftrightarrow> bag_stack b = [])
    \<and> parseDevicePageToken (newDevicePageToken page seen) = (page, seen)"
  using assms by (simp add: Unmarshal_Marshal Marshal_empty_iff)

theorem page_token_roundtrip_witness:
  "Unmarshal (Marshal (Push (page_state devicePhaseComputer (newDevicePageToken 7 700)) empty_Bag))
     = Inr (Push (page_state devicePhaseComputer (newDevicePageToken 7 700)) empty_Bag)
   \<and> parseDevicePageToken (newDevicePageToken 7 700) = (7, 700)"
  using page_token_roundtrip[of "Push (page_state devicePhaseComputer (newDevicePageToken 7 700)) empty_Bag" 7 700]
  by (simp add: bag.push_ok int64_def)

text \<open>
  The bag is a stack: what is pushed is what is read and popped, popping gives the bag's older pages
  back, replacing the top keeps everything below it, and as many pops as there are pages empty it.
\<close>

theorem bag_is_stack:
  assumes "bag_ok b"
  shows "Current (Push s b) = Some s \<and> fst (Pop (Push s b)) = Some s \<and> bag_stack (snd (Pop (Push s b))) = bag_stack b
    \<and> bag_stack (Push s (snd (Pop b))) = s # tl (bag_stack b)
    \<and> Current (((\<lambda>b. snd (Pop b)) ^^ length (bag_stack b)) b) = None"
  using bag.current_push[OF assms] bag.pop_push[OF assms] bag.replace_top[OF assms]
    bag.empty_after_pops[OF assms order_refl] by simp

theorem bag_is_stack_witness:
  "Current (Push (page_state ''mobile'' ''0:0'') empty_Bag) = Some (page_state ''mobile'' ''0:0'')
   \<and> bag_stack (snd (Pop (Push (page_state ''mobile'' ''0:0'') empty_Bag))) = []"
  using bag_is_stack[of empty_Bag "page_state ''mobile'' ''0:0''"] by simp

subsection \<open>Device resources\<close>

text \<open>What the record of a computer says, by words: the hardware it is, the state of its disk, its system.\<close>

definition hardware_words :: "ComputerInventory \<Rightarrow> string" where
  "hardware_words c = (case ciHardware c of None \<Rightarrow> []
     | Some hw \<Rightarrow> to_lower (if hwModelIdentifier hw = [] then hwModel hw else hwModelIdentifier hw))"

definition disk_word :: "ComputerInventory \<Rightarrow> string" where
  "disk_word c = (case Option.bind (ciDiskEncryption c) deBoot of None \<Rightarrow> []
     | Some b \<Rightarrow> to_upper (trim_space (bpPartitionFileVault2State b)))"

definition system_texts :: "ComputerInventory \<Rightarrow> string \<times> string \<times> string" where
  "system_texts c = (case ciOperatingSystem c of None \<Rightarrow> ([], [], []) | Some os \<Rightarrow> (cosName os, cosVersion os, cosBuild os))"

text \<open>The kind of a system is that of the first of these words its name has.\<close>

definition system_kind :: "string \<Rightarrow> OsType" where
  "system_kind n = hd (map snd (filter (\<lambda>wk. sublist (fst wk) (to_lower n))
     [(''ipados'', OS_TYPE_IPADOS), (''ios'', OS_TYPE_IOS), (''mac'', OS_TYPE_MACOS)]) @ [OS_TYPE_UNSPECIFIED])"

lemma system_kind_word: "(case osTypeFromName n of None \<Rightarrow> OS_TYPE_UNSPECIFIED | Some t \<Rightarrow> t) = system_kind n"
  by (simp add: osTypeFromName_def system_kind_def contains_sublist Let_def)

lemma computer_words:
  "mdDeviceType (computer_trait c) = DEVICE_TYPE_LAPTOP \<longleftrightarrow> sublist ''book'' (hardware_words c)"
  "mdDeviceType (computer_trait c) = DEVICE_TYPE_DESKTOP \<longleftrightarrow> hardware_words c \<noteq> [] \<and> \<not> sublist ''book'' (hardware_words c)"
  "mdDeviceType (computer_trait c) = DEVICE_TYPE_UNSPECIFIED \<longleftrightarrow> hardware_words c = []"
  "mdEncrypted (computer_trait c) = Some True \<longleftrightarrow> disk_word c \<in> {''ENCRYPTED'', ''VALID''}"
  "mdEncrypted (computer_trait c) = Some False \<longleftrightarrow> disk_word c \<in> {''NOT_ENCRYPTED'', ''DECRYPTED''}"
  "mdOs (computer_trait c) = (case system_texts c of (n, v, b) \<Rightarrow>
     if n @ v @ b = [] then None else Some \<lparr>osType = system_kind n, osName = n, osVersion = v, osBuild = b\<rparr>)"
  "mdManagementState (computer_trait c) = MANAGEMENT_STATE_MANAGED \<longleftrightarrow>
     (\<exists>g m r. ciGeneral c = Some g \<and> cgMDMCapable g = Some m \<and> mdmCapable m \<and> cgRemoteManagement g = Some r \<and> rmManaged r)"
  "mdEnrolledAt (computer_trait c) = Option.bind (ciGeneral c) (\<lambda>g. parseJamfTime (cgLastEnrolledDate g))"
  by (simp_all add: computer_trait_def computerDeviceType_def hardware_words_def contains_sublist Let_def isEncrypted_def
      disk_word_def computerOS_def system_texts_def system_kind_word managementStateManaged_def to_lower_Nil[THEN iffD2, OF refl]
      split: option.splits)

text \<open>
  C27.  The resource of a computer is always built.  Its id carries the phase, its name is the computer's or
  else its id.  Its trait has the serial number, UDID and vendor as they are and the model or else the model
  identifier; it is a laptop exactly when the word "book" is in its model identifier (or, without one, its
  model), a desktop exactly when there is such a text without the word; it is encrypted exactly when the
  state of its boot partition is ENCRYPTED or VALID, unencrypted exactly when it is NOT_ENCRYPTED or
  DECRYPTED; it is managed exactly when it is MDM capable and remotely managed; its system is told by the
  first of the words ipados, ios, mac in its name; its supervision flag is there whenever the general section
  is, and so is the enrolment time when it parses.
\<close>

theorem computer_resource_fields:
  "\<exists>t. computerResource c p = Inr
     \<lparr>resId = \<lparr>ridType = ''managedDevice'', ridResource = ''computer:'' @ ciID c\<rparr>,
      resDisplayName = (case ciGeneral c of None \<Rightarrow> ciID c | Some g \<Rightarrow> if cgName g \<noteq> [] then cgName g else ciID c),
      resParent = p, resProfile = None, resStatus = None, resTraits = [TDevice t]\<rparr>
    \<and> mdSerial t = (case ciHardware c of None \<Rightarrow> [] | Some hw \<Rightarrow> hwSerialNumber hw) \<and> mdUdid t = ciUDID c
    \<and> mdVendor t = (case ciHardware c of None \<Rightarrow> [] | Some hw \<Rightarrow> hwMake hw)
    \<and> mdModel t = (case ciHardware c of None \<Rightarrow> [] | Some hw \<Rightarrow> if hwModel hw \<noteq> [] then hwModel hw else hwModelIdentifier hw)
    \<and> (mdDeviceType t = DEVICE_TYPE_LAPTOP \<longleftrightarrow> sublist ''book'' (hardware_words c))
    \<and> (mdDeviceType t = DEVICE_TYPE_DESKTOP \<longleftrightarrow> hardware_words c \<noteq> [] \<and> \<not> sublist ''book'' (hardware_words c))
    \<and> (mdDeviceType t = DEVICE_TYPE_UNSPECIFIED \<longleftrightarrow> hardware_words c = [])
    \<and> (mdEncrypted t = Some True \<longleftrightarrow> disk_word c \<in> {''ENCRYPTED'', ''VALID''})
    \<and> (mdEncrypted t = Some False \<longleftrightarrow> disk_word c \<in> {''NOT_ENCRYPTED'', ''DECRYPTED''})
    \<and> mdOs t = (case system_texts c of (n, v, b) \<Rightarrow>
        if n @ v @ b = [] then None else Some \<lparr>osType = system_kind n, osName = n, osVersion = v, osBuild = b\<rparr>)
    \<and> (mdManagementState t = MANAGEMENT_STATE_MANAGED \<longleftrightarrow>
        (\<exists>g m r. ciGeneral c = Some g \<and> cgMDMCapable g = Some m \<and> mdmCapable m \<and> cgRemoteManagement g = Some r \<and> rmManaged r))
    \<and> mdSupervised t = map_option cgSupervised (ciGeneral c)
    \<and> mdEnrolledAt t = Option.bind (ciGeneral c) (\<lambda>g. parseJamfTime (cgLastEnrolledDate g))"
proof (intro exI conjI)
  show "computerResource c p = Inr
     \<lparr>resId = \<lparr>ridType = ''managedDevice'', ridResource = ''computer:'' @ ciID c\<rparr>,
      resDisplayName = (case ciGeneral c of None \<Rightarrow> ciID c | Some g \<Rightarrow> if cgName g \<noteq> [] then cgName g else ciID c),
      resParent = p, resProfile = None, resStatus = None, resTraits = [TDevice (computer_trait c)]\<rparr>"
    by (simp add: computerResource_eq computer_view_def device_view_def computer_options_trait computer_name_def deviceObjectID_def)
qed (rule computer_words | simp add: computer_trait_def computerModel_def split: option.split)+

text \<open>
  C28.  The enrolment times Jamf writes (UTC with milliseconds) are read back as the instant they denote:
  the days since 1970 by the calendar, the time of day, and the milliseconds.
\<close>

theorem enrolment_time_roundtrip:
  assumes "valid_date y mo d" "h < 24" "mi < 60" "sec < 60" "ms < 1000"
  shows "parseJamfTime (format_millis y mo d h mi sec ms) =
    Some ((days_before_year (int y) + days_before_month (int mo) (int y) + int d - 1) * 86400
            + int h * 3600 + int mi * 60 + int sec, int ms * 10 ^ 6)"
proof -
  have y: "y < 10000" and d: "1 \<le> d" "int d \<le> daysIn (int mo) (int y)" using assms(1) by (auto simp: valid_date_def)
  have ne: "format_millis y mo d h mi sec ms \<noteq> []" by (simp add: format_millis_def)
  have "timeParse RFC3339Nano (format_millis y mo d h mi sec ms) =
    Some ((days_before_year (int y) + days_before_month (int mo) (int y) + int d - 1) * 86400
            + int h * 3600 + int mi * 60 + int sec, int ms * 10 ^ 6)"
    unfolding timeParse_def parse_elems_format[OF assms] using d by (simp add: unix_of_def)
  then show ?thesis using ne by (simp add: parseJamfTime_def Let_def trim_format[OF assms(5) y])
qed

theorem enrolment_time_roundtrip_witness:
  "parseJamfTime (format_millis 2024 2 29 23 59 59 999) = Some (1709251199, 999000000)"
proof -
  have "valid_date 2024 2 29" by (simp add: valid_date_def daysIn_def leap_year_def)
  moreover have "days_before_year 2024 = 19723" by (simp add: days_before_year_def)
  moreover have "days_before_month 2 2024 = 31" by code_simp
  ultimately show ?thesis using enrolment_time_roundtrip[of 2024 2 29 23 59 59 999] by simp
qed

subsection \<open>Device owners\<close>

text \<open>
  C16.  A device with an owner gets exactly one grant: to the first user of the list one of whose names
  is the owner's user name, or else the owner's email (both trimmed and without regard to case); when
  there is none, to a placeholder that asks the platform to match the trimmed email, or without an
  email the trimmed user name.
\<close>

theorem device_owner_granted:
  assumes "username \<noteq> [] \<or> email \<noteq> []"
  shows "deviceGrants r username email (build_index users) = Inr
    [case owner_of users username email of
       Some rid \<Rightarrow> NewGrant r ''assigned'' rid
     | None \<Rightarrow>
         let v = (if trim_space email = [] then trim_space username else trim_space email) in
         (NewGrant r ''assigned'' \<lparr>ridType = ''user'', ridResource = v\<rparr>)
           \<lparr>grMatch := Some \<lparr>emResourceType = TRAIT_USER,
              emKey = (if trim_space email = [] then ''username'' else ''email''), emValue = v\<rparr>\<rparr>]"
  using assms
  by (auto simp: deviceGrants_def resolveUser_build assignedEntitlement_def matchKeyEmail_def matchKeyUsername_def
      NewResourceID_def resourceTypeUser_def Let_def split: option.split)

definition ann :: User where "ann = zero_User\<lparr>ID := 4, Name := ''ann'', userEmail := ''Ann@x.y''\<rparr>"

definition laptop :: Resource where
  "laptop = \<lparr>resId = \<lparr>ridType = ''managedDevice'', ridResource = ''computer:7''\<rparr>, resDisplayName = ''lap'',
     resParent = None, resProfile = None, resStatus = None, resTraits = []\<rparr>"

theorem device_owner_granted_witness:
  "deviceGrants laptop [] '' ann@X.y'' (build_index [zero_User, ann]) = Inr [NewGrant laptop ''assigned'' \<lparr>ridType = ''user'', ridResource = ''4''\<rparr>]
   \<and> deviceGrants laptop ''bob'' [] (build_index [ann]) = Inr [(NewGrant laptop ''assigned'' \<lparr>ridType = ''user'', ridResource = ''bob''\<rparr>)
        \<lparr>grMatch := Some \<lparr>emResourceType = TRAIT_USER, emKey = ''username'', emValue = ''bob''\<rparr>\<rparr>]"
proof -
  have keys: "index_key ''ann'' = ''ann''" "index_key ''Ann@x.y'' = ''ann@x.y''" "index_key '' ann@X.y'' = ''ann@x.y''"
    "index_key ''bob'' = ''bob''" "index_key [] = []" "trim_space ''bob'' = ''bob''" "trim_space [] = []" "itoa 4 = ''4''"
    by code_simp+
  have "owner_of [zero_User, ann] [] '' ann@X.y'' = Some \<lparr>ridType = ''user'', ridResource = ''4''\<rparr>"
    "owner_of [ann] ''bob'' [] = None"
    by (simp_all add: owner_of_def first_with_key_def has_key_def user_keys_def ann_def zero_User_def keys
        user_rid_def resourceTypeUser_def)
  then show ?thesis
    using device_owner_granted[of "[]" "'' ann@X.y''" laptop "[zero_User, ann]"] device_owner_granted[of "''bob''" "[]" laptop "[ann]"]
    by (simp add: keys Let_def)
qed

text \<open>
  C29.  The user index is built once: after the first success every later call returns the same index
  without a request, whatever the server holds by then; a failed attempt leaves it unbuilt, so the next
  call tries again.
\<close>

theorem user_index_once:
  assumes "getUserIndex E s = (r, t)"
  shows "case r of
      Inr idx \<Rightarrow> userIndex t = Some idx \<and> (\<forall>w. getUserIndex E (t\<lparr>netWorld := w\<rparr>) = (Inr idx, t\<lparr>netWorld := w\<rparr>))
    | Inl e \<Rightarrow> userIndex s = None \<and> userIndex t = None"
proof (cases r)
  case (Inr idx)
  have "userIndex t = Some idx"
  proof (cases "userIndex s")
    case None
    then show ?thesis using assms Inr by (auto simp: getUserIndex_def bindE_def split: prod.splits sum.splits)
  qed (use assms Inr in \<open>auto simp: getUserIndex_cached\<close>)
  then show ?thesis using Inr by (simp add: getUserIndex_cached)
next
  case (Inl e)
  then have "userIndex s = None" using assms by (cases "userIndex s") (auto simp: getUserIndex_cached)
  with Inl assms show ?thesis using getUserIndex_error by auto
qed

theorem user_index_once_witness:
  "getUserIndex (id_env [] [] 1) (id_state\<lparr>userIndex := Some Map.empty\<rparr>) = (Inr Map.empty, id_state\<lparr>userIndex := Some Map.empty\<rparr>)"
proof -
  obtain r t where run: "getUserIndex (id_env [] [] 1) (id_state\<lparr>userIndex := Some Map.empty\<rparr>) = (r, t)" by fastforce
  from user_index_once[OF run] show ?thesis using run
    by (cases r) (auto simp: getUserIndex_def)
qed

subsection \<open>Group members\<close>

text \<open>The same environment, with the length of every pause written to a log.\<close>

definition timed :: "'w env \<Rightarrow> ('w \<times> int list) env" where
  "timed E =
     \<lparr>exchange = (\<lambda>rq (w, l). case exchange E rq w of (r, w') \<Rightarrow> (r, (w', l))),
      now = (\<lambda>(w, l). now E w),
      pause = (\<lambda>d (w, l). (pause E d w, l @ [d])),
      parseBase = parseBase E,
      randInt = (\<lambda>n (w, l). case randInt E n w of (r, w') \<Rightarrow> (r, (w', l))),
      cacheTTL = cacheTTL E\<rparr>"

definition waits :: "('w \<times> int list, 'x) net_scheme \<Rightarrow> int list" where
  "waits s = snd (netWorld s)"

lemma waits_kept: "exchange (timed E) rq (netWorld s) = (r, w) \<Longrightarrow> waits (s\<lparr>netWorld := w\<rparr>) = waits s"
  by (auto simp: timed_def waits_def split: prod.splits)

text \<open>No operation of the client waits.\<close>

interpretation waiting: conn_inv "timed E" "\<lambda>s. waits s = l" for E l
  by unfold_locales (simp_all add: waits_kept, simp_all add: waits_def cacheSet_def split: option.splits)

lemma sleep_waits: "sleep (timed E) d s = (Inr (), t) \<Longrightarrow> waits t = waits s @ [d]"
  by (auto simp: timed_def waits_def split: prod.splits)

lemma readMembers_waits:
  "readMembers (timed E) i n g s = (q, t) \<Longrightarrow> 0 < n \<or> (\<exists>h. g = Some h \<and> grpMembers h = []) \<Longrightarrow>
   \<exists>k\<le>n. waits t = waits s @ replicate k second \<and> (k = n \<longleftrightarrow> (\<exists>h. q = Inr (Some h) \<and> grpMembers h = [])) \<and> q \<noteq> Inr None"
proof (induction n arbitrary: g s)
  case (Suc n)
  obtain r u where d: "GetGroupDetails (timed E) i s = (r, u)" by fastforce
  have u: "waits u = waits s" by (rule keepsD[OF waiting.keeps_gets(5) refl d])
  show ?case
  proof (cases "\<exists>h. r = Inr h \<and> grpMembers h = []")
    case True
    then obtain h where h: "r = Inr h" "grpMembers h = []" by blast
    obtain v where v: "sleep (timed E) second u = (Inr (), v)" by simp
    with Suc.prems(1) d h have "readMembers (timed E) i n (Some h) v = (q, t)" by (simp add: bindE_def)
    from Suc.IH[OF this] h(2) sleep_waits[OF v] u obtain k where
      "k \<le> n" "waits t = waits s @ second # replicate k second" "k = n \<longleftrightarrow> (\<exists>h. q = Inr (Some h) \<and> grpMembers h = [])" "q \<noteq> Inr None"
      by auto
    then show ?thesis by (intro exI[of _ "Suc k"]) simp
  next
    case False
    with Suc.prems(1) d u have "waits t = waits s" "q \<noteq> Inr None" "\<not> (\<exists>h. q = Inr (Some h) \<and> grpMembers h = [])"
      by (cases r; auto simp: bindE_def)+
    then show ?thesis by (intro exI[of _ 0]) auto
  qed
qed auto

lemma mapE_empty: "mapE f xs s = (Inr ys, t) \<Longrightarrow> ys = [] \<longleftrightarrow> xs = []"
  by (cases xs) (auto dest!: bindE_InrD)

text \<open>
  C31.  The grants of a console group wait a whole second each time the group is read without members, five
  times at most and nowhere else, whatever the server answers; and they wait five times exactly when the
  answer is that nobody is granted: no error and no member comes after the fifth empty reading.
\<close>

theorem group_reads_bounded:
  assumes "group_Grants (timed E) r s = (answer, t)"
  shows "\<exists>k. waits t = waits s @ replicate k second \<and> k \<le> 5 \<and> (k = 5 \<longleftrightarrow> answer = Inr [])"
proof (cases "atoi (ridResource (resId r))")
  case None
  with assms show ?thesis by (auto simp: group_Grants_def intro!: exI[of _ 0])
next
  case (Some i)
  obtain q u where q: "readMembers (timed E) i 5 None s = (q, u)" by fastforce
  obtain k where k: "k \<le> 5" "waits u = waits s @ replicate k second"
    "k = 5 \<longleftrightarrow> (\<exists>h. q = Inr (Some h) \<and> grpMembers h = [])" "q \<noteq> Inr None"
    using readMembers_waits[OF q] by auto
  let ?grants = "\<lambda>g. mapE (\<lambda>user. bindE (GetUserAccountDetails (timed E) (ID user)) (\<lambda>a.
      bindE (liftE (userAccountResource a (Some (resId r)))) (\<lambda>ur. returnE (NewGrant r memberEntitlement (resId ur))))) (grpMembers g)"
  show ?thesis
  proof (cases q)
    case (Inl e)
    with assms Some q k show ?thesis by (auto simp: group_Grants_def bindE_def)
  next
    case (Inr g)
    then obtain h where h: "q = Inr (Some h)" using k(4) by (cases g) auto
    with assms Some q have run: "?grants h u = (answer, t)" by (simp add: group_Grants_def bindE_def)
    have "keeps (\<lambda>s. waits s = waits u) (?grants h)"
      by (intro keeps_rules waiting.keeps_gets)
    from keepsD[OF this refl run] have w: "waits t = waits u" .
    have "answer = Inr [] \<longleftrightarrow> grpMembers h = []"
      using run mapE_empty[of _ "grpMembers h" u "[]" t] by (cases "grpMembers h = []") auto
    with k h w show ?thesis by auto
  qed
qed

definition group_request :: "('w, 'x) conn_scheme \<Rightarrow> string \<Rightarrow> string list \<Rightarrow> int \<Rightarrow> http_request" where
  "group_request s host base i =
     apiRequest GET \<lparr>uHost = host, uPath = join_path base (groupUrlPath i), uQuery = []\<rparr> None (clToken s)"

definition cached_group :: "'w env \<Rightarrow> int \<Rightarrow> int \<Rightarrow> string \<Rightarrow> string list \<Rightarrow> int \<Rightarrow> http_response \<Rightarrow> ('w, 'x) conn_scheme \<Rightarrow> bool" where
  "cached_group E ttl left host base i rs s \<longleftrightarrow>
     cacheTTL E = Some ttl \<and> parseBase E (clInstanceURL s) = Some (host, base) \<and> clToken s \<noteq> []
     \<and> now E (netWorld s) + left * second - clLastKeepAlive s < five_minutes
     \<and> (\<exists>k. netCache s (CreateCacheKey (group_request s host base i)) = Some (rs, k) \<and> now E (netWorld s) < k + ttl)"

lemma GetGroupDetails_hit:
  assumes "cached_group E ttl left host base i rs s" "0 \<le> left" "rsStatus rs = 200"
    "unmarshal dec_GroupResponse zero_Group (rsBody rs) = Inr g"
  shows "GetGroupDetails E i s = (Inr g, cacheSet E (group_request s host base i) rs s)"
proof -
  let ?u = "\<lparr>uHost = host, uPath = join_path base (groupUrlPath i), uQuery = []\<rparr>"
  let ?rq = "group_request s host base i"
  have "cacheGet E ?rq s = Some rs" using assms(1) by (auto simp: cached_group_def cacheGet_def)
  then have "fetched E ?rq s = (Inr rs, s)" by (simp add: fetched_def)
  then have "Do E ?rq no_option s = (Inr (rs, ()), cacheSet E ?rq rs s)"
    using Do_get_run[of ?rq E s rs s no_option "()"] assms(3)
    by (simp add: no_option_def header_def) (simp add: group_request_def apiRequest_def acceptJSON_def)
  then have att: "attempt E GET ?u None s = (Inr rs, cacheSet E ?rq rs s)"
    by (simp add: attempt_def group_request_def)
  have "gotoRetry E GET ?u None (unmarshal dec_GroupResponse zero_Group) True s = (Inr g, cacheSet E ?rq rs s)"
    by (subst gotoRetry_first[OF att]) (simp_all add: read_target_def assms(4))
  moreover have "keepAliveToken E s = (Inr (), s)" "getUrl E (groupUrlPath i) s = (Inr ?u, s)"
    using assms(1,2) by (auto simp: cached_group_def keepAliveToken_def getUrl_def second_def)
  ultimately show ?thesis
    by (simp add: GetGroupDetails_def fetch_def doRequest_def doRequestWithMethod_def)
qed

lemma cached_group_next:
  assumes "cached_group E ttl left host base i rs s" "\<forall>w. now E (pause E second w) = now E w + second" "second < ttl"
  defines "s' \<equiv> cacheSet E (group_request s host base i) rs s"
  shows "cached_group E ttl (left - 1) host base i rs (s'\<lparr>netWorld := pause E second (netWorld s')\<rparr>)"
proof -
  have "CreateCacheKey (group_request t host base i) = CreateCacheKey (group_request s host base i)" for t :: "('b, 'c) conn_scheme"
    by (simp add: group_request_def CreateCacheKey_def apiRequest_def)
  then show ?thesis
    using assms(1-3) by (auto simp: cached_group_def s'_def cacheSet_def group_request_def algebra_simps)
qed

lemma group_retry_run:
  assumes "\<forall>w. now E (pause E second w) = now E w + second" "second < ttl" "rsStatus rs = 200"
    "unmarshal dec_GroupResponse zero_Group (rsBody rs) = Inr g" "grpMembers g = []"
  shows "cached_group E ttl (int n) host base i rs s \<Longrightarrow> 0 < n \<or> g0 = Some g \<Longrightarrow>
    \<exists>t. readMembers E i n g0 s = (Inr (Some g), t) \<and> netWorld t = (pause E second ^^ n) (netWorld s)"
proof (induction n arbitrary: s g0)
  case (Suc n)
  let ?s' = "cacheSet E (group_request s host base i) rs s"
  let ?s'' = "?s'\<lparr>netWorld := pause E second (netWorld ?s')\<rparr>"
  have "cached_group E ttl (int n) host base i rs ?s''"
    using cached_group_next[OF Suc.prems(1) assms(1,2)] by simp
  from Suc.IH[OF this, of "Some g"] obtain t where
    t: "readMembers E i n (Some g) ?s'' = (Inr (Some g), t)" "netWorld t = (pause E second ^^ n) (netWorld ?s'')" by auto
  have "GetGroupDetails E i s = (Inr g, ?s')"
    using GetGroupDetails_hit[OF Suc.prems(1) _ assms(3,4)] by simp
  then have "readMembers E i (Suc n) g0 s = (Inr (Some g), t)" using assms(5) t(1) by simp
  then show ?case using t(2) by (simp add: funpow_swap1)
qed simp

text \<open>
  C32.  With the response cache the repetition reads nothing new: when the group's entry is alive and
  says it has no members, all five reads are answered from it, the server is never asked, and the
  empty group is returned after five pauses.
\<close>

theorem group_retry_cached:
  assumes "\<forall>w. now E (pause E second w) = now E w + second" "second < ttl"
    and "cached_group E ttl 5 host base i rs s" "rsStatus rs = 200"
    and "unmarshal dec_GroupResponse zero_Group (rsBody rs) = Inr g" "grpMembers g = []"
  shows "\<exists>t. readMembers E i 5 None s = (Inr (Some g), t) \<and> netWorld t = (pause E second ^^ 5) (netWorld s)"
  using group_retry_run[OF assms(1,2,4-6), of 5 host base i s None] assms(3) by simp

definition clock_env :: "int env" where
  "clock_env = \<lparr>exchange = (\<lambda>rq w. (Inl ConnectionRefused, w)), now = (\<lambda>w. w), pause = (\<lambda>d w. w + d),
     parseBase = (\<lambda>u. Some (u, [])), randInt = (\<lambda>b w. (Inr 0, w)), cacheTTL = Some (3600 * 10 ^ 9)\<rparr>"

definition empty_group_answer :: http_response where
  "empty_group_answer = \<lparr>rsStatus = 200, rsContentType = ''application/json'', rsBody = JsonBody (JObj [])\<rparr>"

definition clock_state :: "int conn" where
  "clock_state = \<lparr>netCache = (\<lambda>k. Some (empty_group_answer, 0)), netWorld = 0, clToken = ''t'', clInstanceURL = ''h'',
     clLastKeepAlive = 0, clUserName = ''u'', clPassword = ''p''\<rparr>"

lemma clock_facts:
  "cached_group clock_env (3600 * 10 ^ 9) 5 ''h'' [] 201 empty_group_answer clock_state"
  "unmarshal dec_GroupResponse zero_Group (rsBody empty_group_answer) = Inr zero_Group"
  "\<forall>w. now clock_env (pause clock_env second w) = now clock_env w + second" "second < 3600 * 10 ^ 9"
  "rsStatus empty_group_answer = 200" "grpMembers zero_Group = []"
  "(pause clock_env second ^^ 5) (netWorld clock_state) = 5 * 10 ^ 9"
  by (simp_all add: cached_group_def clock_env_def clock_state_def five_minutes_def second_def empty_group_answer_def
      unmarshal_def dec_GroupResponse_def dec_envelope_def dec_struct_obj zero_Group_def eval_nat_numeral)

theorem group_retry_cached_witness:
  "\<exists>t. readMembers clock_env 201 5 None clock_state = (Inr (Some zero_Group), t) \<and> netWorld t = 5 * 10 ^ 9"
  using group_retry_cached[OF clock_facts(3,4,1,5,2,6)] unfolding clock_facts(7) .

definition timed_state :: "(int \<times> int list) conn" where
  "timed_state = \<lparr>netCache = (\<lambda>k. Some (empty_group_answer, 0)), netWorld = (0, []), clToken = ''t'', clInstanceURL = ''h'',
     clLastKeepAlive = 0, clUserName = ''u'', clPassword = ''p''\<rparr>"

definition empty_group :: Resource where
  "empty_group = \<lparr>resId = \<lparr>ridType = ''group'', ridResource = ''201''\<rparr>, resDisplayName = ''g'', resParent = None,
     resProfile = None, resStatus = None, resTraits = []\<rparr>"

theorem group_reads_bounded_witness:
  "\<exists>t. group_Grants (timed clock_env) empty_group timed_state = (Inr [], t) \<and> waits t = replicate 5 second"
proof -
  have cached: "cached_group (timed clock_env) (3600 * 10 ^ 9) (int 5) ''h'' [] 201 empty_group_answer timed_state"
    by (simp add: cached_group_def timed_def clock_env_def timed_state_def five_minutes_def second_def)
  have step: "\<forall>w. now (timed clock_env) (pause (timed clock_env) second w) = now (timed clock_env) w + second"
    by (simp add: timed_def clock_env_def split: prod.split)
  obtain u where "readMembers (timed clock_env) 201 5 None timed_state = (Inr (Some zero_Group), u)"
    using group_retry_run[OF step clock_facts(4,5,2,6) cached] by auto
  moreover have "atoi ''201'' = Some 201" by code_simp
  ultimately have run: "group_Grants (timed clock_env) empty_group timed_state = (Inr [], u)"
    by (simp add: group_Grants_def empty_group_def clock_facts(6) bindE_def)
  have "waits timed_state = []" by (simp add: waits_def timed_state_def)
  with group_reads_bounded[OF run] run show ?thesis by auto
qed

subsection \<open>Privileges, names and the wire\<close>

text \<open>The categories of privileges by the names Jamf gives them, and the texts a profile lists for one.\<close>

definition privilege_names :: "string list" where
  "privilege_names = [''jss_objects'', ''jss_settings'', ''jss_actions'', ''recon'', ''casper_admin'', ''casper_remote'', ''casper_imaging'']"

definition given :: "profile \<Rightarrow> string \<Rightarrow> string list" where
  "given p name = (case map_of p (''privileges_'' @ name) of
     Some (PList vs) \<Rightarrow> filter (\<lambda>s. s \<noteq> []) (List.map_filter (\<lambda>v. case v of PString s \<Rightarrow> Some s | _ \<Rightarrow> None) vs)
   | _ \<Rightarrow> [])"

lemma given_slice: "stringSliceFromProfile p (''privileges_'' @ name) = given p name"
proof -
  have "concat (map (\<lambda>v. case v of PString s \<Rightarrow> if s \<noteq> [] then [s] else [] | _ \<Rightarrow> []) vs)
      = filter (\<lambda>s. s \<noteq> []) (List.map_filter (\<lambda>v. case v of PString s \<Rightarrow> Some s | _ \<Rightarrow> None) vs)" for vs
    by (induction vs) (auto simp: map_filter_def split: profile_value.split)
  then show ?thesis by (simp add: stringSliceFromProfile_def given_def split: option.split profile_value.split)
qed

lemma profile_given:
  "profile_privileges p = \<lparr>JSSObjects = given p ''jss_objects'', JSSSettings = given p ''jss_settings'',
     JSSActions = given p ''jss_actions'', Recon = given p ''recon'', CasperAdmin = given p ''casper_admin'',
     CasperRemote = given p ''casper_remote'', CasperImaging = given p ''casper_imaging''\<rparr>"
  unfolding given_slice[symmetric] by (simp add: profile_privileges_def)

lemma given_empty: "IsEmpty (Some (profile_privileges p)) \<longleftrightarrow> (\<forall>c\<in>set privilege_names. given p c = [])"
  by (simp add: IsEmpty_def profile_given privilege_names_def)

lemma categories_written:
  "concat (map (\<lambda>(name, items). if items = [] then [] else [h name items]) (map (\<lambda>c. (c, g c)) names))
     = map (\<lambda>c. h c (g c)) (filter (\<lambda>c. g c \<noteq> []) names)"
  by (induction names) auto

lemma MarshalXML_given:
  "MarshalXML (profile_privileges p) ''privileges'' = XElem ''privileges''
     (map (\<lambda>c. XElem c (map (text_elem ''privilege'') (given p c))) (filter (\<lambda>c. given p c \<noteq> []) privilege_names))"
proof -
  have "privilege_categories (profile_privileges p) = map (\<lambda>c. (c, given p c)) privilege_names"
    by (simp add: privilege_categories_def profile_given privilege_names_def)
  then show ?thesis unfolding MarshalXML_def by (simp only: categories_written)
qed

text \<open>
  C20.  The privileges of a new account, from the profile to the request.  With the set Custom and nothing
  listed in any of the seven categories, or another set and something listed, the creation is refused; with
  another set and nothing listed no privileges are sent.  With Custom each category has the texts the profile
  lists under \<open>privileges_\<close> and its name, in their order without the empty ones, and the XML element
  \<open>privileges\<close> has exactly the categories that are not empty, each as an element of its name with one
  \<open>privilege\<close> element a text, from which the mock server reads every category back.
\<close>

theorem privileges_resolved:
  "case resolvePrivileges p pset of
     Inl e \<Rightarrow> if pset = ''Custom'' then (\<forall>c\<in>set privilege_names. given p c = []) \<and> (\<exists>m. e = PlainError m)
       else (\<exists>c\<in>set privilege_names. given p c \<noteq> []) \<and> e = PrivilegesWithoutCustom pset
   | Inr None \<Rightarrow> pset \<noteq> ''Custom'' \<and> (\<forall>c\<in>set privilege_names. given p c = [])
   | Inr (Some q) \<Rightarrow> pset = ''Custom'' \<and> (\<exists>c\<in>set privilege_names. given p c \<noteq> [])
       \<and> [JSSObjects q, JSSSettings q, JSSActions q, Recon q, CasperAdmin q, CasperRemote q, CasperImaging q]
           = map (given p) privilege_names
       \<and> MarshalXML q ''privileges'' = XElem ''privileges''
           (map (\<lambda>c. XElem c (map (text_elem ''privilege'') (given p c))) (filter (\<lambda>c. given p c \<noteq> []) privilege_names))
       \<and> unxml_Privileges (xml_kids (MarshalXML q ''privileges'')) = q"
proof -
  let ?q = "profile_privileges p"
  have fields: "[JSSObjects ?q, JSSSettings ?q, JSSActions ?q, Recon ?q, CasperAdmin ?q, CasperRemote ?q, CasperImaging ?q]
      = map (given p) privilege_names"
    by (simp add: profile_given privilege_names_def)
  show ?thesis
    using fields MarshalXML_given[of p] unxml_MarshalXML[of ?q "''privileges''"]
    by (cases "IsEmpty (Some ?q)"; cases "pset = ''Custom''")
       (simp_all add: resolvePrivileges_def Let_def privilegeSetCustom_def given_empty)
qed

theorem privileges_resolved_witness:
  "\<exists>q. resolvePrivileges [(''privileges_recon'', PList [PString ''Read'', PString [], PNull])] ''Custom'' = Inr (Some q)
     \<and> Recon q = [''Read''] \<and> MarshalXML q ''privileges'' = XElem ''privileges'' [XElem ''recon'' [text_elem ''privilege'' ''Read'']]"
proof -
  let ?p = "[(''privileges_recon'', PList [PString ''Read'', PString [], PNull])]"
  have g: "given ?p ''recon'' = [''Read'']" "given ?p ''jss_objects'' = []" "given ?p ''jss_settings'' = []" "given ?p ''jss_actions'' = []"
    "given ?p ''casper_admin'' = []" "given ?p ''casper_remote'' = []" "given ?p ''casper_imaging'' = []"
    by (simp_all add: given_def map_filter_def)
  show ?thesis
    using privileges_resolved[where p = ?p and pset = "''Custom''"]
    by (cases "resolvePrivileges ?p ''Custom''") (auto simp: privilege_names_def g split: option.splits)
qed

text \<open>
  C22.  What the client sends and receives survives the wire: the XML create bodies, as they are written, are
  decoded as what they were made from, and so is the JSON of users, accounts, groups, user groups and tokens
  whose numbers fit Go's int.  The texts are such as the encoders write unchanged: valid UTF-8 in JSON, and in
  XML without control characters (other than tab, line feed and carriage return), U+FFFE and U+FFFF; of others
  the offending bytes are written as U+FFFD.
\<close>

theorem payload_roundtrip:
  assumes "ok_User u" "ok_UserAccount a" "ok_Group g" "ok_UserGroup h"
    and "xml_texts (xml_UserCreateBody ub)" "xml_texts (xml_UserAccountCreateBody ab)"
    and "json_texts (enc_User u)" "json_texts (enc_UserAccount a)" "json_texts (enc_Group g)" "json_texts (enc_UserGroup h)"
    and "json_texts (enc_TokenResponse t)"
  shows "unxml_UserCreateBody (xml_wire (xml_UserCreateBody ub)) = Some ub
    \<and> unxml_UserAccountCreateBody (xml_wire (xml_UserAccountCreateBody ab)) = Some ab
    \<and> dec_UserResponse (json_wire (JObj [(''user'', enc_User u)])) zero_User = Inr u
    \<and> dec_UserAccountResponse (json_wire (JObj [(''account'', enc_UserAccount a)])) zero_UserAccount = Inr a
    \<and> dec_GroupResponse (json_wire (JObj [(''group'', enc_Group g)])) zero_Group = Inr g
    \<and> dec_UserGroupResponse (json_wire (JObj [(''user_group'', enc_UserGroup h)])) zero_UserGroup = Inr h
    \<and> dec_TokenResponse (json_wire (enc_TokenResponse t)) zero_TokenResponse = Inr t"
proof -
  have wire: "json_wire (JObj [(k, j)]) = JObj [(k, j)]" if "json_texts j" "utf8_valid k" for k j
    by (rule json_wire_id) (simp add: that)
  have keys: "utf8_valid ''user''" "utf8_valid ''account''" "utf8_valid ''group''" "utf8_valid ''user_group''"
    by (simp_all add: byte_in_def)
  show ?thesis
    unfolding xml_wire_id[OF assms(5)] xml_wire_id[OF assms(6)] wire[OF assms(7) keys(1)] wire[OF assms(8) keys(2)]
      wire[OF assms(9) keys(3)] wire[OF assms(10) keys(4)] json_wire_id[OF assms(11)]
      dec_UserResponse_def dec_UserAccountResponse_def dec_GroupResponse_def dec_UserGroupResponse_def
    using assms(1-4) by (intro conjI decode_rules unxml_xml_UserCreateBody unxml_xml_UserAccountCreateBody)
qed

text \<open>A control character does not survive: the condition is needed.\<close>

lemma control_replaced: "xml_wire (XText [CHR ''a'', CHR 0x01]) = XText (CHR ''a'' # replacement_rune)"
  by code_simp

theorem payload_roundtrip_witness:
  "dec_UserResponse (json_wire (JObj [(''user'', enc_User ann)])) zero_User = Inr ann
   \<and> unxml_UserCreateBody (xml_wire (xml_UserCreateBody \<lparr>ucName = ''ann'', ucFullName = [], ucEmail = ''a@x.y''\<rparr>))
       = Some \<lparr>ucName = ''ann'', ucFullName = [], ucEmail = ''a@x.y''\<rparr>"
proof -
  let ?ub = "\<lparr>ucName = ''ann'', ucFullName = [], ucEmail = ''a@x.y''\<rparr>"
    and ?ab = "\<lparr>acName = [], acPassword = [], acFullName = [], acEmail = [], acEnabled = [], acAccessLevel = [],
      acPrivilegeSet = [], acPrivileges = None\<rparr>"
  have ok: "ok_User ann" "ok_UserAccount zero_UserAccount" "ok_Group zero_Group" "ok_UserGroup zero_UserGroup"
    by (simp_all add: ok_defs zero_defs ann_def int64_def)
  have xml: "xml_texts (xml_UserCreateBody ?ub)" "xml_texts (xml_UserAccountCreateBody ?ab)" by code_simp+
  have json: "json_texts (enc_User ann)" "json_texts (enc_UserAccount zero_UserAccount)" "json_texts (enc_Group zero_Group)"
    "json_texts (enc_UserGroup zero_UserGroup)" "json_texts (enc_TokenResponse zero_TokenResponse)"
    by code_simp+
  from payload_roundtrip[OF ok xml json] show ?thesis by blast
qed

text \<open>
  C38.  The resource of a directory user is built exactly when its three texts are valid UTF-8, and then
  shows the full name, whose first and last name in the profile put together again give it back, the
  primary email when there is one, and the parent it was listed under.
\<close>

theorem user_resource_faithful:
  "case userResource u p of
     Inl e \<Rightarrow> e = InvalidUTF8 \<and> \<not> (utf8_valid (userFullName u) \<and> utf8_valid (userEmail u) \<and> utf8_valid (Name u))
   | Inr r \<Rightarrow> utf8_valid (userFullName u) \<and> utf8_valid (userEmail u) \<and> utf8_valid (Name u)
       \<and> resId r = \<lparr>ridType = ''user'', ridResource = itoa (ID u)\<rparr> \<and> resDisplayName r = userFullName u \<and> resParent r = p
       \<and> resStatus r = Some (STATUS_ENABLED, [])
       \<and> (\<exists>q f l. resProfile r = Some q \<and> map_of q ''first_name'' = Some (PString f) \<and> map_of q ''last_name'' = Some (PString l)
            \<and> map_of q ''user_id'' = Some (PString (''user:'' @ itoa (ID u))) \<and> map_of q ''login'' = Some (PString (userEmail u))
            \<and> userFullName u = (if CHR '' '' \<in> set (userFullName u) then f @ CHR '' '' # l else f))
       \<and> (\<exists>t. resTraits r = [TUser t] \<and> utEmails t = (if userEmail u = [] then [] else [(userEmail u, True)]))"
proof -
  obtain f l where s: "SplitFullName (userFullName u) = (f, l)" by fastforce
  from SplitFullName_join[OF s] show ?thesis
    by (auto simp: userResource_eq user_utf8_def user_view_def user_profile_def s)
qed

text \<open>
  C14.  A role is granted to exactly the groups and accounts that hold it: those whose privilege set it
  is, and for an individual privilege those with the Custom set whose list has it.  Both loops keep the
  order of the listing.
\<close>

theorem role_grants_exact:
  assumes "GetAccounts E s = (Inr (accounts, groups), t)"
    and "\<forall>g\<in>set groups. utf8_valid (Name g)" "\<forall>a\<in>set accounts. account_utf8 a"
  shows "role_Grants E r s =
    (Inr (map (\<lambda>g. NewGrant r ''member'' \<lparr>ridType = ''group'', ridResource = itoa (ID g)\<rparr>)
            (filter (\<lambda>g. holds_role (grpPrivilegeSet g) (grpPrivileges g) (ridResource (resId r))) groups)
        @ map (\<lambda>a. NewGrant r ''member'' \<lparr>ridType = ''userAccount'', ridResource = itoa (ID a)\<rparr>)
            (filter (\<lambda>a. holds_role (accPrivilegeSet a) (accPrivileges a) (ridResource (resId r))) accounts)), t)"
  by (rule role_Grants_total[OF assms])

text \<open>The seeded server's accounts and groups, read by a connected client.\<close>

lemma demo_accounts:
  "GetAccounts (mock_env no_expiry no_random None) (demo ''t'' 0) = (Inr (seed_accounts, seed_groups), demo ''t'' 0)"
proof -
  have "server_inv (srv_of (demo ''t'' 0))" by (rule reach_server_inv[OF demo_reach]) simp
  from GetAccounts_mock[OF demo_connected this] show ?thesis by (simp add: newServer_def)
qed

lemma seed_utf8: "\<forall>g\<in>set seed_groups. utf8_valid (Name g)" "\<forall>a\<in>set seed_accounts. account_utf8 a"
  "\<forall>h\<in>set seed_user_groups. utf8_valid (Name h)" "\<forall>u\<in>set seed_users. user_utf8 u"
  by (simp_all add: seed_groups_defs seed_defs Let_def account_utf8_def user_utf8_def byte_in_def)

definition role_resource :: "string \<Rightarrow> Resource" where
  "role_resource n = role_view n None"

theorem role_grants_exact_witness:
  "fst (role_Grants (mock_env no_expiry no_random None) (role_resource ''Read Advanced Computer Searches'') (demo ''t'' 0))
     = Inr [NewGrant (role_resource ''Read Advanced Computer Searches'') ''member'' \<lparr>ridType = ''group'', ridResource = ''203''\<rparr>,
            NewGrant (role_resource ''Read Advanced Computer Searches'') ''member'' \<lparr>ridType = ''userAccount'', ridResource = ''103''\<rparr>]"
proof -
  have n: "itoa 203 = ''203''" "itoa 103 = ''103''" by code_simp+
  show ?thesis
    using role_grants_exact[OF demo_accounts seed_utf8(1,2), of "role_resource ''Read Advanced Computer Searches''"]
    by (simp add: role_resource_def role_view_def holds_role_def seed_groups_defs seed_defs Let_def custom_privileges_def
        Contains_def n zero_Privileges_def)
qed

text \<open>
  C15.  A site is granted to every directory user once per mention in the user's site list, and to every
  user group, console account and console group whose site it is, in the order of the four listings.
\<close>

theorem site_grants_exact:
  assumes "GetUsers E s = (Inr users, s1)" "GetUserGroups E s1 = (Inr ugs, s2)" "GetAccounts E s2 = (Inr (accounts, groups), t)"
    and "\<forall>u\<in>set users. user_utf8 u" "\<forall>h\<in>set ugs. utf8_valid (Name h)"
    and "\<forall>a\<in>set accounts. account_utf8 a" "\<forall>g\<in>set groups. utf8_valid (Name g)"
  shows "site_Grants E r s =
    (Inr (concat (map (\<lambda>u. map (\<lambda>_. site_grant r ''user'' (ID u)) (filter (site_match r) (userSites u))) users)
        @ map (\<lambda>h. site_grant r ''userGroup'' (ID h)) (filter (\<lambda>h. site_match r (ugSite h)) ugs)
        @ map (\<lambda>a. site_grant r ''userAccount'' (ID a)) (filter (\<lambda>a. site_match r (accSite a)) accounts)
        @ map (\<lambda>g. site_grant r ''group'' (ID g)) (filter (\<lambda>g. site_match r (grpSite g)) groups)), t)"
  by (rule site_Grants_total[OF assms])

lemma demo_users_groups:
  "GetUsers (mock_env no_expiry no_random None) (demo ''t'' 0) = (Inr seed_users, demo ''t'' 0)"
  "GetUserGroups (mock_env no_expiry no_random None) (demo ''t'' 0) = (Inr seed_user_groups, demo ''t'' 0)"
proof -
  have inv: "server_inv (srv_of (demo ''t'' 0))" by (rule reach_server_inv[OF demo_reach]) simp
  from GetUsers_mock[OF demo_connected inv] GetUserGroups_mock[OF demo_connected inv]
  show "GetUsers (mock_env no_expiry no_random None) (demo ''t'' 0) = (Inr seed_users, demo ''t'' 0)"
    "GetUserGroups (mock_env no_expiry no_random None) (demo ''t'' 0) = (Inr seed_user_groups, demo ''t'' 0)"
    by (simp_all add: newServer_def)
qed

definition site_two :: Resource where
  "site_two = \<lparr>resId = \<lparr>ridType = ''site'', ridResource = ''2''\<rparr>, resDisplayName = ''Remote'', resParent = None,
     resProfile = None, resStatus = None, resTraits = []\<rparr>"

theorem site_grants_exact_witness:
  "fst (site_Grants (mock_env no_expiry no_random None) site_two (demo ''t'' 0)) =
     Inr [site_grant site_two ''user'' 5, site_grant site_two ''userGroup'' 302, site_grant site_two ''userAccount'' 103,
          site_grant site_two ''group'' 203]"
proof -
  have n: "itoa 1 = ''1''" "itoa 2 = ''2''" by code_simp+
  show ?thesis
    using site_grants_exact[OF demo_users_groups demo_accounts seed_utf8(4,3,2,1), of site_two]
    by (simp add: site_match_def seed_groups_defs seed_defs Let_def headquarters_def remote_def n site_two_def)
qed

subsection \<open>Passwords\<close>

text \<open>
  C21.  A random password is generated whenever the length is at least 8, the minimum counts of the
  constraints fit into it and the character sets needed are not empty and of ASCII characters; it has that
  length and at least the minimum number of characters of every constraint, or without constraints an
  upper-case letter, a lower-case letter, a digit and a symbol.  The random source is any that returns
  numbers below its bound.
\<close>

theorem password_generated:
  assumes "rand_total E" "8 \<le> n" "\<forall>c\<in>set cs. 0 < coMinCount c \<longrightarrow> coCharSet c \<noteq> []"
    and "int (sum_list (map coMinCount cs)) \<le> n" "ascii_sets cs"
  shows "\<exists>p t. GeneratePassword E (RandomPassword n cs) s = (Inr p, t) \<and> int (length p) = n
    \<and> (\<forall>c\<in>set (if cs = [] then basic_sets else cs). coMinCount c \<le> count_in (coCharSet c) p)"
proof -
  obtain p t where g: "GenerateRandomPassword E n cs s = (Inr p, t)"
    using GenerateRandomPassword_total[OF assms(1-4)] by blast
  from GenerateRandomPassword_result[OF rand_total_ok[OF assms(1)] assms(5) g] show ?thesis
    by (auto simp: GeneratePassword_def g list_all_iff)
qed

theorem password_generated_witness:
  "\<exists>p t. GeneratePassword clock_env (RandomPassword 12 [\<lparr>coCharSet = ''xyz'', coMinCount = 3\<rparr>]) clock_state = (Inr p, t)
     \<and> length p = 12 \<and> 3 \<le> count_in ''xyz'' p"
proof -
  have "rand_total clock_env" by (simp add: rand_total_def clock_env_def)
  from password_generated[OF this, of 12 "[\<lparr>coCharSet = ''xyz'', coMinCount = 3\<rparr>]" clock_state] show ?thesis
    by (auto simp: ascii_sets_def byte_in_def)
qed

subsection \<open>Error codes and credentials\<close>

text \<open>
  What the handlers make of an HTTP error: not-found is exactly 404, already-exists exactly 409, the
  one retry happens exactly on 401, and no error status ever maps to OK.
\<close>

theorem status_decisions:
  "(IsNotFoundError (StatusError (GrpcCodeFromHTTPStatus st) es) \<longleftrightarrow> st = 404)
   \<and> (IsAlreadyExistsError (StatusError (GrpcCodeFromHTTPStatus st) es) \<longleftrightarrow> st = 409)
   \<and> (status_code (StatusError (GrpcCodeFromHTTPStatus st) es) = Unauthenticated \<longleftrightarrow> st = 401)
   \<and> OK < GrpcCodeFromHTTPStatus st
   \<and> \<not> IsNotFoundError (wrapTransientNetworkError f) \<and> \<not> IsAlreadyExistsError (wrapTransientNetworkError f)"
proof -
  have "OK < c" if "c \<noteq> OK" for c using that by (cases c) (simp_all add: less_grpc_code_def)
  then show ?thesis
    using fault_codes[of f] Grpc_not_OK[of st]
    by (auto simp: IsNotFoundError_def IsAlreadyExistsError_def Grpc_NotFound_iff Grpc_AlreadyExists_iff
        Grpc_Unauthenticated_iff)
qed

text \<open>
  C39.  No operation changes the client's user name, password or instance URL: listings, lookups,
  creations and deletions all keep them, whether they succeed or fail.
\<close>

theorem credentials_kept:
  "credentials (snd (GetUsers E s)) = credentials s \<and> credentials (snd (GetUserGroups E s)) = credentials s
   \<and> credentials (snd (GetAccounts E s)) = credentials s \<and> credentials (snd (GetSites E s)) = credentials s
   \<and> credentials (snd (GetPrivileges E s)) = credentials s \<and> credentials (snd (GetUserByName E n s)) = credentials s
   \<and> credentials (snd (GetUserAccountByName E n s)) = credentials s
   \<and> credentials (snd (CreateUser E n f e s)) = credentials s \<and> credentials (snd (DeleteUser E i s)) = credentials s
   \<and> credentials (snd (CreateUserAccount E a s)) = credentials s
   \<and> credentials (snd (DeleteUserAccount E i s)) = credentials s
   \<and> credentials (snd (GetComputersInventory E pg sz sections s)) = credentials s
   \<and> credentials (snd (GetMobileDevices E pg sz s)) = credentials s"
proof -
  have keep: "keeps (\<lambda>x. credentials x = credentials s) m \<Longrightarrow> credentials (snd (m s)) = credentials s" for m
    using keepsD[of "\<lambda>x. credentials x = credentials s" m s "fst (m s)" "snd (m s)"] by simp
  show ?thesis by (intro conjI keep creds.keeps_gets creds.keeps_lists creds.keeps_writes creds.keeps_devices)
qed

subsection \<open>A login that URL cleaning eats\<close>

lemma lookup_dotdot:
  assumes "connected s" "server_inv (srv_of s)"
  shows "GetUserByName (mock_env x rnd None) ''..'' s = (Inr zero_User, s)"
  unfolding GetUserByName_def
proof (rule fetch_same[OF assms(1)])
  let ?j = "JObj [(''users'', enc_array enc_BaseType (map minimal (srvUserList (srv_of s))))]"
  have "join_path [] (userNameUrlPath ''..'') = ''/JSSResource/users''"
    by (simp add: userNameUrlPath_def join_path_def render_path_def)
  then show "reply x (api_get s (userNameUrlPath ''..'')) s = (writeJSON 200 ?j, srv_of s)"
    using assms(1) by (simp add: reply_def serve_routes handleListUsers_def only_get_ok)
  show "dec_UserResponse ?j zero_User = Inr zero_User"
    by (simp add: dec_UserResponse_def dec_envelope_def dec_struct_obj find_field_def fld_def to_lower_def)
qed

text \<open>
  C36.  The login \<open>..\<close> is not one path segment: the lookup after the creation asks for the list of users
  instead, whose document has no user, and the connector reports the creation of a user with id 0.
\<close>

theorem dotdot_login_reports_zero:
  assumes "reach n (srv_of s)" "n < 2 ^ 62" "connected s"
    and "aiLogin info = ''..''" "findUserByName (srv_of s) ''..'' = None"
  shows "user_CreateAccount (mock_env x rnd None) info creds s =
    (Inr (SuccessResult (user_view zero_User None), []),
     with_server s (snd (add_user_record (user_body ''..'' (aiProfile info)) (srv_of s))))
    \<and> ridResource (resId (user_view zero_User None)) = ''0''"
proof -
  let ?b = "user_body ''..'' (aiProfile info)" and ?srv = "srv_of s"
  let ?t = "with_server s (snd (add_user_record ?b ?srv))"
  have "srv_step ?srv (snd (add_user_record ?b ?srv))"
    by (rule step_add_user) (use assms(5) in \<open>simp_all add: user_body_def\<close>)
  from step_server_inv[OF this reach_server_inv[OF assms(1,2)] reach_room[OF assms(1,2)]]
  have inv: "server_inv (srv_of ?t)" by simp
  have con: "connected ?t" by (rule connected_with_server[OF assms(3)]) simp
  have z: "user_utf8 zero_User" "itoa 0 = ''0''" by (simp_all add: user_utf8_def zero_User_def itoa_def go_eval)
  then have "ridResource (resId (user_view zero_User None)) = ''0''"
    by (simp add: user_view_def) (simp add: zero_User_def)
  then show ?thesis
    using create_user_run[OF assms(3), of info x rnd None zero_User ?t creds] lookup_dotdot[OF con inv] assms(4,5) z(1)
    by (simp add: userResource_eq)
qed

definition dots :: AccountInfo where "dots = \<lparr>aiLogin = ''..'', aiProfile = []\<rparr>"

theorem dotdot_login_reports_zero_witness:
  "\<exists>t. user_CreateAccount (mock_env no_expiry no_random None) dots NoPasswordOption (demo ''t'' 0) =
     (Inr (SuccessResult (user_view zero_User None), []), t) \<and> length (srvUserList (srv_of t)) = 6"
proof -
  have "length (srvUserList (snd (add_user_record b (newServer ''u'' ''p'' ''t'')))) = 6" for b
    by (simp add: add_user_record_eq) (simp add: newServer_def seed_users_def)
  moreover have "findUserByName (newServer ''u'' ''p'' ''t'') ''..'' = None"
    by (simp add: findUserByName_def newServer_def seed_defs)
  ultimately show ?thesis
    using dotdot_login_reports_zero[OF demo_reach _ demo_connected, of dots no_expiry no_random NoPasswordOption]
    by (simp add: dots_def)
qed

end
