(* ===== verification/Provisioning.thy ===== *)
theory Provisioning
  imports MockProps
begin

section \<open>Provisioning refines a directory\<close>

text \<open>
  What the connector and a Jamf server promise together about accounts, without requests, tokens or
  ids on the wire: a directory is two lists of records and two counters.  A history of creations,
  deletions and listings run by the connector against the mock server gives the answers the directory
  gives, and leaves the server with the directory's records.
\<close>

subsection \<open>The directory\<close>

record directory =
  dUsers :: "User list"
  dNextUser :: int
  dAccounts :: "UserAccount list"
  dNextAccount :: int

datatype prov_op =
    CreateU AccountInfo
  | DeleteU ResourceId
  | ListU
  | CreateA AccountInfo LocalCredentialOptions
  | DeleteA ResourceId
  | ListA

datatype prov_result = Made CreateAccountResponse "(string \<times> string) list" | Gone | Listing "Resource list"

definition dir_user :: "AccountInfo \<Rightarrow> int \<Rightarrow> User" where
  "dir_user info i = zero_User\<lparr>ID := i, Name := aiLogin info,
     userFullName := profile_string (aiProfile info) ''full_name'', userEmail := profile_string (aiProfile info) ''email''\<rparr>"

definition dir_account :: "AccountInfo \<Rightarrow> string \<Rightarrow> Privileges option \<Rightarrow> int \<Rightarrow> UserAccount" where
  "dir_account info pset privs i = zero_UserAccount\<lparr>ID := i, Name := aiLogin info,
     accFullName := profile_string (aiProfile info) ''full_name'', accEmail := profile_string (aiProfile info) ''email'',
     accEnabled := ''Enabled'', accAccessLevel := ''Full Access'', accPrivilegeSet := pset,
     accPrivileges := (case privs of None \<Rightarrow> zero_Privileges | Some p \<Rightarrow> p)\<rparr>"

definition create_in :: "('a \<Rightarrow> string) \<Rightarrow> string \<Rightarrow> 'a list \<Rightarrow> 'a \<Rightarrow> 'a \<times> bool" where
  "create_in label n xs new = (case List.find (\<lambda>x. label x = n) xs of Some x \<Rightarrow> (x, True) | None \<Rightarrow> (new, False))"

definition made :: "go_error + Resource \<Rightarrow> bool \<Rightarrow> (string \<times> string) list \<Rightarrow> go_error + prov_result" where
  "made r existed secrets =
     bind_err r (\<lambda>r. Inr (if existed then Made (AlreadyExistsResult r) [] else Made (SuccessResult r) secrets))"

definition no_login :: go_error where
  "no_login = PlainError ''jamf-connector: create account: login is required''"

subsection \<open>The random source\<close>

text \<open>
  What \<open>crypto/rand\<close> gives is a stream: \<open>f k b\<close> is the answer to the \<open>k\<close>-th request for a number below
  \<open>b\<close>, an error or a number.  The stream is arbitrary; the world counts the requests made of it.
\<close>

type_synonym draws = "nat \<Rightarrow> int \<Rightarrow> string + int"

definition drawn :: "draws \<Rightarrow> int \<Rightarrow> mock_world \<Rightarrow> (string + int) \<times> mock_world" where
  "drawn f b w = (f (wSource w) b, w\<lparr>wSource := Suc (wSource w)\<rparr>)"

text \<open>The SDK's password generator where there is nothing but the stream.\<close>

definition source_env :: "draws \<Rightarrow> nat env" where
  "source_env f =
     \<lparr>exchange = (\<lambda>rq k. (Inl ConnectionRefused, k)), now = (\<lambda>k. 0), pause = (\<lambda>d k. k), parseBase = (\<lambda>u. None),
      randInt = (\<lambda>b k. (f k b, Suc k)), cacheTTL = None\<rparr>"

definition bare :: "nat \<Rightarrow> nat net" where
  "bare k = \<lparr>netCache = Map.empty, netWorld = k\<rparr>"

definition dir_password :: "draws \<Rightarrow> LocalCredentialOptions \<Rightarrow> nat \<Rightarrow> (go_error + string) \<times> nat" where
  "dir_password f creds k =
     (case mapErr (WrapError ''jamf-connector: failed to generate random password'')
             (GeneratePassword (source_env f) creds) (bare k) of (r, t) \<Rightarrow> (r, netWorld t))"

text \<open>The connector's computation does on the mock world what the other does on the stream alone.\<close>

definition follows :: "((mock_world, 'x) net_scheme, go_error, 'a) comp \<Rightarrow> (nat net, go_error, 'a) comp \<Rightarrow> bool" where
  "follows m n \<longleftrightarrow> (\<forall>s. \<exists>r k. n (bare (wSource (netWorld s))) = (r, bare k) \<and> m s = (r, at_source s k))"

lemma follows_return: "follows (returnE a) (returnE a)" "follows (throwE e) (throwE e)"
  by (auto simp: follows_def returnE_def throwE_def intro!: exI[of _ "wSource (netWorld s)" for s])

lemma follows_bind:
  fixes m :: "((mock_world, 'x) net_scheme, go_error, 'a) comp"
  assumes "follows m n" "\<And>a. follows (f a) (g a)"
  shows "follows (bindE m f) (bindE n g)"
  unfolding follows_def
proof
  fix s :: "(mock_world, 'x) net_scheme"
  obtain r k where r: "n (bare (wSource (netWorld s))) = (r, bare k)" "m s = (r, at_source s k)"
    using assms(1) unfolding follows_def by blast
  show "\<exists>r k. bindE n g (bare (wSource (netWorld s))) = (r, bare k) \<and> bindE m f s = (r, at_source s k)"
  proof (cases r)
    case (Inr a)
    obtain q l where "g a (bare (wSource (netWorld (at_source s k)))) = (q, bare l)" "f a (at_source s k) = (q, at_source (at_source s k) l)"
      using assms(2) unfolding follows_def by blast
    with r Inr show ?thesis by (auto simp: bindE_def)
  qed (use r in \<open>auto simp: bindE_def\<close>)
qed

lemma follows_draw: "follows (drawInt (mock_env x (drawn f) ttl) m b) (drawInt (source_env f) m b)"
  by (auto simp: follows_def drawInt_def drawn_def source_env_def bare_def at_source_def split: sum.split
      intro!: exI[of _ "wSource (netWorld s)" for s])

lemmas follows_rules = follows_return follows_bind follows_draw

lemma follows_characters:
  "follows (addCharacters (mock_env x (drawn f) ttl) n p cs) (addCharacters (source_env f) n p cs)"
  by (induction n arbitrary: p) (simp_all add: addCharacterToPassword_def follows_rules)

lemma follows_constraints:
  "follows (addConstraints (mock_env x (drawn f) ttl) cs p) (addConstraints (source_env f) cs p)"
  by (induction cs arbitrary: p) (simp_all add: follows_characters follows_rules)

lemma follows_shuffle:
  "follows (shuffle_from (mock_env x (drawn f) ttl) i rs) (shuffle_from (source_env f) i rs)"
  by (induction i arbitrary: rs) (simp_all add: follows_rules)

lemma follows_password:
  "follows (GeneratePassword (mock_env x (drawn f) ttl) creds) (GeneratePassword (source_env f) creds)"
  by (cases creds)
     (auto simp: GeneratePassword_def GenerateRandomPassword_def addBasicValidityCharacters_def getShuffledPassword_def
       Let_def intro!: follows_rules follows_characters follows_constraints follows_shuffle)

lemma dir_password_run:
  fixes s :: "(mock_world, 'x) net_scheme"
  assumes "dir_password f creds (wSource (netWorld s)) = (r, k)"
  shows "mapErr (WrapError ''jamf-connector: failed to generate random password'')
      (GeneratePassword (mock_env x (drawn f) ttl) creds) s = (r, at_source s k)"
    "r = Inr pw \<Longrightarrow> GeneratePassword (mock_env x (drawn f) ttl) creds s = (Inr pw, at_source s k)"
proof -
  obtain q l where "GeneratePassword (source_env f) creds (bare (wSource (netWorld s))) = (q, bare l)"
    "GeneratePassword (mock_env x (drawn f) ttl) creds s = (q, at_source s l)"
    using follows_password[of x f ttl creds] unfolding follows_def by blast
  with assms show "mapErr (WrapError ''jamf-connector: failed to generate random password'')
      (GeneratePassword (mock_env x (drawn f) ttl) creds) s = (r, at_source s k)"
    "r = Inr pw \<Longrightarrow> GeneratePassword (mock_env x (drawn f) ttl) creds s = (Inr pw, at_source s k)"
    by (cases q; auto simp: dir_password_def mapErr_def bare_def)+
qed

subsection \<open>The directory's operations\<close>

text \<open>An operation of the directory and the position the random source is left at.\<close>

fun dir_op :: "draws \<Rightarrow> prov_op \<Rightarrow> directory \<times> nat \<Rightarrow> (go_error + prov_result) \<times> directory \<times> nat" where
  "dir_op f (CreateU info) (d, k) =
     (if aiLogin info = [] then (Inl no_login, d, k) else
      case create_in Name (aiLogin info) (dUsers d) (dir_user info (dNextUser d + 1)) of (u, existed) \<Rightarrow>
        (made (userResource u None) existed [],
         if existed then d else d\<lparr>dUsers := dUsers d @ [u], dNextUser := dNextUser d + 1\<rparr>, k))"
| "dir_op f (DeleteU rid) (d, k) =
     (case atoi (ridResource rid) of
        None \<Rightarrow> (Inl (WrapError (''jamf-connector: delete user: invalid resource id '' @ quoted (ridResource rid))
                   (AtoiError (ridResource rid))), d, k)
      | Some i \<Rightarrow> (Inr Gone, d\<lparr>dUsers := filter (\<lambda>u. ID u \<noteq> i) (dUsers d)\<rparr>, k))"
| "dir_op f ListU (d, k) = (bind_err (map_err (\<lambda>u. userResource u None) (dUsers d)) (\<lambda>rs. Inr (Listing rs)), d, k)"
| "dir_op f (CreateA info creds) (d, k) =
     (if aiLogin info = [] then (Inl no_login, d, k) else
      case choosePrivilegeSet (aiProfile info) of
        Inl e \<Rightarrow> (Inl e, d, k)
      | Inr pset \<Rightarrow>
      case dir_password f creds k of
        (Inl e, k') \<Rightarrow> (Inl e, d, k')
      | (Inr pw, k') \<Rightarrow>
      case resolvePrivileges (aiProfile info) pset of
        Inl e \<Rightarrow> (Inl e, d, k')
      | Inr privs \<Rightarrow>
        if pw = [] then (Inl (WrapError (''jamf-connector: create account '' @ aiLogin info) (StatusError InvalidArgument [])), d, k')
        else case create_in Name (aiLogin info) (dAccounts d) (dir_account info pset privs (dNextAccount d + 1)) of (a, existed) \<Rightarrow>
            (made (userAccountResource a None) existed [(''password'', pw)],
             if existed then d else d\<lparr>dAccounts := dAccounts d @ [a], dNextAccount := dNextAccount d + 1\<rparr>, k'))"
| "dir_op f (DeleteA rid) (d, k) =
     (case atoi (ridResource rid) of
        None \<Rightarrow> (Inl (WrapError (''jamf-connector: delete userAccount: invalid resource id '' @ quoted (ridResource rid))
                   (AtoiError (ridResource rid))), d, k)
      | Some i \<Rightarrow> (Inr Gone, d\<lparr>dAccounts := filter (\<lambda>a. ID a \<noteq> i) (dAccounts d)\<rparr>, k))"
| "dir_op f ListA (d, k) = (bind_err (map_err (\<lambda>a. userAccountResource a None) (dAccounts d)) (\<lambda>rs. Inr (Listing rs)), d, k)"

subsection \<open>The connector's operations\<close>

definition answered :: "(('s, go_error, 'a) comp) \<Rightarrow> ('a \<Rightarrow> prov_result) \<Rightarrow> ('s, go_error, prov_result) comp" where
  "answered m f = bindE m (\<lambda>a. returnE (f a))"

fun conn_op :: "'w env \<Rightarrow> prov_op \<Rightarrow> (('w, 'x) conn_scheme, go_error, prov_result) comp" where
  "conn_op E (CreateU info) = answered (user_CreateAccount E info NoPasswordOption) (\<lambda>(r, ps). Made r ps)"
| "conn_op E (DeleteU rid) = answered (user_Delete E rid) (\<lambda>_. Gone)"
| "conn_op E ListU = answered (user_List E None) Listing"
| "conn_op E (CreateA info creds) = answered (userAccount_CreateAccount E info creds) (\<lambda>(r, ps). Made r ps)"
| "conn_op E (DeleteA rid) = answered (userAccount_Delete E rid) (\<lambda>_. Gone)"
| "conn_op E ListA = answered (userAccount_List E None) Listing"

text \<open>
  Not covered are the logins that URL cleaning eats.  The texts a creation sends are such as XML can carry:
  the login and every string of the profile.
\<close>

definition kept_by_cleaning :: "string \<Rightarrow> bool" where
  "kept_by_cleaning n \<longleftrightarrow> n \<noteq> ''.'' \<and> n \<noteq> ''..''"

fun value_texts :: "profile_value \<Rightarrow> bool" where
  "value_texts (PString s) = xml_text s"
| "value_texts (PList vs) = list_all value_texts vs"
| "value_texts (PStruct kvs) = list_all (\<lambda>kv. value_texts (snd kv)) kvs"
| "value_texts _ = True"

definition texts_given :: "AccountInfo \<Rightarrow> bool" where
  "texts_given info \<longleftrightarrow> xml_text (aiLogin info) \<and> list_all (\<lambda>kv. value_texts (snd kv)) (aiProfile info)"

definition creation_covered :: "AccountInfo \<Rightarrow> bool" where
  "creation_covered info \<longleftrightarrow> kept_by_cleaning (aiLogin info) \<and> texts_given info"

text \<open>
  Go's \<open>rand.Int\<close> panics on an empty character set, and a password is sent as XML like the other texts: the
  character sets are of ASCII characters that are no control characters.
\<close>

definition sets_given :: "LocalCredentialOptions \<Rightarrow> bool" where
  "sets_given creds = (case creds of
     RandomPassword n cs \<Rightarrow> list_all (\<lambda>c. coCharSet c \<noteq> [] \<and> list_all (byte_in 32 127) (coCharSet c)) cs
   | PlaintextPassword p \<Rightarrow> xml_text p
   | NoPasswordOption \<Rightarrow> True)"

fun covered :: "prov_op \<Rightarrow> bool" where
  "covered (CreateU info) = creation_covered info"
| "covered (CreateA info creds) = (creation_covered info \<and> sets_given creds)"
| "covered _ = True"

lemma kept_plain: "kept_by_cleaning n \<Longrightarrow> n \<noteq> [] \<Longrightarrow> plain_segment n"
  by (simp add: kept_by_cleaning_def plain_segment_def)

lemma profile_string_texts: "texts_given info \<Longrightarrow> xml_text (profile_string (aiProfile info) key)"
  by (auto simp: texts_given_def profile_string_def list_all_iff dest!: map_of_SomeD split: option.split profile_value.split)

definition directory_of :: "server \<Rightarrow> directory" where
  "directory_of s = \<lparr>dUsers = srvUserList s, dNextUser = srvNextUserID s, dAccounts = srvAccountList s,
     dNextAccount = srvNextAccountID s\<rparr>"

subsection \<open>Running a history\<close>

primrec run_ops :: "('o \<Rightarrow> 's \<Rightarrow> 'a \<times> 's) \<Rightarrow> 'o list \<Rightarrow> 's \<Rightarrow> 'a list \<times> 's" where
  "run_ops step [] s = ([], s)"
| "run_ops step (x # xs) s = (case step x s of (a, t) \<Rightarrow> case run_ops step xs t of (as, u) \<Rightarrow> (a # as, u))"

locale op_simulation =
  fixes step :: "'o \<Rightarrow> 's \<Rightarrow> 'a \<times> 's"
    and spec :: "'o \<Rightarrow> 'd \<Rightarrow> 'a \<times> 'd"
    and abs :: "'s \<Rightarrow> 'd"
    and budget :: "nat \<Rightarrow> 's \<Rightarrow> bool"
    and ok :: "'o \<Rightarrow> bool"
  assumes simulates: "budget (Suc n) s \<Longrightarrow> ok x \<Longrightarrow> step x s = (a, t) \<Longrightarrow> spec x (abs s) = (a, abs t) \<and> budget n t"
begin

lemma history:
  "budget (length xs) s \<Longrightarrow> \<forall>x\<in>set xs. ok x \<Longrightarrow> run_ops step xs s = (as, t) \<Longrightarrow> run_ops spec xs (abs s) = (as, abs t)"
proof (induction xs arbitrary: s as)
  case (Cons x xs)
  obtain a u bs where h: "step x s = (a, u)" "run_ops step xs u = (bs, t)" "as = a # bs"
    using Cons.prems(3) by (auto split: prod.splits)
  with simulates[of "length xs" s x a u] Cons.prems(1,2) Cons.IH[of u bs] show ?case by simp
qed simp

end

subsection \<open>One operation\<close>

text \<open>The directory a state holds, and where its random source stands.\<close>

definition dir_view :: "(mock_world, 'x) conn_scheme \<Rightarrow> directory \<times> nat" where
  "dir_view s = (directory_of (srv_of s), wSource (netWorld s))"

text \<open>What is shown of each operation: its answer, the directory left, and that the server made at most one step.\<close>

definition refines :: "draws \<Rightarrow> mock_world env \<Rightarrow> prov_op \<Rightarrow> (mock_world, 'x) conn_scheme \<Rightarrow> bool" where
  "refines f E x s \<longleftrightarrow>
     (\<exists>srv k. conn_op E x s = (fst (dir_op f x (dir_view s)), at_source (with_server s srv) k)
        \<and> snd (dir_op f x (dir_view s)) = (directory_of srv, k)
        \<and> srvToken srv = srvToken (srv_of s) \<and> (srv = srv_of s \<or> srv_step (srv_of s) srv))"

lemma refines_step:
  "conn_op E x s = (a, at_source (with_server s srv) k) \<Longrightarrow>
   dir_op f x (directory_of (srv_of s), wSource (netWorld s)) = (a, directory_of srv, k) \<Longrightarrow>
   srvToken srv = srvToken (srv_of s) \<Longrightarrow> srv = srv_of s \<or> srv_step (srv_of s) srv \<Longrightarrow> refines f E x s"
  by (auto simp: refines_def dir_view_def)

lemma refines_source:
  "conn_op E x s = (a, at_source s k) \<Longrightarrow>
   dir_op f x (directory_of (srv_of s), wSource (netWorld s)) = (a, directory_of (srv_of s), k) \<Longrightarrow> refines f E x s"
  by (rule refines_step[where srv = "srv_of s"]) simp_all

lemma refines_same:
  "conn_op E x s = (a, s) \<Longrightarrow>
   dir_op f x (directory_of (srv_of s), wSource (netWorld s)) = (a, directory_of (srv_of s), wSource (netWorld s)) \<Longrightarrow> refines f E x s"
  by (rule refines_source[where k = "wSource (netWorld s)"]) simp_all

lemma kept_source: "at_source (with_server s srv) (wSource (netWorld s)) = with_server s srv"
  by (metis at_source_net(6) at_source_simps(10))

lemma answered_run: "m s = (r, t) \<Longrightarrow> answered m f s = (bind_err r (\<lambda>a. Inr (f a)), t)"
  by (cases r) (simp_all add: answered_def bindE_def bind_err_def)

lemma directory_simps [simp]:
  "dUsers (directory_of s) = srvUserList s" "dNextUser (directory_of s) = srvNextUserID s"
  "dAccounts (directory_of s) = srvAccountList s" "dNextAccount (directory_of s) = srvNextAccountID s"
  by (simp_all add: directory_of_def)

lemma next_ids_room:
  "room 1 s \<Longrightarrow> server_inv s \<Longrightarrow> wrap64 (srvNextUserID s + 1) = srvNextUserID s + 1"
  "room 1 s \<Longrightarrow> server_inv s \<Longrightarrow> wrap64 (srvNextAccountID s + 1) = srvNextAccountID s + 1"
  by (auto simp: room_def next_ids_def server_inv_def users_ok_def accounts_ok_def store_ok_def intro!: next_id)

lemma directory_add:
  assumes "room 1 s" "server_inv s"
  shows "new_user (user_body (aiLogin info) (aiProfile info)) s = dir_user info (srvNextUserID s + 1)"
    "directory_of (snd (add_user_record (user_body (aiLogin info) (aiProfile info)) s)) =
       (directory_of s)\<lparr>dUsers := srvUserList s @ [dir_user info (srvNextUserID s + 1)], dNextUser := srvNextUserID s + 1\<rparr>"
    "new_account (account_body (aiLogin info) pw pset privs (aiProfile info)) s = dir_account info pset privs (srvNextAccountID s + 1)"
    "directory_of (snd (add_account_record (account_body (aiLogin info) pw pset privs (aiProfile info)) s)) =
       (directory_of s)\<lparr>dAccounts := srvAccountList s @ [dir_account info pset privs (srvNextAccountID s + 1)],
          dNextAccount := srvNextAccountID s + 1\<rparr>"
proof -
  show u: "new_user (user_body (aiLogin info) (aiProfile info)) s = dir_user info (srvNextUserID s + 1)"
    by (simp add: new_user_def user_body_def dir_user_def next_ids_room[OF assms])
  show a: "new_account (account_body (aiLogin info) pw pset privs (aiProfile info)) s
      = dir_account info pset privs (srvNextAccountID s + 1)"
    by (simp add: new_account_def account_body_def dir_account_def next_ids_room[OF assms] enabledValue_def defaultAccessLevel_def)
  show "directory_of (snd (add_user_record (user_body (aiLogin info) (aiProfile info)) s)) =
       (directory_of s)\<lparr>dUsers := srvUserList s @ [dir_user info (srvNextUserID s + 1)], dNextUser := srvNextUserID s + 1\<rparr>"
    by (simp add: add_user_record_eq u next_ids_room[OF assms] directory_of_def)
  show "directory_of (snd (add_account_record (account_body (aiLogin info) pw pset privs (aiProfile info)) s)) =
       (directory_of s)\<lparr>dAccounts := srvAccountList s @ [dir_account info pset privs (srvNextAccountID s + 1)],
          dNextAccount := srvNextAccountID s + 1\<rparr>"
    by (simp add: add_account_record_eq a next_ids_room[OF assms] directory_of_def)
qed

lemma directory_remove:
  "directory_of (remove_user i s) = (directory_of s)\<lparr>dUsers := filter (\<lambda>u. ID u \<noteq> i) (srvUserList s)\<rparr>"
  "directory_of (remove_account i s) = (directory_of s)\<lparr>dAccounts := filter (\<lambda>a. ID a \<noteq> i) (srvAccountList s)\<rparr>"
  by (simp_all add: remove_user_def remove_account_def deleteByID_def directory_of_def)

lemma refines_lists:
  assumes "connected s" "server_inv (srv_of s)"
  shows "refines f (mock_env x rnd None) ListU s" "refines f (mock_env x rnd None) ListA s"
proof -
  have "user_List (mock_env x rnd None) None s = (map_err (\<lambda>u. userResource u None) (srvUserList (srv_of s)), s)"
    by (simp add: user_List_def GetUsers_mock[OF assms] mapE_pure)
  then show "refines f (mock_env x rnd None) ListU s" by (intro refines_same) (simp_all add: answered_run)
  have "userAccount_List (mock_env x rnd None) None s =
      (map_err (\<lambda>a. userAccountResource a None) (srvAccountList (srv_of s)), s)"
    by (simp add: userAccount_List_def GetAccounts_mock[OF assms] mapE_pure)
  then show "refines f (mock_env x rnd None) ListA s" by (intro refines_same) (simp_all add: answered_run)
qed

lemma made_eq:
  "bind_err (case ur of Inl e \<Rightarrow> Inl e | Inr r \<Rightarrow> Inr (SuccessResult r, ps)) (\<lambda>a. Inr (case a of (r, ps) \<Rightarrow> Made r ps)) = made ur False ps"
  "bind_err (case ur of Inl e \<Rightarrow> Inl e | Inr r \<Rightarrow> Inr (AlreadyExistsResult r, [])) (\<lambda>a. Inr (case a of (r, ps) \<Rightarrow> Made r ps)) = made ur True ps"
  by (cases ur; simp add: made_def bind_err_def)+

text \<open>Both creations refuse an empty login before anything else.\<close>

lemma refines_no_login:
  assumes "aiLogin info = []"
  shows "refines f (mock_env x rnd None) (CreateU info) s" "refines f (mock_env x rnd None) (CreateA info creds) s"
  using assms by (auto intro!: refines_same
      simp: answered_def user_CreateAccount_def userAccount_CreateAccount_def requireLogin_def no_login_def)

lemma refines_create_user:
  assumes "connected s" "server_inv (srv_of s)" "room 1 (srv_of s)" "plain_segment (aiLogin info)"
  shows "refines f (mock_env x rnd None) (CreateU info) s"
proof -
  have n: "aiLogin info \<noteq> []" using assms(4) by (simp add: plain_segment_def)
  show ?thesis
  proof (cases "findUserByName (srv_of s) (aiLogin info)")
    case None
    let ?b = "user_body (aiLogin info) (aiProfile info)"
    have "srv_step (srv_of s) (snd (add_user_record ?b (srv_of s)))"
      using n None by (intro step_add_user) (simp_all add: user_body_def)
    moreover have "create_in Name (aiLogin info) (srvUserList (srv_of s)) v = (v, False)" for v
      using None by (simp add: create_in_def findUserByName_def)
    ultimately show ?thesis
      using create_user_new[OF assms None, of x rnd NoPasswordOption] directory_add[OF assms(3,2)] n
      by (intro refines_step[where srv = "snd (add_user_record ?b (srv_of s))" and k = "wSource (netWorld s)"])
        (simp_all add: Let_def answered_run made_eq kept_source)
  next
    case (Some u)
    have "create_in Name (aiLogin info) (srvUserList (srv_of s)) v = (u, True)" for v
      using Some by (simp add: create_in_def findUserByName_def)
    then show ?thesis
      using create_user_existing[OF assms(1,2,4) Some, of x rnd NoPasswordOption] n
      by (intro refines_same) (simp_all add: answered_run made_eq)
  qed
qed

lemma refines_delete_user:
  assumes "connected s" "server_inv (srv_of s)"
  shows "refines f (mock_env x rnd None) (DeleteU rid) s"
proof (cases "atoi (ridResource rid)")
  case None
  then show ?thesis by (intro refines_same) (simp_all add: answered_def user_Delete_def)
next
  case (Some i)
  have ok: "users_ok (srv_of s)" using assms(2) by (simp add: server_inv_def)
  have "remove_user i (srv_of s) = srv_of s \<or> srv_step (srv_of s) (remove_user i (srv_of s))"
    using remove_absent_user[OF _ ok] step_del_user by (cases "srvUsers (srv_of s) i") auto
  with Some show ?thesis
    using delete_user_mock[OF assms Some, of x rnd None] directory_remove
    by (intro refines_step[where srv = "remove_user i (srv_of s)" and k = "wSource (netWorld s)"])
      (simp_all add: answered_run bind_err_def kept_source)
qed

text \<open>The console accounts in the same way.\<close>

lemma plaintext_run: "GeneratePassword E (PlaintextPassword pw) s = (Inr pw, s)"
  by (simp add: GeneratePassword_def)

text \<open>The refusals before anything is sent, in their order.\<close>

lemma create_account_refused:
  assumes "aiLogin info \<noteq> []"
  shows "choosePrivilegeSet (aiProfile info) = Inl e \<Longrightarrow> userAccount_CreateAccount E info creds s = (Inl e, s)"
    and "choosePrivilegeSet (aiProfile info) = Inr pset \<Longrightarrow>
      dir_password f creds (wSource (netWorld s)) = (Inl e, k) \<Longrightarrow>
      userAccount_CreateAccount (mock_env x (drawn f) ttl) info creds s = (Inl e, at_source s k)"
    and "choosePrivilegeSet (aiProfile info) = Inr pset \<Longrightarrow>
      dir_password f creds (wSource (netWorld s)) = (Inr pw, k) \<Longrightarrow>
      resolvePrivileges (aiProfile info) pset = Inl e \<Longrightarrow>
      userAccount_CreateAccount (mock_env x (drawn f) ttl) info creds s = (Inl e, at_source s k)"
  using assms dir_password_run(1)[of f creds s _ k x ttl]
  by (simp_all add: userAccount_CreateAccount_def requireLogin_def bindE_def)

text \<open>An empty password is refused by the server.\<close>

lemma CreateUserAccount_no_password:
  assumes "connected s" "acPassword b = []"
  shows "CreateUserAccount (mock_env x rnd ttl) b s = (Inl (StatusError InvalidArgument []), s)"
proof -
  let ?rq = "api_send POST s (accountUrlPath newResourceID) (Some (xml_UserAccountCreateBody b))"
  have "reply x ?rq s = post_account ?rq (srv_of s)"
    using assms(1) by (simp add: reply_def url_paths join_plain serve_account_id handleAccountByID_def path_ids
        newResourceID_def del: append.simps)
  then have r: "reply x ?rq s = (writeJSONError 400 ''name and password are required'', srv_of s)"
    using assms(2) by (simp add: post_account_def decode_body)
  have "GrpcCodeFromHTTPStatus 400 = InvalidArgument" by (simp add: GrpcCodeFromHTTPStatus_def)
  then show ?thesis
    unfolding CreateUserAccount_def by (subst write_mock[OF assms(1) r]) simp_all
qed

lemma create_account_no_password:
  assumes "connected t" "aiLogin info \<noteq> []" "GeneratePassword (mock_env x rnd None) creds s = (Inr [], t)"
    "choosePrivilegeSet (aiProfile info) = Inr pset" "resolvePrivileges (aiProfile info) pset = Inr privs"
  shows "userAccount_CreateAccount (mock_env x rnd None) info creds s =
    (Inl (WrapError (''jamf-connector: create account '' @ aiLogin info) (StatusError InvalidArgument [])), t)"
proof -
  let ?b = "account_body (aiLogin info) [] pset privs (aiProfile info)"
  have "acPassword ?b = []" by (simp add: account_body_def)
  from CreateUserAccount_no_password[OF assms(1) this, of x rnd None] show ?thesis
    using assms(2-5) by (simp add: userAccount_CreateAccount_def requireLogin_def Let_def account_body_def
        IsAlreadyExistsError_def bindE_def tryE_def mapErr_def)
qed

lemma create_account_existing:
  assumes "connected t" "server_inv (srv_of t)" "plain_segment (aiLogin info)"
    "findAccountByName (srv_of t) (aiLogin info) = Some a"
    "choosePrivilegeSet (aiProfile info) = Inr pset" "resolvePrivileges (aiProfile info) pset = Inr privs"
    "GeneratePassword (mock_env x rnd None) creds s = (Inr pw, t)" "pw \<noteq> []"
  shows "userAccount_CreateAccount (mock_env x rnd None) info creds s =
    (case userAccountResource a None of Inl e \<Rightarrow> Inl e | Inr r \<Rightarrow> Inr (AlreadyExistsResult r, []), t)"
proof -
  let ?b = "account_body (aiLogin info) pw pset privs (aiProfile info)"
  have n: "aiLogin info \<noteq> []" using assms(3) by (simp add: plain_segment_def)
  have "CreateUserAccount (mock_env x rnd None) ?b t = (Inl (StatusError AlreadyExists []), t)"
    by (rule CreateUserAccount_mock(2)[OF assms(1), where u = a])
       (use n assms(4,8) account_body_enums[OF choosePrivilegeSet_known[OF assms(5)]] in \<open>simp_all add: account_body_def\<close>)
  then show ?thesis
    using n assms(5-7) GetUserAccountByName_mock[OF assms(1-4)]
    by (cases "userAccountResource a None")
       (simp_all add: userAccount_CreateAccount_def requireLogin_def Let_def account_body_def
          IsAlreadyExistsError_def)
qed

lemma refines_accepted_account:
  assumes "connected s" "server_inv (srv_of s)" "room 1 (srv_of s)" "plain_segment (aiLogin info)"
    and pset: "choosePrivilegeSet (aiProfile info) = Inr pset"
    and privs: "resolvePrivileges (aiProfile info) pset = Inr privs"
    and drawn: "dir_password f creds (wSource (netWorld s)) = (Inr pw, k)" and pw: "pw \<noteq> []"
  shows "refines f (mock_env x (drawn f) None) (CreateA info creds) s"
proof -
  let ?b = "account_body (aiLogin info) pw pset privs (aiProfile info)" and ?t = "at_source s k"
  have n: "aiLogin info \<noteq> []" using assms(4) by (simp add: plain_segment_def)
  have t: "connected ?t" "server_inv (srv_of ?t)" "room 1 (srv_of ?t)" using assms(1-3) by simp_all
  note run = dir_password_run(2)[OF drawn refl, of x None]
  note accepted = n pset privs pw drawn
  show ?thesis
  proof (cases "findAccountByName (srv_of s) (aiLogin info)")
    case None
    have "srv_step (srv_of s) (snd (add_account_record ?b (srv_of s)))"
      by (rule step_add_account)
         (use n None pw account_body_enums[OF choosePrivilegeSet_known[OF pset]] in \<open>simp_all add: account_body_def\<close>)
    moreover have "create_in Name (aiLogin info) (srvAccountList (srv_of s)) v = (v, False)" for v
      using None by (simp add: create_in_def findAccountByName_def)
    moreover have "findAccountByName (srv_of ?t) (aiLogin info) = None" using None by simp
    ultimately show ?thesis
      using create_account_new[OF t assms(4) _ pset privs run pw] directory_add[OF assms(3,2)] accepted
      by (intro refines_step[where srv = "snd (add_account_record ?b (srv_of s))" and k = k])
         (simp_all add: Let_def answered_run made_eq)
  next
    case (Some a)
    have "create_in Name (aiLogin info) (srvAccountList (srv_of s)) v = (a, True)" for v
      using Some by (simp add: create_in_def findAccountByName_def)
    moreover have "findAccountByName (srv_of ?t) (aiLogin info) = Some a" using Some by simp
    ultimately show ?thesis
      using create_account_existing[OF t(1,2) assms(4) _ pset privs run pw] accepted
      by (intro refines_source[where k = k]) (simp_all add: answered_run made_eq)
  qed
qed

lemma refines_create_account:
  assumes "connected s" "server_inv (srv_of s)" "room 1 (srv_of s)" "plain_segment (aiLogin info)"
  shows "refines f (mock_env x (drawn f) None) (CreateA info creds) s"
proof -
  let ?p = "aiProfile info"
  have n: "aiLogin info \<noteq> []" using assms(4) by (simp add: plain_segment_def)
  note refused = create_account_refused[OF n]
  obtain q k where q: "dir_password f creds (wSource (netWorld s)) = (q, k)" by fastforce
  consider e where "choosePrivilegeSet ?p = Inl e"
    | pset e where "choosePrivilegeSet ?p = Inr pset" "q = Inl e"
    | pset pw e where "choosePrivilegeSet ?p = Inr pset" "q = Inr pw" "resolvePrivileges ?p pset = Inl e"
    | pset pw privs where "choosePrivilegeSet ?p = Inr pset" "q = Inr pw" "resolvePrivileges ?p pset = Inr privs"
    by (cases "choosePrivilegeSet ?p"; cases q; cases "resolvePrivileges ?p (projr (choosePrivilegeSet ?p))")
       auto
  then show ?thesis
  proof cases
    case 1
    with n show ?thesis by (intro refines_same) (simp_all add: answered_run[OF refused(1)] bind_err_def)
  next
    case 2
    with n q show ?thesis by (intro refines_source[where k = k]) (simp_all add: answered_run[OF refused(2)] bind_err_def)
  next
    case 3
    with n q show ?thesis by (intro refines_source[where k = k]) (simp_all add: answered_run[OF refused(3)] bind_err_def)
  next
    case 4
    show ?thesis
    proof (cases "pw = []")
      case True
      have con: "connected (at_source s k)" using assms(1) by simp
      have "GeneratePassword (mock_env x (drawn f) None) creds s = (Inr [], at_source s k)"
        using dir_password_run(2)[OF q] 4(2) True by simp
      from create_account_no_password[OF con n this 4(1,3)] n 4 q True show ?thesis
        by (intro refines_source[where k = k]) (simp_all add: answered_run bind_err_def)
    qed (use refines_accepted_account[OF assms 4(1,3)] q 4(2) in simp)
  qed
qed

lemma remove_absent_account: "srvAccounts s i = None \<Longrightarrow> accounts_ok s \<Longrightarrow> remove_account i s = s"
  using accounts.remove_absent[of s i] by (cases s) (auto simp: remove_account_def fun_upd_idem)

lemma DeleteUserAccount_mock:
  assumes "connected s" "int64 i"
  shows "DeleteUserAccount (mock_env x rnd ttl) i s =
    (case srvAccounts (srv_of s) i of None \<Rightarrow> (Inl (StatusError NotFound []), s)
     | Some _ \<Rightarrow> (Inr (), with_server s (remove_account i (srv_of s))))"
proof -
  let ?rq = "api_send DELETE s (accountUrlPath i) None"
  have "reply x ?rq s = delete_account i (srv_of s)"
    using assms by (simp add: reply_def url_paths join_plain serve_account_id handleAccountByID_def path_ids
        del: append.simps)
  then have r: "srvAccounts (srv_of s) i = None \<Longrightarrow> reply x ?rq s = (writeJSONError 404 ''account not found'', srv_of s)"
    "srvAccounts (srv_of s) i = Some u \<Longrightarrow> reply x ?rq s = (empty_ok, remove_account i (srv_of s))" for u
    by (simp_all add: delete_account_def)
  show ?thesis
    by (cases "srvAccounts (srv_of s) i")
       (simp_all add: DeleteUserAccount_def write_mock[OF assms(1) r(1)] write_mock[OF assms(1) r(2)] status_404
          del: getUrl_mock)
qed

lemma delete_account_mock:
  assumes "connected s" "server_inv (srv_of s)" "atoi (ridResource rid) = Some i"
  shows "userAccount_Delete (mock_env x rnd ttl) rid s = (Inr (), with_server s (remove_account i (srv_of s)))"
proof (cases "srvAccounts (srv_of s) i")
  case None
  have "accounts_ok (srv_of s)" using assms(2) by (simp add: server_inv_def)
  from remove_absent_account[OF None this] DeleteUserAccount_mock[OF assms(1) atoi_int64[OF assms(3)]] None assms(3)
  show ?thesis by (simp add: userAccount_Delete_def IsNotFoundError_def)
next
  case (Some a)
  with DeleteUserAccount_mock[OF assms(1) atoi_int64[OF assms(3)]] assms(3)
  show ?thesis by (simp add: userAccount_Delete_def)
qed

lemma refines_delete_account:
  assumes "connected s" "server_inv (srv_of s)"
  shows "refines f (mock_env x rnd None) (DeleteA rid) s"
proof (cases "atoi (ridResource rid)")
  case None
  then show ?thesis by (intro refines_same) (simp_all add: answered_def userAccount_Delete_def)
next
  case (Some i)
  have ok: "accounts_ok (srv_of s)" using assms(2) by (simp add: server_inv_def)
  have "remove_account i (srv_of s) = srv_of s \<or> srv_step (srv_of s) (remove_account i (srv_of s))"
    using remove_absent_account[OF _ ok] step_del_account by (cases "srvAccounts (srv_of s) i") auto
  with Some show ?thesis
    using delete_account_mock[OF assms Some, of x rnd None] directory_remove
    by (intro refines_step[where srv = "remove_account i (srv_of s)" and k = "wSource (netWorld s)"])
      (simp_all add: answered_run bind_err_def kept_source)
qed

subsection \<open>Histories\<close>

text \<open>A connected client of a server that has room for \<open>k\<close> more steps.\<close>

definition budget :: "nat \<Rightarrow> (mock_world, 'x) conn_scheme \<Rightarrow> bool" where
  "budget k s \<longleftrightarrow> connected s \<and> (\<exists>n. reach n (srv_of s) \<and> n + k < 2 ^ 62)"

lemma refines_covered:
  assumes "budget (Suc k) s" "covered op"
  shows "refines f (mock_env x (drawn f) None) op s"
proof -
  obtain n where n: "connected s" "reach n (srv_of s)" "n < 2 ^ 62" using assms(1) by (auto simp: budget_def)
  note facts = n(1) reach_server_inv[OF n(2,3)]
  show ?thesis
  proof (cases op)
    case (CreateU info)
    with assms(2) show ?thesis
      using refines_no_login(1) refines_create_user[OF facts reach_room[OF n(2,3)] kept_plain]
      by (cases "aiLogin info = []") (auto simp: creation_covered_def)
  next
    case (CreateA info creds)
    with assms(2) show ?thesis
      using refines_no_login(2) refines_create_account[OF facts reach_room[OF n(2,3)] kept_plain]
      by (cases "aiLogin info = []") (auto simp: creation_covered_def)
  qed (use refines_lists[OF facts] refines_delete_user[OF facts] refines_delete_account[OF facts] in auto)
qed

interpretation provisioning: op_simulation
  "conn_op (mock_env x (drawn f) None)" "dir_op f" dir_view budget covered for x f
proof
  fix k s op a t
  assume b: "budget (Suc k) s" and c: "covered op" and run: "conn_op (mock_env x (drawn f) None) op s = (a, t)"
  obtain n where n: "connected s" "reach n (srv_of s)" "n + Suc k < 2 ^ 62" using b by (auto simp: budget_def)
  obtain srv l where srv: "a = fst (dir_op f op (dir_view s))" "t = at_source (with_server s srv) l"
    "snd (dir_op f op (dir_view s)) = (directory_of srv, l)" "srvToken srv = srvToken (srv_of s)"
    "srv = srv_of s \<or> srv_step (srv_of s) srv"
    using refines_covered[OF b c, of f x] run by (auto simp: refines_def)
  have "reach (Suc n) srv" using srv(5) n(2) by (auto intro: reach.intros)
  moreover have "connected t" using connected_with_server[OF n(1) srv(4)] srv(2) by simp
  ultimately have "budget k t" using n(3) srv(2) by (auto simp: budget_def intro!: exI[of _ "Suc n"])
  then show "dir_op f op (dir_view s) = (a, dir_view t) \<and> budget k t"
    using srv(1-3) by (simp add: prod_eq_iff dir_view_def)
qed

text \<open>
  C4.  Any history of creations, deletions and listings of users and console accounts, run by the
  connector without a response cache against the mock server from any state it can reach, gives exactly
  the answers the abstract directory gives, errors included and random passwords drawn from the same
  stream, and leaves the server holding the directory's records and counters.  The server has been sent
  fewer than 2^62 requests.  Of a creation the login is not \<open>.\<close> or \<open>..\<close>, the texts are UTF-8 without control
  characters, and the character sets of a random password are of printable ASCII and not empty; the clock stands
  still, so the connected client's token stays good.
\<close>

theorem provisioning_refines:
  assumes "reach n (srv_of s)" "n + length ops < 2 ^ 62" "connected s" "\<forall>op\<in>set ops. covered op"
    and "run_ops (conn_op (mock_env x (drawn f) None)) ops s = (answers, t)"
  shows "run_ops (dir_op f) ops (directory_of (srv_of s), wSource (netWorld s))
    = (answers, directory_of (srv_of t), wSource (netWorld t))"
proof -
  have "budget (length ops) s" using assms(1-3) by (auto simp: budget_def)
  from provisioning.history[OF this assms(4,5)] show ?thesis by (simp add: dir_view_def)
qed

text \<open>A source that gives zero every time.\<close>

definition zeros :: draws where "zeros k b = Inr 0"

lemma kim_covered: "creation_covered kim"
  by (simp add: creation_covered_def kept_by_cleaning_def texts_given_def kim_def xml_text_def xml_byte_def byte_in_def)

lemma drawn_zeros: "dir_password zeros (RandomPassword 8 []) 0 = (Inr ''a0!AAAAA'', 15)"
  by code_simp

theorem provisioning_refines_witness:
  "\<exists>answers t::mock_conn. run_ops (conn_op (mock_env no_expiry (drawn zeros) None))
      [CreateU kim, DeleteU \<lparr>ridType = ''user'', ridResource = ''2''\<rparr>, CreateA kim (RandomPassword 8 [])] (demo ''t'' 0) = (answers, t)
    \<and> map ID (srvUserList (srv_of t)) = [1, 3, 4, 5, 6]
    \<and> map Name (srvAccountList (srv_of t)) = [''admin1'', ''admin2'', ''admin3'', ''kim'']
    \<and> wSource (netWorld t) = 15"
proof -
  let ?ops = "[CreateU kim, DeleteU \<lparr>ridType = ''user'', ridResource = ''2''\<rparr>, CreateA kim (RandomPassword 8 [])]"
  let ?srv = "newServer ''u'' ''p'' ''t''"
  obtain as t where run: "run_ops (conn_op (mock_env no_expiry (drawn zeros) None)) ?ops (demo ''t'' 0) = (as, t)"
    by fastforce
  have dir: "run_ops (dir_op zeros) ?ops (directory_of ?srv, 0) = (as, directory_of (srv_of t), wSource (netWorld t))"
    using provisioning_refines[OF demo_reach _ demo_connected _ run] by (simp add: kim_covered sets_given_def del: run_ops.simps) (simp add: demo_def del: run_ops.simps)
  have new: "create_in Name (aiLogin kim) (srvUserList ?srv) v = (v, False)"
    "create_in Name (aiLogin kim) (srvAccountList ?srv) w = (w, False)" for v w
    using kim_simps(2-4) by (simp_all add: create_in_def findUserByName_def findAccountByName_def)
  have kim: "aiLogin kim \<noteq> []" "choosePrivilegeSet (aiProfile kim) = Inr ''Auditor''" "resolvePrivileges (aiProfile kim) ''Auditor'' = Inr None"
    by (simp_all add: kim_simps choosePrivilegeSet_def resolvePrivileges_def profile_privileges_def stringSliceFromProfile_def
        kim_def defaultPrivilegeSet_def privilege_set_defs IsEmpty_def)
  have "atoi ''2'' = Some 2" by code_simp
  then have "map ID (dUsers (fst (snd (run_ops (dir_op zeros) ?ops (directory_of ?srv, 0))))) = [1, 3, 4, 5, 6]"
    "map Name (dAccounts (fst (snd (run_ops (dir_op zeros) ?ops (directory_of ?srv, 0))))) = [''admin1'', ''admin2'', ''admin3'', ''kim'']"
    "snd (snd (run_ops (dir_op zeros) ?ops (directory_of ?srv, 0))) = 15"
    by (simp_all add: new kim drawn_zeros dir_user_def dir_account_def) (simp_all add: newServer_def seed_defs kim_simps)
  with run dir show ?thesis by (auto simp del: run_ops.simps)
qed

end
