(* ===== verification/MemberProps.thy ===== *)
theory MemberProps
  imports MockProps
begin

section \<open>The members of a console group\<close>

text \<open>
  The grants of a console group on the mock server: one per member, unless an account of a member has
  been deleted, which the server's groups do not notice.
\<close>

definition member_grant :: "Resource \<Rightarrow> BaseType \<Rightarrow> Grant" where
  "member_grant r m = NewGrant r ''member'' \<lparr>ridType = ''userAccount'', ridResource = itoa (ID m)\<rparr>"

text \<open>What is not there is answered with 404, and the read fails with \<open>NotFound\<close>.\<close>

lemma fetch_missing:
  assumes "connected s" "reply x (api_get s path) s = (writeJSONError 404 m, srv_of s)"
  shows "fetch (mock_env x rnd None) path d z s = (Inl (StatusError NotFound []), s)"
  using request_mock[where tg = tg and rnd = rnd and ttl = None for tg rnd, OF connected_fresh[OF assms(1)]
      assms(2)[unfolded api_get_def]]
  by (simp add: fetch_def doRequest_def status_404)

lemma GetUserAccountDetails_missing:
  assumes "connected s" "int64 i" "srvAccounts (srv_of s) i = None"
  shows "GetUserAccountDetails (mock_env x rnd None) i s = (Inl (StatusError NotFound []), s)"
  unfolding GetUserAccountDetails_def using assms
  by (intro fetch_missing) (simp_all add: reply_def url_paths join_plain serve_account_id handleAccountByID_def path_ids
      del: append.simps)

lemma GetGroupDetails_missing:
  assumes "connected s" "int64 i" "srvGroups (srv_of s) i = None"
  shows "GetGroupDetails (mock_env x rnd None) i s = (Inl (StatusError NotFound []), s)"
  unfolding GetGroupDetails_def using assms
  by (intro fetch_missing) (simp_all add: reply_def url_paths join_plain serve_group_id handleGroupByID_def pathID_def
      pathTail_def trim_prefix_append only_get_ok del: append.simps)

lemma GetUserGroupDetails_missing:
  assumes "connected s" "int64 i" "srvUserGroups (srv_of s) i = None"
  shows "GetUserGroupDetails (mock_env x rnd None) i s = (Inl (StatusError NotFound []), s)"
  unfolding GetUserGroupDetails_def using assms
  by (intro fetch_missing) (simp_all add: reply_def url_paths join_plain serve_user_group_id handleUserGroupByID_def
      pathID_def pathTail_def trim_prefix_append only_get_ok del: append.simps)

text \<open>A loop that reads: it ends at the first element that fails.\<close>

lemma mapE_missing:
  assumes "\<And>m. m \<in> set ms \<Longrightarrow> f m s = (if P m then Inr (g m) else Inl e, s)"
  shows "mapE f ms s = (if \<forall>m\<in>set ms. P m then Inr (map g ms) else Inl e, s)"
  using assms by (induction ms) (auto simp: bindE_def)

lemma readMembers_first:
  "GetGroupDetails E i s = (Inr g, t) \<Longrightarrow> grpMembers g \<noteq> [] \<Longrightarrow> readMembers E i (Suc n) h s = (Inr (Some g), t)"
  by simp

lemma group_Grants_mock:
  assumes "connected s" "server_inv (srv_of s)" "g \<in> set (srvGroupList (srv_of s))"
    and "atoi (ridResource (resId r)) = Some (ID g)" "grpMembers g \<noteq> []"
    and "\<forall>a\<in>set (srvAccountList (srv_of s)). account_utf8 a"
  shows "group_Grants (mock_env x rnd None) r s =
    (if \<forall>m\<in>set (grpMembers g). srvAccounts (srv_of s) (ID m) \<noteq> None
     then Inr (map (member_grant r) (grpMembers g)) else Inl (StatusError NotFound []), s)"
proof -
  let ?E = "mock_env x rnd None"
  note inv = assms(2)
  have g: "ok_Group g" using inv_ID(3)[OF inv assms(3)] .
  have read: "readMembers ?E (ID g) 5 None s = (Inr (Some g), s)"
    using readMembers_first[OF GetGroupDetails_mock[OF assms(1) inv assms(3)] assms(5), of x rnd 4 None] by simp
  have "bindE (GetUserAccountDetails ?E (ID m)) (\<lambda>a. bindE (liftE (userAccountResource a (Some (resId r))))
        (\<lambda>ur. returnE (NewGrant r memberEntitlement (resId ur)))) s
      = (if srvAccounts (srv_of s) (ID m) \<noteq> None then Inr (member_grant r m) else Inl (StatusError NotFound []), s)"
    if m: "m \<in> set (grpMembers g)" for m
  proof (cases "srvAccounts (srv_of s) (ID m)")
    case None
    have "int64 (ID m)" using g m by (auto simp: ok_defs list_all_iff)
    with None show ?thesis by (simp add: GetUserAccountDetails_missing[OF assms(1)] bindE_def)
  next
    case (Some a)
    from accounts_map_mem[OF inv Some] assms(6) have "account_utf8 a" "ID a = ID m" by auto
    then show ?thesis
      by (simp add: Some GetUserAccountDetails_mock[OF assms(1) inv Some] userAccountResource_eq account_view_def
          member_grant_def memberEntitlement_def)
  qed
  then have "mapE (\<lambda>m. bindE (GetUserAccountDetails ?E (ID m)) (\<lambda>a. bindE (liftE (userAccountResource a (Some (resId r))))
        (\<lambda>ur. returnE (NewGrant r memberEntitlement (resId ur))))) (grpMembers g) s
      = (if \<forall>m\<in>set (grpMembers g). srvAccounts (srv_of s) (ID m) \<noteq> None
         then Inr (map (member_grant r) (grpMembers g)) else Inl (StatusError NotFound []), s)"
    by (rule mapE_missing)
  with read show ?thesis by (simp add: group_Grants_def assms(4))
qed

text \<open>
  C17.  The grants of a console group with members are one grant per member, in the group's order, to
  the account of the member's id; when the account of one member has been deleted there are no grants
  at all but the error \<open>NotFound\<close>.  Nothing is changed on the server.
\<close>

theorem group_members_granted:
  assumes "reach n (srv_of s)" "n < 2 ^ 62" "connected s" "g \<in> set (srvGroupList (srv_of s))"
    and "ridResource (resId r) = itoa (ID g)" "grpMembers g \<noteq> []"
    and "\<forall>a\<in>set (srvAccountList (srv_of s)). account_utf8 a"
  shows "group_Grants (mock_env x rnd None) r s =
    (if \<forall>m\<in>set (grpMembers g). srvAccounts (srv_of s) (ID m) \<noteq> None
     then Inr (map (member_grant r) (grpMembers g)) else Inl (StatusError NotFound []), s)"
proof -
  note inv = reach_server_inv[OF assms(1,2)]
  have "atoi (ridResource (resId r)) = Some (ID g)" using ok_ID(3)[OF inv_ID(3)[OF inv assms(4)]] assms(5) by simp
  from group_Grants_mock[OF assms(3) inv assms(4) this assms(6,7)] show ?thesis .
qed

definition admins :: Resource where
  "admins = \<lparr>resId = \<lparr>ridType = ''group'', ridResource = ''201''\<rparr>, resDisplayName = ''group-admins'', resParent = None,
     resProfile = None, resStatus = None, resTraits = []\<rparr>"

theorem group_members_granted_witness:
  "fst (group_Grants (mock_env no_expiry no_random None) admins (demo ''t'' 0)) =
     Inr [member_grant admins \<lparr>ID = 101, Name = ''admin1''\<rparr>, member_grant admins \<lparr>ID = 102, Name = ''admin2''\<rparr>]
   \<and> fst (group_Grants (mock_env no_expiry no_random None) admins
        (with_server (demo ''t'' 0) (remove_account 101 (newServer ''u'' ''p'' ''t'')))) = Inl (StatusError NotFound [])"
proof -
  let ?srv = "newServer ''u'' ''p'' ''t''"
  let ?t = "with_server (demo ''t'' 0) (remove_account 101 ?srv)"
  let ?g = "seed_groups ! 0"
  have id: "itoa 201 = ''201''" by code_simp
  have accounts: "srvAccounts ?srv 101 \<noteq> None" "srvAccounts ?srv 102 \<noteq> None"
    by (simp_all add: newServer_def by_id_def seed_defs)
  then have "srv_step ?srv (remove_account 101 ?srv)" by (auto intro: step_del_account)
  then have "reach (Suc 0) (srv_of ?t)" using reach_step[OF reach_start[of "''u''" "''p''" "''t''"]] by simp
  note there = this connected_with_server[OF demo_connected, of "remove_account 101 ?srv"]
  have g: "?g \<in> set (srvGroupList ?srv)" "ID ?g = 201" "srvGroupList (remove_account 101 ?srv) = srvGroupList ?srv"
    "grpMembers ?g = [\<lparr>ID = 101, Name = ''admin1''\<rparr>, \<lparr>ID = 102, Name = ''admin2''\<rparr>]"
    by (simp_all add: newServer_def seed_groups_def seed_group_def Let_def zero_Group_def remove_account_def)
  have u: "\<forall>a\<in>set (srvAccountList ?srv). account_utf8 a"
    "\<forall>a\<in>set (srvAccountList (remove_account 101 ?srv)). account_utf8 a"
    by (simp_all add: newServer_def seed_defs account_utf8_def byte_in_def remove_account_def deleteByID_def)
  have gone: "srvAccounts (remove_account 101 ?srv) 101 = None" by (simp add: remove_account_def)
  have r: "ridResource (resId admins) = itoa (ID ?g)" by (simp add: admins_def g id)
  show ?thesis
    using group_members_granted[OF demo_reach _ demo_connected, of ?g admins no_expiry no_random]
      group_members_granted[OF there(1) _ there(2), of ?g admins no_expiry no_random] g u accounts gone r
    by (simp add: member_grant_def)
qed

end
