(* ===== verification/EngineCalls.thy ===== *)
theory EngineCalls
  imports ConnectorProps DeviceWalk
begin

section \<open>The paging contract of the sync engine\<close>

text \<open>
  The SDK calls List again with the token the last call returned, and fails the sync when a call returns
  the token it was given: "next page token unchanged - likely a connector bug".  Only the device listing
  has pages; that its tokens always move is shown here for any environment and any token, well formed
  or not.
\<close>

subsection \<open>Numbers and bags\<close>

lemma wrap64_succ: "int64 p \<Longrightarrow> wrap64 (p + 1) \<noteq> p"
proof (cases "p = 2 ^ 63 - 1")
  case True
  then show ?thesis using wrap64_overflow by simp
next
  case False
  moreover assume "int64 p"
  ultimately have "int64 (p + 1)" by (simp add: int64_def)
  then show ?thesis by simp
qed

lemma parse_page_int64: "int64 (fst (parseDevicePageToken t))"
  by (auto simp: parseDevicePageToken_def int64_def split: option.splits prod.splits dest!: atoi_int64[unfolded int64_def])

lemma Current_ok: "Current b \<noteq> None \<Longrightarrow> bag_ok b"
  by (auto simp: Current_def bag_ok_def)

text \<open>A well-formed bag that saves as the token is the bag the token was read as.\<close>

lemma saved_is_read: "Unmarshal t = Inr b \<Longrightarrow> bag_ok b' \<Longrightarrow> Marshal b' = t \<Longrightarrow> b' = b"
  using Unmarshal_Marshal[of b'] by auto

lemma start_bag_current: "Current (start_bag b) \<noteq> None" "Current b \<noteq> None \<Longrightarrow> start_bag b = b"
  by (auto simp: start_bag_def Current_def Push_def split: option.splits)

text \<open>The token of the next page of a phase differs from the one read, even where the page number wraps.\<close>

lemma next_page_moves:
  assumes "Unmarshal t = Inr b" "Current (start_bag b) = Some c" "t \<noteq> EmptyToken"
    and "parseDevicePageToken (psToken c) = (page, seen)"
    and "Next (newDevicePageToken (wrap64 (page + 1)) (wrap64 m)) (start_bag b) = Inr b'"
  shows "Marshal b' \<noteq> t"
proof
  assume same: "Marshal b' = t"
  let ?tok = "newDevicePageToken (wrap64 (page + 1)) (wrap64 m)"
  have p: "int64 page" using parse_page_int64[of "psToken c"] assms(4) by simp
  have ok: "bag_ok (start_bag b)" by (rule Current_ok) (simp add: assms(2))
  obtain cs where st: "bag_stack (start_bag b) = c # cs"
    using bag.current_top[OF ok] assms(2) by (cases "bag_stack (start_bag b)") auto
  have ne: "?tok \<noteq> []" by (simp add: newDevicePageToken_def)
  obtain b2 where b2: "Next ?tok (start_bag b) = Inr b2" "bag_ok b2" "bag_stack b2 = c\<lparr>psToken := ?tok\<rparr> # cs"
    using Next_stack[OF ok st, of ?tok] ne by auto
  then have b': "bag_ok b'" "Current b' = Some (c\<lparr>psToken := ?tok\<rparr>)"
    using assms(5) bag.current_top[of b'] by auto
  from saved_is_read[OF assms(1) b'(1) same] b'(2) have "Current b = Some (c\<lparr>psToken := ?tok\<rparr>)" by simp
  with start_bag_current(2)[of b] assms(2) have "psToken c = ?tok" by (cases c) auto
  with assms(4) have "(page, seen) = (wrap64 (page + 1), wrap64 m)" by simp
  with wrap64_succ[OF p] show False by simp
qed

subsection \<open>The device listing\<close>

lemma mapErr_returns: "mapErr g (liftE (Inr a)) = returnE a"
  by (simp add: comp_defs)

lemma liftE_InrD: "liftE r s = (Inr a, t) \<Longrightarrow> r = Inr a \<and> t = s"
  by simp

lemma device_List_moves:
  assumes "t \<noteq> EmptyToken" "device_List E parent t n s = (Inr (rs, next), s')"
  shows "next \<noteq> t"
proof
  assume same: "next = t"
  obtain b where b: "Unmarshal t = Inr b"
    using assms(2) by (cases "Unmarshal t") (auto simp: device_List_def bindE_def mapErr_def)
  obtain c where c: "Current (start_bag b) = Some c" using start_bag_current(1)[of b] by auto
  obtain page seen where tok: "parseDevicePageToken (psToken c) = (page, seen)" by fastforce
  have ok: "bag_ok (start_bag b)" by (rule Current_ok) (simp add: c)
  note moved = next_page_moves[OF b c assms(1) tok]
  have run: "(let pageSize = (if n \<le> 0 then defaultDevicePageSize else n) in
      if psResourceTypeID c = devicePhaseComputer then
        bindE (computer_page E parent page pageSize) (\<lambda>(resources, total, got).
        if hasMorePages seen pageSize total got
        then bindE (liftE (Next (newDevicePageToken (wrap64 (page + 1)) (wrap64 (seen + got))) (start_bag b))) (\<lambda>bag.
             returnE (resources, Marshal bag))
        else returnE (resources, Marshal (Push (page_state devicePhaseMobile (newDevicePageToken 0 0)) (snd (Pop (start_bag b))))))
      else if psResourceTypeID c = devicePhaseMobile then
        bindE (mobile_page E parent page pageSize) (\<lambda>(resources, total, got).
        if hasMorePages seen pageSize total got
        then bindE (liftE (Next (newDevicePageToken (wrap64 (page + 1)) (wrap64 (seen + got))) (start_bag b))) (\<lambda>bag.
             returnE (resources, Marshal bag))
        else returnE (resources, Marshal (snd (Pop (start_bag b)))))
      else throwE (UnknownDevicePhase (psResourceTypeID c))) s = (Inr (rs, next), s')"
    using assms(2) b c tok by (simp add: device_List_def mapErr_returns Let_def)
  consider m b' where "Next (newDevicePageToken (wrap64 (page + 1)) (wrap64 m)) (start_bag b) = Inr b'" "next = Marshal b'"
    | "psResourceTypeID c = devicePhaseComputer"
        "next = Marshal (Push (page_state devicePhaseMobile (newDevicePageToken 0 0)) (snd (Pop (start_bag b))))"
    | "next = Marshal (snd (Pop (start_bag b)))"
    using run by (auto simp: Let_def split: if_splits dest!: bindE_InrD liftE_InrD)
  then show False
  proof cases
    case 1
    with moved same show False by simp
  next
    case 2
    let ?q = "page_state devicePhaseMobile (newDevicePageToken 0 0)"
    have "bag_ok (Push ?q (snd (Pop (start_bag b))))" by (rule bag.push_ok[OF bag.pop_ok[OF ok]])
    from saved_is_read[OF b this] 2(2) same have r: "b = Push ?q (snd (Pop (start_bag b)))" by simp
    have "Current b = Some ?q" by (subst r) (rule bag.current_push[OF bag.pop_ok[OF ok]])
    with start_bag_current(2)[of b] c 2(1) show False by (auto simp: page_state_def phase_defs)
  next
    case 3
    from saved_is_read[OF b bag.pop_ok[OF ok]] 3 same have r: "b = snd (Pop (start_bag b))" by simp
    show False
    proof (cases "Current b")
      case None
      have "bag_ok b" using bag.pop_ok[OF ok] r by simp
      with None have "bag_stack b = []" using bag.current_top[of b] by (simp split: list.splits)
      with \<open>bag_ok b\<close> have "Marshal b = EmptyToken" by (simp add: Marshal_empty_iff)
      with 3 same r assms(1) show False by simp
    next
      case (Some d)
      then have st: "start_bag b = b" by (simp add: start_bag_current(2))
      with ok bag.pop_stack[of b] r have "bag_stack b = tl (bag_stack b)" by simp
      then have "bag_stack b = []" by (cases "bag_stack b") auto
      with ok st Some bag.current_top[of b] show False by simp
    qed
  qed
qed

subsection \<open>Every listing\<close>

lemma other_List_one_page:
  "rb \<noteq> ManagedDeviceSyncer \<Longrightarrow> syncer_List E rb parent t n s = (Inr (rs, next), s') \<Longrightarrow> next = EmptyToken"
  by (cases rb) (auto dest!: bindE_InrD)

lemma only_devices_paged:
  "map_of (resourceSyncers (registered j)) typeId = Some ManagedDeviceSyncer \<Longrightarrow> typeId = ''managedDevice''"
  by (auto simp: registered_def Let_def split: if_splits)

lemma wrapped_not_unchanged: "mapErr (WrapError m) c s = (Inl e, s') \<Longrightarrow> e \<noteq> token_unchanged"
  by (auto simp: mapErr_def token_unchanged_def split: prod.splits sum.splits)

text \<open>
  C12.  Whatever the server answers and whatever token and page size the SDK passes, no listing of the
  registered connector ends with the SDK's error for an unchanged page token: a listing that is not
  finished returns another token, and only the managed devices have more than one page.
\<close>

theorem page_token_moves:
  fixes s :: "('w, 'x) dev_scheme"
  assumes "NewConnector j = Inr b"
  shows "case fst (builder_ListResources E b typeId parent t n s) of
      Inl e \<Rightarrow> e \<noteq> token_unchanged
    | Inr (rs, next) \<Rightarrow> (t \<noteq> EmptyToken \<longrightarrow> next \<noteq> t) \<and> (typeId \<noteq> ''managedDevice'' \<longrightarrow> next = EmptyToken)"
proof (cases "map_of (resourceSyncers b) typeId")
  case None
  then show ?thesis by (simp add: builder_ListResources_def unknown_type_def token_unchanged_def)
next
  case (Some rb)
  let ?run = "mapErr (WrapError ''error: listing resources failed'') (syncer_List E rb parent t n) s"
  have b: "b = registered j" using assms by (simp add: NewConnector_eq)
  show ?thesis
  proof (cases "fst ?run")
    case (Inl e)
    then obtain s' where run: "?run = (Inl e, s')" by (cases ?run) auto
    with wrapped_not_unchanged[OF run] Some show ?thesis by (simp add: builder_ListResources_def)
  next
    case (Inr a)
    then obtain rs nt s' where run: "?run = (Inr (rs, nt), s')" by (cases ?run; cases a) auto
    note lst = mapErr_InrD[OF run]
    have "rb = ManagedDeviceSyncer \<Longrightarrow> t \<noteq> EmptyToken \<Longrightarrow> nt \<noteq> t"
      using lst device_List_moves[of t E parent n s rs nt s'] by simp
    moreover have "rb \<noteq> ManagedDeviceSyncer \<Longrightarrow> nt = EmptyToken" by (rule other_List_one_page[OF _ lst])
    moreover have "typeId \<noteq> ''managedDevice'' \<Longrightarrow> rb \<noteq> ManagedDeviceSyncer"
      using only_devices_paged[of j typeId] Some b by auto
    ultimately show ?thesis using run Some by (cases "rb = ManagedDeviceSyncer") (auto simp: builder_ListResources_def)
  qed
qed

theorem page_token_moves_witness:
  "fst (builder_ListResources (id_env [''1'', ''2''] [''7''] 2) (registered zero_Jamf) ''managedDevice'' None
      (Marshal (Push (page_state devicePhaseMobile (newDevicePageToken 0 0)) empty_Bag)) 2 id_state) \<noteq> Inl token_unchanged"
  using page_token_moves[OF NewConnector_eq, where E = "id_env [''1'', ''2''] [''7''] 2" and j = zero_Jamf
      and typeId = "''managedDevice''" and parent = None and n = 2 and s = id_state
      and t = "Marshal (Push (page_state devicePhaseMobile (newDevicePageToken 0 0)) empty_Bag)"]
  by auto

end
