(* ===== verification/Interleaving.thy ===== *)
theory Interleaving
  imports SyncProps
begin

section \<open>Listings while others change the server\<close>

text \<open>
  Several clients share a Jamf server, and a listing is many requests: the list of ids, then the details
  of each record.  Here the requests of the other clients are served between those of the connector, in
  an arbitrary schedule: before the k-th request of the connector the k-th batch of theirs.
\<close>

subsection \<open>The shared server\<close>

record busy_world = mock_world +
  wOthers :: "http_request list list"

definition busy_env :: "(int \<Rightarrow> string) \<Rightarrow> (int \<Rightarrow> busy_world \<Rightarrow> (string + int) \<times> busy_world) \<Rightarrow> busy_world env" where
  "busy_env expiry rnd =
     \<lparr>exchange = (\<lambda>rq w.
        let e = expiry (wClock w);
            srv = served (map (Pair e) (case wOthers w of [] \<Rightarrow> [] | batch # _ \<Rightarrow> batch)) (wServer w)
        in case serve e rq srv of (rs, srv') \<Rightarrow> (Inr rs, w\<lparr>wServer := srv', wOthers := tl (wOthers w)\<rparr>)),
      now = wClock, pause = (\<lambda>d w. w\<lparr>wClock := wClock w + d\<rparr>), parseBase = (\<lambda>u. Some (u, [])),
      randInt = rnd, cacheTTL = None\<rparr>"

definition shared :: "(busy_world, 'x) conn_scheme \<Rightarrow> server" where
  "shared s = wServer (netWorld s)"

text \<open>The server as the next request of the connector finds it, and the state that request leaves when
  it only reads.\<close>

definition arrived :: "(int \<Rightarrow> string) \<Rightarrow> (busy_world, 'x) conn_scheme \<Rightarrow> server" where
  "arrived expiry s = served (map (Pair (expiry (wClock (netWorld s))))
     (case wOthers (netWorld s) of [] \<Rightarrow> [] | batch # _ \<Rightarrow> batch)) (shared s)"

definition after_read :: "(int \<Rightarrow> string) \<Rightarrow> (busy_world, 'x) conn_scheme \<Rightarrow> (busy_world, 'x) conn_scheme" where
  "after_read expiry s =
     s\<lparr>netWorld := (netWorld s)\<lparr>wServer := arrived expiry s, wOthers := tl (wOthers (netWorld s))\<rparr>\<rparr>"

definition pending :: "(busy_world, 'x) conn_scheme \<Rightarrow> nat" where
  "pending s = sum_list (map length (wOthers (netWorld s)))"

text \<open>A client with a recent valid token, and a server with room for what is still to come.\<close>

definition busy_ok :: "(busy_world, 'x) conn_scheme \<Rightarrow> bool" where
  "busy_ok s \<longleftrightarrow> clToken s \<noteq> [] \<and> clToken s = srvToken (shared s)
     \<and> wClock (netWorld s) - clLastKeepAlive s < five_minutes
     \<and> (\<exists>n. reach n (shared s) \<and> n + pending s < 2 ^ 62)"

lemma shared_after [simp]: "shared (after_read e s) = arrived e s"
  by (simp add: shared_def after_read_def)

lemma srv_fixed_token: "srv_fixed a = srv_fixed b \<Longrightarrow> srvToken a = srvToken b"
  by (simp add: srv_fixed_def)

lemma busy_step:
  assumes "busy_ok s"
  shows "busy_ok (after_read e s)" "server_inv (arrived e s)" "srvToken (arrived e s) = clToken s"
proof -
  let ?batch = "case wOthers (netWorld s) of [] \<Rightarrow> [] | batch # _ \<Rightarrow> batch"
  obtain n where n: "reach n (shared s)" "n + pending s < 2 ^ 62" using assms by (auto simp: busy_ok_def)
  have p: "pending s = length ?batch + pending (after_read e s)"
    by (cases "wOthers (netWorld s)") (simp_all add: pending_def after_read_def)
  have r: "reach (n + length ?batch) (arrived e s)"
    using reach_served[OF n(1), of "map (Pair (e (wClock (netWorld s)))) ?batch"] by (simp add: arrived_def)
  with n p show "server_inv (arrived e s)" by (intro reach_server_inv[OF r]) simp
  have "srvToken (arrived e s) = srvToken (shared s)"
    by (rule srv_fixed_token) (simp add: arrived_def served_fixed)
  then show t: "srvToken (arrived e s) = clToken s" using assms by (simp add: busy_ok_def)
  have "reach (n + length ?batch) (shared (after_read e s))" using r by simp
  moreover have "n + length ?batch + pending (after_read e s) < 2 ^ 62" using n(2) p by simp
  ultimately show "busy_ok (after_read e s)"
    using assms t by (auto simp: busy_ok_def after_read_def shared_def intro!: exI[of _ "n + length ?batch"])
qed

subsection \<open>One read\<close>

lemma fetch_busy:
  assumes "busy_ok s" "serve (e (wClock (netWorld s))) (api_get s path) (arrived e s) = (rs, arrived e s)" "rsStatus rs \<noteq> 401"
  shows "fetch (busy_env e rnd) path d z s =
    (if rsStatus rs < 200 \<or> rsStatus rs \<ge> 300 then Inl (StatusError (GrpcCodeFromHTTPStatus (rsStatus rs)) [])
     else read_target (unmarshal d z) rs, after_read e s)"
proof -
  let ?E = "busy_env e rnd" and ?u = "\<lparr>uHost = clInstanceURL s, uPath = join_path [] path, uQuery = []\<rparr>"
  have rq: "apiRequest GET ?u None (clToken s) = api_get s path" by (simp add: api_get_def)
  have "exchange ?E (api_get s path) (netWorld s) = (Inr rs, netWorld (after_read e s))"
    using assms(2) by (simp add: busy_env_def arrived_def after_read_def shared_def Let_def)
  then have att: "attempt ?E GET ?u None s = (if rsStatus rs < 200 \<or> rsStatus rs \<ge> 300
      then Inl (StatusError (GrpcCodeFromHTTPStatus (rsStatus rs)) []) else Inr rs, after_read e s)"
    by (simp add: attempt_def Do_def rq bindE_def send_def no_option_def cacheGet_def cacheSet_def busy_env_def)
       (simp add: after_read_def)
  have "keepAliveToken ?E s = (Inr (), s)"
    using assms(1) by (auto simp: keepAliveToken_def busy_ok_def busy_env_def)
  moreover have "getUrl ?E path s = (Inr ?u, s)" by (simp add: getUrl_def busy_env_def)
  moreover have "gotoRetry ?E GET ?u None (unmarshal d z) True s =
      (if rsStatus rs < 200 \<or> rsStatus rs \<ge> 300 then Inl (StatusError (GrpcCodeFromHTTPStatus (rsStatus rs)) [])
       else read_target (unmarshal d z) rs, after_read e s)"
    by (subst gotoRetry_first[OF att]) (use assms(3) in \<open>auto simp: Grpc_Unauthenticated_iff split: if_splits\<close>)
  ultimately show ?thesis by (simp add: fetch_def doRequest_def doRequestWithMethod_def)
qed

subsection \<open>Ids are not used twice\<close>

text \<open>What a store keeps of an earlier one: an old id has its old record or none.\<close>

definition kept_since :: "(int \<rightharpoonup> 'a) \<Rightarrow> int \<Rightarrow> (int \<rightharpoonup> 'a) \<Rightarrow> int \<Rightarrow> bool" where
  "kept_since m k m' k' \<longleftrightarrow> k \<le> k' \<and> (\<forall>i a. i \<le> k \<longrightarrow> m' i = Some a \<longrightarrow> m i = Some a)"

lemma kept_since_refl [simp]: "kept_since m k m k"
  by (simp add: kept_since_def)

lemma kept_since_trans: "kept_since m k m' k' \<Longrightarrow> kept_since m' k' m'' k'' \<Longrightarrow> kept_since m k m'' k''"
  unfolding kept_since_def by (meson order_trans)

lemma kept_since_add: "kept_since m k (m(k + 1 \<mapsto> a)) (k + 1)"
  by (simp add: kept_since_def)

lemma kept_since_remove: "kept_since m k (m(i := None)) k"
  by (simp add: kept_since_def)

definition later :: "server \<Rightarrow> server \<Rightarrow> bool" where
  "later v w \<longleftrightarrow> kept_since (srvUsers v) (srvNextUserID v) (srvUsers w) (srvNextUserID w)
     \<and> kept_since (srvAccounts v) (srvNextAccountID v) (srvAccounts w) (srvNextAccountID w)
     \<and> srv_fixed w = srv_fixed v"

lemma later_refl [simp]: "later v v"
  by (simp add: later_def)

lemma later_trans: "later u v \<Longrightarrow> later v w \<Longrightarrow> later u w"
  unfolding later_def by (auto intro: kept_since_trans)

lemma step_later:
  assumes "srv_step s s'" "users_ok s" "accounts_ok s" "room 1 s"
  shows "later s s'"
proof -
  have "wrap64 (srvNextUserID s + 1) = srvNextUserID s + 1" "wrap64 (srvNextAccountID s + 1) = srvNextAccountID s + 1"
    using assms(2-4) by (auto simp: users_ok_def accounts_ok_def store_ok_def room_def intro!: next_id)
  note ids = this step_fixed[OF assms(1)]
  from assms(1) show ?thesis
    by (cases rule: srv_step.cases)
       (use ids in \<open>auto simp: later_def add_user_record_eq add_account_record_eq remove_user_def remove_account_def
          intro: kept_since_add kept_since_remove\<close>)
qed

lemma served_later: "reach n s \<Longrightarrow> n + length rqs < 2 ^ 62 \<Longrightarrow> later s (served rqs s)"
proof (induction rqs arbitrary: n s)
  case (Cons q rqs)
  obtain e r where q: "q = (e, r)" by (cases q)
  let ?t = "snd (serve e r s)"
  have n: "n < 2 ^ 62" using Cons.prems(2) by simp
  have "later s ?t"
    using serve_stepping[of s e r] step_later reach_inv[OF Cons.prems(1) n] reach_room[OF Cons.prems(1) n]
    by (auto simp: stepping_def)
  moreover have "reach (Suc n) ?t"
    using serve_stepping[of s e r] Cons.prems(1) by (auto simp: stepping_def intro: reach_idle reach_step)
  from Cons.IH[OF this] Cons.prems(2) have "later ?t (served rqs ?t)" by simp
  ultimately show ?case by (simp add: q later_trans)
qed simp

lemma later_arrived:
  assumes "busy_ok s"
  shows "later (shared s) (arrived e s)"
proof -
  obtain n where n: "reach n (shared s)" "n + pending s < 2 ^ 62" using assms by (auto simp: busy_ok_def)
  then show ?thesis
    by (cases "wOthers (netWorld s)") (auto simp: arrived_def pending_def intro!: served_later)
qed

text \<open>A record of a listing is later found unchanged under its id, or not at all.\<close>

lemma later_user:
  assumes "later v w" "server_inv v" "u \<in> set (srvUserList v)"
  shows "srvUsers w (ID u) = Some u \<or> srvUsers w (ID u) = None"
proof -
  have "ID u \<le> srvNextUserID v" using assms(2,3) by (simp add: server_inv_def users_ok_def store_ok_def)
  with assms(1) inv_lookup(1)[OF assms(2,3)] show ?thesis
    by (cases "srvUsers w (ID u)") (auto simp: later_def kept_since_def)
qed

lemma later_account:
  assumes "later v w" "server_inv v" "a \<in> set (srvAccountList v)"
  shows "srvAccounts w (ID a) = Some a \<or> srvAccounts w (ID a) = None"
proof -
  have "ID a \<le> srvNextAccountID v" using assms(2,3) by (simp add: server_inv_def accounts_ok_def store_ok_def)
  with assms(1) inv_lookup(2)[OF assms(2,3)] show ?thesis
    by (cases "srvAccounts w (ID a)") (auto simp: later_def kept_since_def)
qed

subsection \<open>The reads of a listing\<close>

lemma busy_guard: "srvToken v = clToken s \<Longrightarrow> guarded (api_get s path) v k = k"
  by (simp add: guarded_ok)

text \<open>A read answered with a document that decodes, and one answered with 404.\<close>

lemma read_busy:
  assumes "busy_ok s"
  shows "(\<And>x. serve x (api_get s path) (arrived e s) = (writeJSON 200 j, arrived e s)) \<Longrightarrow> d j z = Inr a \<Longrightarrow>
      fetch (busy_env e rnd) path d z s = (Inr a, after_read e s)"
    and "(\<And>x. serve x (api_get s path) (arrived e s) = (writeJSONError 404 m, arrived e s)) \<Longrightarrow>
      fetch (busy_env e rnd) path d z s = (Inl (StatusError NotFound []), after_read e s)"
proof -
  assume "\<And>x. serve x (api_get s path) (arrived e s) = (writeJSON 200 j, arrived e s)" "d j z = Inr a"
  then show "fetch (busy_env e rnd) path d z s = (Inr a, after_read e s)"
    by (subst fetch_busy[OF assms, of e path "writeJSON 200 j"]) (simp_all add: writeJSON_def read_target_def unmarshal_def)
next
  assume "\<And>x. serve x (api_get s path) (arrived e s) = (writeJSONError 404 m, arrived e s)"
  then show "fetch (busy_env e rnd) path d z s = (Inl (StatusError NotFound []), after_read e s)"
    by (subst fetch_busy[OF assms, of e path "writeJSONError 404 m"]) (simp_all add: status_404)
qed

lemmas busy_guards = busy_guard[OF busy_step(3)]

lemma reads_user:
  assumes "busy_ok s" "int64 i" "\<And>u. srvUsers (arrived e s) i = Some u \<Longrightarrow> ok_User u"
  shows "getUserDetails (busy_env e rnd) i s =
    (case srvUsers (arrived e s) i of None \<Rightarrow> Inl (StatusError NotFound []) | Some u \<Rightarrow> Inr u, after_read e s)"
proof (cases "srvUsers (arrived e s) i")
  case None
  then show ?thesis
    unfolding getUserDetails_def using assms(2)
    by (subst read_busy(2)[OF assms(1)])
       (simp_all add: url_paths join_plain serve_user_id handleUserByID_def path_ids busy_guards[OF assms(1)] del: append.simps)
next
  case (Some u)
  have "dec_UserResponse (JObj [(''user'', enc_User u)]) zero_User = Inr u"
    unfolding dec_UserResponse_def using assms(3)[OF Some] by (auto intro!: decode_rules)
  with Some show ?thesis
    unfolding getUserDetails_def using assms(2)
    by (subst read_busy(1)[OF assms(1)])
       (simp_all add: url_paths join_plain serve_user_id handleUserByID_def path_ids busy_guards[OF assms(1)] del: append.simps)
qed

lemma reads_account:
  assumes "busy_ok s" "int64 i" "\<And>u. srvAccounts (arrived e s) i = Some u \<Longrightarrow> ok_UserAccount u"
  shows "GetUserAccountDetails (busy_env e rnd) i s =
    (case srvAccounts (arrived e s) i of None \<Rightarrow> Inl (StatusError NotFound []) | Some u \<Rightarrow> Inr u, after_read e s)"
proof (cases "srvAccounts (arrived e s) i")
  case None
  then show ?thesis
    unfolding GetUserAccountDetails_def using assms(2)
    by (subst read_busy(2)[OF assms(1)])
       (simp_all add: url_paths join_plain serve_account_id handleAccountByID_def path_ids busy_guards[OF assms(1)] del: append.simps)
next
  case (Some u)
  have "dec_UserAccountResponse (JObj [(''account'', enc_UserAccount u)]) zero_UserAccount = Inr u"
    unfolding dec_UserAccountResponse_def using assms(3)[OF Some] by (auto intro!: decode_rules)
  with Some show ?thesis
    unfolding GetUserAccountDetails_def using assms(2)
    by (subst read_busy(1)[OF assms(1)])
       (simp_all add: url_paths join_plain serve_account_id handleAccountByID_def path_ids busy_guards[OF assms(1)] del: append.simps)
qed

lemma reads_group:
  assumes "busy_ok s" "g \<in> set (srvGroupList (arrived e s))"
  shows "GetGroupDetails (busy_env e rnd) (ID g) s = (Inr g, after_read e s)"
proof -
  note inv = busy_step(2)[OF assms(1), of e]
  have "dec_GroupResponse (JObj [(''group'', enc_Group g)]) zero_Group = Inr g"
    unfolding dec_GroupResponse_def using inv_ID(3)[OF inv assms(2)] by (auto intro!: decode_rules)
  then show ?thesis
    unfolding GetGroupDetails_def using inv_lookup(3)[OF inv assms(2)] ok_ID(3)[OF inv_ID(3)[OF inv assms(2)]]
    by (subst read_busy(1)[OF assms(1)])
       (simp_all add: url_paths join_plain serve_group_id handleGroupByID_def only_get_ok pathID_def pathTail_def
          trim_prefix_append busy_guards[OF assms(1)] del: append.simps)
qed

lemma reads_user_list:
  assumes "busy_ok s"
  shows "getBaseUsers (busy_env e rnd) s = (Inr (map minimal (srvUserList (arrived e s))), after_read e s)"
  unfolding getBaseUsers_def
proof (rule read_busy(1)[OF assms])
  let ?us = "srvUserList (arrived e s)"
  show "serve x (api_get s usersUrlPath) (arrived e s)
      = (writeJSON 200 (JObj [(''users'', enc_array enc_BaseType (map minimal ?us))]), arrived e s)" for x
    by (simp add: url_paths join_plain serve_routes handleListUsers_def only_get_ok busy_guards[OF assms])
  show "dec_UsersResponse (JObj [(''users'', enc_array enc_BaseType (map minimal ?us))]) [] = Inr (map minimal ?us)"
    by (rule dec_minimal_users) (rule busy_step(2)[OF assms])
qed

lemma reads_account_list:
  assumes "busy_ok s"
  shows "getBaseAccounts (busy_env e rnd) s =
    (Inr \<lparr>baUsers = map bare_user (srvAccountList (arrived e s)), baGroups = map bare_group (srvGroupList (arrived e s))\<rparr>,
     after_read e s)"
  unfolding getBaseAccounts_def
proof (rule read_busy(1)[OF assms])
  show "serve x (api_get s accountsUrlPath) (arrived e s) = (writeJSON 200 (accounts_document (arrived e s)), arrived e s)" for x
    by (simp add: url_paths join_plain serve_routes handleListAccounts_document only_get_ok busy_guards[OF assms])
qed (rule dec_accounts_document[OF busy_step(2)[OF assms]])

text \<open>
  The loop over the details.  \<open>found v x\<close> says that the record is still there; the loop reads on from a
  server later than \<open>v\<close>, and stops with \<open>NotFound\<close> at the first record that is gone.
\<close>

lemma loop_busy:
  assumes "\<And>x s. x \<in> set xs \<Longrightarrow> busy_ok s \<Longrightarrow> later v (shared s) \<Longrightarrow>
      f (g x) s = (if found (arrived e s) x then Inr x else Inl (StatusError NotFound []), after_read e s)"
    and "busy_ok s" "later v (shared s)"
  shows "\<exists>t. busy_ok t \<and> later v (shared t)
    \<and> (mapE f (map g xs) s = (Inr xs, t)
       \<or> mapE f (map g xs) s = (Inl (StatusError NotFound []), t) \<and> (\<exists>x\<in>set xs. \<not> found (shared t) x))"
  using assms
proof (induction xs arbitrary: s)
  case (Cons x xs)
  let ?t = "after_read e s"
  have run: "f (g x) s = (if found (arrived e s) x then Inr x else Inl (StatusError NotFound []), ?t)"
    using Cons.prems by simp
  have t: "busy_ok ?t" "later v (shared ?t)"
    using busy_step(1)[OF Cons.prems(2)] later_trans[OF Cons.prems(3) later_arrived[OF Cons.prems(2)]] by simp_all
  show ?case
  proof (cases "found (arrived e s) x")
    case True
    from Cons.IH[OF Cons.prems(1) t] obtain w where w: "busy_ok w" "later v (shared w)"
      "mapE f (map g xs) ?t = (Inr xs, w)
       \<or> mapE f (map g xs) ?t = (Inl (StatusError NotFound []), w) \<and> (\<exists>x\<in>set xs. \<not> found (shared w) x)" by auto
    with run True show ?thesis by (intro exI[of _ w]) (auto simp: bindE_def)
  next
    case False
    with run t show ?thesis by (intro exI[of _ ?t]) (simp add: bindE_def)
  qed
qed auto

text \<open>What a listing that began on the server \<open>v\<close> gives: everything as it was there, or an error, and
  then one of its records has been deleted meanwhile.\<close>

definition snapshot :: "server \<Rightarrow> (server \<Rightarrow> 'r \<Rightarrow> bool) \<Rightarrow> 'r list \<Rightarrow> 'a \<Rightarrow> (go_error + 'a) \<times> (busy_world, 'x) conn_scheme \<Rightarrow> bool" where
  "snapshot v found xs a out \<longleftrightarrow>
     busy_ok (snd out) \<and> later v (shared (snd out)) \<and>
     (fst out = Inr a \<or> fst out = Inl (StatusError NotFound []) \<and> (\<exists>x\<in>set xs. \<not> found (shared (snd out)) x))"

definition has_user :: "server \<Rightarrow> User \<Rightarrow> bool" where
  "has_user v u \<longleftrightarrow> srvUsers v (ID u) = Some u"

definition has_account :: "server \<Rightarrow> UserAccount \<Rightarrow> bool" where
  "has_account v a \<longleftrightarrow> srvAccounts v (ID a) = Some a"

lemma GetUsers_busy:
  assumes "busy_ok s"
  shows "snapshot (arrived e s) has_user (srvUserList (arrived e s)) (srvUserList (arrived e s)) (GetUsers (busy_env e rnd) s)"
proof -
  let ?v = "arrived e s" and ?E = "busy_env e rnd"
  note inv = busy_step(2)[OF assms, of e]
  have read: "getUserDetails ?E (ID (minimal u)) t = (if has_user (arrived e t) u then Inr u else Inl (StatusError NotFound []), after_read e t)"
    if u: "u \<in> set (srvUserList ?v)" and t: "busy_ok t" "later ?v (shared t)" for u t
  proof -
    note at = later_user[OF later_trans[OF t(2) later_arrived[OF t(1), of e]] inv u]
    have "ok_User u" by (rule inv_ID(1)[OF inv u])
    with at reads_user[OF t(1), of "ID u" e rnd] ok_ID(1)[of u] show ?thesis
      by (auto simp: has_user_def minimal_def)
  qed
  obtain t where "busy_ok t" "later ?v (shared t)"
    "mapE (\<lambda>b. getUserDetails ?E (ID b)) (map minimal (srvUserList ?v)) (after_read e s) = (Inr (srvUserList ?v), t)
     \<or> mapE (\<lambda>b. getUserDetails ?E (ID b)) (map minimal (srvUserList ?v)) (after_read e s) = (Inl (StatusError NotFound []), t)
       \<and> (\<exists>u\<in>set (srvUserList ?v). \<not> has_user (shared t) u)"
    using loop_busy[of "srvUserList ?v" ?v "\<lambda>b. getUserDetails ?E (ID b)" minimal has_user e "after_read e s",
        OF read busy_step(1)[OF assms]] by auto
  then show ?thesis
    by (auto simp: snapshot_def GetUsers_def reads_user_list[OF assms])
qed

lemma GetAccounts_busy:
  assumes "busy_ok s"
  shows "snapshot (arrived e s) has_account (srvAccountList (arrived e s))
    (srvAccountList (arrived e s), srvGroupList (arrived e s)) (GetAccounts (busy_env e rnd) s)"
proof -
  let ?v = "arrived e s" and ?E = "busy_env e rnd"
  note inv = busy_step(2)[OF assms, of e]
  have read: "GetUserAccountDetails ?E (ID (bare_user a)) t
      = (if has_account (arrived e t) a then Inr a else Inl (StatusError NotFound []), after_read e t)"
    if a: "a \<in> set (srvAccountList ?v)" and t: "busy_ok t" "later ?v (shared t)" for a t
  proof -
    note at = later_account[OF later_trans[OF t(2) later_arrived[OF t(1), of e]] inv a]
    have "ok_UserAccount a" by (rule inv_ID(2)[OF inv a])
    with at reads_account[OF t(1), of "ID a" e rnd] ok_ID(2)[of a] show ?thesis
      by (auto simp: has_account_def)
  qed
  have group: "GetGroupDetails ?E (ID (bare_group g)) t = (if True then Inr g else Inl (StatusError NotFound []), after_read e t)"
    if g: "g \<in> set (srvGroupList ?v)" and t: "busy_ok t" "later ?v (shared t)" for g t
    using later_trans[OF t(2) later_arrived[OF t(1), of e]] g reads_group[OF t(1), of g e rnd]
    by (simp add: later_def srv_fixed_def)
  obtain t where t: "busy_ok t" "later ?v (shared t)"
    "mapE (\<lambda>a. GetUserAccountDetails ?E (ID a)) (map bare_user (srvAccountList ?v)) (after_read e s) = (Inr (srvAccountList ?v), t)
     \<or> mapE (\<lambda>a. GetUserAccountDetails ?E (ID a)) (map bare_user (srvAccountList ?v)) (after_read e s) = (Inl (StatusError NotFound []), t)
       \<and> (\<exists>a\<in>set (srvAccountList ?v). \<not> has_account (shared t) a)"
    using loop_busy[of "srvAccountList ?v" ?v "\<lambda>a. GetUserAccountDetails ?E (ID a)" bare_user has_account e "after_read e s",
        OF read busy_step(1)[OF assms]] by auto
  obtain w where w: "busy_ok w" "later ?v (shared w)"
    "mapE (\<lambda>g. GetGroupDetails ?E (ID g)) (map bare_group (srvGroupList ?v)) t = (Inr (srvGroupList ?v), w)"
    using loop_busy[of "srvGroupList ?v" ?v "\<lambda>g. GetGroupDetails ?E (ID g)" bare_group "\<lambda>_ _. True" e t, OF group t(1,2)]
    by auto
  from t(3) show ?thesis
    using t(1,2) w by (auto simp: snapshot_def GetAccounts_def reads_account_list[OF assms])
qed

lemma gone_user: "later v w \<Longrightarrow> server_inv v \<Longrightarrow> u \<in> set (srvUserList v) \<Longrightarrow> \<not> has_user w u \<Longrightarrow> srvUsers w (ID u) = None"
  using later_user[of v w u] by (auto simp: has_user_def)

lemma gone_account:
  "later v w \<Longrightarrow> server_inv v \<Longrightarrow> a \<in> set (srvAccountList v) \<Longrightarrow> \<not> has_account w a \<Longrightarrow> srvAccounts w (ID a) = None"
  using later_account[of v w a] by (auto simp: has_account_def)

text \<open>
  C8.  While other clients change the server in any way between the connector's requests, a listing of
  users or console accounts is either exactly what the server held when the listing's first request was
  served, or it is the error \<open>NotFound\<close>, and then a record of that listing has been deleted meanwhile.
\<close>

theorem listings_are_snapshots:
  fixes s :: "(busy_world, 'x) conn_scheme" and e :: "int \<Rightarrow> string"
  assumes "busy_ok s"
  defines "v \<equiv> arrived e s"
  shows "(\<exists>t. user_List (busy_env e rnd) p s = (map_err (\<lambda>u. userResource u p) (srvUserList v), t)
      \<or> user_List (busy_env e rnd) p s = (Inl (StatusError NotFound []), t)
        \<and> (\<exists>u\<in>set (srvUserList v). srvUsers (shared t) (ID u) = None))
    \<and> (\<exists>t. userAccount_List (busy_env e rnd) p s = (map_err (\<lambda>a. userAccountResource a p) (srvAccountList v), t)
      \<or> userAccount_List (busy_env e rnd) p s
          = (Inl (WrapError ''jamf-connector: failed to list accounts'' (StatusError NotFound [])), t)
        \<and> (\<exists>a\<in>set (srvAccountList v). srvAccounts (shared t) (ID a) = None))"
proof -
  note inv = busy_step(2)[OF assms(1), of e, folded v_def]
  have u: "snapshot v has_user (srvUserList v) (srvUserList v) (GetUsers (busy_env e rnd) s)"
    unfolding v_def by (rule GetUsers_busy[OF assms(1)])
  have a: "snapshot v has_account (srvAccountList v) (srvAccountList v, srvGroupList v) (GetAccounts (busy_env e rnd) s)"
    unfolding v_def by (rule GetAccounts_busy[OF assms(1)])
  show ?thesis
    using u a gone_user[OF _ inv] gone_account[OF _ inv]
    by (cases "GetUsers (busy_env e rnd) s"; cases "GetAccounts (busy_env e rnd) s")
       (fastforce simp: snapshot_def user_List_def userAccount_List_def mapE_pure)
qed

text \<open>Another client deletes the first user after the list of ids was read.\<close>

definition rival :: http_request where
  "rival = api_send DELETE (demo ''t'' 0) (userUrlPath 1) None"

definition crowded :: "busy_world conn" where
  "crowded =
     \<lparr>netCache = Map.empty,
      netWorld = \<lparr>wServer = newServer ''u'' ''p'' ''t'', wClock = 0, wSource = 0, wOthers = [[], [rival]]\<rparr>, clToken = ''t'',
      clInstanceURL = ''h'', clLastKeepAlive = 0, clUserName = ''u'', clPassword = ''p''\<rparr>"

lemma crowded_ok: "busy_ok crowded"
proof -
  have "shared crowded = newServer ''u'' ''p'' ''t''" "clToken crowded = ''t''"
    "wClock (netWorld crowded) - clLastKeepAlive crowded = 0" "pending crowded = 1"
    by (simp_all add: crowded_def shared_def pending_def)
  then show ?thesis using reach_start[of "''u''" "''p''" "''t''"]
    by (auto simp: busy_ok_def five_minutes_def intro!: exI[of _ 0])
qed

lemma rival_deletes: "srvUsers (snd (serve x rival (newServer ''u'' ''p'' ''t''))) 1 = None"
proof -
  have "int64 1" "srvUsers (newServer ''u'' ''p'' ''t'') 1 \<noteq> None"
    by (simp_all add: int64_def newServer_def by_id_def seed_defs)
  then have "snd (serve x rival (newServer ''u'' ''p'' ''t'')) = remove_user 1 (newServer ''u'' ''p'' ''t'')"
    unfolding rival_def
    by (auto simp: url_paths join_plain serve_user_id handleUserByID_def guarded_ok path_ids delete_user_def
        simp del: append.simps)
  then show ?thesis by (simp add: remove_user_def)
qed

theorem listings_are_snapshots_witness:
  "arrived no_expiry crowded = newServer ''u'' ''p'' ''t''
   \<and> fst (user_List (busy_env no_expiry (\<lambda>b w. (Inr 0, w))) None crowded) = Inl (StatusError NotFound [])
   \<and> (\<exists>t. user_List (busy_env no_expiry (\<lambda>b w. (Inr 0, w))) None crowded = (Inl (StatusError NotFound []), t)
        \<and> (\<exists>u\<in>set seed_users. srvUsers (shared t) (ID u) = None))"
proof -
  let ?E = "busy_env no_expiry (\<lambda>b w. (Inr 0, w))" and ?s1 = "after_read no_expiry crowded"
  have v: "arrived no_expiry crowded = newServer ''u'' ''p'' ''t''" by (simp add: arrived_def crowded_def shared_def)
  have "arrived no_expiry ?s1 = snd (serve [] rival (newServer ''u'' ''p'' ''t''))"
    by (simp add: arrived_def after_read_def crowded_def shared_def no_expiry_def)
  then have "getUserDetails ?E 1 ?s1 = (Inl (StatusError NotFound []), after_read no_expiry ?s1)"
    by (subst reads_user[OF busy_step(1)[OF crowded_ok]]) (simp_all add: rival_deletes int64_def)
  note gone = this
  have us: "srvUserList (newServer ''u'' ''p'' ''t'') = seed_users" by (simp add: newServer_def)
  obtain ms where ms: "map minimal seed_users = \<lparr>ID = 1, Name = ''john.appleseed''\<rparr> # ms"
    by (simp add: seed_users_def seed_user_def minimal_def zero_User_def)
  have fail: "fst (user_List ?E None crowded) = Inl (StatusError NotFound [])"
    by (simp add: user_List_def GetUsers_def reads_user_list[OF crowded_ok] v us ms bindE_def gone)
  moreover have "map_err (\<lambda>u. userResource u None) seed_users \<noteq> Inl (StatusError NotFound [])"
    using map_err_total[of seed_users "\<lambda>u. userResource u None" "\<lambda>u. user_view u None"] seed_utf8(4)
    by (simp add: userResource_eq)
  ultimately show ?thesis
    using listings_are_snapshots[OF crowded_ok, of no_expiry "\<lambda>b w. (Inr 0, w)" None] v us by auto
qed

end
