(* ===== verification/Sync.thy ===== *)
theory Sync
  imports Provisioning ConnectorProps MemberProps SyncProps
begin

section \<open>The connector as the SDK calls it\<close>

text \<open>
  Every call the SDK makes of the registered connector, on an abstract Jamf: what is listed, entitled and
  granted, and what the creations and deletions do, without requests, tokens, paging or registration.
\<close>

subsection \<open>The abstract Jamf\<close>

record jamf =
  jDir :: directory
  jGroups :: "Group list"
  jUserGroups :: "UserGroup list"
  jSites :: "BaseType list"
  jPrivileges :: "string list"

datatype sync_call =
    ListR string "ResourceId option" page_token int
  | EntitlementsR Resource
  | GrantsR Resource
  | CreateR string AccountInfo LocalCredentialOptions
  | DeleteR ResourceId

datatype sync_result =
    Resources "Resource list" page_token
  | Entitlements "Entitlement list"
  | Grants "Grant list"
  | Provisioned prov_result

definition site_view :: "Site \<Rightarrow> Resource" where
  "site_view site = \<lparr>resId = \<lparr>ridType = ''site'', ridResource = itoa (ID site)\<rparr>, resDisplayName = Name site,
     resParent = None, resProfile = None, resStatus = None, resTraits = []\<rparr>"

definition listed :: "string \<Rightarrow> ResourceId option \<Rightarrow> jamf \<Rightarrow> Resource list option" where
  "listed t p d =
     (if t = ''user'' then Some (map (\<lambda>u. user_view u p) (dUsers (jDir d)))
      else if t = ''group'' then Some (map (\<lambda>g. group_view resourceTypeGroup (ID g) (Name g) p) (jGroups d))
      else if t = ''userAccount'' then Some (map (\<lambda>a. account_view a p) (dAccounts (jDir d)))
      else if t = ''userGroup'' then Some (map (\<lambda>g. group_view resourceTypeUserGroup (ID g) (Name g) p) (jUserGroups d))
      else if t = ''site'' then Some (map site_view (jSites d))
      else if t = ''role'' then Some (map (\<lambda>n. role_view n p) ([''Administrator'', ''Auditor'', ''Enrollment Only''] @ jPrivileges d))
      else None)"

definition entitled :: "Resource \<Rightarrow> (go_error + Entitlement list) option" where
  "entitled r =
     (if ridType (resId r) \<in> {''user'', ''userAccount''} then Some (Inr [])
      else map_of [(''group'', group_Entitlements r), (''userGroup'', userGroup_Entitlements r),
                   (''site'', site_Entitlements r), (''role'', role_Entitlements r)] (ridType (resId r)))"

definition to_principal :: "Resource \<Rightarrow> string \<Rightarrow> int \<Rightarrow> Grant" where
  "to_principal r t i = NewGrant r ''member'' \<lparr>ridType = t, ridResource = itoa i\<rparr>"

text \<open>The members of a console group are read one by one, those of a user group are shown as they are.\<close>

definition group_granted :: "Resource \<Rightarrow> jamf \<Rightarrow> go_error + Grant list" where
  "group_granted r d =
     (case atoi (ridResource (resId r)) of
        None \<Rightarrow> Inl (AtoiError (ridResource (resId r)))
      | Some i \<Rightarrow> (case List.find (\<lambda>g. ID g = i) (jGroups d) of
          None \<Rightarrow> Inl (StatusError NotFound [])
        | Some g \<Rightarrow>
            if \<forall>m\<in>set (grpMembers g). ID m \<in> ID ` set (dAccounts (jDir d))
            then Inr (map (\<lambda>m. to_principal r ''userAccount'' (ID m)) (grpMembers g))
            else Inl (StatusError NotFound [])))"

definition user_group_granted :: "Resource \<Rightarrow> jamf \<Rightarrow> go_error + Grant list" where
  "user_group_granted r d =
     (case atoi (ridResource (resId r)) of
        None \<Rightarrow> Inl (AtoiError (ridResource (resId r)))
      | Some i \<Rightarrow> (case List.find (\<lambda>g. ID g = i) (jUserGroups d) of
          None \<Rightarrow> Inl (StatusError NotFound [])
        | Some g \<Rightarrow> Inr (map (\<lambda>u. to_principal r ''user'' (ID u)) (ugUsers g))))"

definition site_granted :: "Resource \<Rightarrow> jamf \<Rightarrow> Grant list" where
  "site_granted r d =
     concat (map (\<lambda>u. map (\<lambda>_. to_principal r ''user'' (ID u)) (filter (site_match r) (userSites u))) (dUsers (jDir d)))
   @ map (\<lambda>h. to_principal r ''userGroup'' (ID h)) (filter (\<lambda>h. site_match r (ugSite h)) (jUserGroups d))
   @ map (\<lambda>a. to_principal r ''userAccount'' (ID a)) (filter (\<lambda>a. site_match r (accSite a)) (dAccounts (jDir d)))
   @ map (\<lambda>g. to_principal r ''group'' (ID g)) (filter (\<lambda>g. site_match r (grpSite g)) (jGroups d))"

definition role_granted :: "Resource \<Rightarrow> jamf \<Rightarrow> Grant list" where
  "role_granted r d =
     map (\<lambda>g. to_principal r ''group'' (ID g))
       (filter (\<lambda>g. holds_role (grpPrivilegeSet g) (grpPrivileges g) (ridResource (resId r))) (jGroups d))
   @ map (\<lambda>a. to_principal r ''userAccount'' (ID a))
       (filter (\<lambda>a. holds_role (accPrivilegeSet a) (accPrivileges a) (ridResource (resId r))) (dAccounts (jDir d)))"

definition granted :: "Resource \<Rightarrow> jamf \<Rightarrow> (go_error + Grant list) option" where
  "granted r d =
     (if ridType (resId r) \<in> {''user'', ''userAccount''} then Some (Inr [])
      else map_of [(''group'', group_granted r d), (''userGroup'', user_group_granted r d),
                   (''site'', Inr (site_granted r d)), (''role'', Inr (role_granted r d))] (ridType (resId r)))"

definition provisioned :: "draws \<Rightarrow> string \<Rightarrow> prov_op \<Rightarrow> jamf \<times> nat \<Rightarrow> (go_error + sync_result) \<times> jamf \<times> nat" where
  "provisioned f m op v =
     (case v of (d, k) \<Rightarrow> case dir_op f op (jDir d, k) of (r, e, k') \<Rightarrow> (map_sum (WrapError m) Provisioned r, d\<lparr>jDir := e\<rparr>, k'))"

definition found :: "string \<Rightarrow> string \<Rightarrow> string \<Rightarrow> ('a \<Rightarrow> sync_result) \<Rightarrow> (go_error + 'a) option \<Rightarrow> go_error + sync_result" where
  "found what t m f answer =
     (case answer of None \<Rightarrow> Inl (unknown_type what t) | Some r \<Rightarrow> map_sum (WrapError m) f r)"

definition grants_failed :: "ResourceId \<Rightarrow> string" where
  "grants_failed rid = ''error: listing grants for resource '' @ ridType rid @ ''/'' @ ridResource rid @ '' failed''"

text \<open>A call of the abstract Jamf, with the position its random source is left at.\<close>

fun sync_op :: "draws \<Rightarrow> Jamf \<Rightarrow> sync_call \<Rightarrow> jamf \<times> nat \<Rightarrow> (go_error + sync_result) \<times> jamf \<times> nat" where
  "sync_op f j (ListR t p token n) v =
     (case listed t p (fst v) of None \<Rightarrow> Inl (unknown_type ''resources'' t) | Some rs \<Rightarrow> Inr (Resources rs EmptyToken), v)"
| "sync_op f j (EntitlementsR r) v =
     (found ''entitlements'' (ridType (resId r)) ''error: listing entitlements failed'' Entitlements (entitled r), v)"
| "sync_op f j (GrantsR r) v =
     (found ''grants'' (ridType (resId r)) (grants_failed (resId r)) Grants (granted r (fst v)), v)"
| "sync_op f j (CreateR t info creds) v =
     (case pickAccountManager (registered j) t of
        Inl e \<Rightarrow> (Inl e, v)
      | Inr (UserSyncer _) \<Rightarrow> provisioned f ''error: create account failed'' (CreateU info) v
      | Inr _ \<Rightarrow> provisioned f ''error: create account failed'' (CreateA info creds) v)"
| "sync_op f j (DeleteR rid) v =
     (if ridType rid = ''user'' then provisioned f ''error: delete resource failed'' (DeleteU rid) v
      else if ridType rid = ''userAccount'' then provisioned f ''error: delete resource failed'' (DeleteA rid) v
      else (Inl (unimplemented (''resource type '' @ ridType rid @ '' does not have resource Delete() configured'')), v))"

subsection \<open>The calls\<close>

definition yields :: "('s, go_error, 'a) comp \<Rightarrow> ('a \<Rightarrow> sync_result) \<Rightarrow> ('s, go_error, sync_result) comp" where
  "yields m f = bindE m (\<lambda>a. returnE (f a))"

fun sdk_call :: "'w env \<Rightarrow> builder \<Rightarrow> sync_call \<Rightarrow> (('w, 'x) dev_scheme, go_error, sync_result) comp" where
  "sdk_call E b (ListR t p token n) = yields (builder_ListResources E b t p token n) (\<lambda>(rs, next). Resources rs next)"
| "sdk_call E b (EntitlementsR r) = yields (builder_ListEntitlements b r) Entitlements"
| "sdk_call E b (GrantsR r) = yields (builder_ListGrants E b r) Grants"
| "sdk_call E b (CreateR t info creds) = yields (builder_CreateAccount E b t info creds) (\<lambda>(r, ps). Provisioned (Made r ps))"
| "sdk_call E b (DeleteR rid) = yields (builder_DeleteResource E b rid) (\<lambda>_. Provisioned Gone)"

text \<open>Not covered: managed devices, which the mock server does not have, and what the directory does not cover.\<close>

fun call_covered :: "sync_call \<Rightarrow> bool" where
  "call_covered (ListR t p token n) = (t \<noteq> ''managedDevice'')"
| "call_covered (EntitlementsR r) = (ridType (resId r) \<noteq> ''managedDevice'')"
| "call_covered (GrantsR r) = (ridType (resId r) \<noteq> ''managedDevice'')"
| "call_covered (CreateR t info creds) = (creation_covered info \<and> sets_given creds)"
| "call_covered (DeleteR rid) = True"

definition jamf_of :: "server \<Rightarrow> jamf" where
  "jamf_of s = \<lparr>jDir = directory_of s, jGroups = srvGroupList s, jUserGroups = srvUserGroupList s,
     jSites = srvSites s, jPrivileges = srvPrivileges s\<rparr>"

lemma jamf_of_simps [simp]:
  "jDir (jamf_of s) = directory_of s" "jGroups (jamf_of s) = srvGroupList s"
  "jUserGroups (jamf_of s) = srvUserGroupList s" "jSites (jamf_of s) = srvSites s" "jPrivileges (jamf_of s) = srvPrivileges s"
  by (simp_all add: jamf_of_def)

subsection \<open>Reading\<close>

text \<open>Every text the server shows is UTF-8 and every console group has members.\<close>

definition texts_ok :: "jamf \<Rightarrow> bool" where
  "texts_ok d \<longleftrightarrow> (\<forall>u\<in>set (dUsers (jDir d)). user_utf8 u) \<and> (\<forall>a\<in>set (dAccounts (jDir d)). account_utf8 a)
     \<and> (\<forall>g\<in>set (jGroups d). utf8_valid (Name g) \<and> grpMembers g \<noteq> [])
     \<and> (\<forall>h\<in>set (jUserGroups d). utf8_valid (Name h) \<and> (\<forall>u\<in>set (ugUsers h). user_utf8 u))
     \<and> (\<forall>n\<in>set (jPrivileges d). utf8_valid n)"

definition readable :: "(mock_world, 'x) conn_scheme \<Rightarrow> bool" where
  "readable s \<longleftrightarrow> connected s \<and> server_inv (srv_of s) \<and> texts_ok (jamf_of (srv_of s))"

lemma readableD:
  assumes "readable s"
  shows "connected s" "server_inv (srv_of s)"
    "\<forall>u\<in>set (srvUserList (srv_of s)). user_utf8 u" "\<forall>a\<in>set (srvAccountList (srv_of s)). account_utf8 a"
    "\<forall>g\<in>set (srvGroupList (srv_of s)). utf8_valid (Name g)" "\<forall>g\<in>set (srvGroupList (srv_of s)). grpMembers g \<noteq> []"
    "\<forall>h\<in>set (srvUserGroupList (srv_of s)). utf8_valid (Name h)"
    "\<forall>h\<in>set (srvUserGroupList (srv_of s)). \<forall>u\<in>set (ugUsers h). user_utf8 u"
    "\<forall>n\<in>set (srvPrivileges (srv_of s)). utf8_valid n"
  using assms by (auto simp: readable_def texts_ok_def)

lemma mapE_view: "(\<And>a. a \<in> set xs \<Longrightarrow> f a = Inr (g a)) \<Longrightarrow> mapE (\<lambda>a. liftE (f a)) xs s = (Inr (map g xs), s)"
  by (subst mapE_pure[where g = f]) (simp_all add: map_err_total)

lemma GetPrivileges_mock:
  assumes "connected s"
  shows "GetPrivileges (mock_env x rnd None) s = (Inr (srvPrivileges (srv_of s)), s)"
  unfolding GetPrivileges_def
proof (rule fetch_same[OF assms(1)])
  show "reply x (api_get s privilegesUrlPath) s =
      (writeJSON 200 (JObj [(''privileges'', enc_array JStr (srvPrivileges (srv_of s)))]), srv_of s)"
    using assms(1) by (simp add: reply_def url_paths join_plain serve_routes handleListPrivileges_def only_get_ok)
  show "dec_PrivilegesResponse (JObj [(''privileges'', enc_array JStr (srvPrivileges (srv_of s)))]) [] =
      Inr (srvPrivileges (srv_of s))"
    unfolding dec_PrivilegesResponse_def by (intro decode_rules)
qed

lemma siteResource_view: "siteResource site p = Inr (site_view site)"
  by (simp add: siteResource_eq site_view_def)

lemma lists_mock:
  fixes s :: "(mock_world, 'x) conn_scheme"
  assumes "readable s"
  defines "d \<equiv> jamf_of (srv_of s)"
  shows "user_List (mock_env x rnd None) p s = (Inr (the (listed ''user'' p d)), s)"
    "group_List (mock_env x rnd None) p s = (Inr (the (listed ''group'' p d)), s)"
    "userAccount_List (mock_env x rnd None) p s = (Inr (the (listed ''userAccount'' p d)), s)"
    "userGroup_List (mock_env x rnd None) p s = (Inr (the (listed ''userGroup'' p d)), s)"
    "site_List (mock_env x rnd None) p s = (Inr (the (listed ''site'' p d)), s)"
    "role_List (mock_env x rnd None) p s = (Inr (the (listed ''role'' p d)), s)"
proof -
  note r = readableD[OF assms(1)]
  show "user_List (mock_env x rnd None) p s = (Inr (the (listed ''user'' p d)), s)"
    using r(3) by (simp add: user_List_def GetUsers_mock[OF r(1,2)] listed_def d_def userResource_eq
        mapE_view[where g = "\<lambda>u. user_view u p"])
  show "group_List (mock_env x rnd None) p s = (Inr (the (listed ''group'' p d)), s)"
    using r(5) by (simp add: group_List_def GetAccounts_mock[OF r(1,2)] listed_def d_def groupResource_eq
        mapE_view[where g = "\<lambda>g. group_view resourceTypeGroup (ID g) (Name g) p"])
  show "userAccount_List (mock_env x rnd None) p s = (Inr (the (listed ''userAccount'' p d)), s)"
    using r(4) by (simp add: userAccount_List_def GetAccounts_mock[OF r(1,2)] listed_def d_def userAccountResource_eq
        mapE_view[where g = "\<lambda>a. account_view a p"])
  show "userGroup_List (mock_env x rnd None) p s = (Inr (the (listed ''userGroup'' p d)), s)"
    using r(7) by (simp add: userGroup_List_def GetUserGroups_mock[OF r(1,2)] listed_def d_def userGroupResource_eq
        mapE_view[where g = "\<lambda>g. group_view resourceTypeUserGroup (ID g) (Name g) p"])
  show "site_List (mock_env x rnd None) p s = (Inr (the (listed ''site'' p d)), s)"
    by (simp add: site_List_def GetSites_mock[OF r(1,2)] listed_def d_def mapE_view[where g = site_view] siteResource_view)
  have "map_err (\<lambda>n. roleResource n p) privilegeSets
      = Inr (map (\<lambda>n. role_view n p) [''Administrator'', ''Auditor'', ''Enrollment Only''])"
    by (simp add: privilegeSets_def privilege_set_defs roleResource_eq byte_in_def)
  moreover have "map_err (\<lambda>n. roleResource n p) (srvPrivileges (srv_of s)) = Inr (map (\<lambda>n. role_view n p) (srvPrivileges (srv_of s)))"
    by (rule map_err_total) (use r(9) in \<open>simp add: roleResource_eq\<close>)
  ultimately show "role_List (mock_env x rnd None) p s = (Inr (the (listed ''role'' p d)), s)"
    by (simp add: role_List_def GetPrivileges_mock[OF r(1)] listed_def d_def)
qed

text \<open>The groups by id, as the server's handlers look them up.\<close>

lemma find_group:
  "server_inv v \<Longrightarrow> srvGroups v i = List.find (\<lambda>g. ID g = i) (srvGroupList v)"
  "server_inv v \<Longrightarrow> srvUserGroups v i = List.find (\<lambda>g. ID g = i) (srvUserGroupList v)"
  by (simp_all add: server_inv_def fixed_ok_def by_id_find)

lemma account_there:
  assumes "server_inv v"
  shows "srvAccounts v i \<noteq> None \<longleftrightarrow> i \<in> ID ` set (srvAccountList v)"
  using accounts_map_mem[OF assms] inv_lookup(2)[OF assms] by fastforce

lemma group_granted_mock:
  assumes "readable s"
  shows "group_Grants (mock_env x rnd None) r s = (group_granted r (jamf_of (srv_of s)), s)"
proof -
  note ok = readableD[OF assms]
  show ?thesis
  proof (cases "atoi (ridResource (resId r))")
    case None
    then show ?thesis by (simp add: group_Grants_def group_granted_def)
  next
    case (Some i)
    show ?thesis
    proof (cases "List.find (\<lambda>g. ID g = i) (srvGroupList (srv_of s))")
      case None
      then have "GetGroupDetails (mock_env x rnd None) i s = (Inl (StatusError NotFound []), s)"
        using GetGroupDetails_missing[OF ok(1) atoi_int64[OF Some]] find_group(1)[OF ok(2)] by simp
      with Some None show ?thesis by (simp add: group_Grants_def group_granted_def eval_nat_numeral)
    next
      case (Some g)
      from find_SomeD[OF Some] have g: "g \<in> set (srvGroupList (srv_of s))" "ID g = i" by auto
      with ok(6) \<open>atoi (ridResource (resId r)) = Some i\<close> Some
        group_Grants_mock[OF ok(1,2) g(1) _ _ ok(4), of r x rnd, unfolded account_there[OF ok(2)]]
      show ?thesis by (simp add: group_granted_def member_grant_def[abs_def] to_principal_def)
    qed
  qed
qed

lemma user_group_granted_mock:
  assumes "readable s"
  shows "userGroup_Grants (mock_env x rnd None) r s = (user_group_granted r (jamf_of (srv_of s)), s)"
proof -
  note ok = readableD[OF assms]
  show ?thesis
  proof (cases "atoi (ridResource (resId r))")
    case None
    then show ?thesis by (simp add: userGroup_Grants_def user_group_granted_def)
  next
    case (Some i)
    show ?thesis
    proof (cases "List.find (\<lambda>g. ID g = i) (srvUserGroupList (srv_of s))")
      case None
      then have "GetUserGroupDetails (mock_env x rnd None) i s = (Inl (StatusError NotFound []), s)"
        using GetUserGroupDetails_missing[OF ok(1) atoi_int64[OF Some]] find_group(2)[OF ok(2)] by simp
      with Some None show ?thesis by (simp add: userGroup_Grants_def user_group_granted_def)
    next
      case (Some g)
      from find_SomeD[OF Some] have g: "g \<in> set (srvUserGroupList (srv_of s))" "ID g = i" by auto
      have "mapE (\<lambda>u. bindE (liftE (userResource u (Some (resId r)))) (\<lambda>ur. returnE (NewGrant r memberEntitlement (resId ur))))
          (ugUsers g) s = (Inr (map (\<lambda>u. to_principal r ''user'' (ID u)) (ugUsers g)), s)"
        by (subst mapE_pure[where g = "\<lambda>u. Inr (to_principal r ''user'' (ID u))"])
           (use ok(8) g(1) in \<open>simp_all add: userResource_eq user_view_def to_principal_def memberEntitlement_def map_err_total\<close>)
      with Some \<open>atoi (ridResource (resId r)) = Some i\<close> GetUserGroupDetails_mock[OF ok(1,2) g(1), of x rnd] g(2)
      show ?thesis by (simp add: userGroup_Grants_def user_group_granted_def)
    qed
  qed
qed

lemma grants_mock:
  fixes s :: "(mock_world, 'x) conn_scheme"
  assumes "readable s"
  defines "d \<equiv> jamf_of (srv_of s)"
  shows "site_Grants (mock_env x rnd None) r s = (Inr (site_granted r d), s)"
    "role_Grants (mock_env x rnd None) r s = (Inr (role_granted r d), s)"
    "group_Grants (mock_env x rnd None) r s = (group_granted r d, s)"
    "userGroup_Grants (mock_env x rnd None) r s = (user_group_granted r d, s)"
proof -
  note ok = readableD[OF assms(1)]
  show "site_Grants (mock_env x rnd None) r s = (Inr (site_granted r d), s)"
    using site_Grants_total[OF GetUsers_mock[OF ok(1,2)] GetUserGroups_mock[OF ok(1,2)] GetAccounts_mock[OF ok(1,2)] ok(3,7,4,5)]
    by (simp add: site_granted_def d_def to_principal_def[abs_def] site_grant_def[abs_def])
  show "role_Grants (mock_env x rnd None) r s = (Inr (role_granted r d), s)"
    using role_Grants_total[OF GetAccounts_mock[OF ok(1,2)] ok(5,4)]
    by (simp add: role_granted_def d_def to_principal_def[abs_def])
  show "group_Grants (mock_env x rnd None) r s = (group_granted r d, s)"
    unfolding d_def by (rule group_granted_mock[OF assms(1)])
  show "userGroup_Grants (mock_env x rnd None) r s = (user_group_granted r d, s)"
    unfolding d_def by (rule user_group_granted_mock[OF assms(1)])
qed

subsection \<open>One call\<close>

lemma yields_run: "m s = (r, t) \<Longrightarrow> yields m f s = (map_sum id f r, t)"
  by (cases r) (simp_all add: yields_def bindE_def)

lemma mapErr_run: "m s = (r, t) \<Longrightarrow> mapErr g m s = (map_sum g id r, t)"
  by (cases r) (simp_all add: mapErr_def)

lemma registered_syncers:
  "map_of (resourceSyncers (registered j)) ''user'' = Some (UserSyncer (userProvisioningActive j))"
  "map_of (resourceSyncers (registered j)) ''group'' = Some GroupSyncer"
  "map_of (resourceSyncers (registered j)) ''userAccount'' = Some (UserAccountSyncer (userAccountProvisioningActive j))"
  "map_of (resourceSyncers (registered j)) ''userGroup'' = Some UserGroupSyncer"
  "map_of (resourceSyncers (registered j)) ''site'' = Some SiteSyncer"
  "map_of (resourceSyncers (registered j)) ''role'' = Some RoleSyncer"
  by (simp_all add: registered_def Let_def)

definition synced_types :: "string set" where
  "synced_types = {''user'', ''group'', ''userAccount'', ''userGroup'', ''site'', ''role''}"

lemma other_syncer: "t \<notin> synced_types \<Longrightarrow> t \<noteq> ''managedDevice'' \<Longrightarrow> map_of (resourceSyncers (registered j)) t = None"
  by (simp add: registered_def Let_def synced_types_def)

lemma other_listed: "t \<notin> synced_types \<Longrightarrow> listed t p d = None"
  "ridType (resId r) \<notin> synced_types \<Longrightarrow> granted r d = None"
  "ridType (resId r) \<notin> synced_types \<Longrightarrow> entitled r = None"
  by (simp_all add: listed_def granted_def entitled_def synced_types_def)

text \<open>The abstract Jamf a state holds, and where its random source stands.\<close>

definition jamf_view :: "(mock_world, 'x) conn_scheme \<Rightarrow> jamf \<times> nat" where
  "jamf_view s = (jamf_of (srv_of s), wSource (netWorld s))"

lemma fst_jamf_view [simp]: "fst (jamf_view s) = jamf_of (srv_of s)"
  by (simp add: jamf_view_def)

definition agrees :: "draws \<Rightarrow> mock_world env \<Rightarrow> Jamf \<Rightarrow> sync_call \<Rightarrow> (mock_world, 'x) dev_scheme \<Rightarrow> bool" where
  "agrees f E j c s \<longleftrightarrow>
     (\<exists>srv k. sdk_call E (registered j) c s = (fst (sync_op f j c (jamf_view s)), at_source (with_server s srv) k)
        \<and> snd (sync_op f j c (jamf_view s)) = (jamf_of srv, k)
        \<and> srvToken srv = srvToken (srv_of s) \<and> (srv = srv_of s \<or> srv_step (srv_of s) srv))"

lemma agrees_same:
  "sdk_call E (registered j) c s = (a, s) \<Longrightarrow> sync_op f j c (jamf_view s) = (a, jamf_view s) \<Longrightarrow> agrees f E j c s"
  by (auto simp: agrees_def jamf_view_def intro!: exI[of _ "srv_of s"] exI[of _ "wSource (netWorld s)"])

text \<open>The reading calls for the types that are always registered.\<close>

lemma list_run:
  fixes s :: "(mock_world, 'x) dev_scheme"
  assumes "readable s" "t \<in> synced_types"
  shows "\<exists>rs. listed t p (jamf_of (srv_of s)) = Some rs
    \<and> builder_ListResources (mock_env x rnd None) (registered j) t p token n s = (Inr (rs, EmptyToken), s)"
  using assms(2) lists_mock[OF assms(1), of x rnd p]
  by (auto simp: synced_types_def registered_syncers builder_ListResources_def mapErr_run listed_def)

lemma entitlements_run:
  fixes s :: "(mock_world, 'x) dev_scheme"
  assumes "ridType (resId r) \<in> synced_types"
  shows "\<exists>es. entitled r = Some (Inr es) \<and> builder_ListEntitlements (registered j) r s = (Inr es, s)"
  using assms by (auto simp: synced_types_def registered_syncers builder_ListEntitlements_def mapErr_run entitled_def
      user_Entitlements_def userAccount_Entitlements_def group_Entitlements_def userGroup_Entitlements_def
      site_Entitlements_def role_Entitlements_def)

lemma grants_run:
  fixes s :: "(mock_world, 'x) dev_scheme"
  assumes "readable s" "ridType (resId r) \<in> synced_types"
  shows "\<exists>gr. granted r (jamf_of (srv_of s)) = Some gr
    \<and> builder_ListGrants (mock_env x rnd None) (registered j) r s = (map_sum (WrapError (grants_failed (resId r))) id gr, s)"
  using assms(2) grants_mock[OF assms(1), of x rnd r]
  by (auto simp: synced_types_def registered_syncers granted_def builder_ListGrants_def mapErr_run grants_failed_def
      user_Grants_def userAccount_Grants_def)

lemma agrees_list:
  fixes s :: "(mock_world, 'x) dev_scheme"
  assumes "readable s" "t \<noteq> ''managedDevice''"
  shows "agrees f (mock_env x rnd None) j (ListR t p token n) s"
proof (cases "t \<in> synced_types")
  case True
  from list_run[OF assms(1) True, of p x rnd j token n] show ?thesis
    by (auto intro!: agrees_same simp: yields_run)
next
  case False
  with other_syncer[OF False assms(2)] other_listed(1)[OF False] show ?thesis
    by (intro agrees_same) (simp_all add: builder_ListResources_def yields_run)
qed

lemma agrees_entitlements:
  fixes s :: "(mock_world, 'x) dev_scheme"
  assumes "ridType (resId r) \<noteq> ''managedDevice''"
  shows "agrees f (mock_env x rnd None) j (EntitlementsR r) s"
proof (cases "ridType (resId r) \<in> synced_types")
  case True
  from entitlements_run[OF True, of j s] show ?thesis
    by (auto intro!: agrees_same simp: yields_run found_def)
next
  case False
  with other_syncer[OF False assms] other_listed(3)[OF False] show ?thesis
    by (intro agrees_same) (simp_all add: builder_ListEntitlements_def yields_run found_def)
qed

lemma agrees_grants:
  fixes s :: "(mock_world, 'x) dev_scheme"
  assumes "readable s" "ridType (resId r) \<noteq> ''managedDevice''"
  shows "agrees f (mock_env x rnd None) j (GrantsR r) s"
proof (cases "ridType (resId r) \<in> synced_types")
  case True
  from grants_run[OF assms(1) True, of x rnd j] show ?thesis
    by (auto intro!: agrees_same simp: yields_run found_def sum.map_comp)
next
  case False
  with other_syncer[OF False assms(2)] other_listed(2)[OF False] show ?thesis
    by (intro agrees_same) (simp_all add: builder_ListGrants_def yields_run found_def)
qed

text \<open>A creation or deletion is that of the directory, its errors wrapped.\<close>

lemma answered_wrapped:
  assumes "answered m f s = (r, t)"
  shows "yields (mapErr g m) (\<lambda>a. Provisioned (f a)) s = (map_sum g Provisioned r, t)"
proof -
  obtain r' t' where m: "m s = (r', t')" by fastforce
  with assms have "t' = t" "r = map_sum id f r'"
    by (cases r'; auto simp: answered_def bindE_def)+
  with m show ?thesis by (simp add: yields_run[OF mapErr_run] sum.map_comp comp_def)
qed

lemma jamf_of_step: "srv = s \<or> srv_step s srv \<Longrightarrow> jamf_of srv = (jamf_of s)\<lparr>jDir := directory_of srv\<rparr>"
  using step_fixed[of s srv] by (auto simp: jamf_of_def srv_fixed_def)

lemma agrees_provision:
  fixes s :: "(mock_world, 'x) dev_scheme"
  assumes "refines f (mock_env x rnd None) op s"
    and "sdk_call (mock_env x rnd None) (registered j) c s =
      yields (mapErr (WrapError m) run) (\<lambda>a. Provisioned (h a)) s"
    and "conn_op (mock_env x rnd None) op s = answered run h s"
    and "sync_op f j c (jamf_view s) = provisioned f m op (jamf_view s)"
  shows "agrees f (mock_env x rnd None) j c s"
proof -
  obtain srv k where srv: "conn_op (mock_env x rnd None) op s = (fst (dir_op f op (dir_view s)), at_source (with_server s srv) k)"
    "snd (dir_op f op (dir_view s)) = (directory_of srv, k)" "srvToken srv = srvToken (srv_of s)"
    "srv = srv_of s \<or> srv_step (srv_of s) srv"
    using assms(1) by (auto simp: refines_def)
  have "answered run h s = (fst (dir_op f op (dir_view s)), at_source (with_server s srv) k)" using srv(1) assms(3) by simp
  from answered_wrapped[OF this] srv(2-4) jamf_of_step[OF srv(4)] show ?thesis
    unfolding agrees_def assms(2,4)
    by (intro exI[of _ srv] exI[of _ k]) (auto simp: provisioned_def jamf_view_def dir_view_def split: prod.splits)
qed

lemma picked_manager: "pickAccountManager (registered j) t = Inr am \<Longrightarrow> (\<exists>b. am = UserSyncer b) \<or> (\<exists>b. am = UserAccountSyncer b)"
  by (auto simp: pickAccountManager_def registered_def Let_def split: if_splits option.splits list.splits)

lemma agrees_create:
  fixes s :: "(mock_world, 'x) dev_scheme"
  assumes "budget (Suc k) s" "creation_covered info" "sets_given creds"
  shows "agrees f (mock_env x (drawn f) None) j (CreateR t info creds) s"
proof (cases "pickAccountManager (registered j) t")
  case (Inl e)
  then show ?thesis by (intro agrees_same) (simp_all add: builder_CreateAccount_def yields_run)
next
  case (Inr am)
  from picked_manager[OF Inr] consider b where "am = UserSyncer b" | b where "am = UserAccountSyncer b" by blast
  then show ?thesis
  proof cases
    case 1
    show ?thesis
      by (rule agrees_provision[OF refines_covered[OF assms(1), of "CreateU info"],
          where m = "''error: create account failed''"])
         (use assms Inr 1 in \<open>simp_all add: builder_CreateAccount_def case_prod_unfold user_CreateAccount_def\<close>)
  next
    case 2
    show ?thesis
      by (rule agrees_provision[OF refines_covered[OF assms(1), of "CreateA info creds"],
          where m = "''error: create account failed''"])
         (use assms Inr 2 in \<open>simp_all add: builder_CreateAccount_def case_prod_unfold\<close>)
  qed
qed

lemma agrees_delete:
  fixes s :: "(mock_world, 'x) dev_scheme"
  assumes "budget (Suc k) s"
  shows "agrees f (mock_env x (drawn f) None) j (DeleteR rid) s"
proof -
  have d: "map_of (resourceDeleters (registered j)) = [''user'' \<mapsto> UserSyncer (userProvisioningActive j),
      ''userAccount'' \<mapsto> UserAccountSyncer (userAccountProvisioningActive j)]"
    by (simp add: registered_def Let_def fun_upd_twist)
  consider "ridType rid = ''user''" | "ridType rid = ''userAccount''"
    | "ridType rid \<noteq> ''user''" "ridType rid \<noteq> ''userAccount''" by blast
  then show ?thesis
  proof cases
    case 1
    show ?thesis
      by (rule agrees_provision[OF refines_covered[OF assms, of "DeleteU rid"], where m = "''error: delete resource failed''"])
         (use 1 d in \<open>simp_all add: builder_DeleteResource_def\<close>)
  next
    case 2
    show ?thesis
      by (rule agrees_provision[OF refines_covered[OF assms, of "DeleteA rid"], where m = "''error: delete resource failed''"])
         (use 2 d in \<open>simp_all add: builder_DeleteResource_def\<close>)
  next
    case 3
    then show ?thesis by (intro agrees_same) (simp_all add: builder_DeleteResource_def d yields_run)
  qed
qed

subsection \<open>Histories of calls\<close>

lemma created_utf8:
  "texts_given info \<Longrightarrow> user_utf8 (dir_user info i)" "texts_given info \<Longrightarrow> account_utf8 (dir_account info pset privs i)"
  by (simp_all add: user_utf8_def account_utf8_def dir_user_def dir_account_def xml_text_utf8 profile_string_texts)
    (simp_all add: texts_given_def xml_text_utf8)

lemma create_in_new: "create_in label n xs new = (x, False) \<Longrightarrow> x = new"
  by (auto simp: create_in_def split: option.splits)

fun op_texts :: "prov_op \<Rightarrow> bool" where
  "op_texts (CreateU info) = texts_given info"
| "op_texts (CreateA info creds) = texts_given info"
| "op_texts _ = True"

definition dir_texts :: "directory \<Rightarrow> bool" where
  "dir_texts d \<longleftrightarrow> (\<forall>u\<in>set (dUsers d). user_utf8 u) \<and> (\<forall>a\<in>set (dAccounts d). account_utf8 a)"

lemma dir_op_texts: "dir_texts d \<Longrightarrow> op_texts op \<Longrightarrow> dir_texts (fst (snd (dir_op f op (d, k))))"
  by (cases op) (auto simp: dir_texts_def created_utf8 split: prod.split option.split sum.split dest!: create_in_new)

lemma provisioned_texts: "texts_ok (fst v) \<Longrightarrow> op_texts op \<Longrightarrow> texts_ok (fst (snd (provisioned f m op v)))"
  using dir_op_texts[of "jDir (fst v)" op f "snd v"] by (auto simp: provisioned_def texts_ok_def dir_texts_def split: prod.splits)

lemma sync_op_texts: "texts_ok (fst v) \<Longrightarrow> call_covered c \<Longrightarrow> texts_ok (fst (snd (sync_op f j c v)))"
  by (cases c) (auto simp: provisioned_texts creation_covered_def split: sum.split syncer.split)

definition sync_budget :: "nat \<Rightarrow> (mock_world, 'x) dev_scheme \<Rightarrow> bool" where
  "sync_budget k s \<longleftrightarrow> budget k s \<and> texts_ok (jamf_of (srv_of s))"

lemma sync_budget_readable: "sync_budget k s \<Longrightarrow> readable s"
  by (auto simp: sync_budget_def budget_def readable_def intro: reach_server_inv)

lemma call_agrees:
  assumes "sync_budget (Suc k) s" "call_covered c"
  shows "agrees f (mock_env x (drawn f) None) j c s"
proof -
  note r = sync_budget_readable[OF assms(1)]
  have b: "budget (Suc k) s" using assms(1) by (simp add: sync_budget_def)
  from assms(2) show ?thesis
    by (cases c) (auto intro: agrees_list[OF r] agrees_entitlements agrees_grants[OF r] agrees_create[OF b] agrees_delete[OF b])
qed

interpretation syncing: op_simulation
  "sdk_call (mock_env x (drawn f) None) (registered j)" "sync_op f j" jamf_view sync_budget call_covered for x f j
proof
  fix k s c a t
  assume b: "sync_budget (Suc k) s" and c: "call_covered c"
    and run: "sdk_call (mock_env x (drawn f) None) (registered j) c s = (a, t)"
  obtain n where n: "connected s" "reach n (srv_of s)" "n + Suc k < 2 ^ 62"
    using b by (auto simp: sync_budget_def budget_def)
  obtain srv l where srv: "a = fst (sync_op f j c (jamf_view s))" "t = at_source (with_server s srv) l"
    "snd (sync_op f j c (jamf_view s)) = (jamf_of srv, l)" "srvToken srv = srvToken (srv_of s)"
    "srv = srv_of s \<or> srv_step (srv_of s) srv"
    using call_agrees[OF b c, of f x j] run by (auto simp: agrees_def)
  have "reach (Suc n) srv" using srv(5) n(2) by (auto intro: reach.intros)
  moreover have "connected t" using connected_with_server[OF n(1) srv(4)] srv(2) by simp
  moreover have "texts_ok (jamf_of srv)" using sync_op_texts[OF _ c, of "jamf_view s" f j] b srv(3) by (simp add: sync_budget_def)
  ultimately have "sync_budget k t" using n(3) srv(2)
    by (auto simp: sync_budget_def budget_def intro!: exI[of _ "Suc n"])
  then show "sync_op f j c (jamf_view s) = (a, jamf_view t) \<and> sync_budget k t"
    using srv(1-3) by (simp add: prod_eq_iff jamf_view_def)
qed

text \<open>
  C1.  Any history of SDK calls to the registered connector (listings, entitlements, grants, creations and
  deletions of every resource type but managed devices, whatever the page token and size), made without a
  response cache against the mock server from any state it can reach whose texts are UTF-8 and whose console
  groups all have members, gives exactly the answers of the abstract Jamf, errors included and random
  passwords drawn from the same stream, and leaves the server with the abstract Jamf's records.  The
  server has been sent fewer than 2^62 requests.  Of a creation the login is not \<open>.\<close> or \<open>..\<close>, the texts are
  UTF-8 without control characters, and the character sets of a random password are of printable ASCII and not
  empty; the clock stands still, so the connected client's token stays good.
\<close>

theorem sync_refines:
  fixes s :: "(mock_world, 'x) dev_scheme"
  assumes "NewConnector j = Inr b" "connected s" "reach n (srv_of s)" "n + length calls < 2 ^ 62"
    and "texts_ok (jamf_of (srv_of s))" "\<forall>c\<in>set calls. call_covered c"
    and "run_ops (sdk_call (mock_env x (drawn f) None) b) calls s = (answers, t)"
  shows "run_ops (sync_op f j) calls (jamf_of (srv_of s), wSource (netWorld s))
    = (answers, jamf_of (srv_of t), wSource (netWorld t))"
proof -
  have "sync_budget (length calls) s" using assms(2-5) by (auto simp: sync_budget_def budget_def)
  moreover have "b = registered j" using assms(1) by (simp add: NewConnector_eq)
  ultimately show ?thesis using syncing.history assms(6,7) by (simp add: jamf_view_def)
qed

subsection \<open>Grants point at what is listed\<close>

lemma listed_ids:
  "listed ''user'' p d = Some rs \<Longrightarrow> u \<in> set (dUsers (jDir d)) \<Longrightarrow> \<lparr>ridType = ''user'', ridResource = itoa (ID u)\<rparr> \<in> resId ` set rs"
  "listed ''group'' p d = Some rs \<Longrightarrow> g \<in> set (jGroups d) \<Longrightarrow> \<lparr>ridType = ''group'', ridResource = itoa (ID g)\<rparr> \<in> resId ` set rs"
  "listed ''userAccount'' p d = Some rs \<Longrightarrow> a \<in> set (dAccounts (jDir d)) \<Longrightarrow>
     \<lparr>ridType = ''userAccount'', ridResource = itoa (ID a)\<rparr> \<in> resId ` set rs"
  "listed ''userGroup'' p d = Some rs \<Longrightarrow> h \<in> set (jUserGroups d) \<Longrightarrow>
     \<lparr>ridType = ''userGroup'', ridResource = itoa (ID h)\<rparr> \<in> resId ` set rs"
  by (force simp: listed_def user_view_def group_view_def account_view_def resource_types)+

text \<open>The members of user groups that have not been deleted; a member of a console group that has been
  makes its grants fail.\<close>

definition members_kept :: "jamf \<Rightarrow> bool" where
  "members_kept d \<longleftrightarrow> (\<forall>h\<in>set (jUserGroups d). \<forall>u\<in>set (ugUsers h). ID u \<in> ID ` set (dUsers (jDir d)))"

definition shown :: "jamf \<Rightarrow> string \<Rightarrow> int set" where
  "shown d t = (if t = ''user'' then ID ` set (dUsers (jDir d)) else if t = ''userAccount'' then ID ` set (dAccounts (jDir d))
     else if t = ''group'' then ID ` set (jGroups d) else if t = ''userGroup'' then ID ` set (jUserGroups d) else {})"

lemma shown_listed: "i \<in> shown d t \<Longrightarrow> t \<in> synced_types
    \<and> (\<forall>p rs. listed t p d = Some rs \<longrightarrow> \<lparr>ridType = t, ridResource = itoa i\<rparr> \<in> resId ` set rs)"
  using listed_ids[of _ d] by (auto simp: shown_def synced_types_def split: if_splits)

lemma shown_ids [simp]:
  "shown d ''user'' = ID ` set (dUsers (jDir d))" "shown d ''userAccount'' = ID ` set (dAccounts (jDir d))"
  "shown d ''group'' = ID ` set (jGroups d)" "shown d ''userGroup'' = ID ` set (jUserGroups d)"
  by (simp_all add: shown_def)

lemma to_shown: "i \<in> shown d t \<Longrightarrow> \<exists>t' i'. i' \<in> shown d t' \<and> to_principal r t i = to_principal r t' i'"
  by blast

lemma granted_shown:
  assumes "granted r d = Some (Inr gs)" "g \<in> set gs" "ridType (resId r) = ''userGroup'' \<longrightarrow> members_kept d"
  shows "ridType (resId r) \<in> {''group'', ''userGroup'', ''site'', ''role''}
    \<and> (\<exists>t i. i \<in> shown d t \<and> g = to_principal r t i)"
proof -
  consider "ridType (resId r) = ''group''" "group_granted r d = Inr gs" | "ridType (resId r) = ''userGroup''" "user_group_granted r d = Inr gs"
    | "ridType (resId r) = ''site''" "gs = site_granted r d" | "ridType (resId r) = ''role''" "gs = role_granted r d"
    using assms(1,2) by (auto simp: granted_def split: if_splits)
  then show ?thesis
  proof cases
    case 1
    with assms(2) show ?thesis
      by (auto simp: group_granted_def split: option.splits if_splits intro!: to_shown)
  next
    case 2
    with assms(2,3) show ?thesis
      by (auto simp: user_group_granted_def members_kept_def split: option.splits intro!: to_shown dest!: find_SomeD)
  next
    case 3
    with assms(2) show ?thesis by (auto simp: site_granted_def intro!: to_shown)
  next
    case 4
    with assms(2) show ?thesis by (auto simp: role_granted_def intro!: to_shown)
  qed
qed

lemma grant_entitled:
  assumes "ridType (resId r) \<in> {''group'', ''userGroup'', ''site'', ''role''}" "entitled r = Some (Inr es)"
  shows "grEntitlement (to_principal r t i) \<in> enId ` set es"
  using assms by (auto simp: entitled_def to_principal_def NewGrant_def group_Entitlements_def userGroup_Entitlements_def
      site_Entitlements_def role_Entitlements_def NewAssignmentEntitlement_def NewPermissionEntitlement_def
      new_entitlement_def WithGrantableTo_def WithDescription_def WithDisplayName_def memberEntitlement_def NewEntitlementID_def)

text \<open>
  C7.  Closure of the grants, for every resource type but the managed devices (whose grants may name a
  placeholder for the platform to match, C16): for a connected client of the mock server, in a state reached by fewer than
  2^62 requests whose texts are UTF-8 and whose console groups have members, and without the response cache,
  every grant the connector returns points at what it lists.  Its principal is among the resources listed for the principal's type, its entitlement among those of the
  resource it was asked for.  For a user group this holds while its members are users of the server, since the
  server keeps the members of deleted users.  Reading the grants changes nothing.
\<close>

theorem grants_closed:
  fixes s :: "(mock_world, 'x) dev_scheme"
  assumes "NewConnector j = Inr b" "connected s" "reach n (srv_of s)" "n < 2 ^ 62" "texts_ok (jamf_of (srv_of s))"
    and "ridType (resId r) \<noteq> ''managedDevice''" "ridType (resId r) = ''userGroup'' \<longrightarrow> members_kept (jamf_of (srv_of s))"
    and "builder_ListGrants (mock_env x rnd None) b r s = (Inr gs, t)" "g \<in> set gs"
  shows "t = s \<and> grResource g = r
    \<and> (\<exists>rs. builder_ListResources (mock_env x rnd None) b (ridType (grPrincipal g)) p token size_hint s = (Inr (rs, EmptyToken), s)
          \<and> grPrincipal g \<in> resId ` set rs)
    \<and> (\<exists>es. builder_ListEntitlements b r s = (Inr es, s) \<and> grEntitlement g \<in> enId ` set es)"
proof -
  let ?d = "jamf_of (srv_of s)"
  have b: "b = registered j" using assms(1) by (simp add: NewConnector_eq)
  have r: "readable s" using assms(2-5) by (auto simp: readable_def intro: reach_server_inv)
  have known: "ridType (resId r) \<in> synced_types"
    using assms(6,8) other_syncer[of "ridType (resId r)" j]
    by (cases "ridType (resId r) \<in> synced_types") (simp_all add: b builder_ListGrants_def)
  obtain gr where gr: "granted r ?d = Some gr"
    "builder_ListGrants (mock_env x rnd None) b r s = (map_sum (WrapError (grants_failed (resId r))) id gr, s)"
    using grants_run[OF r known, of x rnd j] b by blast
  with assms(8) have gs: "granted r ?d = Some (Inr gs)" "t = s" by (cases gr; simp)+
  from granted_shown[OF gs(1) assms(9,7)] obtain k i where
    k: "ridType (resId r) \<in> {''group'', ''userGroup'', ''site'', ''role''}" "i \<in> shown ?d k" "g = to_principal r k i" by blast
  from shown_listed[OF k(2)] list_run[OF r, of k p x rnd j token size_hint] entitlements_run[OF known, of j s]
    grant_entitled[OF k(1)] k(3) gs(2)
  show ?thesis unfolding b by (auto simp: to_principal_def NewGrant_def)
qed

subsection \<open>On the seeded server\<close>

definition demo_dev :: "mock_world dev" where
  "demo_dev =
     \<lparr>netCache = Map.empty, netWorld = \<lparr>wServer = newServer ''u'' ''p'' ''t'', wClock = 0, wSource = 0\<rparr>, clToken = ''t'',
      clInstanceURL = ''h'', clLastKeepAlive = 0, clUserName = ''u'', clPassword = ''p'',
      userIndex = None, deviceOwners = Map.empty\<rparr>"

lemma demo_dev_ready:
  "srv_of demo_dev = newServer ''u'' ''p'' ''t''" "connected demo_dev" "reach 0 (srv_of demo_dev)"
  "texts_ok (jamf_of (srv_of demo_dev))"
proof -
  show srv: "srv_of demo_dev = newServer ''u'' ''p'' ''t''" by (simp add: demo_dev_def srv_of_def)
  show "connected demo_dev" by (simp add: connected_def fresh_token_def srv) (simp add: demo_dev_def five_minutes_def)
  show "reach 0 (srv_of demo_dev)" by (simp add: srv reach_start)
  have "\<forall>g\<in>set seed_groups. grpMembers g \<noteq> []" "\<forall>h\<in>set seed_user_groups. \<forall>u\<in>set (ugUsers h). user_utf8 u"
    by (simp_all add: seed_groups_defs seed_defs Let_def user_utf8_def byte_in_def)
  with seed_utf8 show "texts_ok (jamf_of (srv_of demo_dev))"
    by (simp add: texts_ok_def srv) (simp add: newServer_def byte_in_def)
qed

lemma seed_site_granted:
  "site_granted site_two (jamf_of (newServer u p t)) = [to_principal site_two ''user'' 5, to_principal site_two ''userGroup'' 302,
     to_principal site_two ''userAccount'' 103, to_principal site_two ''group'' 203]"
proof -
  have n: "itoa 1 = ''1''" "itoa 2 = ''2''" by code_simp+
  show ?thesis
    by (simp add: site_granted_def)
       (simp add: newServer_def seed_groups_defs seed_defs site_match_def Let_def headquarters_def remote_def n site_two_def)
qed

lemma seed_deletion:
  fixes f m u p t k
  defines "gone \<equiv> provisioned f m (DeleteU \<lparr>ridType = ''user'', ridResource = ''5''\<rparr>) (jamf_of (newServer u p t), k)"
  shows "fst gone = Inr (Provisioned Gone)"
    "site_granted site_two (fst (snd gone)) = [to_principal site_two ''userGroup'' 302, to_principal site_two ''userAccount'' 103,
       to_principal site_two ''group'' 203]"
proof -
  have n: "itoa 1 = ''1''" "itoa 2 = ''2''" "atoi ''5'' = Some 5" by code_simp+
  show "fst gone = Inr (Provisioned Gone)" by (simp add: gone_def provisioned_def n)
  show "site_granted site_two (fst (snd gone)) = [to_principal site_two ''userGroup'' 302, to_principal site_two ''userAccount'' 103,
       to_principal site_two ''group'' 203]"
    by (simp add: gone_def provisioned_def n site_granted_def)
       (simp add: newServer_def seed_groups_defs seed_defs site_match_def Let_def headquarters_def remote_def n site_two_def)
qed

theorem sync_refines_witness:
  "fst (run_ops (sdk_call (mock_env no_expiry (drawn zeros) None) (registered zero_Jamf))
      [GrantsR site_two, DeleteR \<lparr>ridType = ''user'', ridResource = ''5''\<rparr>, GrantsR site_two] demo_dev) =
   [Inr (Grants [to_principal site_two ''user'' 5, to_principal site_two ''userGroup'' 302,
                 to_principal site_two ''userAccount'' 103, to_principal site_two ''group'' 203]),
    Inr (Provisioned Gone),
    Inr (Grants [to_principal site_two ''userGroup'' 302, to_principal site_two ''userAccount'' 103,
                 to_principal site_two ''group'' 203])]"
proof -
  let ?calls = "[GrantsR site_two, DeleteR \<lparr>ridType = ''user'', ridResource = ''5''\<rparr>, GrantsR site_two]"
  obtain as t where run: "run_ops (sdk_call (mock_env no_expiry (drawn zeros) None) (registered zero_Jamf)) ?calls demo_dev = (as, t)"
    by fastforce
  have site: "ridType (resId site_two) = ''site''" by (simp add: site_two_def)
  have "run_ops (sync_op zeros zero_Jamf) ?calls (jamf_of (srv_of demo_dev), wSource (netWorld demo_dev))
      = (as, jamf_of (srv_of t), wSource (netWorld t))"
    by (rule sync_refines[OF NewConnector_eq demo_dev_ready(2,3) _ demo_dev_ready(4) _ run]) (simp_all add: site_two_def)
  then have "as = fst (run_ops (sync_op zeros zero_Jamf) ?calls (jamf_of (newServer ''u'' ''p'' ''t''), wSource (netWorld demo_dev)))"
    by (simp only: demo_dev_ready(1) fst_conv)
  with run show ?thesis
    by (simp add: granted_def found_def site seed_site_granted seed_deletion case_prod_unfold del: dir_op.simps)
qed

theorem grants_closed_witness:
  "\<exists>rs. builder_ListResources (mock_env no_expiry no_random None) (registered zero_Jamf) ''userGroup'' None EmptyToken 0 demo_dev
      = (Inr (rs, EmptyToken), demo_dev) \<and> \<lparr>ridType = ''userGroup'', ridResource = itoa 302\<rparr> \<in> resId ` set rs"
proof -
  let ?E = "mock_env no_expiry no_random None" and ?g = "to_principal site_two ''userGroup'' 302"
  have r: "readable demo_dev" using demo_dev_ready reach_server_inv[of 0 "srv_of demo_dev"] by (simp add: readable_def)
  have site: "ridType (resId site_two) = ''site''" by (simp add: site_two_def)
  have "?g \<in> set (site_granted site_two (jamf_of (srv_of demo_dev)))"
    by (simp add: demo_dev_ready(1) seed_site_granted)
  moreover obtain gs where "builder_ListGrants ?E (registered zero_Jamf) site_two demo_dev = (Inr gs, demo_dev)"
    "gs = site_granted site_two (jamf_of (srv_of demo_dev))"
    using grants_run[OF r, of site_two no_expiry no_random zero_Jamf] by (auto simp: site synced_types_def granted_def)
  ultimately show ?thesis
    using grants_closed[OF NewConnector_eq demo_dev_ready(2,3) _ demo_dev_ready(4), of site_two no_expiry no_random zero_Jamf gs demo_dev ?g
        None EmptyToken 0]
    by (simp add: site to_principal_def NewGrant_def)
qed

end
