(* ===== verification/Caching.thy ===== *)
theory Caching
  imports Sync EngineCalls
begin

section \<open>The response cache does not change a sync\<close>

text \<open>
  By default the SDK answers a GET from its memory for an hour.  A computation with the cache is related to
  the one without it: as long as every entry is what the server would answer now, both give the same result,
  and the entries made on the way are again what the server answers.  The reading calls of a sync are all
  built from such requests, so that a sync is exact with the cache too, whatever its time-to-live.  That a
  write makes the entries wrong is the property of the user created again.
\<close>

subsection \<open>The requests of a sync\<close>

definition sync_path :: "string list \<Rightarrow> bool" where
  "sync_path p \<longleftrightarrow> p \<in> {usersUrlPath, accountsUrlPath, userGroupsUrlPath, sitesUrlPath, privilegesUrlPath}
     \<or> (\<exists>i. p \<in> {userUrlPath i, accountUrlPath i, groupUrlPath i, userGroupUrlPath i})"

lemma sync_path_cases [consumes 1, case_names users accounts userGroups sites privileges user account group userGroup]:
  assumes "sync_path p"
  obtains "p = usersUrlPath" | "p = accountsUrlPath" | "p = userGroupsUrlPath" | "p = sitesUrlPath" | "p = privilegesUrlPath"
    | i where "p = userUrlPath i" | i where "p = accountUrlPath i" | i where "p = groupUrlPath i" | i where "p = userGroupUrlPath i"
  using assms by (auto simp: sync_path_def)

lemma sync_paths [simp]:
  "sync_path usersUrlPath" "sync_path accountsUrlPath" "sync_path userGroupsUrlPath" "sync_path sitesUrlPath"
  "sync_path privilegesUrlPath" "sync_path (userUrlPath i)" "sync_path (accountUrlPath i)" "sync_path (groupUrlPath i)"
  "sync_path (userGroupUrlPath i)"
  by (auto simp: sync_path_def)

text \<open>What the server answers does not depend on the clock and changes nothing.\<close>

definition answer :: "(mock_world, 'x) conn_scheme \<Rightarrow> string list \<Rightarrow> http_response" where
  "answer s p = fst (serve [] (api_get s p) (srv_of s))"

lemma sync_read:
  assumes "connected s" "sync_path p"
  shows "serve e (api_get s p) (srv_of s) = (answer s p, srv_of s) \<and> rsStatus (answer s p) \<in> {200, 400, 404}"
  using assms(2) unfolding answer_def
  by (cases rule: sync_path_cases)
     (use assms(1) in \<open>auto simp: url_paths join_plain serve_routes serve_user_id serve_account_id serve_group_id
        serve_user_group_id handleListUsers_def handleListAccounts_def handleListUserGroups_def handleListSites_def
        handleListPrivileges_def handleUserByID_def handleAccountByID_def handleGroupByID_def handleUserGroupByID_def
        only_get_ok writeJSON_def writeJSONError_def split: option.splits simp del: append.simps\<close>)

text \<open>Two requests of a sync that share a cache key are the same request.\<close>

lemma lower_itoa [simp]: "to_lower (itoa i) = itoa i"
proof -
  have "\<not> is_upper c" if "c \<in> set (itoa i)" for c
    using itoa_chars[OF that] by (auto simp: is_upper_def is_digit_def)
  then show ?thesis by (simp add: to_lower_def map_idI)
qed

definition restore :: "string \<Rightarrow> string" where
  "restore k = (if prefix ''/jssresource/'' k then ''/JSSResource/'' @ drop 13 k else k)"

lemma lower_append: "to_lower (a @ b) = to_lower a @ to_lower b"
  by (simp add: to_lower_def)

lemma lower_literals:
  "to_lower ''/JSSResource/users'' = ''/jssresource/users''"
  "to_lower ''/JSSResource/accounts'' = ''/jssresource/accounts''"
  "to_lower ''/JSSResource/usergroups'' = ''/jssresource/usergroups''"
  "to_lower ''/JSSResource/sites'' = ''/jssresource/sites''"
  "to_lower ''/api/v1/api-role-privileges'' = ''/api/v1/api-role-privileges''"
  "to_lower ''/JSSResource/users/id/'' = ''/jssresource/users/id/''"
  "to_lower ''/JSSResource/accounts/userid/'' = ''/jssresource/accounts/userid/''"
  "to_lower ''/JSSResource/accounts/groupid/'' = ''/jssresource/accounts/groupid/''"
  "to_lower ''/JSSResource/usergroups/id/'' = ''/jssresource/usergroups/id/''"
  by code_simp+

lemma restore_lower: "sync_path p \<Longrightarrow> restore (to_lower (join_path [] p)) = join_path [] p"
  by (cases rule: sync_path_cases, assumption)
     (simp_all add: url_paths join_plain lower_append lower_literals del: append.simps, simp_all add: restore_def)

lemma lower_inj: "sync_path p \<Longrightarrow> sync_path q \<Longrightarrow> to_lower (join_path [] p) = to_lower (join_path [] q) \<Longrightarrow> join_path [] p = join_path [] q"
  by (metis restore_lower)

lemma key_eq_iff:
  "CreateCacheKey (api_get s p) = CreateCacheKey (api_get t q) \<longleftrightarrow> to_lower (join_path [] p) = to_lower (join_path [] q)"
  by (simp add: CreateCacheKey_def api_get_def apiRequest_def)

subsection \<open>Right entries\<close>

definition coherent :: "(mock_world, 'x) conn_scheme \<Rightarrow> bool" where
  "coherent s \<longleftrightarrow> (\<forall>p rs k. sync_path p \<and> netCache s (CreateCacheKey (api_get s p)) = Some (rs, k) \<longrightarrow>
     rs = answer s p \<and> rsStatus rs = 200)"

text \<open>A read through the cache and what it leaves there; without a cache nothing.\<close>

definition outcome :: "(mock_world, 'x) conn_scheme \<Rightarrow> string list \<Rightarrow> 'a decoder \<Rightarrow> 'a \<Rightarrow> go_error + 'a" where
  "outcome s p d z =
     (if rsStatus (answer s p) = 200 then read_target (unmarshal d z) (answer s p)
      else Inl (StatusError (GrpcCodeFromHTTPStatus (rsStatus (answer s p))) []))"

definition remembered :: "(int \<Rightarrow> string) \<Rightarrow> (int \<Rightarrow> mock_world \<Rightarrow> (string + int) \<times> mock_world) \<Rightarrow> int option \<Rightarrow> string list \<Rightarrow>
    (mock_world, 'x) conn_scheme \<Rightarrow> (mock_world, 'x) conn_scheme" where
  "remembered x rnd ttl p s =
     (if rsStatus (answer s p) = 200 then cacheSet (mock_env x rnd ttl) (api_get s p) (answer s p) s else s)"

text \<open>A fetch whose request is answered 200, 400 or 404, from the cache or by the server.\<close>

lemma fetch_fetched:
  fixes s :: "(mock_world, 'x) conn_scheme" and x rnd ttl
  defines "E \<equiv> mock_env x rnd ttl"
  assumes "connected s" "fetched E (api_get s p) s = (Inr rs, s)" "rsStatus rs \<in> {200, 400, 404}"
  shows "fetch E p d z s =
    (if rsStatus rs = 200 then (read_target (unmarshal d z) rs, cacheSet E (api_get s p) rs s)
     else (Inl (StatusError (GrpcCodeFromHTTPStatus (rsStatus rs)) []), s))"
proof -
  let ?rq = "api_get s p" and ?u = "\<lparr>uHost = clInstanceURL s, uPath = join_path [] p, uQuery = []\<rparr>"
  have "Do E ?rq no_option s = (if rsStatus rs = 200 then (Inr (rs, ()), cacheSet E ?rq rs s)
      else (Inl (StatusError (GrpcCodeFromHTTPStatus (rsStatus rs)) []), s))"
    using assms(3,4) by (auto simp: Do_def fetched_def bindE_def header_def no_option_def
        api_get_def apiRequest_def acceptJSON_def split: option.splits)
  then have att: "attempt E GET ?u None s = (if rsStatus rs = 200 then Inr rs
      else Inl (StatusError (GrpcCodeFromHTTPStatus (rsStatus rs)) []), if rsStatus rs = 200 then cacheSet E ?rq rs s else s)"
    by (simp add: attempt_def api_get_def bindE_def)
  have "gotoRetry E GET ?u None (unmarshal d z) True s =
    (if rsStatus rs = 200 then (read_target (unmarshal d z) rs, cacheSet E ?rq rs s)
     else (Inl (StatusError (GrpcCodeFromHTTPStatus (rsStatus rs)) []), s))"
    by (subst gotoRetry_first[OF att])
       (use assms(4) in \<open>auto simp: GrpcCodeFromHTTPStatus_def split: if_splits\<close>)
  then show ?thesis
    by (simp add: E_def fetch_def doRequest_def doRequestWithMethod_def keepAlive_fresh[OF connected_fresh[OF assms(2)]])
qed

lemma fetch_sync:
  assumes "connected s" "sync_path p" "ttl = None \<or> coherent s"
  shows "fetch (mock_env x rnd ttl) p d z s = (outcome s p d z, remembered x rnd ttl p s)"
proof -
  let ?E = "mock_env x rnd ttl" and ?rq = "api_get s p"
  note r = sync_read[OF assms(1,2)]
  have "fetched ?E ?rq s = (Inr (answer s p), s)"
  proof (cases "cacheGet ?E ?rq s")
    case None
    then show ?thesis using r[of "x (wClock (netWorld s))"]
      by (cases s) (simp add: fetched_def send_def srv_of_def)
  next
    case (Some rs)
    with assms(2,3) show ?thesis by (auto simp: fetched_def cacheGet_def coherent_def split: option.splits if_splits)
  qed
  from fetch_fetched[OF assms(1) this] r show ?thesis by (auto simp: outcome_def remembered_def)
qed

text \<open>States that differ in the cache only.\<close>

definition twin :: "(mock_world, 'x) conn_scheme \<Rightarrow> (mock_world, 'x) conn_scheme \<Rightarrow> bool" where
  "twin s t \<longleftrightarrow> (\<exists>c. t = s\<lparr>netCache := c\<rparr>)"

lemma twin_fields:
  assumes "twin s t"
  shows "srv_of t = srv_of s" "connected t = connected s" "api_get t p = api_get s p" "answer t p = answer s p"
    "outcome t p d z = outcome s p d z"
proof -
  obtain c where t: "t = s\<lparr>netCache := c\<rparr>" using assms by (auto simp: twin_def)
  show v: "srv_of t = srv_of s" by (simp add: t srv_of_def)
  show "connected t = connected s" by (simp add: t srv_of_def connected_def fresh_token_def)
  show a: "api_get t p = api_get s p" for p by (simp add: t api_get_def)
  show "answer t p = answer s p" for p by (simp add: answer_def a v)
  then show "outcome t p d z = outcome s p d z" by (simp add: outcome_def)
qed

lemma twin_trans: "twin s t \<Longrightarrow> twin t u \<Longrightarrow> twin s u"
  by (auto simp: twin_def)

lemma twin_sym: "twin s t \<Longrightarrow> twin t s"
  by (cases s; cases t) (auto simp: twin_def)

lemma twin_refl: "twin s s" and twin_set: "twin s t \<Longrightarrow> twin (s\<lparr>netCache := c\<rparr>) t"
  by (auto simp: twin_def intro: exI[of _ "netCache s"] exI[of _ "netCache t"])

subsection \<open>The relation\<close>

definition steady :: "(mock_world, 'x) conn_scheme \<Rightarrow> bool" where
  "steady s \<longleftrightarrow> readable s \<and> coherent s"

text \<open>\<open>m\<close> runs with the cache, \<open>m'\<close> without.\<close>

definition tracks :: "((mock_world, 'x) conn_scheme, go_error, 'a) comp \<Rightarrow> ((mock_world, 'x) conn_scheme, go_error, 'a) comp \<Rightarrow> bool" where
  "tracks m m' \<longleftrightarrow> (\<forall>s t. steady s \<longrightarrow> twin s t \<longrightarrow>
     fst (m s) = fst (m' t) \<and> steady (snd (m s)) \<and> twin (snd (m s)) (snd (m' t)))"

named_theorems tracks_intros

lemma tracksI:
  assumes "\<And>s t r s' r' t'. steady s \<Longrightarrow> twin s t \<Longrightarrow> m s = (r, s') \<Longrightarrow> m' t = (r', t') \<Longrightarrow> r = r' \<and> steady s' \<and> twin s' t'"
  shows "tracks m m'"
  unfolding tracks_def by (intro allI impI assms) (assumption, assumption, (rule surjective_pairing)+)

lemma tracksD:
  assumes "tracks m m'" "steady s" "twin s t" "m s = (r, s')" "m' t = (r', t')"
  shows "r = r' \<and> steady s' \<and> twin s' t'"
  using assms(1)[unfolded tracks_def, rule_format, OF assms(2,3)] assms(4,5) by simp

lemma tracks_pure [tracks_intros]: "tracks (returnE a) (returnE a)" "tracks (throwE e) (throwE e)" "tracks (liftE r) (liftE r)"
  by (auto intro: tracksI)

lemma tracks_bindE [tracks_intros]:
  assumes "tracks m m'" "\<And>a. tracks (f a) (f' a)"
  shows "tracks (bindE m f) (bindE m' f')"
proof (rule tracksI)
  fix s t r s' r' t'
  assume st: "steady s" "twin s t" and run: "bindE m f s = (r, s')" "bindE m' f' t = (r', t')"
  obtain q s1 q' t1 where m: "m s = (q, s1)" "m' t = (q', t1)" by fastforce
  note one = tracksD[OF assms(1) st m]
  show "r = r' \<and> steady s' \<and> twin s' t'"
  proof (cases q)
    case (Inl e)
    with one m run show ?thesis by (auto simp: bindE_def)
  next
    case (Inr a)
    with one m run have "f a s1 = (r, s')" "f' a t1 = (r', t')" by (auto simp: bindE_def)
    with tracksD[OF assms(2)] one show ?thesis by blast
  qed
qed

lemma tracks_mapErr [tracks_intros]: "tracks m m' \<Longrightarrow> tracks (mapErr g m) (mapErr g m')"
proof (rule tracksI)
  fix s t r s' r' t'
  assume m: "tracks m m'" and st: "steady s" "twin s t" and run: "mapErr g m s = (r, s')" "mapErr g m' t = (r', t')"
  obtain q s1 q' t1 where h: "m s = (q, s1)" "m' t = (q', t1)" by fastforce
  with tracksD[OF m st h] run show "r = r' \<and> steady s' \<and> twin s' t'" by (auto simp: mapErr_run)
qed

lemma tracks_mapE [tracks_intros]: "(\<And>a. tracks (f a) (f' a)) \<Longrightarrow> tracks (mapE f xs) (mapE f' xs)"
  by (induction xs) (auto intro!: tracks_intros)

lemma tracks_case [tracks_intros]: "(\<And>a b. tracks (f a b) (f' a b)) \<Longrightarrow> tracks (case p of (a, b) \<Rightarrow> f a b) (case p of (a, b) \<Rightarrow> f' a b)"
  "tracks c c' \<Longrightarrow> (\<And>a. tracks (h a) (h' a)) \<Longrightarrow> tracks (case q of None \<Rightarrow> c | Some a \<Rightarrow> h a) (case q of None \<Rightarrow> c' | Some a \<Rightarrow> h' a)"
  by (auto split: prod.split option.split)

text \<open>A new entry is right, for its own request and for every other with its key.\<close>

lemma steady_remembered:
  assumes "steady s" "sync_path p"
  shows "steady (remembered x rnd ttl p s)" "twin (remembered x rnd ttl p s) s"
proof -
  have id: "s\<lparr>netCache := netCache s\<rparr> = s" by simp
  obtain c where c: "remembered x rnd ttl p s = s\<lparr>netCache := c\<rparr>"
    "c = netCache s \<or> rsStatus (answer s p) = 200 \<and> (\<exists>k. c = (netCache s)(CreateCacheKey (api_get s p) \<mapsto> (answer s p, k)))"
    by (cases "rsStatus (answer s p) = 200"; cases ttl)
       (auto simp: remembered_def cacheSet_def intro: that[of "netCache s", unfolded id])
  have tw: "twin (s\<lparr>netCache := c\<rparr>) s" by (rule twin_set[OF twin_refl])
  then show "twin (remembered x rnd ttl p s) s" by (simp add: c(1))
  note same = twin_fields[OF tw]
  have shared: "answer s q = answer s p" if q: "sync_path q" "CreateCacheKey (api_get s q) = CreateCacheKey (api_get s p)" for q
    using lower_inj[OF q(1) assms(2)] q(2)[unfolded key_eq_iff] by (simp add: answer_def api_get_def)
  have "coherent (s\<lparr>netCache := c\<rparr>)"
    unfolding coherent_def
  proof (intro allI impI)
    fix q rs k
    assume "sync_path q \<and> netCache (s\<lparr>netCache := c\<rparr>) (CreateCacheKey (api_get (s\<lparr>netCache := c\<rparr>) q)) = Some (rs, k)"
    then have q: "sync_path q" "c (CreateCacheKey (api_get s q)) = Some (rs, k)" by (simp_all add: same(3))
    have "rs = answer s q \<and> rsStatus rs = 200"
    proof (cases "netCache s (CreateCacheKey (api_get s q)) = Some (rs, k)")
      case True
      with q(1) assms(1) show ?thesis by (auto simp: coherent_def steady_def)
    next
      case False
      with c(2) q(2) have new: "CreateCacheKey (api_get s q) = CreateCacheKey (api_get s p)" "rs = answer s p"
        "rsStatus (answer s p) = 200" by (auto split: if_splits)
      with shared[OF q(1)] show ?thesis by simp
    qed
    then show "rs = answer (s\<lparr>netCache := c\<rparr>) q \<and> rsStatus rs = 200" unfolding same(4)[symmetric] .
  qed
  then show "steady (remembered x rnd ttl p s)"
    using assms(1) by (simp add: c(1) steady_def readable_def same[symmetric])
qed

lemma tracks_fetch [tracks_intros]:
  assumes "sync_path p"
  shows "tracks (fetch (mock_env x rnd ttl) p d z) (fetch (mock_env x rnd None) p d z)"
proof (rule tracksI)
  fix s t r s' r' t'
  assume st: "steady s" "twin s t" and run: "fetch (mock_env x rnd ttl) p d z s = (r, s')"
    "fetch (mock_env x rnd None) p d z t = (r', t')"
  note same = twin_fields[OF st(2)]
  have c: "connected s" "coherent s" using st(1) by (simp_all add: steady_def readable_def)
  have "t' = t" "r' = outcome s p d z"
    using run(2) fetch_sync[where s = t, OF _ assms, of None x rnd d z] c(1) same
    by (auto simp: remembered_def cacheSet_def)
  moreover have "s' = remembered x rnd ttl p s" "r = outcome s p d z"
    using run(1) fetch_sync[OF c(1) assms, of ttl x rnd d z] c(2) by simp_all
  moreover have "twin (remembered x rnd ttl p s) t"
    by (rule twin_trans[OF steady_remembered(2)[OF st(1) assms] st(2)])
  ultimately show "r = r' \<and> steady s' \<and> twin s' t'" using steady_remembered(1)[OF st(1) assms] by simp
qed

subsection \<open>The calls of a sync\<close>

lemma tracks_reads [tracks_intros]:
  "tracks (GetUsers (mock_env x rnd ttl)) (GetUsers (mock_env x rnd None))"
  "tracks (GetUserGroups (mock_env x rnd ttl)) (GetUserGroups (mock_env x rnd None))"
  "tracks (GetAccounts (mock_env x rnd ttl)) (GetAccounts (mock_env x rnd None))"
  "tracks (GetSites (mock_env x rnd ttl)) (GetSites (mock_env x rnd None))"
  "tracks (GetPrivileges (mock_env x rnd ttl)) (GetPrivileges (mock_env x rnd None))"
  "tracks (GetUserAccountDetails (mock_env x rnd ttl) i) (GetUserAccountDetails (mock_env x rnd None) i)"
  "tracks (GetGroupDetails (mock_env x rnd ttl) i) (GetGroupDetails (mock_env x rnd None) i)"
  "tracks (GetUserGroupDetails (mock_env x rnd ttl) i) (GetUserGroupDetails (mock_env x rnd None) i)"
  unfolding GetUsers_def GetUserGroups_def GetAccounts_def GetSites_def GetPrivileges_def GetUserAccountDetails_def
    GetGroupDetails_def GetUserGroupDetails_def getBaseUsers_def getBaseUserGroups_def getBaseAccounts_def getUserDetails_def
  by (intro tracks_intros sync_paths)+

text \<open>In a group with members the first read of the members is the only one.\<close>

lemma steady_group:
  assumes "steady s" "int64 i" "GetGroupDetails (mock_env x rnd None) i s = (Inr g, t)"
  shows "grpMembers g \<noteq> []"
proof -
  have r: "readable s" using assms(1) by (simp add: steady_def)
  note ok = readableD[OF r]
  show ?thesis
  proof (cases "List.find (\<lambda>g. ID g = i) (srvGroupList (srv_of s))")
    case None
    then have "GetGroupDetails (mock_env x rnd None) i s = (Inl (StatusError NotFound []), s)"
      using GetGroupDetails_missing[OF ok(1) assms(2)] find_group(1)[OF ok(2)] by simp
    with assms(3) show ?thesis by simp
  next
    case (Some h)
    from find_SomeD[OF Some] have h: "h \<in> set (srvGroupList (srv_of s))" "ID h = i" by auto
    with GetGroupDetails_mock[OF ok(1,2) h(1), of x rnd] assms(3) ok(6) show ?thesis by simp
  qed
qed

lemma tracks_readMembers [tracks_intros]:
  assumes "int64 i"
  shows "tracks (readMembers (mock_env x rnd ttl) i (Suc n) None) (readMembers (mock_env x rnd None) i (Suc n) None)"
proof (rule tracksI)
  fix s t r s' r' t'
  assume st: "steady s" "twin s t" and run: "readMembers (mock_env x rnd ttl) i (Suc n) None s = (r, s')"
    "readMembers (mock_env x rnd None) i (Suc n) None t = (r', t')"
  obtain q s1 q' t1 where g: "GetGroupDetails (mock_env x rnd ttl) i s = (q, s1)" "GetGroupDetails (mock_env x rnd None) i t = (q', t1)"
    by fastforce
  obtain q2 s2 where plain: "GetGroupDetails (mock_env x rnd None) i s = (q2, s2)" by fastforce
  have one: "q = q' \<and> steady s1 \<and> twin s1 t1" by (rule tracksD[OF tracks_reads(7) st g])
  have "q2 = q'" using tracksD[OF tracks_reads(7) st plain g(2)] by simp
  then have "q' = Inr h \<Longrightarrow> grpMembers h \<noteq> []" for h using steady_group[OF st(1) assms] plain by simp
  with one g run show "r = r' \<and> steady s' \<and> twin s' t'"
    by (cases q) (auto simp: bindE_def)
qed

lemma tracks_lists [tracks_intros]:
  "tracks (user_List (mock_env x rnd ttl) p) (user_List (mock_env x rnd None) p)"
  "tracks (group_List (mock_env x rnd ttl) p) (group_List (mock_env x rnd None) p)"
  "tracks (userAccount_List (mock_env x rnd ttl) p) (userAccount_List (mock_env x rnd None) p)"
  "tracks (userGroup_List (mock_env x rnd ttl) p) (userGroup_List (mock_env x rnd None) p)"
  "tracks (site_List (mock_env x rnd ttl) p) (site_List (mock_env x rnd None) p)"
  "tracks (role_List (mock_env x rnd ttl) p) (role_List (mock_env x rnd None) p)"
  unfolding user_List_def group_List_def userAccount_List_def userGroup_List_def site_List_def role_List_def
  by (intro tracks_intros)+

lemma tracks_grants [tracks_intros]:
  "tracks (site_Grants (mock_env x rnd ttl) r) (site_Grants (mock_env x rnd None) r)"
  "tracks (role_Grants (mock_env x rnd ttl) r) (role_Grants (mock_env x rnd None) r)"
  "tracks (userGroup_Grants (mock_env x rnd ttl) r) (userGroup_Grants (mock_env x rnd None) r)"
  unfolding site_Grants_def role_Grants_def userGroup_Grants_def Let_def
  by (intro tracks_intros)+

lemma tracks_group_Grants [tracks_intros]:
  "tracks (group_Grants (mock_env x rnd ttl) r) (group_Grants (mock_env x rnd None) r)"
proof (cases "atoi (ridResource (resId r))")
  case (Some i)
  have "int64 i" by (rule atoi_int64[OF Some])
  then show ?thesis
    unfolding group_Grants_def Some option.case eval_nat_numeral by (intro tracks_intros)
qed (auto simp: group_Grants_def intro: tracks_intros)

text \<open>A sync call of a type that is always registered, and what the others are answered with.\<close>

fun reads :: "sync_call \<Rightarrow> bool" where
  "reads (ListR t p token n) = (t \<noteq> ''managedDevice'')"
| "reads (EntitlementsR r) = (ridType (resId r) \<noteq> ''managedDevice'')"
| "reads (GrantsR r) = (ridType (resId r) \<noteq> ''managedDevice'')"
| "reads _ = False"

lemma tracks_syncer [tracks_intros]:
  assumes "rb \<noteq> ManagedDeviceSyncer"
  shows "tracks (syncer_List (mock_env x rnd ttl) rb p token n) (syncer_List (mock_env x rnd None) rb p token n)"
    "tracks (syncer_Entitlements rb r) (syncer_Entitlements rb r)"
    "tracks (syncer_Grants (mock_env x rnd ttl) rb r) (syncer_Grants (mock_env x rnd None) rb r)"
  using assms by (cases rb; auto intro!: tracks_intros)+

lemma tracks_call:
  assumes "reads c"
  shows "tracks (sdk_call (mock_env x rnd ttl) (registered j) c) (sdk_call (mock_env x rnd None) (registered j) c)"
proof (cases c)
  case (ListR t p token n)
  with assms only_devices_paged[of j t] show ?thesis
    by (cases "map_of (resourceSyncers (registered j)) t")
       (auto simp: yields_def builder_ListResources_def intro!: tracks_intros)
next
  case (EntitlementsR r)
  with assms only_devices_paged[of j "ridType (resId r)"] show ?thesis
    by (cases "map_of (resourceSyncers (registered j)) (ridType (resId r))")
       (auto simp: yields_def builder_ListEntitlements_def intro!: tracks_intros)
next
  case (GrantsR r)
  with assms only_devices_paged[of j "ridType (resId r)"] show ?thesis
    by (cases "map_of (resourceSyncers (registered j)) (ridType (resId r))")
       (auto simp: yields_def builder_ListGrants_def intro!: tracks_intros)
qed (use assms in simp_all)

text \<open>Without the cache such a call leaves everything as it is.\<close>

lemma plain_call:
  assumes "readable s" "reads c"
  shows "snd (sdk_call (mock_env x rnd None) (registered j) c s) = s"
proof (cases c)
  case (ListR t p token n)
  then show ?thesis
    using list_run[OF assms(1), of t p x rnd j token n] other_syncer[of t j] assms(2)
    by (cases "t \<in> synced_types") (auto simp: yields_run builder_ListResources_def)
next
  case (EntitlementsR r)
  then show ?thesis
    using entitlements_run[of r j s] other_syncer[of "ridType (resId r)" j] assms(2)
    by (cases "ridType (resId r) \<in> synced_types") (auto simp: yields_run builder_ListEntitlements_def)
next
  case (GrantsR r)
  then show ?thesis
    using grants_run[OF assms(1), of r x rnd j] other_syncer[of "ridType (resId r)" j] assms(2)
    by (cases "ridType (resId r) \<in> synced_types") (auto simp: yields_run builder_ListGrants_def)
qed (use assms in simp_all)

lemma plain_answer:
  assumes "readable s" "reads c"
  obtains a where "sdk_call (mock_env x rnd None) (registered j) c s = (a, s)" "sync_op f j c (jamf_view s) = (a, jamf_view s)"
proof
  have "agrees f (mock_env x rnd None) j c s"
    using assms(2) by (cases c) (auto intro: agrees_list[OF assms(1)] agrees_entitlements agrees_grants[OF assms(1)])
  then show "sdk_call (mock_env x rnd None) (registered j) c s = (fst (sync_op f j c (jamf_view s)), s)"
    using plain_call[OF assms, of x rnd j] by (auto simp: agrees_def)
  show "sync_op f j c (jamf_view s) = (fst (sync_op f j c (jamf_view s)), jamf_view s)"
    using assms(2) by (cases c) simp_all
qed

lemma plain_history:
  assumes "readable s" "\<forall>c\<in>set calls. reads c"
  obtains as where "run_ops (sdk_call (mock_env x rnd None) (registered j)) calls s = (as, s)"
    "run_ops (sync_op f j) calls (jamf_view s) = (as, jamf_view s)"
  using assms(2)
proof (induction calls arbitrary: thesis)
  case (Cons c calls)
  from Cons.prems(2) have rest: "\<forall>c\<in>set calls. reads c" and c: "reads c" by simp_all
  obtain as where "run_ops (sdk_call (mock_env x rnd None) (registered j)) calls s = (as, s)"
    "run_ops (sync_op f j) calls (jamf_view s) = (as, jamf_view s)"
    by (rule Cons.IH[OF _ rest])
  moreover obtain a where "sdk_call (mock_env x rnd None) (registered j) c s = (a, s)"
    "sync_op f j c (jamf_view s) = (a, jamf_view s)"
    by (rule plain_answer[OF assms(1) c])
  ultimately show ?case by (intro Cons.prems(1)[of "a # as"]) simp_all
qed simp

lemma tracks_history:
  assumes "\<forall>c\<in>set calls. reads c" "steady s" "twin s t"
    and "run_ops (sdk_call (mock_env x rnd ttl) (registered j)) calls s = (as, s')"
    and "run_ops (sdk_call (mock_env x rnd None) (registered j)) calls t = (bs, t')"
  shows "as = bs \<and> steady s' \<and> twin s' t'"
  using assms
proof (induction calls arbitrary: s t as bs)
  case (Cons c calls)
  obtain a s1 as' where h: "sdk_call (mock_env x rnd ttl) (registered j) c s = (a, s1)"
    "run_ops (sdk_call (mock_env x rnd ttl) (registered j)) calls s1 = (as', s')" "as = a # as'"
    using Cons.prems(4) by (auto split: prod.splits)
  obtain b t1 bs' where h': "sdk_call (mock_env x rnd None) (registered j) c t = (b, t1)"
    "run_ops (sdk_call (mock_env x rnd None) (registered j)) calls t1 = (bs', t')" "bs = b # bs'"
    using Cons.prems(5) by (auto split: prod.splits)
  have "a = b \<and> steady s1 \<and> twin s1 t1"
    using tracksD[OF tracks_call Cons.prems(2,3) h(1) h'(1)] Cons.prems(1) by simp
  with Cons.IH[of s1 t1 as' bs'] Cons.prems(1) h h' show ?case by simp
qed simp

lemma cached_history:
  assumes "readable s" "coherent s" "\<forall>c\<in>set calls. reads c"
    and "run_ops (sdk_call (mock_env x rnd ttl) (registered j)) calls s = (as, t)"
  shows "run_ops (sdk_call (mock_env x rnd None) (registered j)) calls s = (as, s)
    \<and> run_ops (sync_op f j) calls (jamf_view s) = (as, jamf_view s) \<and> twin s t \<and> coherent t"
proof -
  obtain bs where plain: "run_ops (sdk_call (mock_env x rnd None) (registered j)) calls s = (bs, s)"
    and spec: "run_ops (sync_op f j) calls (jamf_view s) = (bs, jamf_view s)"
    by (rule plain_history[OF assms(1,3)])
  have "as = bs \<and> steady t \<and> twin t s"
    by (rule tracks_history[OF assms(3) _ twin_refl assms(4) plain]) (simp add: steady_def assms(1,2))
  with plain spec twin_sym[of t s] show ?thesis by (simp add: steady_def)
qed

text \<open>
  C6.  With the response cache on, whatever its time-to-live, a sync that only reads (any sequence of
  listings, entitlements and grants of every type but managed devices) gives the answers it gives without
  the cache, those of the abstract Jamf, and leaves the server as it is, provided every entry the cache holds
  for these requests at the start is what the server would answer; and it holds of the entries at the end.
\<close>

theorem cache_transparent:
  fixes s :: "(mock_world, 'x) dev_scheme"
  assumes "NewConnector j = Inr b" "connected s" "reach n (srv_of s)" "n < 2 ^ 62"
    and "texts_ok (jamf_of (srv_of s))" "coherent s" "\<forall>c\<in>set calls. reads c"
    and "run_ops (sdk_call (mock_env x rnd ttl) b) calls s = (answers, t)"
  shows "run_ops (sdk_call (mock_env x rnd None) b) calls s = (answers, s)
    \<and> run_ops (sync_op f j) calls (jamf_of (srv_of s), wSource (netWorld s)) = (answers, jamf_of (srv_of s), wSource (netWorld s))
    \<and> t = s\<lparr>netCache := netCache t\<rparr> \<and> coherent t"
proof -
  have b: "b = registered j" using assms(1) by (simp add: NewConnector_eq)
  have "readable s" using assms(2-5) by (auto simp: readable_def intro: reach_server_inv)
  note same = cached_history[where f = f, OF this assms(6,7,8)[unfolded b], unfolded jamf_view_def]
  then have "t = s\<lparr>netCache := netCache t\<rparr>" by (auto simp: twin_def)
  with same show ?thesis unfolding b by blast
qed

text \<open>An empty cache is a coherent one: the SDK's Cleanup at the end of a sync makes it so.\<close>

lemma coherent_empty: "netCache s = Map.empty \<Longrightarrow> coherent s"
  by (simp add: coherent_def)

lemma cleanup_coherent: "coherent (snd (builder_Cleanup s))"
  by (simp add: builder_Cleanup_def ClearCaches_def updateE_def coherent_def)

theorem cache_transparent_witness:
  "\<exists>t. run_ops (sdk_call (mock_env no_expiry no_random (Some 3600000000000)) (registered zero_Jamf))
      [GrantsR site_two, GrantsR site_two] demo_dev =
   ([Inr (Grants [to_principal site_two ''user'' 5, to_principal site_two ''userGroup'' 302,
                  to_principal site_two ''userAccount'' 103, to_principal site_two ''group'' 203]),
     Inr (Grants [to_principal site_two ''user'' 5, to_principal site_two ''userGroup'' 302,
                  to_principal site_two ''userAccount'' 103, to_principal site_two ''group'' 203])], t) \<and> coherent t"
proof -
  let ?calls = "[GrantsR site_two, GrantsR site_two]"
  obtain as t where run: "run_ops (sdk_call (mock_env no_expiry no_random (Some 3600000000000)) (registered zero_Jamf)) ?calls demo_dev = (as, t)"
    by fastforce
  have site: "ridType (resId site_two) = ''site''" by (simp add: site_two_def)
  have empty: "netCache demo_dev = Map.empty" by (simp add: demo_dev_def)
  have "run_ops (sync_op zeros zero_Jamf) ?calls (jamf_of (srv_of demo_dev), wSource (netWorld demo_dev))
      = (as, jamf_of (srv_of demo_dev), wSource (netWorld demo_dev)) \<and> coherent t"
    using cache_transparent[OF NewConnector_eq demo_dev_ready(2,3) _ demo_dev_ready(4) coherent_empty[OF empty] _ run]
    by (simp add: site)
  then have "coherent t" "as = fst (run_ops (sync_op zeros zero_Jamf) ?calls (jamf_of (newServer ''u'' ''p'' ''t''), wSource (netWorld demo_dev)))"
    by (simp_all only: demo_dev_ready(1) fst_conv)
  with run show ?thesis
    by (simp add: granted_def found_def site seed_site_granted case_prod_unfold)
qed

end
