(* ===== verification/Sessions.thy ===== *)
theory Sessions
  imports Caching
begin

section \<open>Syncs and provisioning in turn\<close>

text \<open>
  A connector process serves syncs and provisioning requests one after the other, with one
  response cache.  The SDK empties the cache at the end of a sync.  What provisioning puts there are lookups
  by name, which no sync makes.  So every sync finds the server as it is, whatever was provisioned before.
\<close>

subsection \<open>Caches without an entry of a sync\<close>

definition by_name :: "string \<Rightarrow> bool" where
  "by_name k \<longleftrightarrow> prefix ''/jssresource/users/name/'' k \<or> prefix ''/jssresource/accounts/username/'' k"

text \<open>Entries by name are successes; beside them two states have the same entries; no entry beside them.\<close>

definition names_ok :: "(mock_world, 'x) conn_scheme \<Rightarrow> bool" where
  "names_ok s \<longleftrightarrow> (\<forall>k rs w. by_name k \<and> netCache s k = Some (rs, w) \<longrightarrow> rsStatus rs = 200)"

definition beside :: "(mock_world, 'x) conn_scheme \<Rightarrow> (mock_world, 'x) conn_scheme \<Rightarrow> bool" where
  "beside s t \<longleftrightarrow> (\<forall>k. \<not> by_name k \<longrightarrow> netCache t k = netCache s k)"

definition clean :: "(mock_world, 'x) conn_scheme \<Rightarrow> bool" where
  "clean s \<longleftrightarrow> names_ok s \<and> (\<forall>k. \<not> by_name k \<longrightarrow> netCache s k = None)"

lemma key_path: "CreateCacheKey (api_get s p) = to_lower (join_path [] p) @ ''?'' @ ''&headers=Accept=application/json''"
  by (simp add: CreateCacheKey_def api_get_def apiRequest_def acceptJSON_def)

lemma lower_names:
  "to_lower ''/JSSResource/users/name/'' = ''/jssresource/users/name/''"
  "to_lower ''/JSSResource/accounts/username/'' = ''/jssresource/accounts/username/''"
  by code_simp+

lemma by_name_key:
  "plain_segment n \<Longrightarrow> by_name (CreateCacheKey (api_get s (userNameUrlPath n)))"
  "plain_segment n \<Longrightarrow> by_name (CreateCacheKey (api_get s (accountUsernameUrlPath n)))"
  by (simp_all add: key_path url_paths join_plain lower_append lower_names by_name_def del: append.simps)

lemma sync_key: "sync_path p \<Longrightarrow> \<not> by_name (CreateCacheKey (api_get s p))"
  by (cases rule: sync_path_cases, assumption)
     (simp_all add: key_path url_paths join_plain lower_append lower_literals del: append.simps, simp_all add: by_name_def)

lemma clean_coherent: "clean s \<Longrightarrow> coherent s"
  using sync_key[of _ s] by (auto simp: clean_def coherent_def)

lemma clean_empty: "netCache s = Map.empty \<Longrightarrow> clean s"
  by (simp add: clean_def names_ok_def)

lemma name_hit: "names_ok s \<Longrightarrow> by_name (CreateCacheKey rq) \<Longrightarrow> cacheGet E rq s = Some rs \<Longrightarrow> rsStatus rs = 200"
  unfolding names_ok_def cacheGet_def by (auto split: option.splits if_splits, blast)

lemma name_set:
  "names_ok s \<Longrightarrow> rsStatus rs = 200 \<Longrightarrow> names_ok (cacheSet E rq rs s)"
  "by_name (CreateCacheKey rq) \<Longrightarrow> beside s (cacheSet E rq rs s)"
  by (auto simp: names_ok_def beside_def cacheSet_def split: option.splits if_splits)

lemma beside_rules: "beside s s" "beside s t \<Longrightarrow> beside t u \<Longrightarrow> beside s u"
  by (simp_all add: beside_def)

subsection \<open>What a provisioning request leaves\<close>

definition name_path :: "string \<Rightarrow> string list \<Rightarrow> bool" where
  "name_path n p \<longleftrightarrow> p \<in> {userNameUrlPath n, accountUsernameUrlPath n}"

lemma name_read:
  assumes "connected s" "plain_segment n" "name_path n p"
  shows "\<exists>rs. (\<forall>e. serve e (api_get s p) (srv_of s) = (rs, srv_of s)) \<and> rsStatus rs \<in> {200, 400, 404}"
proof -
  have "rsStatus (fst (serve e (api_get s p) (srv_of s))) \<in> {200, 400, 404} \<and> snd (serve e (api_get s p) (srv_of s)) = srv_of s
      \<and> serve e (api_get s p) (srv_of s) = serve [] (api_get s p) (srv_of s)" for e
    using assms
    by (auto simp: name_path_def url_paths join_plain serve_user_name serve_account_name handleUserByName_def
        handleAccountByName_def only_get_ok pathTail_def writeJSON_def writeJSONError_def split: option.splits simp del: append.simps)
  then show ?thesis by (metis prod.collapse)
qed

lemma name_lookup:
  assumes "connected s" "names_ok s" "plain_segment n" "name_path n p" "fetch (mock_env x rnd ttl) p d z s = (r, t)"
  shows "twin s t \<and> names_ok t \<and> beside s t \<and> (ttl = None \<longrightarrow> t = s)"
proof -
  let ?E = "mock_env x rnd ttl" and ?rq = "api_get s p"
  have key: "by_name (CreateCacheKey ?rq)" using assms(3,4) by_name_key by (auto simp: name_path_def)
  obtain rs where rs: "fetched ?E ?rq s = (Inr rs, s)" "rsStatus rs \<in> {200, 400, 404}"
  proof (cases "cacheGet ?E ?rq s")
    case None
    obtain a where "serve (x (wClock (netWorld s))) ?rq (srv_of s) = (a, srv_of s)" "rsStatus a \<in> {200, 400, 404}"
      using name_read[OF assms(1,3,4)] by blast
    with None show thesis by (intro that[of a]) (cases s, simp_all add: fetched_def send_def srv_of_def)
  next
    case (Some a)
    with name_hit[OF assms(2) key] have "rsStatus a = 200" by blast
    with Some show thesis by (intro that[of a]) (simp_all add: fetched_def)
  qed
  with assms(5) fetch_fetched[OF assms(1) rs, of d z] have "t = (if rsStatus rs = 200 then cacheSet ?E ?rq rs s else s)"
    by (auto split: if_splits)
  then show ?thesis
    using name_set(1)[OF assms(2), of rs ?E ?rq] name_set(2)[OF key, of s ?E rs] assms(2) twin_refl[of s] beside_rules(1)[of s]
    by (auto simp: twin_def cacheSet_def split: option.splits)
qed

lemmas name_lookups =
  name_lookup[where p = "userNameUrlPath n" and d = dec_UserResponse and z = zero_User and n = n for n, folded GetUserByName_def]
  name_lookup[where p = "accountUsernameUrlPath n" and d = dec_UserAccountResponse and z = zero_UserAccount and n = n for n,
    folded GetUserAccountByName_def]

lemma name_path: "name_path n (userNameUrlPath n)" "name_path n (accountUsernameUrlPath n)"
  by (simp_all add: name_path_def)

text \<open>The writes do not use the cache.\<close>

lemma CreateUser_uncached:
  assumes "connected s" "n \<noteq> []"
  obtains r srv where "\<forall>ttl. CreateUser (mock_env x rnd ttl) n f e s = (r, with_server s srv)" "srvToken srv = srvToken (srv_of s)"
proof (cases "findUserByName (srv_of s) n")
  case None
  show thesis by (rule that[of _ "snd (add_user_record \<lparr>ucName = n, ucFullName = f, ucEmail = e\<rparr> (srv_of s))"])
    (simp_all add: CreateUser_mock(1)[OF assms None])
next
  case (Some u)
  show thesis by (rule that[of _ "srv_of s"]) (simp_all add: CreateUser_mock(2)[OF assms Some])
qed

lemma with_server_cache:
  "names_ok (with_server s srv) = names_ok s" "beside (with_server s srv) t = beside s t" "beside s (with_server s srv)"
  by (simp_all add: names_ok_def beside_def)


lemma CreateUserAccount_uncached:
  assumes "connected s" "acName b \<noteq> []" "enum_error b = None"
  obtains r srv where "\<forall>ttl. CreateUserAccount (mock_env x rnd ttl) b s = (r, with_server s srv)" "srvToken srv = srvToken (srv_of s)"
proof (cases "acPassword b = []")
  case True
  show thesis by (rule that[of _ "srv_of s"]) (simp_all add: CreateUserAccount_no_password[OF assms(1) True])
next
  case False
  show thesis
  proof (cases "findAccountByName (srv_of s) (acName b)")
    case None
    show thesis by (rule that[of _ "snd (add_account_record b (srv_of s))"])
      (simp_all add: CreateUserAccount_mock(1)[OF assms(1,2) False assms(3) None])
  next
    case (Some u)
    show thesis by (rule that[of _ "srv_of s"]) (simp_all add: CreateUserAccount_mock(2)[OF assms(1,2) False assms(3) Some])
  qed
qed

lemma source_cache:
  fixes s t :: "(mock_world, 'x) conn_scheme"
  shows "names_ok (at_source s k) = names_ok s" "beside (at_source s k) t = beside s t" "beside s (at_source t k) = beside s t"
  by (simp_all add: names_ok_def beside_def)

text \<open>What both creations do once the request was sent.\<close>

definition settled :: "(mock_world, 'x) conn_scheme \<Rightarrow> (mock_world, 'x) conn_scheme \<Rightarrow> (mock_world, 'x) conn_scheme \<Rightarrow> bool" where
  "settled s u t \<longleftrightarrow> twin u t \<and> names_ok t \<and> beside s t"

lemma settled_same: "names_ok s \<Longrightarrow> settled s s s" "names_ok s \<Longrightarrow> settled s (with_server s srv) (with_server s srv)"
  by (simp_all add: settled_def twin_refl beside_rules with_server_cache)

lemma settled_source: "names_ok s \<Longrightarrow> settled s (at_source s k) (at_source s k)"
  by (simp add: settled_def twin_refl beside_rules source_cache)

lemma create_user_settled:
  assumes "connected s" "names_ok s" "kept_by_cleaning (aiLogin info)"
    and "user_CreateAccount (mock_env x rnd ttl) info creds s = (r, t)"
    and "user_CreateAccount (mock_env x rnd None) info creds s = (q, u)"
  shows "settled s u t"
proof (cases "aiLogin info = []")
  case True
  with assms show ?thesis by (auto simp: user_CreateAccount_def requireLogin_def settled_same)
next
  case False
  obtain c srv where c: "\<forall>ttl. CreateUser (mock_env x rnd ttl) (aiLogin info) (profile_string (aiProfile info) ''full_name'')
      (profile_string (aiProfile info) ''email'') s = (c, with_server s srv)" "srvToken srv = srvToken (srv_of s)"
    by (rule CreateUser_uncached[OF assms(1) False, of x rnd "profile_string (aiProfile info) ''full_name''"
          "profile_string (aiProfile info) ''email''"])
  let ?s = "with_server s srv"
  have s: "connected ?s" "names_ok ?s" "plain_segment (aiLogin info)"
    using connected_with_server[OF assms(1) c(2)] assms(2) kept_plain[OF assms(3) False] by (simp_all add: with_server_cache)
  obtain v w where "GetUserByName (mock_env x rnd ttl) (aiLogin info) ?s = (v, w)" by fastforce
  moreover obtain v' w' where "GetUserByName (mock_env x rnd None) (aiLogin info) ?s = (v', w')" by fastforce
  moreover have "settled s ?s w" "w' = ?s" "settled s ?s ?s"
    using name_lookups(1)[OF s name_path(1) calculation(1)] name_lookups(1)[OF s name_path(1) calculation(2)] assms(2)
    by (auto simp: settled_def settled_same with_server_cache)
  ultimately show ?thesis
    using assms(4,5) False c(1)
    by (auto simp: user_CreateAccount_def requireLogin_def Let_def bindE_def tryE_def mapErr_def
        split: sum.splits if_splits)
qed

lemma create_account_settled:
  assumes "connected s" "names_ok s" "kept_by_cleaning (aiLogin info)"
    and "userAccount_CreateAccount (mock_env x (drawn f) ttl) info creds s = (r, t)"
    and "userAccount_CreateAccount (mock_env x (drawn f) None) info creds s = (q, u)"
  shows "settled s u t"
proof -
  obtain p k where p: "dir_password f creds (wSource (netWorld s)) = (p, k)" by fastforce
  note pw = dir_password_run(1)[OF p]
  have unsent: "settled s s s" "settled s (at_source s k) (at_source s k)"
    using assms(2) by (simp_all add: settled_same settled_source)
  consider "aiLogin info = []" | e where "aiLogin info \<noteq> []" "choosePrivilegeSet (aiProfile info) = Inl e"
    | pset e where "aiLogin info \<noteq> []" "choosePrivilegeSet (aiProfile info) = Inr pset" "p = Inl e"
    | pset pw e where "aiLogin info \<noteq> []" "choosePrivilegeSet (aiProfile info) = Inr pset" "p = Inr pw"
        "resolvePrivileges (aiProfile info) pset = Inl e"
    | pset pw privs where "aiLogin info \<noteq> []" "choosePrivilegeSet (aiProfile info) = Inr pset" "p = Inr pw"
        "resolvePrivileges (aiProfile info) pset = Inr privs"
    by (cases "aiLogin info = []"; cases "choosePrivilegeSet (aiProfile info)"; cases p;
        cases "resolvePrivileges (aiProfile info) (projr (choosePrivilegeSet (aiProfile info)))") auto
  then show ?thesis
  proof cases
    case 5
    let ?b = "account_body (aiLogin info) pw pset privs (aiProfile info)" and ?k = "at_source s k"
    have b: "acName ?b \<noteq> []" "enum_error ?b = None"
      using 5(1) account_body_enums[OF choosePrivilegeSet_known[OF 5(2)]] by (simp_all add: account_body_def)
    have k: "connected ?k" using assms(1) by simp
    obtain c srv where c: "\<forall>ttl. CreateUserAccount (mock_env x (drawn f) ttl) ?b ?k = (c, with_server ?k srv)" "srvToken srv = srvToken (srv_of ?k)"
      by (rule CreateUserAccount_uncached[OF k b, of x "drawn f"])
    let ?s = "with_server ?k srv"
    have s: "connected ?s" "names_ok ?s" "plain_segment (aiLogin info)"
      using connected_with_server[OF k c(2)] assms(2) kept_plain[OF assms(3) 5(1)]
      by (simp_all add: with_server_cache source_cache del: at_source_simps)
    obtain v w where "GetUserAccountByName (mock_env x (drawn f) ttl) (aiLogin info) ?s = (v, w)" by fastforce
    moreover obtain v' w' where "GetUserAccountByName (mock_env x (drawn f) None) (aiLogin info) ?s = (v', w')" by fastforce
    moreover have "settled s ?s w" "w' = ?s" "settled s ?s ?s"
      using name_lookups(2)[OF s name_path(2) calculation(1)] name_lookups(2)[OF s name_path(2) calculation(2)] assms(2)
      by (auto simp: settled_def settled_same with_server_cache source_cache twin_refl simp del: at_source_simps)
    ultimately show ?thesis
      using assms(4,5) 5 c(1)
      by (auto simp: pw userAccount_CreateAccount_def requireLogin_def Let_def bindE_def tryE_def account_body_def
          mapErr_run split: sum.splits if_splits simp del: at_source_simps)
  qed (use assms(4,5) unsent in \<open>auto simp: pw userAccount_CreateAccount_def requireLogin_def bindE_def split: sum.splits\<close>)
qed

lemma deletions_settled:
  assumes "connected s" "names_ok s" "server_inv (srv_of s)"
  shows "settled s (snd (user_Delete (mock_env x rnd None) rid s)) (snd (user_Delete (mock_env x rnd ttl) rid s))"
    "settled s (snd (userAccount_Delete (mock_env x rnd None) rid s)) (snd (userAccount_Delete (mock_env x rnd ttl) rid s))"
  using assms(2) delete_user_mock[OF assms(1,3)] delete_account_mock[OF assms(1,3)]
  by (cases "atoi (ridResource rid)"; simp add: user_Delete_def userAccount_Delete_def settled_same)+


text \<open>A creation or deletion leaves the server it leaves without a cache, and a cache without an entry of a sync.\<close>

fun provisions :: "sync_call \<Rightarrow> bool" where
  "provisions (CreateR t info creds) = (creation_covered info \<and> sets_given creds)"
| "provisions (DeleteR rid) = True"
| "provisions _ = False"

lemma wrapped_state: "snd (yields m f s) = snd (m s)" "snd (mapErr g m s) = snd (m s)" "snd (bindE (liftE (Inr a)) h s) = snd (h a s)"
  by (cases "m s"; simp add: yields_run mapErr_run bindE_def)+

lemma creations_settled:
  assumes "connected s" "names_ok s" "kept_by_cleaning (aiLogin info)"
  shows "settled s (snd (user_CreateAccount (mock_env x (drawn f) None) info creds s)) (snd (user_CreateAccount (mock_env x (drawn f) ttl) info creds s))"
    "settled s (snd (userAccount_CreateAccount (mock_env x (drawn f) None) info creds s)) (snd (userAccount_CreateAccount (mock_env x (drawn f) ttl) info creds s))"
  using create_user_settled[OF assms] create_account_settled[OF assms] by (metis prod.collapse)+

lemma settled_call:
  fixes s :: "(mock_world, 'x) dev_scheme"
  assumes "connected s" "names_ok s" "server_inv (srv_of s)" "provisions c"
  shows "settled s (snd (sdk_call (mock_env x (drawn f) None) (registered j) c s)) (snd (sdk_call (mock_env x (drawn f) ttl) (registered j) c s))"
proof (cases c)
  case (CreateR t info creds)
  show ?thesis
  proof (cases "pickAccountManager (registered j) t")
    case (Inl e)
    with assms(2) CreateR show ?thesis by (simp add: builder_CreateAccount_def yields_run settled_same)
  next
    case (Inr am)
    with picked_manager[OF Inr] creations_settled[OF assms(1,2), of info x f creds ttl] assms(4) CreateR show ?thesis
      by (auto simp: builder_CreateAccount_def wrapped_state creation_covered_def)
  qed
next
  case (DeleteR rid)
  with deletions_settled[OF assms(1-3), of x "drawn f" rid ttl] assms(2) show ?thesis
    by (auto simp: builder_DeleteResource_def wrapped_state registered_def Let_def settled_same)
qed (use assms(4) in simp_all)

subsection \<open>Sessions\<close>

text \<open>
  A sync is its calls and the Cleanup the SDK ends it with; what is seen of it are the answers.  Of a
  provisioning request only the effect counts here: its answer may come from an entry by name.
\<close>

datatype session = SyncS "sync_call list" | ProvisionS sync_call

fun run_session :: "'w env \<Rightarrow> builder \<Rightarrow> session \<Rightarrow> ('w, 'x) dev_scheme \<Rightarrow> (go_error + sync_result) list \<times> ('w, 'x) dev_scheme" where
  "run_session E b (SyncS calls) s = (case run_ops (sdk_call E b) calls s of (as, t) \<Rightarrow> (as, snd (builder_Cleanup t)))"
| "run_session E b (ProvisionS c) s = ([], snd (sdk_call E b c s))"

fun spec_session :: "draws \<Rightarrow> Jamf \<Rightarrow> session \<Rightarrow> jamf \<times> nat \<Rightarrow> (go_error + sync_result) list \<times> jamf \<times> nat" where
  "spec_session f j (SyncS calls) v = run_ops (sync_op f j) calls v"
| "spec_session f j (ProvisionS c) v = ([], snd (sync_op f j c v))"

fun session_covered :: "session \<Rightarrow> bool" where
  "session_covered (SyncS calls) = (\<forall>c\<in>set calls. reads c)"
| "session_covered (ProvisionS c) = provisions c"

lemma provisions_covered: "provisions c \<Longrightarrow> call_covered c"
  by (cases c) simp_all

definition session_budget :: "nat \<Rightarrow> (mock_world, 'x) dev_scheme \<Rightarrow> bool" where
  "session_budget k s \<longleftrightarrow> sync_budget k s \<and> clean s"

lemma twin_view: "twin s t \<Longrightarrow> jamf_view t = jamf_view s"
  using twin_fields(1)[of s t] by (auto simp: jamf_view_def twin_def)

lemma budget_twin: "twin s t \<Longrightarrow> sync_budget k s \<Longrightarrow> sync_budget k t"
  using twin_fields[of s t] by (auto simp: sync_budget_def budget_def)

lemma budget_less: "sync_budget (Suc k) s \<Longrightarrow> sync_budget k s"
  by (auto simp: sync_budget_def budget_def)

lemma cleanup_run: "builder_Cleanup t = (Inr (), t\<lparr>netCache := Map.empty\<rparr>)"
  by (simp add: builder_Cleanup_def ClearCaches_def updateE_def)

lemma sync_session:
  assumes "session_budget (Suc k) s" "\<forall>c\<in>set calls. reads c" "run_session (mock_env x (drawn f) ttl) (registered j) (SyncS calls) s = (as, t)"
  shows "run_ops (sync_op f j) calls (jamf_view s) = (as, jamf_view t) \<and> session_budget k t"
proof -
  have b: "sync_budget (Suc k) s" "clean s" using assms(1) by (simp_all add: session_budget_def)
  note r = sync_budget_readable[OF b(1)]
  obtain t' where t': "run_ops (sdk_call (mock_env x (drawn f) ttl) (registered j)) calls s = (as, t')" "t = t'\<lparr>netCache := Map.empty\<rparr>"
    using assms(3) by (auto simp: cleanup_run split: prod.splits)
  note same = cached_history[where f = f, OF r clean_coherent[OF b(2)] assms(2) t'(1)]
  then have "twin s t" by (auto simp: t'(2) twin_def)
  moreover have "clean t" by (rule clean_empty) (simp add: t'(2))
  ultimately show ?thesis
    using same budget_twin[of s t, OF _ budget_less[OF b(1)]] twin_view[of s t] by (simp add: session_budget_def)
qed

lemma provision_step:
  fixes s :: "(mock_world, 'x) dev_scheme" and x f ttl j
  assumes "sync_budget (Suc k) s" "names_ok s" "provisions c"
  defines "t \<equiv> snd (sdk_call (mock_env x (drawn f) ttl) (registered j) c s)"
  shows "snd (sync_op f j c (jamf_view s)) = jamf_view t" "sync_budget k t" "names_ok t" "beside s t"
    "wClock (netWorld t) = wClock (netWorld s)"
proof -
  have i: "connected s" "server_inv (srv_of s)" using sync_budget_readable[OF assms(1)] by (simp_all add: readable_def)
  obtain a srv l where u: "sdk_call (mock_env x (drawn f) None) (registered j) c s = (a, at_source (with_server s srv) l)"
    using call_agrees[OF assms(1) provisions_covered[OF assms(3)], of f x j] by (auto simp: agrees_def)
  note plain = syncing.simulates[OF assms(1) provisions_covered[OF assms(3)] u]
  have left: "settled s (at_source (with_server s srv) l) t" using settled_call[OF i(1) assms(2) i(2) assms(3), of x f j ttl] u by (simp add: t_def)
  then show "names_ok t" "beside s t" "wClock (netWorld t) = wClock (netWorld s)"
    by (auto simp: settled_def twin_def)
  from left have "twin (at_source (with_server s srv) l) t" by (simp add: settled_def)
  with plain show "snd (sync_op f j c (jamf_view s)) = jamf_view t" "sync_budget k t"
    using budget_twin twin_view by fastforce+
qed

lemma provision_session:
  assumes "session_budget (Suc k) s" "provisions c" "t = snd (sdk_call (mock_env x (drawn f) ttl) (registered j) c s)"
  shows "snd (sync_op f j c (jamf_view s)) = jamf_view t \<and> session_budget k t"
  using assms provision_step[where k = k and s = s and c = c and x = x and f = f and ttl = ttl and j = j] by (auto simp: session_budget_def clean_def beside_def)

interpretation sessions: op_simulation
  "run_session (mock_env x (drawn f) ttl) (registered j)" "spec_session f j" jamf_view session_budget session_covered
  for x f ttl j
proof
  fix k s y as t
  assume h: "session_budget (Suc k) s" "session_covered y" "run_session (mock_env x (drawn f) ttl) (registered j) y s = (as, t)"
  show "spec_session f j y (jamf_view s) = (as, jamf_view t) \<and> session_budget k t"
  proof (cases y)
    case (SyncS calls)
    with h sync_session[OF h(1), of calls x f ttl j as t] show ?thesis by simp
  next
    case (ProvisionS c)
    with h provision_session[OF h(1), of c t x f ttl j] show ?thesis by (simp add: prod_eq_iff)
  qed
qed

text \<open>
  C5.  A connector with one response cache of any time-to-live, empty at the start, serving syncs (any sequence of reading calls
  of every type but managed devices, ended by Cleanup) and creations and deletions in any order against the
  mock server, from any state it can reach whose texts are UTF-8 and whose console groups all have members:
  every sync gives exactly the answers of the abstract Jamf as the requests before it left it, and the server
  ends with the abstract Jamf's records.  Creations may draw random passwords, from character sets of printable
  ASCII that are not empty; their logins are not \<open>.\<close> or \<open>..\<close> and their texts are UTF-8 without control
  characters.  The server has been sent fewer than 2^62 requests; the clock stands still, so neither the connected client's token nor a cache entry grows old in the process.
\<close>

theorem sessions_exact:
  fixes s :: "(mock_world, 'x) dev_scheme"
  assumes "NewConnector j = Inr b" "connected s" "reach n (srv_of s)" "n + length work < 2 ^ 62"
    and "texts_ok (jamf_of (srv_of s))" "netCache s = Map.empty" "\<forall>y\<in>set work. session_covered y"
    and "run_ops (run_session (mock_env x (drawn f) ttl) b) work s = (answers, t)"
  shows "run_ops (spec_session f j) work (jamf_of (srv_of s), wSource (netWorld s))
    = (answers, jamf_of (srv_of t), wSource (netWorld t))"
proof -
  have "session_budget (length work) s"
    using assms(2-6) clean_empty by (auto simp: session_budget_def sync_budget_def budget_def)
  moreover have "b = registered j" using assms(1) by (simp add: NewConnector_eq)
  ultimately show ?thesis using sessions.history assms(7,8) by (simp add: jamf_view_def)
qed

theorem sessions_exact_witness:
  "fst (run_ops (run_session (mock_env no_expiry (drawn zeros) (Some 3600000000000)) (registered zero_Jamf))
      [SyncS [GrantsR site_two], ProvisionS (DeleteR \<lparr>ridType = ''user'', ridResource = ''5''\<rparr>), SyncS [GrantsR site_two]] demo_dev) =
   [[Inr (Grants [to_principal site_two ''user'' 5, to_principal site_two ''userGroup'' 302,
                  to_principal site_two ''userAccount'' 103, to_principal site_two ''group'' 203])],
    [],
    [Inr (Grants [to_principal site_two ''userGroup'' 302, to_principal site_two ''userAccount'' 103,
                  to_principal site_two ''group'' 203])]]"
proof -
  let ?work = "[SyncS [GrantsR site_two], ProvisionS (DeleteR \<lparr>ridType = ''user'', ridResource = ''5''\<rparr>), SyncS [GrantsR site_two]]"
  obtain as t where run: "run_ops (run_session (mock_env no_expiry (drawn zeros) (Some 3600000000000)) (registered zero_Jamf)) ?work demo_dev = (as, t)"
    by fastforce
  have site: "ridType (resId site_two) = ''site''" by (simp add: site_two_def)
  have "netCache demo_dev = Map.empty" by (simp add: demo_dev_def)
  from sessions_exact[OF NewConnector_eq demo_dev_ready(2,3) _ demo_dev_ready(4) this _ run]
  have "run_ops (spec_session zeros zero_Jamf) ?work (jamf_of (srv_of demo_dev), wSource (netWorld demo_dev))
      = (as, jamf_of (srv_of t), wSource (netWorld t))"
    by (simp add: site del: spec_session.simps run_ops.simps)
  then have "as = fst (run_ops (spec_session zeros zero_Jamf) ?work (jamf_of (newServer ''u'' ''p'' ''t''), wSource (netWorld demo_dev)))"
    by (simp only: demo_dev_ready(1) fst_conv)
  with run show ?thesis
    by (simp add: granted_def found_def site seed_site_granted seed_deletion case_prod_unfold del: dir_op.simps)
qed

end
