(* ===== verification/Replays.thy ===== *)
theory Replays
  imports Sessions
begin

section \<open>A sync that is not cleaned up after\<close>

text \<open>
  The SDK clears the cache only at the end of a sync that completed.  What a sync that failed midway has read
  stays there: for the cache's time-to-live the reads are answered as they were, whatever was provisioned
  since.  Here a successful reading computation is shown to repeat itself in every state that holds its
  entries, of whatever server, and provisioning to keep these entries.
\<close>

subsection \<open>Entries of a sync\<close>

definition entry :: "(mock_world, 'x) conn_scheme \<Rightarrow> string list \<Rightarrow> http_response \<Rightarrow> bool" where
  "entry s p rs \<longleftrightarrow> (\<exists>w. netCache s (CreateCacheKey (api_get s p)) = Some (rs, w))"

definition live :: "int \<Rightarrow> (mock_world, 'x) conn_scheme \<Rightarrow> string list \<Rightarrow> http_response \<Rightarrow> bool" where
  "live d s p rs \<longleftrightarrow> (\<exists>w. netCache s (CreateCacheKey (api_get s p)) = Some (rs, w) \<and> wClock (netWorld s) < w + d)"

definition grows :: "(mock_world, 'x) conn_scheme \<Rightarrow> (mock_world, 'x) conn_scheme \<Rightarrow> bool" where
  "grows s t \<longleftrightarrow> (\<forall>p rs. sync_path p \<and> entry s p rs \<longrightarrow> entry t p rs)"

definition covers :: "int \<Rightarrow> (mock_world, 'x) conn_scheme \<Rightarrow> (mock_world, 'x) conn_scheme \<Rightarrow> bool" where
  "covers d s t \<longleftrightarrow> (\<forall>p rs. sync_path p \<and> entry s p rs \<longrightarrow> live d t p rs)"

definition lives :: "int \<Rightarrow> (mock_world, 'x) conn_scheme \<Rightarrow> (mock_world, 'x) conn_scheme \<Rightarrow> bool" where
  "lives d s t \<longleftrightarrow> (\<forall>p rs. sync_path p \<and> live d s p rs \<longrightarrow> live d t p rs)"

lemma cover_rules:
  "grows s s" "grows s t \<Longrightarrow> grows t u \<Longrightarrow> grows s u" "lives d s s" "lives d s t \<Longrightarrow> lives d t u \<Longrightarrow> lives d s u"
  "covers d s t \<Longrightarrow> lives d t u \<Longrightarrow> covers d s u" "grows s t \<Longrightarrow> covers d t u \<Longrightarrow> covers d s u"
  by (auto simp: grows_def covers_def lives_def)

definition stable :: "int \<Rightarrow> (mock_world, 'x) conn_scheme \<Rightarrow> bool" where
  "stable d s \<longleftrightarrow> steady s \<and> names_ok s \<and> covers d s s"

text \<open>A successful run leaves entries from which it can be repeated.\<close>

definition replays :: "int \<Rightarrow> ((mock_world, 'x) conn_scheme, go_error, 'a) comp \<Rightarrow> bool" where
  "replays d m \<longleftrightarrow> (\<forall>s a s'. stable d s \<longrightarrow> m s = (Inr a, s') \<longrightarrow> grows s s' \<and> stable d s'
     \<and> (\<forall>t. connected t \<longrightarrow> covers d s' t \<longrightarrow> (\<exists>t'. m t = (Inr a, t') \<and> connected t' \<and> lives d t t')))"

named_theorems replays_intros

lemma replaysI:
  assumes "\<And>s a s'. stable d s \<Longrightarrow> m s = (Inr a, s') \<Longrightarrow> grows s s' \<and> stable d s'
     \<and> (\<forall>t. connected t \<longrightarrow> covers d s' t \<longrightarrow> (\<exists>t'. m t = (Inr a, t') \<and> connected t' \<and> lives d t t'))"
  shows "replays d m"
  using assms unfolding replays_def by blast

lemma replaysD:
  assumes "replays d m" "stable d s" "m s = (Inr a, s')"
  shows "grows s s'" "stable d s'" "connected t \<Longrightarrow> covers d s' t \<Longrightarrow> \<exists>t'. m t = (Inr a, t') \<and> connected t' \<and> lives d t t'"
  using assms unfolding replays_def by blast+

lemma replays_pure [replays_intros]: "replays d (returnE a)" "replays d (throwE e)" "replays d (liftE r)"
  by (rule replaysI; auto simp: cover_rules)+

lemma replays_bindE [replays_intros]:
  assumes "replays d m" "\<And>a. replays d (f a)"
  shows "replays d (bindE m f)"
proof (rule replaysI)
  fix s b s'
  assume s: "stable d s" and run: "bindE m f s = (Inr b, s')"
  obtain a s1 where one: "m s = (Inr a, s1)" "f a s1 = (Inr b, s')"
    using run by (auto simp: bindE_def split: prod.splits sum.splits)
  note first = replaysD[OF assms(1) s one(1)]
  note second = replaysD[OF assms(2) first(2) one(2)]
  have "\<exists>t'. bindE m f t = (Inr b, t') \<and> connected t' \<and> lives d t t'" if t: "connected t" "covers d s' t" for t
  proof -
    obtain t1 where t1: "m t = (Inr a, t1)" "connected t1" "lives d t t1"
      using first(3)[OF t(1) cover_rules(6)[OF second(1) t(2)]] by blast
    obtain t2 where "f a t1 = (Inr b, t2)" "connected t2" "lives d t1 t2"
      using second(3)[OF t1(2) cover_rules(5)[OF t(2) t1(3)]] by blast
    with t1 cover_rules(4)[OF t1(3)] show ?thesis by (simp add: bindE_def)
  qed
  with first(1) second(1,2) cover_rules(2) show "grows s s' \<and> stable d s'
     \<and> (\<forall>t. connected t \<longrightarrow> covers d s' t \<longrightarrow> (\<exists>t'. bindE m f t = (Inr b, t') \<and> connected t' \<and> lives d t t'))"
    by blast
qed

lemma replays_mapErr [replays_intros]: "replays d m \<Longrightarrow> replays d (mapErr g m)"
proof (rule replaysI)
  fix s a s'
  assume m: "replays d m" and s: "stable d s" and run: "mapErr g m s = (Inr a, s')"
  from run have "m s = (Inr a, s')" by (auto simp: mapErr_def split: prod.splits sum.splits)
  note one = replaysD[OF m s this]
  have "mapErr g m t = (Inr a, t')" if "m t = (Inr a, t')" for t t' using that by (simp add: mapErr_run)
  with one show "grows s s' \<and> stable d s'
     \<and> (\<forall>t. connected t \<longrightarrow> covers d s' t \<longrightarrow> (\<exists>t'. mapErr g m t = (Inr a, t') \<and> connected t' \<and> lives d t t'))"
    by metis
qed

lemma replays_mapE [replays_intros]: "(\<And>a. replays d (f a)) \<Longrightarrow> replays d (mapE f xs)"
  by (induction xs) (auto intro!: replays_intros)

lemma replays_case [replays_intros]: "(\<And>a b. replays d (f a b)) \<Longrightarrow> replays d (case p of (a, b) \<Rightarrow> f a b)"
  "replays d c \<Longrightarrow> (\<And>a. replays d (h a)) \<Longrightarrow> replays d (case q of None \<Rightarrow> c | Some a \<Rightarrow> h a)"
  by (auto split: prod.split option.split)

lemma replays_fetch [replays_intros]:
  assumes "sync_path p" "0 < d"
  shows "replays d (fetch (mock_env x rnd (Some d)) p dec z)"
proof (rule replaysI)
  fix s a s'
  let ?E = "mock_env x rnd (Some d)"
  assume st: "stable d s" and run: "fetch ?E p dec z s = (Inr a, s')"
  have s: "steady s" using st by (simp add: stable_def)
  define rs where "rs = answer s p"
  have con: "connected s" "coherent s" using s by (simp_all add: steady_def readable_def)
  have "outcome s p dec z = Inr a" and s': "s' = remembered x rnd (Some d) p s"
    using run fetch_sync[OF con(1) assms(1), of "Some d" x rnd dec z] con(2) by simp_all
  from this(1) s' have rs: "rsStatus rs = 200" "read_target (unmarshal dec z) rs = Inr a" "s' = cacheSet ?E (api_get s p) rs s"
    by (auto simp: outcome_def remembered_def rs_def split: if_splits)
  have same: "q_rs = rs" if "sync_path q" "entry s q q_rs" "CreateCacheKey (api_get s q) = CreateCacheKey (api_get s p)" for q q_rs
    using that con(2) assms(1) unfolding entry_def coherent_def rs_def by metis
  have "grows s s'"
    unfolding grows_def
  proof (intro allI impI, elim conjE)
    fix q q_rs
    assume q: "sync_path q" "entry s q q_rs"
    with same[OF q] show "entry s' q q_rs" by (auto simp: entry_def rs(3) cacheSet_def key_path)
  qed
  moreover have "covers d s' s'"
  proof -
    have "covers d s s" using st by (simp add: stable_def)
    then show ?thesis using assms(2) unfolding rs(3) by (auto simp: covers_def live_def entry_def cacheSet_def key_path)
  qed
  then have "stable d s'"
    using steady_remembered(1)[OF s assms(1), of x rnd "Some d"] name_set(1)[of s rs ?E "api_get s p"] st rs(1,3) s'
    by (simp add: stable_def)
  moreover have "\<exists>t'. fetch ?E p dec z t = (Inr a, t') \<and> connected t' \<and> lives d t t'" if t: "connected t" "covers d s' t" for t
  proof -
    have "entry s' p rs" by (simp add: entry_def rs(3) cacheSet_def key_path)
    with t(2) assms(1) have hit: "live d t p rs" by (simp add: covers_def)
    then have "fetched ?E (api_get t p) t = (Inr rs, t)" by (auto simp: fetched_def cacheGet_def live_def)
    from fetch_fetched[OF t(1) this, of dec z] rs have "fetch ?E p dec z t = (Inr a, cacheSet ?E (api_get t p) rs t)" by simp
    moreover have "lives d t (cacheSet ?E (api_get t p) rs t)"
      using hit assms(2) by (auto simp: lives_def live_def cacheSet_def key_path)
    moreover have "connected (cacheSet ?E (api_get t p) rs t)"
      using t(1) twin_fields(2)[of t "cacheSet ?E (api_get t p) rs t"] by (auto simp: twin_def cacheSet_def)
    ultimately show ?thesis by blast
  qed
  ultimately show "grows s s' \<and> stable d s'
     \<and> (\<forall>t. connected t \<longrightarrow> covers d s' t \<longrightarrow> (\<exists>t'. fetch ?E p dec z t = (Inr a, t') \<and> connected t' \<and> lives d t t'))"
    by blast
qed

subsection \<open>The calls of a sync\<close>

lemma replays_reads:
  assumes "0 < d"
  shows "replays d (GetUsers (mock_env x rnd (Some d)))" "replays d (GetUserGroups (mock_env x rnd (Some d)))"
    "replays d (GetAccounts (mock_env x rnd (Some d)))" "replays d (GetSites (mock_env x rnd (Some d)))"
    "replays d (GetPrivileges (mock_env x rnd (Some d)))" "replays d (GetUserAccountDetails (mock_env x rnd (Some d)) i)"
    "replays d (GetGroupDetails (mock_env x rnd (Some d)) i)" "replays d (GetUserGroupDetails (mock_env x rnd (Some d)) i)"
  unfolding GetUsers_def GetUserGroups_def GetAccounts_def GetSites_def GetPrivileges_def GetUserAccountDetails_def
    GetGroupDetails_def GetUserGroupDetails_def getBaseUsers_def getBaseUserGroups_def getBaseAccounts_def getUserDetails_def
  by (intro replays_intros sync_paths assms)+

lemma steady_members:
  assumes "steady s" "int64 i" "GetGroupDetails (mock_env x rnd ttl) i s = (Inr g, s')"
  shows "grpMembers g \<noteq> []"
proof -
  obtain q t where plain: "GetGroupDetails (mock_env x rnd None) i s = (q, t)" by fastforce
  with tracksD[OF tracks_reads(7) assms(1) twin_refl assms(3) plain] show ?thesis using steady_group[OF assms(1,2)] by simp
qed

lemma replays_readMembers:
  assumes "0 < d" "int64 i"
  shows "replays d (readMembers (mock_env x rnd (Some d)) i (Suc n) None)"
proof (rule replaysI)
  fix s a s'
  let ?m = "GetGroupDetails (mock_env x rnd (Some d)) i"
  assume s: "stable d s" and run: "readMembers (mock_env x rnd (Some d)) i (Suc n) None s = (Inr a, s')"
  obtain g s1 where g: "?m s = (Inr g, s1)" using run by (auto simp: bindE_def split: prod.splits sum.splits)
  have mem: "grpMembers g \<noteq> []" using steady_members[OF _ assms(2) g] s by (simp add: stable_def)
  with run g have "a = Some g" "s' = s1" by (auto simp: bindE_def)
  moreover have "readMembers (mock_env x rnd (Some d)) i (Suc n) None t = (Inr (Some g), t')" if "?m t = (Inr g, t')" for t t'
    using that mem by (simp add: bindE_def)
  ultimately show "grows s s' \<and> stable d s' \<and> (\<forall>t. connected t \<longrightarrow> covers d s' t \<longrightarrow>
      (\<exists>t'. readMembers (mock_env x rnd (Some d)) i (Suc n) None t = (Inr a, t') \<and> connected t' \<and> lives d t t'))"
    using replaysD[OF replays_reads(7)[OF assms(1)] s g] by blast
qed

lemma replays_lists:
  assumes "0 < d"
  shows "replays d (user_List (mock_env x rnd (Some d)) p)" "replays d (group_List (mock_env x rnd (Some d)) p)"
    "replays d (userAccount_List (mock_env x rnd (Some d)) p)" "replays d (userGroup_List (mock_env x rnd (Some d)) p)"
    "replays d (site_List (mock_env x rnd (Some d)) p)" "replays d (role_List (mock_env x rnd (Some d)) p)"
  unfolding user_List_def group_List_def userAccount_List_def userGroup_List_def site_List_def role_List_def
  by (intro replays_intros replays_reads assms)+

lemma replays_grants:
  assumes "0 < d"
  shows "replays d (site_Grants (mock_env x rnd (Some d)) r)" "replays d (role_Grants (mock_env x rnd (Some d)) r)"
    "replays d (userGroup_Grants (mock_env x rnd (Some d)) r)"
  unfolding site_Grants_def role_Grants_def userGroup_Grants_def Let_def
  by (intro replays_intros replays_reads assms)+

lemma replays_group_Grants:
  assumes "0 < d"
  shows "replays d (group_Grants (mock_env x rnd (Some d)) r)"
proof (cases "atoi (ridResource (resId r))")
  case (Some i)
  have "int64 i" by (rule atoi_int64[OF Some])
  then show ?thesis
    unfolding group_Grants_def Some option.case eval_nat_numeral by (intro replays_intros replays_reads replays_readMembers assms)
qed (auto simp: group_Grants_def intro: replays_intros)

lemma replays_syncer:
  assumes "0 < d" "rb \<noteq> ManagedDeviceSyncer"
  shows "replays d (syncer_List (mock_env x rnd (Some d)) rb p token n)" "replays d (syncer_Entitlements rb r)"
    "replays d (syncer_Grants (mock_env x rnd (Some d)) rb r)"
  using assms by (cases rb; auto intro!: replays_intros replays_lists replays_grants replays_group_Grants)+

lemma replays_call:
  assumes "0 < d" "reads c"
  shows "replays d (sdk_call (mock_env x rnd (Some d)) (registered j) c)"
proof (cases c)
  case (ListR t p token n)
  with assms only_devices_paged[of j t] show ?thesis
    by (cases "map_of (resourceSyncers (registered j)) t")
       (auto simp: yields_def builder_ListResources_def intro!: replays_intros replays_syncer)
next
  case (EntitlementsR r)
  with assms only_devices_paged[of j "ridType (resId r)"] show ?thesis
    by (cases "map_of (resourceSyncers (registered j)) (ridType (resId r))")
       (auto simp: yields_def builder_ListEntitlements_def intro!: replays_intros replays_syncer)
next
  case (GrantsR r)
  with assms only_devices_paged[of j "ridType (resId r)"] show ?thesis
    by (cases "map_of (resourceSyncers (registered j)) (ridType (resId r))")
       (auto simp: yields_def builder_ListGrants_def intro!: replays_intros replays_syncer)
qed (use assms in simp_all)

lemma replays_history:
  assumes "0 < d" "\<forall>c\<in>set calls. reads c" "stable d s"
    and "run_ops (sdk_call (mock_env x rnd (Some d)) (registered j)) calls s = (as, s')" "\<forall>a\<in>set as. \<not> isl a"
  shows "grows s s' \<and> stable d s' \<and> (\<forall>t. connected t \<longrightarrow> covers d s' t \<longrightarrow>
    (\<exists>t'. run_ops (sdk_call (mock_env x rnd (Some d)) (registered j)) calls t = (as, t')))"
  using assms(2-5)
proof (induction calls arbitrary: s as)
  case (Cons c calls)
  let ?step = "sdk_call (mock_env x rnd (Some d)) (registered j)"
  obtain a s1 as' where h: "?step c s = (a, s1)" "run_ops ?step calls s1 = (as', s')" "as = a # as'"
    using Cons.prems(3) by (auto split: prod.splits)
  with Cons.prems(4) obtain v where v: "?step c s = (Inr v, s1)" "a = Inr v" by (cases a) auto
  note first = replaysD[OF replays_call[OF assms(1)] Cons.prems(2) v(1)]
  have c: "reads c" "\<forall>c\<in>set calls. reads c" using Cons.prems(1) by simp_all
  note rest = Cons.IH[OF c(2) first(2)[OF c(1)] h(2)]
  have later: "\<forall>a\<in>set as'. \<not> isl a" using Cons.prems(4) h(3) by simp
  have "\<exists>t'. run_ops ?step (c # calls) t = (as, t')" if t: "connected t" "covers d s' t" for t
  proof -
    obtain t1 where t1: "?step c t = (Inr v, t1)" "connected t1" "lives d t t1"
      using first(3)[OF c(1) t(1)] cover_rules(6) rest[OF later] t(2) by blast
    with rest[OF later] cover_rules(5)[OF t(2)] obtain t' where "run_ops ?step calls t1 = (as', t')" by blast
    with t1(1) h(3) v(2) show ?thesis by simp
  qed
  with rest[OF later] first(1)[OF c(1)] cover_rules(2) show ?case by blast
qed (auto simp: cover_rules)

subsection \<open>The stale sync\<close>

lemma changes_history:
  fixes s :: "(mock_world, 'x) dev_scheme"
  assumes "\<forall>c\<in>set changes. provisions c" "sync_budget (length changes) s" "names_ok s"
    and "run_ops (sdk_call (mock_env x (drawn f) ttl) (registered j)) changes s = (as, t)"
  shows "snd (run_ops (sync_op f j) changes (jamf_view s)) = jamf_view t \<and> connected t \<and> beside s t
    \<and> wClock (netWorld t) = wClock (netWorld s)"
  using assms
proof (induction changes arbitrary: s as)
  case Nil
  then show ?case by (simp add: beside_rules sync_budget_def budget_def)
next
  case (Cons c changes)
  let ?step = "sdk_call (mock_env x (drawn f) ttl) (registered j)"
  have c: "provisions c" "\<forall>c\<in>set changes. provisions c" using Cons.prems(1) by simp_all
  obtain as' where h: "run_ops ?step changes (snd (?step c s)) = (as', t)"
    using Cons.prems(4) by (auto split: prod.splits)
  note step = provision_step[OF Cons.prems(2)[unfolded list.size add_Suc_right add_0_right] Cons.prems(3) c(1),
      where x = x and f = f and ttl = ttl and j = j]
  from Cons.IH[OF c(2) step(2,3) h] step(1,4,5) show ?case by (auto simp: case_prod_unfold intro: beside_rules(2))
qed

lemma beside_covers: "covers d s s \<Longrightarrow> beside s t \<Longrightarrow> wClock (netWorld t) = wClock (netWorld s) \<Longrightarrow> covers d s t"
  using sync_key[of _ s] by (auto simp: covers_def beside_def entry_def live_def key_path)

text \<open>
  C33.  Without the Cleanup, within the cache's time-to-live, a sync is blind to what was provisioned: the
  reading calls (of every type but managed devices) whose answers were all successes, made again after any
  creations and deletions, are given the first answers once more, while the server holds the abstract Jamf's
  records after those changes.  The conditions are those of the sessions: the mock server in a state it can
  reach whose texts are UTF-8 and whose console groups all have members, an empty cache at the start, logins
  other than \<open>.\<close> and \<open>..\<close>, texts of UTF-8 without control characters, character sets of printable
  ASCII that are not empty, fewer than 2^62 requests sent to the server, and a clock that stands still.
\<close>

theorem unfinished_sync_stale:
  fixes s :: "(mock_world, 'x) dev_scheme"
  assumes "NewConnector j = Inr b" "connected s" "reach n (srv_of s)" "n + length changes < 2 ^ 62"
    and "texts_ok (jamf_of (srv_of s))" "netCache s = Map.empty" "0 < ttl"
    and "\<forall>c\<in>set calls. reads c" "\<forall>c\<in>set changes. provisions c"
    and "run_ops (sdk_call (mock_env x (drawn f) (Some ttl)) b) calls s = (answers, s1)" "\<forall>a\<in>set answers. \<not> isl a"
    and "run_ops (sdk_call (mock_env x (drawn f) (Some ttl)) b) changes s1 = (changed, s2)"
  shows "fst (run_ops (sdk_call (mock_env x (drawn f) (Some ttl)) b) calls s2) = answers
    \<and> (jamf_of (srv_of s2), wSource (netWorld s2))
        = snd (run_ops (sync_op f j) changes (jamf_of (srv_of s), wSource (netWorld s)))"
proof -
  have b: "b = registered j" using assms(1) by (simp add: NewConnector_eq)
  have bud: "sync_budget (length changes) s" using assms(2-5) by (auto simp: sync_budget_def budget_def)
  have stable: "stable ttl s"
    using sync_budget_readable[OF bud] clean_coherent[OF clean_empty[OF assms(6)]] clean_empty[OF assms(6)] assms(6)
    by (auto simp: stable_def steady_def clean_def covers_def entry_def)
  note reads = replays_history[OF assms(7,8) stable assms(10)[unfolded b] assms(11)]
  have st: "stable ttl s1" using reads by blast
  have "twin s s1"
    using cached_history[OF _ _ assms(8) assms(10)[unfolded b]] stable by (simp add: stable_def steady_def)
  then have s1: "sync_budget (length changes) s1" "jamf_view s1 = jamf_view s"
    using budget_twin[OF _ bud] twin_view by blast+
  have names: "names_ok s1" "covers ttl s1 s1" using st by (simp_all add: stable_def)
  note changed = changes_history[OF assms(9) s1(1) names(1) assms(12)[unfolded b]]
  have "covers ttl s1 s2" by (rule beside_covers[OF names(2)]) (use changed in blast)+
  with reads changed show ?thesis by (auto simp: b s1(2) simp flip: jamf_view_def)
qed

theorem unfinished_sync_stale_witness:
  "\<exists>gs s1 s2 changed.
     run_ops (sdk_call (mock_env no_expiry (drawn zeros) (Some 3600000000000)) (registered zero_Jamf)) [GrantsR site_two] demo_dev
       = ([Inr (Grants gs)], s1)
   \<and> run_ops (sdk_call (mock_env no_expiry (drawn zeros) (Some 3600000000000)) (registered zero_Jamf))
       [DeleteR \<lparr>ridType = ''user'', ridResource = ''5''\<rparr>] s1 = (changed, s2)
   \<and> fst (run_ops (sdk_call (mock_env no_expiry (drawn zeros) (Some 3600000000000)) (registered zero_Jamf)) [GrantsR site_two] s2)
       = [Inr (Grants gs)]
   \<and> to_principal site_two ''user'' 5 \<in> set gs
   \<and> to_principal site_two ''user'' 5 \<notin> set (site_granted site_two (jamf_of (srv_of s2)))"
proof -
  let ?run = "run_ops (sdk_call (mock_env no_expiry (drawn zeros) (Some 3600000000000)) (registered zero_Jamf))"
    and ?del = "[DeleteR \<lparr>ridType = ''user'', ridResource = ''5''\<rparr>]" and ?gs = "site_granted site_two (jamf_of (srv_of demo_dev))"
  obtain as s1 where one: "?run [GrantsR site_two] demo_dev = (as, s1)" by fastforce
  obtain changed s2 where two: "?run ?del s1 = (changed, s2)" by fastforce
  have site: "ridType (resId site_two) = ''site''" by (simp add: site_two_def)
  have empty: "netCache demo_dev = Map.empty" by (simp add: demo_dev_def)
  have "readable demo_dev" using demo_dev_ready reach_server_inv[of 0 "srv_of demo_dev"] by (simp add: readable_def)
  from cached_history[OF this coherent_empty[OF empty] _ one] have as: "as = [Inr (Grants ?gs)]"
    by (simp add: site granted_def found_def)
  from unfinished_sync_stale[OF NewConnector_eq demo_dev_ready(2,3) _ demo_dev_ready(4) empty _ _ _ one _ two]
  have again: "fst (?run [GrantsR site_two] s2) = [Inr (Grants ?gs)]"
    and "(jamf_of (srv_of s2), wSource (netWorld s2)) = snd (run_ops (sync_op zeros zero_Jamf) ?del (jamf_of (srv_of demo_dev), wSource (netWorld demo_dev)))"
    by (simp_all add: site as del: run_ops.simps sync_op.simps)
  then have "site_granted site_two (fst (jamf_of (srv_of s2), wSource (netWorld s2))) = [to_principal site_two ''userGroup'' 302, to_principal site_two ''userAccount'' 103,
       to_principal site_two ''group'' 203]"
    by (simp only:) (simp add: demo_dev_ready(1) seed_deletion case_prod_unfold del: dir_op.simps)
  then have "to_principal site_two ''user'' 5 \<notin> set (site_granted site_two (jamf_of (srv_of s2)))"
    by (simp add: to_principal_def NewGrant_def)
  moreover have "to_principal site_two ''user'' 5 \<in> set ?gs" by (simp add: demo_dev_ready(1) seed_site_granted)
  ultimately show ?thesis using one two as again by blast
qed

end
