(* ===== verification/DeviceSync.thy ===== *)
theory DeviceSync
  imports DeviceWalk
begin

section \<open>A whole sync of the managed devices\<close>

text \<open>
  The walk over the pages records the owners that Entitlements and Grants look up later.  Here the three
  phases of a sync are put together: every device is listed, and is entitled and granted by its own owner,
  resolved against the users of the server.
\<close>

definition device_sync :: "'w env \<Rightarrow> ResourceId option \<Rightarrow> int \<Rightarrow> nat \<Rightarrow>
    (('w, 'x) dev_scheme, go_error, (Resource list \<times> Entitlement list list \<times> Grant list list) option) comp" where
  "device_sync E parent sz calls =
     bindE (device_walk E parent sz calls EmptyToken) (\<lambda>listed.
     case listed of None \<Rightarrow> returnE None
     | Some rs \<Rightarrow>
         bindE (mapE device_Entitlements rs) (\<lambda>ess.
         bindE (mapE (device_Grants E) rs) (\<lambda>gss. returnE (Some (rs, ess, gss)))))"

subsection \<open>What it should give\<close>

text \<open>A device and its owner: the user name and the email of the record, empty when there is none.\<close>

definition computer_assignee :: "ComputerInventory \<Rightarrow> string \<times> string" where
  "computer_assignee c = (case ciUserAndLocation c of None \<Rightarrow> ([], []) | Some u \<Rightarrow> (ulUsername u, EmailAddr (Some u)))"

definition owned_devices :: "ResourceId option \<Rightarrow> ComputerInventory list \<Rightarrow> MobileDevice list \<Rightarrow> (Resource \<times> string \<times> string) list" where
  "owned_devices p cs ms =
     map (\<lambda>c. (computer_view p c, computer_assignee c)) cs @ map (\<lambda>m. (mobile_view p m, mbUsername m, [])) ms"

fun owner_entitlements :: "Resource \<times> string \<times> string \<Rightarrow> Entitlement list" where
  "owner_entitlements (r, username, email) =
     (if username = [] \<and> email = [] then []
      else [\<lparr>enId = NewEntitlementID r ''assigned'', enDisplayName = resDisplayName r @ '' device assigned'', enSlug = ''assigned'',
             enDescription = ''Assigned user of the '' @ resDisplayName r @ '' device'', enPurpose = PURPOSE_ASSIGNMENT,
             enResource = r, enGrantableTo = [resourceTypeUser]\<rparr>])"

fun owner_grants :: "User list \<Rightarrow> Resource \<times> string \<times> string \<Rightarrow> Grant list" where
  "owner_grants users (r, username, email) =
     (if username = [] \<and> email = [] then []
      else [case owner_of users username email of
         Some rid \<Rightarrow> NewGrant r ''assigned'' rid
       | None \<Rightarrow>
         let v = (if trim_space email = [] then trim_space username else trim_space email) in
         (NewGrant r ''assigned'' \<lparr>ridType = ''user'', ridResource = v\<rparr>)
           \<lparr>grMatch := Some \<lparr>emResourceType = TRAIT_USER,
              emKey = (if trim_space email = [] then ''username'' else ''email''), emValue = v\<rparr>\<rparr>])"

subsection \<open>The owners after the walk\<close>

definition entry_of :: "string \<times> string \<Rightarrow> deviceOwner option" where
  "entry_of a = (case a of (username, email) \<Rightarrow>
     if username = [] \<and> email = [] then None else Some \<lparr>doUsername = username, doEmail = email\<rparr>)"

lemma device_ids:
  "deviceObjectID ''computer'' i = deviceObjectID ''computer'' j \<longleftrightarrow> i = j" "deviceObjectID ''mobile'' i = deviceObjectID ''mobile'' j \<longleftrightarrow> i = j"
  "deviceObjectID ''computer'' i \<noteq> deviceObjectID ''mobile'' j" "deviceObjectID ''mobile'' j \<noteq> deviceObjectID ''computer'' i"
  by (simp_all add: deviceObjectID_def)

lemma owner_steps:
  "computer_owner c d k = (if k = deviceObjectID ''computer'' (ciID c) \<and> entry_of (computer_assignee c) \<noteq> None
     then entry_of (computer_assignee c) else d k)"
  "mobile_owner m d k = (if k = deviceObjectID ''mobile'' (mbID m) \<and> entry_of (mbUsername m, []) \<noteq> None
     then entry_of (mbUsername m, []) else d k)"
  by (auto simp: computer_owner_def mobile_owner_def owner_entry_def entry_of_def computer_assignee_def split: option.split)

text \<open>Records that write at most their own place, one after the other.\<close>

locale keyed_writes =
  fixes put :: "'a \<Rightarrow> (string \<rightharpoonup> deviceOwner) \<Rightarrow> (string \<rightharpoonup> deviceOwner)"
    and key :: "'a \<Rightarrow> string"
    and val :: "'a \<Rightarrow> deviceOwner option"
  assumes put_at: "put x d k = (if k = key x \<and> val x \<noteq> None then val x else d k)"
begin

lemma untouched: "\<forall>x\<in>set xs. k \<noteq> key x \<Longrightarrow> fold put xs d k = d k"
  by (induction xs arbitrary: d) (simp_all add: put_at)

lemma written_over:
  "distinct (map key xs) \<Longrightarrow> x \<in> set xs \<Longrightarrow>
   fold put xs d (key x) = (if val x = None then d (key x) else val x)"
proof (induction xs arbitrary: d)
  case (Cons b xs)
  show ?case
  proof (cases "x \<in> set xs")
    case True
    with Cons.prems(1) have "key x \<noteq> key b" by (metis distinct.simps(2) image_eqI list.simps(9) list.set_map)
    then have "put b d (key x) = d (key x)" by (simp add: put_at)
    with Cons.IH[of "put b d"] Cons.prems(1) True show ?thesis by simp
  next
    case False
    with Cons.prems have x: "x = b" "key b \<notin> key ` set xs" by auto
    then have "\<forall>y\<in>set xs. key b \<noteq> key y" by auto
    with x(1) show ?thesis by (simp add: untouched) (simp add: put_at)
  qed
qed simp

lemma written:
  "distinct (map key xs) \<Longrightarrow> x \<in> set xs \<Longrightarrow> d (key x) = None \<Longrightarrow> fold put xs d (key x) = val x"
  by (simp add: written_over)

end

interpretation computers: keyed_writes computer_owner "\<lambda>c. deviceObjectID ''computer'' (ciID c)" "\<lambda>c. entry_of (computer_assignee c)"
  by unfold_locales (rule owner_steps)

interpretation mobiles: keyed_writes mobile_owner "\<lambda>m. deviceObjectID ''mobile'' (mbID m)" "\<lambda>m. entry_of (mbUsername m, [])"
  by unfold_locales (rule owner_steps)

lemma entry_pair: "(case entry_of b of None \<Rightarrow> ([], []) | Some ow \<Rightarrow> (doUsername ow, doEmail ow)) = b"
  by (cases b) (auto simp: entry_of_def)

lemma entry_none: "entry_of b = None \<longleftrightarrow> b = ([], [])"
  by (cases b) (auto simp: entry_of_def)

text \<open>After a walk a device has the owner of its record, or the owner it had when the record names none.\<close>

lemma assignee_after:
  assumes "deviceOwners t = fold mobile_owner ms (fold computer_owner cs (deviceOwners s))"
    and "distinct (map ciID cs)" "distinct (map mbID ms)" "(r, a) \<in> set (owned_devices p cs ms)"
  shows "deviceAssignee t r = (if a = ([], []) then deviceAssignee s r else a)"
proof -
  from assms(4) consider c where "c \<in> set cs" "r = computer_view p c" "a = computer_assignee c"
    | m where "m \<in> set ms" "r = mobile_view p m" "a = (mbUsername m, [])"
    by (auto simp: owned_devices_def)
  then have "deviceOwners t (ridResource (resId r)) = (if entry_of a = None then deviceOwners s (ridResource (resId r)) else entry_of a)"
  proof cases
    case 1
    have "distinct (map (\<lambda>c. deviceObjectID ''computer'' (ciID c)) cs)"
      using assms(2) by (simp add: distinct_map inj_on_def device_ids)
    from computers.written_over[OF this 1(1)] 1 show ?thesis by (simp add: assms(1) mobiles.untouched device_ids)
  next
    case 2
    have "distinct (map (\<lambda>m. deviceObjectID ''mobile'' (mbID m)) ms)"
      using assms(3) by (simp add: distinct_map inj_on_def device_ids)
    from mobiles.written_over[OF this 2(1)] 2 show ?thesis by (simp add: assms(1) computers.untouched device_ids)
  qed
  then show ?thesis by (simp add: deviceAssignee_def entry_none entry_pair)
qed

lemma assignee_recorded:
  fixes t :: "('w, 'x) dev_scheme"
  assumes "deviceOwners t = fold mobile_owner ms (fold computer_owner cs Map.empty)"
    and "distinct (map ciID cs)" "distinct (map mbID ms)" "(r, a) \<in> set (owned_devices p cs ms)"
  shows "deviceAssignee t r = a"
proof -
  have "deviceOwners t = fold mobile_owner ms (fold computer_owner cs (deviceOwners (t\<lparr>deviceOwners := Map.empty\<rparr>)))"
    by (simp add: assms(1))
  from assignee_after[OF this assms(2-)] show ?thesis by (simp add: deviceAssignee_def)
qed

subsection \<open>Entitlements and grants of the listed devices\<close>

lemma device_entitlements_run:
  "deviceAssignee s r = a \<Longrightarrow> device_Entitlements r s = (Inr (owner_entitlements (r, a)), s)"
  by (cases a) (simp add: device_Entitlements_def NewAssignmentEntitlement_def new_entitlement_def WithGrantableTo_def WithDescription_def
      WithDisplayName_def assignedEntitlement_def)

lemma no_owner_grants: "owner_grants users (r, [], []) = []"
  by simp

lemma device_grants_eq: "deviceGrants r username email (build_index users) = Inr (owner_grants users (r, username, email))"
  by (simp add: deviceGrants_def resolveUser_build assignedEntitlement_def matchKeyEmail_def matchKeyUsername_def
      NewResourceID_def resourceTypeUser_def Let_def split: option.split)

text \<open>During the grants the owners stay as they are, and the users are read at most once.\<close>

definition granting :: "'w env \<Rightarrow> (('w, 'x) dev_scheme \<Rightarrow> bool) \<Rightarrow> User list \<Rightarrow> (string \<rightharpoonup> deviceOwner) \<Rightarrow> ('w, 'x) dev_scheme \<Rightarrow> bool" where
  "granting E good users owners s \<longleftrightarrow> deviceOwners s = owners
     \<and> (userIndex s = Some (build_index users) \<or> userIndex s = None \<and> good s)"

lemma grants_step:
  assumes users: "\<And>t. good t \<Longrightarrow> \<exists>t'. GetUsers E t = (Inr users, t')"
    and s: "granting E good users owners s" and a: "deviceAssignee s r = a"
  shows "\<exists>t. device_Grants E r s = (Inr (owner_grants users (r, a)), t) \<and> granting E good users owners t"
proof (cases "a = ([], [])")
  case True
  with s a show ?thesis by (simp add: device_Grants_def)
next
  case False
  have "\<exists>t. getUserIndex E s = (Inr (build_index users), t) \<and> granting E good users owners t"
  proof (cases "userIndex s")
    case None
    with s users obtain t where g: "GetUsers E s = (Inr users, t)" by (auto simp: granting_def)
    have "device_fields t = device_fields s" by (rule keepsD[OF devfields.keeps_lists(1) refl g])
    with s getUserIndex_fresh[OF None g] show ?thesis by (simp add: granting_def device_fields_def)
  next
    case (Some idx)
    with s getUserIndex_cached[OF Some, of E] show ?thesis by (simp add: granting_def)
  qed
  then obtain t where t: "getUserIndex E s = (Inr (build_index users), t)" "granting E good users owners t" by blast
  with False a show ?thesis
    by (cases a) (auto simp: device_Grants_def device_grants_eq bindE_def mapErr_def simp del: owner_grants.simps)
qed

lemma grants_all:
  fixes E :: "'w env" and s :: "('w, 'x) dev_scheme"
  assumes users: "\<And>t. good t \<Longrightarrow> \<exists>t'. GetUsers E t = (Inr users, t')"
    and recorded: "\<And>t :: ('w, 'x) dev_scheme. deviceOwners t = owners \<Longrightarrow> \<forall>(r, a)\<in>set ds. deviceAssignee t r = a"
    and s: "granting E good users owners s"
  shows "\<exists>t. mapE (device_Grants E) (map fst ds) s = (Inr (map (owner_grants users) ds), t)"
  using recorded s
proof (induction ds arbitrary: s)
  case (Cons d ds)
  obtain r a where d: "d = (r, a)" by (cases d)
  have "deviceOwners s = owners" using Cons.prems(2) by (auto simp: granting_def)
  from Cons.prems(1)[OF this] have a: "deviceAssignee s r = a" by (simp add: d)
  from grants_step[OF users Cons.prems(2) a] obtain t where
    t: "device_Grants E r s = (Inr (owner_grants users (r, a)), t)" "granting E good users owners t" by blast
  obtain u where "mapE (device_Grants E) (map fst ds) t = (Inr (map (owner_grants users) ds), u)"
    using Cons.IH[OF _ t(2)] Cons.prems(1) by fastforce
  with t(1) show ?case by (simp add: d bindE_def del: owner_grants.simps)
qed simp

lemma entitlements_all:
  "\<forall>(r, a)\<in>set ds. deviceAssignee s r = a \<Longrightarrow> mapE device_Entitlements (map fst ds) s = (Inr (map owner_entitlements ds), s)"
  by (induction ds) (auto simp: device_entitlements_run bindE_def simp del: owner_entitlements.simps)

lemma owner_found: "owner_of users username email = Some rid \<Longrightarrow> \<exists>u\<in>set users. rid = user_rid u"
  by (auto simp: owner_of_def first_with_key_def find_Some_iff split: option.splits if_splits)

text \<open>The walk leaves the user index alone, and no step of it loses an owner that is known.\<close>

interpretation index: conn_inv E "\<lambda>s :: ('w, 'x) dev_scheme. userIndex s = v" for E v
  by unfold_locales (auto simp: cacheSet_def split: option.splits)

interpretation known: conn_inv E "\<lambda>s :: ('w, 'x) dev_scheme. D \<subseteq> dom (deviceOwners s)" for E D
  by unfold_locales (auto simp: cacheSet_def split: option.splits)

lemma pages_keep:
  "keeps (\<lambda>s :: ('w, 'x) dev_scheme. userIndex s = v) (computer_page E parent n sz)"
  "keeps (\<lambda>s :: ('w, 'x) dev_scheme. userIndex s = v) (mobile_page E parent n sz)"
  "keeps (\<lambda>s :: ('w, 'x) dev_scheme. D \<subseteq> dom (deviceOwners s)) (computer_page E parent n sz)"
  "keeps (\<lambda>s :: ('w, 'x) dev_scheme. D \<subseteq> dom (deviceOwners s)) (mobile_page E parent n sz)"
  unfolding computer_page_def mobile_page_def recordDeviceOwner_def
  by (intro keeps_rules index.keeps_devices known.keeps_devices keeps_updateE; auto)+

lemma listing_keeps:
  "keeps (\<lambda>s :: ('w, 'x) dev_scheme. userIndex s = v) (device_List E parent token sz)"
  "keeps (\<lambda>s :: ('w, 'x) dev_scheme. D \<subseteq> dom (deviceOwners s)) (device_List E parent token sz)"
  unfolding device_List_def Let_def by (intro keeps_rules pages_keep)+

lemma walk_keeps_index: "keeps (\<lambda>s :: ('w, 'x) dev_scheme. userIndex s = v) (device_walk E parent sz n token)"
proof (induction n arbitrary: token)
  case (Suc n)
  with listing_keeps(1) show ?case by (simp, intro keeps_rules)
qed (simp add: keeps_rules)

lemma walk_index: "device_walk E parent sz n token s = (r, t) \<Longrightarrow> userIndex t = userIndex s"
  by (rule keepsD[OF walk_keeps_index refl])

lemma listing_known: "dom (deviceOwners s) \<subseteq> dom (deviceOwners (snd (device_List E parent token sz s)))"
  using keepsD[OF listing_keeps(2) subset_refl] by (cases "device_List E parent token sz s") simp

subsection \<open>A server with a computer of its user and a phone of a stranger\<close>

definition desk_computer :: ComputerInventory where
  "desk_computer = zero_ComputerInventory\<lparr>ciID := ''7'', ciUserAndLocation := Some (zero_ComputerUserAndLocation\<lparr>ulUsername := ''Ann''\<rparr>)\<rparr>"

definition desk_mobile :: MobileDevice where
  "desk_mobile = zero_MobileDevice\<lparr>mbID := ''9'', mbUsername := ''bob''\<rparr>"

definition desk_user :: User where
  "desk_user = zero_User\<lparr>ID := 4, Name := ''ann''\<rparr>"

definition desk_page :: "http_request \<Rightarrow> json \<Rightarrow> json" where
  "desk_page rq j = JObj [(''totalCount'', JNum 1), (''results'', JArr (if asked_page rq = Some 0 then [j] else []))]"

definition desk_answer :: "http_request \<Rightarrow> json" where
  "desk_answer rq =
     (let p = uPath (rqURL rq) in
      if p = ''/api/v1/computers-inventory'' then desk_page rq (JObj [(''id'', JStr ''7''), (''userAndLocation'', JObj [(''username'', JStr ''Ann'')])])
      else if p = ''/api/v2/mobile-devices'' then desk_page rq (JObj [(''id'', JStr ''9''), (''username'', JStr ''bob'')])
      else if p = ''/JSSResource/users'' then JObj [(''users'', JArr [JObj [(''id'', JNum 4)]])]
      else JObj [(''user'', JObj [(''id'', JNum 4), (''name'', JStr ''ann'')])])"

definition desk_env :: "unit env" where
  "desk_env =
     \<lparr>exchange = (\<lambda>rq w. (Inr \<lparr>rsStatus = 200, rsContentType = ''application/json'', rsBody = JsonBody (desk_answer rq)\<rparr>, w)),
      now = (\<lambda>w. 0), pause = (\<lambda>d w. w), parseBase = (\<lambda>u. Some (u, [])), randInt = (\<lambda>b w. (Inr 0, w)), cacheTTL = None\<rparr>"

lemma desk_asked:
  "asked_page (page_request host [] tok sz (CPage n)) = Some 0 \<longleftrightarrow> n = 0"
  "asked_page (page_request host [] tok sz (MPage n)) = Some 0 \<longleftrightarrow> n = 0"
proof -
  have "map_option nat (atoi (itoa (int n))) = Some 0 \<longleftrightarrow> n = 0"
    using atoi_far[of n] by (cases "int64 (int n)") (auto simp: int64_def)
  then show "asked_page (page_request host [] tok sz (CPage n)) = Some 0 \<longleftrightarrow> n = 0"
    "asked_page (page_request host [] tok sz (MPage n)) = Some 0 \<longleftrightarrow> n = 0"
    by (simp_all add: asked_page_def page_request_def apiRequest_def page_url_def page_query_def)
qed

lemma desk_decodes:
  "computers_target (JsonBody (desk_page rq (JObj [(''id'', JStr ''7''), (''userAndLocation'', JObj [(''username'', JStr ''Ann'')])])))
     = Inr \<lparr>crTotalCount = 1, crResults = (if asked_page rq = Some 0 then [desk_computer] else [])\<rparr>"
  "mobiles_target (JsonBody (desk_page rq (JObj [(''id'', JStr ''9''), (''username'', JStr ''bob'')])))
     = Inr \<lparr>mrTotalCount = 1, mrResults = (if asked_page rq = Some 0 then [desk_mobile] else [])\<rparr>"
proof -
  have none: "ciUserAndLocation zero_ComputerInventory = None" by (simp add: zero_ComputerInventory_def)
  show "computers_target (JsonBody (desk_page rq (JObj [(''id'', JStr ''7''), (''userAndLocation'', JObj [(''username'', JStr ''Ann'')])])))
     = Inr \<lparr>crTotalCount = 1, crResults = (if asked_page rq = Some 0 then [desk_computer] else [])\<rparr>"
    by (simp add: computers_target_def unmarshal_def desk_page_def dec_ComputersInventoryResponse_def dec_struct_obj
        find_field_def fld_def dec_int_def int64_def dec_slice_def dec_ComputerInventory_def dec_string_JStr dec_ptr_def
        dec_ComputerUserAndLocation_def desk_computer_def none)
  show "mobiles_target (JsonBody (desk_page rq (JObj [(''id'', JStr ''9''), (''username'', JStr ''bob'')])))
     = Inr \<lparr>mrTotalCount = 1, mrResults = (if asked_page rq = Some 0 then [desk_mobile] else [])\<rparr>"
    by (simp add: mobiles_target_def unmarshal_def desk_page_def dec_MobileDevicesResponse_def dec_struct_obj
        find_field_def fld_def dec_int_def int64_def dec_slice_def dec_MobileDevice_def dec_string_JStr desk_mobile_def)
qed

lemma desk_serves: "serves_inventory desk_env (\<lambda>_. True) (''h'', [], ''t'') sz [desk_computer] [desk_mobile] 1"
  unfolding serves_inventory_def prod.case
proof (intro allI impI)
  fix w i
  have path: "uPath (rqURL (page_request ''h'' [] ''t'' sz (CPage n))) = ''/api/v1/computers-inventory''"
    "uPath (rqURL (page_request ''h'' [] ''t'' sz (MPage n))) = ''/api/v2/mobile-devices''" for n
    by (simp_all add: page_request_def apiRequest_def page_url_def join_path_plain computersInventoryUrlPath_def
        mobileDevicesUrlPath_def render_path_def)
  show "\<exists>rs w'. exchange desk_env (page_request ''h'' [] ''t'' sz i) w = (Inr rs, w') \<and> True
      \<and> good_answer [desk_computer] [desk_mobile] 1 i rs"
    by (cases i) (simp_all add: desk_env_def good_answer_def page_ok_def desk_answer_def path desk_decodes desk_asked page_slice_def)
qed

lemma desk_fetch:
  assumes "walking desk_env (\<lambda>_. True) (''h'', [], ''t'') sz cs ms c s"
    and "desk_answer (apiRequest GET \<lparr>uHost = ''h'', uPath = join_path [] p, uQuery = []\<rparr> None ''t'') = j" "d j z = Inr a"
  shows "fetch desk_env p d z s = (Inr a, s)"
proof -
  let ?u = "\<lparr>uHost = ''h'', uPath = join_path [] p, uQuery = []\<rparr>" and ?rs = "\<lparr>rsStatus = 200, rsContentType = ''application/json'', rsBody = JsonBody j\<rparr>"
  have w: "clToken s = ''t''" "parseBase desk_env (clInstanceURL s) = Some (''h'', [])" "now desk_env (netWorld s) - clLastKeepAlive s < five_minutes"
    using assms(1) by (auto simp: walking_def)
  have "fetched desk_env (apiRequest GET ?u None ''t'') s = (Inr ?rs, s)"
    by (simp add: fetched_def cacheGet_def send_def desk_env_def assms(2))
  from Do_get_run[OF _ _ this, of no_option "()"]
  have "Do desk_env (apiRequest GET ?u None ''t'') no_option s = (Inr (?rs, ()), s)"
    by (simp add: apiRequest_def header_def acceptJSON_def no_option_def cacheSet_def desk_env_def)
  then have "attempt desk_env GET ?u None s = (Inr ?rs, s)" by (simp add: attempt_def w(1))
  from gotoRetry_first[OF this, of "unmarshal d z"]
  have "gotoRetry desk_env GET ?u None (unmarshal d z) True s = (Inr a, s)"
    by (simp add: read_target_def unmarshal_def assms(3))
  moreover have "keepAliveToken desk_env s = (Inr (), s)" by (rule keepAlive_recent) (use w in simp_all)
  ultimately show ?thesis
    by (simp add: fetch_def doRequest_def doRequestWithMethod_def getUrl_known[OF w(2)])
qed

lemma desk_users:
  assumes "walking desk_env (\<lambda>_. True) (''h'', [], ''t'') sz cs ms c s"
  shows "\<exists>s'. GetUsers desk_env s = (Inr [desk_user], s')"
proof -
  have four: "itoa 4 = ''4''" by code_simp
  have "fetch desk_env usersUrlPath dec_UsersResponse [] s = (Inr [zero_BaseType\<lparr>ID := 4\<rparr>], s)"
    by (rule desk_fetch[OF assms refl])
       (simp add: desk_answer_def apiRequest_def usersUrlPath_def join_path_plain render_path_def dec_UsersResponse_def
         dec_envelope_def dec_struct_obj find_field_def fld_def dec_slice_def dec_BaseType_def fields_BaseType_def dec_int_def int64_def)
  moreover have "fetch desk_env (userUrlPath 4) dec_UserResponse zero_User s = (Inr desk_user, s)"
    by (rule desk_fetch[OF assms refl])
       (simp add: desk_answer_def apiRequest_def userUrlPath_def join_path_plain render_path_def four dec_UserResponse_def
         dec_envelope_def dec_struct_obj find_field_def fld_def dec_User_def fields_User_def dec_int_def int64_def dec_string_JStr desk_user_def)
  ultimately show ?thesis
    by (simp add: GetUsers_def getBaseUsers_def getUserDetails_def bindE_def)
qed

definition desk_state :: "unit dev" where
  "desk_state = \<lparr>netCache = Map.empty, netWorld = (), clToken = ''t'', clInstanceURL = ''h'',
     clLastKeepAlive = 0, clUserName = ''u'', clPassword = ''p'', userIndex = None, deviceOwners = Map.empty\<rparr>"

text \<open>
  C3.  A first sync of the managed devices, of any page cap, against a server whose inventory and users
  stand still: it lists every computer and mobile device once; each device has the "assigned" entitlement
  exactly when its record names an owner, and then exactly one grant of it, to the user the owner resolves to or
  to a placeholder for the platform to match; so no grant names an entitlement or a user that is not there.
\<close>

theorem device_sync_exact:
  fixes s :: "('w, 'x) dev_scheme"
  assumes "walking E live (host, base, tok) (page_size_of sz) cs ms c s" "ready E live (host, base, tok) sz cs ms c"
    and "deviceOwners s = Map.empty" "userIndex s = None" "distinct (map ciID cs)" "distinct (map mbID ms)"
    and "\<And>t :: ('w, 'x) dev_scheme. walking E live (host, base, tok) (page_size_of sz) cs ms c t \<Longrightarrow>
      \<exists>t'. GetUsers E t = (Inr users, t')"
  shows "\<exists>t. device_sync E parent sz (length cs + length ms + 2) s =
      (Inr (Some (map fst (owned_devices parent cs ms), map owner_entitlements (owned_devices parent cs ms),
                  map (owner_grants users) (owned_devices parent cs ms))), t)
    \<and> (\<forall>d\<in>set (owned_devices parent cs ms). \<forall>g\<in>set (owner_grants users d).
         grResource g = fst d \<and> grEntitlement g \<in> enId ` set (owner_entitlements d)
         \<and> (grMatch g = None \<longrightarrow> (\<exists>u\<in>set users. grPrincipal g = user_rid u)))"
proof -
  let ?ds = "owned_devices parent cs ms"
  have closed: "grResource g = fst d \<and> grEntitlement g \<in> enId ` set (owner_entitlements d)
         \<and> (grMatch g = None \<longrightarrow> (\<exists>u\<in>set users. grPrincipal g = user_rid u))" if "g \<in> set (owner_grants users d)" for d g
    using that by (cases d) (auto simp: NewGrant_def Let_def split: if_splits option.splits dest: owner_found)
  obtain s' where walk: "device_walk E parent sz (length cs + length ms + 2) EmptyToken s =
        (Inr (Some (map fst ?ds)), s')" and w: "walking E live (host, base, tok) (page_size_of sz) cs ms c s'"
      and owners: "deviceOwners s' = fold mobile_owner ms (fold computer_owner cs Map.empty)"
    using walk_computers[OF assms(1,2), of 0 "length cs + length ms + 2" EmptyToken empty_Bag parent]
    by (auto simp: walk_bag_start(2)[of c] owned_devices_def comp_def assms(3))
  have recorded: "\<forall>(r, a)\<in>set ?ds. deviceAssignee t r = a" if "deviceOwners t = deviceOwners s'" for t :: "('w, 'x) dev_scheme"
    using assignee_recorded[OF _ assms(5,6)] that owners by fastforce
  have "granting E (\<lambda>t. walking E live (host, base, tok) (page_size_of sz) cs ms c t) users (deviceOwners s') s'"
    using w walk_index[OF walk] assms(4) by (simp add: granting_def)
  from grants_all[OF assms(7) recorded this] obtain t where
    "mapE (device_Grants E) (map fst ?ds) s' = (Inr (map (owner_grants users) ?ds), t)" by blast
  then have "device_sync E parent sz (length cs + length ms + 2) s =
      (Inr (Some (map fst ?ds, map owner_entitlements ?ds, map (owner_grants users) ?ds)), t)"
    using walk entitlements_all[OF recorded[OF refl]] by (simp add: device_sync_def bindE_def)
  with closed show ?thesis by blast
qed

theorem device_sync_exact_witness:
  "\<exists>rs ess t. device_sync desk_env None 5 4 desk_state = (Inr (Some (rs, ess,
      [[NewGrant (computer_view None desk_computer) ''assigned'' \<lparr>ridType = ''user'', ridResource = ''4''\<rparr>],
       [(NewGrant (mobile_view None desk_mobile) ''assigned'' \<lparr>ridType = ''user'', ridResource = ''bob''\<rparr>)
          \<lparr>grMatch := Some \<lparr>emResourceType = TRAIT_USER, emKey = ''username'', emValue = ''bob''\<rparr>\<rparr>]])), t)
    \<and> rs = [computer_view None desk_computer, mobile_view None desk_mobile] \<and> map length ess = [1, 1]"
proof -
  have walking: "walking desk_env (\<lambda>_. True) (''h'', [], ''t'') (page_size_of 5) [desk_computer] [desk_mobile] 1 desk_state"
    by (simp add: walking_def desk_state_def) (simp add: desk_env_def five_minutes_def)
  have ready: "ready desk_env (\<lambda>_. True) (''h'', [], ''t'') 5 [desk_computer] [desk_mobile] 1"
    by (simp add: ready_def desk_serves del: One_nat_def)
  have keys: "index_key ''ann'' = ''ann''" "index_key ''Ann'' = ''ann''" "index_key ''bob'' = ''bob''" "index_key [] = []"
    "trim_space ''bob'' = ''bob''" "trim_space [] = []" "itoa 4 = ''4''"
    by code_simp+
  have assigned: "computer_assignee desk_computer = (''Ann'', [])" "mbUsername desk_mobile = ''bob''"
    by (simp_all add: computer_assignee_def desk_computer_def desk_mobile_def EmailAddr_def zero_ComputerUserAndLocation_def)
  have resolved: "owner_of [desk_user] ''Ann'' [] = Some \<lparr>ridType = ''user'', ridResource = ''4''\<rparr>" "owner_of [desk_user] ''bob'' [] = None"
    by (simp_all add: owner_of_def first_with_key_def has_key_def user_keys_def desk_user_def zero_User_def keys user_rid_def resourceTypeUser_def)
  have users: "\<exists>t'. GetUsers desk_env t = (Inr [desk_user], t')"
    if "walking desk_env (\<lambda>_. True) (''h'', [], ''t'') (page_size_of 5) [desk_computer] [desk_mobile] 1 t" for t :: "unit dev"
    by (rule desk_users[OF that])
  have fresh: "deviceOwners desk_state = Map.empty" "userIndex desk_state = None" by (simp_all add: desk_state_def)
  have distinct: "distinct (map ciID [desk_computer])" "distinct (map mbID [desk_mobile])" by simp_all
  have two: "length [desk_computer] + length [desk_mobile] + 2 = (4 :: nat)" by simp
  obtain t where "device_sync desk_env None 5 4 desk_state =
      (Inr (Some (map fst (owned_devices None [desk_computer] [desk_mobile]),
        map owner_entitlements (owned_devices None [desk_computer] [desk_mobile]),
        map (owner_grants [desk_user]) (owned_devices None [desk_computer] [desk_mobile]))), t)"
    using device_sync_exact[OF walking ready fresh distinct users, where parent = None, unfolded two] by blast
  moreover have ds: "owned_devices None [desk_computer] [desk_mobile] =
      [(computer_view None desk_computer, ''Ann'', []), (mobile_view None desk_mobile, ''bob'', [])]"
    by (simp add: owned_devices_def assigned)
  moreover have "map (owner_grants [desk_user]) (owned_devices None [desk_computer] [desk_mobile]) =
      [[NewGrant (computer_view None desk_computer) ''assigned'' \<lparr>ridType = ''user'', ridResource = ''4''\<rparr>],
       [(NewGrant (mobile_view None desk_mobile) ''assigned'' \<lparr>ridType = ''user'', ridResource = ''bob''\<rparr>)
          \<lparr>grMatch := Some \<lparr>emResourceType = TRAIT_USER, emKey = ''username'', emValue = ''bob''\<rparr>\<rparr>]]"
    by (simp add: ds resolved keys Let_def)
  moreover have "map length (map owner_entitlements (owned_devices None [desk_computer] [desk_mobile])) = [1, 1]"
    "map fst (owned_devices None [desk_computer] [desk_mobile]) = [computer_view None desk_computer, mobile_view None desk_mobile]"
    by (simp_all add: ds)
  ultimately show ?thesis by metis
qed

subsection \<open>A second sync\<close>

text \<open>
  C30.  The owners the connector knows outlive a listing.  No listing, of either kind, in any phase and with any
  outcome, loses an entry.  After a walk over an inventory that stands still, a device whose record names an owner
  has that owner, and a device whose record names none keeps the owner of an earlier sync: its
  entitlement and its grant are those of that owner.
\<close>

theorem owners_never_cleared:
  fixes s :: "('w, 'x) dev_scheme" and s0 :: "('v, 'y) dev_scheme"
  assumes "walking E live (host, base, tok) (page_size_of sz) cs ms c s" "ready E live (host, base, tok) sz cs ms c"
    and "distinct (map ciID cs)" "distinct (map mbID ms)" "(d, a) \<in> set (owned_devices parent cs ms)"
    and "device_walk E parent sz (length cs + length ms + 2) EmptyToken s = (r, t)"
    and "b = (if a = ([], []) then deviceAssignee s d else a)"
  shows "dom (deviceOwners s0) \<subseteq> dom (deviceOwners (snd (device_List E0 p0 token sz0 s0)))
    \<and> r = Inr (Some (map fst (owned_devices parent cs ms)))
    \<and> device_Entitlements d t = (Inr (owner_entitlements (d, b)), t)
    \<and> fst (device_Grants E d (t\<lparr>userIndex := Some (build_index users)\<rparr>)) = Inr (owner_grants users (d, b))"
proof -
  obtain t' where walk: "device_walk E parent sz (length cs + length ms + 2) EmptyToken s =
        (Inr (Some (map fst (owned_devices parent cs ms))), t')"
      and owners: "deviceOwners t' = fold mobile_owner ms (fold computer_owner cs (deviceOwners s))"
    using walk_computers[OF assms(1,2), of 0 "length cs + length ms + 2" EmptyToken empty_Bag parent]
    by (auto simp: walk_bag_start(2)[of c] owned_devices_def comp_def)
  with assms(6) have t: "t' = t" "r = Inr (Some (map fst (owned_devices parent cs ms)))" by simp_all
  have own: "deviceAssignee t d = b"
    using assignee_after[OF owners[unfolded t(1)] assms(3-5)] assms(7) by simp
  have "fst (device_Grants E d (t\<lparr>userIndex := Some (build_index users)\<rparr>)) = Inr (owner_grants users (d, b))"
    using own by (cases b) (auto simp: device_Grants_def device_grants_eq bindE_def mapErr_def deviceAssignee_def
        getUserIndex_cached no_owner_grants simp del: owner_grants.simps split: option.splits)
  with t(2) device_entitlements_run[OF own] listing_known show ?thesis by simp
qed

definition known_state :: "unit dev" where
  "known_state = id_state\<lparr>deviceOwners := [deviceObjectID ''computer'' ''1'' \<mapsto> \<lparr>doUsername = ''ann'', doEmail = []\<rparr>]\<rparr>"

theorem owners_never_cleared_witness:
  "\<exists>t. device_walk (id_env [''1'', ''2'', ''3''] [''7''] 2) None 5 6 EmptyToken known_state =
      (Inr (Some (map (computer_view None \<circ> bare_computer) [''1'', ''2'', ''3''] @ [mobile_view None (bare_mobile ''7'')])), t)
    \<and> device_Entitlements (computer_view None (bare_computer ''1'')) t =
        (Inr (owner_entitlements (computer_view None (bare_computer ''1''), ''ann'', [])), t)
    \<and> length (owner_entitlements (computer_view None (bare_computer ''1''), ''ann'', [])) = 1"
proof -
  let ?E = "id_env [''1'', ''2'', ''3''] [''7''] 2" and ?cs = "map bare_computer [''1'', ''2'', ''3'']" and ?ms = "map bare_mobile [''7'']"
  have walking: "walking ?E (\<lambda>_. True) (''h'', [], ''t'') (page_size_of 5) ?cs ?ms 2 known_state"
    by (simp add: walking_def known_state_def id_state_def id_env_def five_minutes_def)
  have "serves_inventory ?E (\<lambda>_. True) (''h'', [], ''t'') 5 ?cs ?ms 2"
    by (rule id_env_serves) simp_all
  then have ready: "ready ?E (\<lambda>_. True) (''h'', [], ''t'') 5 ?cs ?ms 2"
    by (simp add: ready_def page_size_of_def)
  have ids: "distinct (map ciID ?cs)" "distinct (map mbID ?ms)" by (simp_all add: bare_computer_def)
  have len: "length ?cs + length ?ms + 2 = 6" by simp
  have bare: "computer_assignee (bare_computer i) = ([], [])" "mbUsername (bare_mobile i) = []" for i
    by (simp_all add: computer_assignee_def bare_computer_def bare_mobile_def zero_ComputerInventory_def zero_MobileDevice_def)
  have ds: "owned_devices None ?cs ?ms = map (\<lambda>i. (computer_view None (bare_computer i), [], [])) [''1'', ''2'', ''3'']
      @ [(mobile_view None (bare_mobile ''7''), [], [])]"
    by (simp add: owned_devices_def bare)
  have mem: "(computer_view None (bare_computer ''1''), [], []) \<in> set (owned_devices None ?cs ?ms)" unfolding ds by simp
  have own: "(''ann'', []) = (if ([], []) = ([] :: string, [] :: string)
      then deviceAssignee known_state (computer_view None (bare_computer ''1'')) else ([], []))"
    by (simp add: deviceAssignee_def known_state_def bare_computer_def)
  obtain r t where walk: "device_walk ?E None 5 6 EmptyToken known_state = (r, t)" by (cases "device_walk ?E None 5 6 EmptyToken known_state")
  note again = owners_never_cleared[OF walking ready ids mem walk[folded len] own, unfolded ds]
  have "r = Inr (Some (map (computer_view None \<circ> bare_computer) [''1'', ''2'', ''3''] @ [mobile_view None (bare_mobile ''7'')]))"
    using again[THEN conjunct2, THEN conjunct1] by simp
  moreover have "device_Entitlements (computer_view None (bare_computer ''1'')) t =
        (Inr (owner_entitlements (computer_view None (bare_computer ''1''), ''ann'', [])), t)"
    by (rule again[THEN conjunct2, THEN conjunct2, THEN conjunct1])
  moreover have "length (owner_entitlements (computer_view None (bare_computer ''1''), ''ann'', [])) = 1" by simp
  ultimately show ?thesis using walk by blast
qed

end
