(* ===== verification/Spec2Isabelle.thy ===== *)
theory Spec2Isabelle
  imports ConnectorProps SyncProps Provisioning MemberProps EngineCalls Interleaving Sync Caching Sessions Replays
  DeviceSync
begin

text \<open>
  \<^bold>\<open>A verified model of baton-jamf.\<close>

  baton-jamf is a connector: it reads users, console accounts, groups, sites, roles and managed devices
  from a Jamf Pro server and shows them to an identity platform as resources, entitlements and grants,
  and it creates and deletes users and console accounts.  The development models the connector, its
  API client, what both use of the vendored SDK, and the mock Jamf server of the repository, so that the
  two sides can be run against each other in the logic.

  \<^bold>\<open>How the parts work together.\<close>  The SDK calls the connector's syncers (\<open>List\<close>, \<open>Entitlements\<close>,
  \<open>Grants\<close>, \<open>CreateAccount\<close>, \<open>Delete\<close>).  A syncer calls the client (pkg/jamf/client.go), which keeps its
  token alive, sends the request, and on a 401 asks for a new token and tries once more.  The client
  sends through the SDK's HTTP wrapper, which answers a GET from its cache when it can.  The exchange with
  the server is the parameter \<open>exchange\<close> of the record \<open>env\<close>; in the theories Mock* it is the mock server.

  \<^bold>\<open>State.\<close>  A computation is a function from a state to an error or a result and the next state (\<open>comp\<close> in
  Prelude).  The states extend each other as records: \<open>net\<close> (the response cache and the outside world),
  \<open>conn\<close> (the fields of \<open>jamf.Client\<close>), \<open>dev\<close> (the user index and the owner map of the device syncer).
  Errors are the datatype \<open>go_error\<close>; a Go panic is the error \<open>PanicError\<close>; Go's \<open>int\<close> is an integer with
  \<open>wrap64\<close> wherever the code computes on it; strings are byte strings.

  \<^bold>\<open>The theories.\<close>
  \<^item> Prelude, GoBase, Wire: the computations and the rule \<open>keeps\<close> for what they leave alone; \<open>strconv\<close>,
    \<open>strings\<close>, UTF-8; JSON and XML documents with the decoding of \<open>encoding/json\<close> and \<open>encoding/xml\<close>.
  \<^item> Models, ModelsJson, DeviceModels: pkg/jamf/models.go, device_models.go, device_client.go, with the round
    trips of everything that crosses the wire.
  \<^item> Http, Client: the SDK's uhttp (errors, cache key, \<open>Do\<close>), pkg/jamf/errors.go and client.go.  The locale
    \<open>conn_inv\<close> is the contract of a property that exchanges, cache writes and token updates keep; every
    client operation keeps it; it is interpreted on the credentials.
  \<^item> Sdk, Password, Paging: the SDK's resource, entitlement and grant builders, its password generator, and
    the pagination bag (the locale of a page stack, interpreted on the code's bag).
  \<^item> Users, Accounts, ConsoleGroups, Sites, Roles: pkg/connector/user.go, userAccount.go with helpers.go,
    group.go with userGroup.go, site.go, role.go, each with the closed form of its resources.
  \<^item> GoTime, Devices, DeviceFacts, DeviceWalk, DeviceSync: pkg/connector/managedDevice.go.  GoTime is \<open>time.Parse\<close> for
    the four layouts of \<open>parseJamfTime\<close>; DeviceWalk proves the walk over the pages complete, DeviceSync puts it together
    with the entitlements and grants of the devices it lists (the locale \<open>keyed_writes\<close> for the owner map).
  \<^item> Config, Connector, ConnectorProps: pkg/config and pkg/connector/connector.go, the registration with the
    SDK and its dispatch of the sync calls, creations and deletions.
  \<^item> MockServer, MockFacts, MockSteps: test-server/main.go, the contract of its two stores (the locale
    \<open>resource_store\<close>, interpreted on users and on accounts), and the server as a transition system whose
    reachable states satisfy the invariant.
  \<^item> MockWorld, MockCalls, MockProvision, MockTokens, MockProps: the client against the mock server: what each
    call returns, what creations and deletions do, how tokens are renewed.
  \<^item> Provisioning: an abstract directory without requests, tokens or routes, and the refinement: a history of
    provisioning operations gives the directory's answers (the locale \<open>op_simulation\<close>).
  \<^item> Sync: the abstract directory with groups, sites and privileges, and the same refinement for every call the
    SDK makes of the registered connector; on it, that grants only name what is listed and entitled.
  \<^item> Interleaving: the mock server shared with other clients whose requests come between the connector's.
  \<^item> EngineCalls: the SDK's check that a listing's next page token is not the one it was given.
  \<^item> Caching, Sessions, Replays: the SDK's response cache.  Caching relates a run with the cache to the run without
    (\<open>tracks\<close>, with a rule for every way computations are put together) and shows a sync exact while the entries
    are right; Sessions is the long-lived process, whose syncs end with the SDK's Cleanup (the locale
    \<open>op_simulation\<close> again); Replays shows what a sync that failed before its Cleanup leaves to the next one.
  \<^item> SyncProps, MemberProps: the properties of tokens, devices, groups, accounts, roles, sites and passwords.

  \<^bold>\<open>What the lemmas show.\<close>  C1 to C40 are the properties, each stated before its theorem.  The order is that of
  importance: the refinement of the connector as a whole, completeness of the device walk and of the whole sync
  of the devices, the provisioning refinement, syncs and provisioning in turn with the response cache on,
  closedness of the grants, listings while others write, the server's invariant, the requests one call may
  send, renewal of tokens, exactness of every kind of grant, creation, round trips, registration and dispatch,
  and then the places where the code does not do what its comments say (the cached retry of the group members,
  the sync after one that failed, the stale user after a re-creation, the client that cannot recover from an
  expired token, the validation that never misses details, the owners that are never cleared).  Further theorems
  are about creations and deletions of directory users, the dispatch of deletions, the status decisions, the
  listing of users, the keys of the creation schema and the stack of the pagination bag.

  \<^bold>\<open>Bounds and fuel.\<close>  The retry of the client is a recursive function that ends because \<open>firstTry\<close> is set to
  false.  The loop over group members is a recursion on 5.  The walk over the device pages is given as many
  calls as there are devices plus two, which C2 proves enough: every page but the last of a phase brings at
  least one device; C12 shows for any server that no call returns the token it was given.
  The mock server is followed for fewer than \<open>2^62\<close> requests, so that its counters do not overflow.

  \<^bold>\<open>Parameters and assumptions.\<close>  The record \<open>env\<close>: the exchange with the server, the clock, \<open>time.Sleep\<close>, the
  parser of the instance URL, the random source, and the time-to-live of the cache.  A theorem about the mock
  server takes the instance URL as it is and lets the clock move only by \<open>Sleep\<close>: an exchange takes no time, so a
  token and a cache entry age only in the pauses of the group members' retry.  What happens when
  they do age is C11, C19 and C35 (tokens, each from a state with the age in question) and C32 to C34 (cache entries).
  The random source of the mock world is any stream of numbers; \<open>wSource\<close> is how many have been read, and the abstract
  directories are given the same stream, so that a random password is the same text on both sides.

  What the refinements C1, C4, C5 and C33 ask of their calls (stated at each of them): the texts sent are such as
  the encoders write unchanged; the login is not "." or "..", which URL cleaning eats (C36); the character sets of a random
  password are of printable ASCII and not empty (Go's \<open>rand.Int\<close> panics on an empty one).  Lengths that are too short and minimum
  counts that do not fit are covered, as the errors they are.
  C1, C4, C7 and C8 are without the response cache; C5 and C6 are with a cache of any time-to-live, and what it
  does outside their hypotheses is C32 to C34.  C1, C5 to C7 and C33 leave out the managed devices, which the mock server does
  not have: C2, C3 and C30 are about any server that answers their page requests.  A sync of C5 may call anything that
  reads, in any order; when the SDK calls Cleanup is taken from its sync engine (pkg/sync/syncer.go: only after
  a sync that completed).

  Documents are trees: a request or answer is carried as the document that was built.  What the encoders do to texts
  is \<open>json_wire\<close> and \<open>xml_wire\<close> of Wire (bytes that are not UTF-8 and, in XML, characters that XML does not have,
  become U+FFFD); C22 states its round trips over them, and \<open>json_texts\<close> and \<open>xml_texts\<close> are the documents they leave as they are.

  \<^bold>\<open>Not modelled.\<close>  Logging, metrics, rate limits and contexts; TLS and the transport; the size bound of the
  cache; the redirects of Go's request multiplexer for paths that are not clean or lack their last slash (the client
  builds clean paths; the logins that would not are excluded where they matter); the conversion and encryption of credentials
  in the SDK's account manager; concurrency inside the connector (the mutexes of the device syncer and of the mock server make each
  operation one step; other clients of the server are modelled as interleaved requests, in Interleaving);
  case folding and white space outside ASCII; the
  wording of errors of the Go library; the SDK's sync engine (its calls are arbitrary sequences here) and gRPC
  services; cmd/baton-jamf, pkg/config/gen and tools, which only call the SDK.
\<close>

end
